(* ===== verification/Prelude.thy ===== *)
theory Prelude
  imports Complex_Main "HOL-Library.AList"
begin

text \<open>
  Shared material of the development: Python exceptions as values, the result type
  with its sequencing operator, dictionaries as insertion-ordered association lists,
  the ASCII part of Python's string normalisation, and time stamps.  The named
  collections below carry the component proofs.
\<close>

named_theorems res_simps "rewriting of sequenced results"
named_theorems inv_intros "introduction rules for component invariants"

subsection \<open>Exceptions and results\<close>

text \<open>
  The exception classes the modelled code raises, together with the builtin classes
  of the Python runtime the code can run into (\<open>InvalidOperation\<close> and
  \<open>DivisionByZero\<close> are the signals of the \<open>decimal\<close> module).  \<open>ProcessStopped\<close> is no
  Python exception: it is the end of the process, which no handler sees.
\<close>

datatype exn_class =
    ValueError | TypeError | RuntimeError | KeyError | IndexError | AssertionError
  | ProcessStopped | InvalidOperation | DivisionByZero | OverflowError | OSError | PermissionError
  | OrderValidationError | InvalidOrderTransitionError | MatchingError
  | OrderBookError | DuplicateOrderError | OrderNotFoundError | StaleOrderUpdateError
  | ExecutionEngineError
  | PaperTradingValidationError | PaperTradingDependencyError | PaperTradingEvaluationError
  | PortfolioValidationError
  | StrategyValidationError | StrategyDependencyError | StrategyEvaluationError
  | RiskRuntimeValidationError | RiskRuntimeDependencyError | RiskRuntimeEvaluationError
  | ExecutionPlannerValidationError | ExecutionPlannerDependencyError | ExecutionPlannerEvaluationError
  | ExecutionOrchestratorValidationError | ExecutionOrchestratorDependencyError
  | ExecutionOrchestratorStageError
  | TradingCycleValidationError | TradingCycleEvaluationError

text \<open>
  A raised exception: its class and its message.  Decimals that the code formats into
  a message are not printed; the text around them is kept.
\<close>

datatype exn = Raise (exn_class: exn_class) (exn_text: string)

type_synonym 'a res = "exn + 'a"

fun rbind :: "'e + 'a \<Rightarrow> ('a \<Rightarrow> 'e + 'b) \<Rightarrow> 'e + 'b" where
  "rbind (Inl e) f = Inl e"
| "rbind (Inr x) f = f x"

lemma rbind_Inr_iff [res_simps]:
  "rbind m f = Inr y \<longleftrightarrow> (\<exists>x. m = Inr x \<and> f x = Inr y)"
  by (cases m) auto

lemma rbind_Inl_iff [res_simps]:
  "rbind m f = Inl e \<longleftrightarrow> m = Inl e \<or> (\<exists>x. m = Inr x \<and> f x = Inl e)"
  by (cases m) auto

lemma rbind_cong [fundef_cong]:
  "m = m' \<Longrightarrow> (\<And>x. m' = Inr x \<Longrightarrow> f x = f' x) \<Longrightarrow> rbind m f = rbind m' f'"
  by (cases m') auto

text \<open>\<open>if bad: raise e\<close> as the first step of a sequence.\<close>

definition check :: "bool \<Rightarrow> 'e \<Rightarrow> 'e + unit" where
  "check ok e = (if ok then Inr () else Inl e)"

lemma check_Inr [res_simps]: "check ok e = Inr u \<longleftrightarrow> ok"
  by (simp add: check_def)

lemma check_Inl [res_simps]: "check ok e = Inl e' \<longleftrightarrow> \<not> ok \<and> e' = e"
  by (auto simp: check_def)

lemma check_True [simp]: "check True e = Inr ()"
  by (simp add: check_def)

lemma check_False [simp]: "check False e = Inl e"
  by (simp add: check_def)

text \<open>The class predicates that \<open>except ValueError\<close> clauses decide.\<close>

fun subclass_of_ValueError :: "exn_class \<Rightarrow> bool" where
  "subclass_of_ValueError ValueError = True"
| "subclass_of_ValueError OrderValidationError = True"
| "subclass_of_ValueError MatchingError = True"
| "subclass_of_ValueError _ = False"

text \<open>A chain of \<open>if bad: raise\<close> statements succeeds when no guard fires.\<close>

lemma if_Inl_eq_Inr [res_simps]: "(if c then Inl e else m) = Inr y \<longleftrightarrow> \<not> c \<and> m = Inr y"
  by auto

lemma if_Inr_eq_Inr [res_simps]: "(if c then m else Inl e) = Inr y \<longleftrightarrow> c \<and> m = Inr y"
  by auto

subsection \<open>Runs of a fallible step\<close>

text \<open>A loop that applies a fallible step to each element and stops at the first exception.\<close>

fun run :: "('s \<Rightarrow> 'a \<Rightarrow> 'e + 's) \<Rightarrow> 's \<Rightarrow> 'a list \<Rightarrow> 'e + 's" where
  "run f s [] = Inr s"
| "run f s (x # xs) = rbind (f s x) (\<lambda>s'. run f s' xs)"

lemma run_append: "run f s (xs @ ys) = rbind (run f s xs) (\<lambda>s'. run f s' ys)"
  by (induction xs arbitrary: s) (auto, (case_tac "f s a"; simp))

text \<open>
  The interface of a component whose operations are fallible steps on a state: an
  invariant every successful step keeps.  Whatever is proved here holds of each
  component of the model that is an instance.
\<close>

locale stepping =
  fixes step :: "'s \<Rightarrow> 'a \<Rightarrow> 'e + 's"
    and good :: "'s \<Rightarrow> bool"
  assumes step_good: "good s \<Longrightarrow> step s a = Inr s' \<Longrightarrow> good s'"
begin

lemma run_good: "good s \<Longrightarrow> run step s as = Inr s' \<Longrightarrow> good s'"
  by (induction as arbitrary: s) (auto simp: res_simps intro: step_good)

end

text \<open>
  A stepping component with a relation between successive states that composes: what
  every step keeps related, a whole run keeps related.
\<close>

locale monotone_stepping = stepping step good
  for step :: "'s \<Rightarrow> 'a \<Rightarrow> 'e + 's" and good :: "'s \<Rightarrow> bool" +
  fixes rel :: "'s \<Rightarrow> 's \<Rightarrow> bool"
  assumes rel_refl: "rel s s"
    and rel_trans: "rel s t \<Longrightarrow> rel t u \<Longrightarrow> rel s u"
    and step_rel: "good s \<Longrightarrow> step s a = Inr s' \<Longrightarrow> rel s s'"
begin

lemma run_rel: "good s \<Longrightarrow> run step s as = Inr s' \<Longrightarrow> rel s s'"
proof (induction as arbitrary: s)
  case Nil
  then show ?case by (simp add: rel_refl)
next
  case (Cons a as)
  then obtain t where t: "step s a = Inr t" and r: "run step t as = Inr s'"
    by (auto simp: res_simps)
  have "good t" using Cons.prems(1) t by (rule step_good)
  then have "rel t s'" using r by (rule Cons.IH)
  with step_rel [OF Cons.prems(1) t] show ?case by (rule rel_trans)
qed

end

subsection \<open>Dictionaries that keep insertion order\<close>

text \<open>
  A Python \<open>dict\<close> iterates in insertion order and an assignment to a present key keeps
  its place; \<open>AList.update\<close> on an association list with distinct keys behaves so.
\<close>

type_synonym ('k, 'v) pydict = "('k \<times> 'v) list"

abbreviation dict_get :: "('k, 'v) pydict \<Rightarrow> 'k \<Rightarrow> 'v option" where
  "dict_get d k \<equiv> map_of d k"

abbreviation dict_set :: "'k \<Rightarrow> 'v \<Rightarrow> ('k, 'v) pydict \<Rightarrow> ('k, 'v) pydict" where
  "dict_set k v d \<equiv> AList.update k v d"

abbreviation dict_keys :: "('k, 'v) pydict \<Rightarrow> 'k list" where
  "dict_keys d \<equiv> map fst d"

abbreviation dict_values :: "('k, 'v) pydict \<Rightarrow> 'v list" where
  "dict_values d \<equiv> map snd d"

lemma dict_get_set [simp]:
  "dict_get (dict_set k v d) k' = (if k' = k then Some v else dict_get d k')"
  by (simp add: update_conv)

lemma dict_keys_set:
  "dict_keys (dict_set k v d) = (if k \<in> set (dict_keys d) then dict_keys d else dict_keys d @ [k])"
  by (induction d) auto

lemma distinct_dict_set [simp, inv_intros]:
  "distinct (dict_keys d) \<Longrightarrow> distinct (dict_keys (dict_set k v d))"
  by (simp add: dict_keys_set)

lemma dict_set_new: "dict_get d k = None \<Longrightarrow> dict_set k v d = d @ [(k, v)]"
  by (induction d) (auto split: if_splits)

lemma dict_set_present:
  assumes "distinct (dict_keys d)" and "dict_get d k = Some v"
  shows "dict_set k w d = map (\<lambda>(k', v'). (k', if k' = k then w else v')) d"
  using assms
proof (induction d)
  case (Cons kv d)
  show ?case
  proof (cases "fst kv = k")
    case True
    with Cons.prems have "k \<notin> fst ` set d" by auto
    then have "map (\<lambda>(k', v'). (k', if k' = k then w else v')) d = d"
      by (intro map_idI) force
    with True show ?thesis by (cases kv) simp
  next
    case False
    with Cons show ?thesis by (cases kv) auto
  qed
qed simp

lemma in_dict_values: "distinct (dict_keys d) \<Longrightarrow> v \<in> set (dict_values d) \<longleftrightarrow> (\<exists>k. dict_get d k = Some v)"
  by (force simp: map_of_eq_Some_iff)

lemma dict_get_in: "dict_get d k = Some v \<Longrightarrow> v \<in> set (dict_values d)"
  by (drule map_of_SomeD) force

lemma dict_get_None: "dict_get d k = None \<longleftrightarrow> k \<notin> set (dict_keys d)"
  by (simp add: map_of_eq_None_iff)

subsection \<open>Strings\<close>

text \<open>
  \<open>str.strip\<close> and \<open>str.upper\<close> on ASCII text: the white space of code points 9--13,
  28--31 and 32, and the letters a--z.
\<close>

definition is_space :: "char \<Rightarrow> bool" where
  "is_space c = (let n = (of_char c :: nat) in (9 \<le> n \<and> n \<le> 13) \<or> (28 \<le> n \<and> n \<le> 32))"

definition lstrip :: "string \<Rightarrow> string" where
  "lstrip s = dropWhile is_space s"

definition strip :: "string \<Rightarrow> string" where
  "strip s = rev (lstrip (rev (lstrip s)))"

definition upper_char :: "char \<Rightarrow> char" where
  "upper_char c = (let n = (of_char c :: nat) in
     if 97 \<le> n \<and> n \<le> 122 then char_of (n - 32) else c)"

definition upper :: "string \<Rightarrow> string" where
  "upper s = map upper_char s"

definition normalize_symbol :: "string \<Rightarrow> string" where
  "normalize_symbol s = upper (strip s)"

lemma of_char_upper_char:
  "(of_char (upper_char c) :: nat) =
     (if 97 \<le> (of_char c :: nat) \<and> (of_char c :: nat) \<le> 122 then of_char c - 32 else of_char c)"
  by (auto simp: upper_char_def Let_def of_char_of)

lemma upper_char_idem [simp]: "upper_char (upper_char c) = upper_char c"
  by (auto simp: upper_char_def Let_def of_char_of)

lemma is_space_upper_char [simp]: "is_space (upper_char c) = is_space c"
  by (auto simp: is_space_def Let_def of_char_upper_char)

lemma upper_idem [simp]: "upper (upper s) = upper s"
  by (simp add: upper_def)

lemma lstrip_idem [simp]: "lstrip (lstrip s) = lstrip s"
  by (simp add: lstrip_def dropWhile_idem)

lemma lstrip_upper: "lstrip (upper s) = upper (lstrip s)"
  by (simp add: lstrip_def upper_def dropWhile_map comp_def)

lemma strip_upper: "strip (upper s) = upper (strip s)"
  by (simp add: strip_def lstrip_upper upper_def rev_map [symmetric] flip: lstrip_upper [unfolded upper_def])

lemma dropWhile_Nil_or_snoc:
  "dropWhile P (xs @ [c]) = [] \<or> (\<exists>u. dropWhile P (xs @ [c]) = u @ [c])"
  by (induction xs) auto

lemma lstrip_rev_lstrip:
  assumes "lstrip s = s"
  shows "lstrip (rev (lstrip (rev s))) = rev (lstrip (rev s))"
proof (cases s)
  case Nil
  then show ?thesis by (simp add: lstrip_def)
next
  case (Cons c t)
  from assms have c: "\<not> is_space c"
    by (metis Cons hd_dropWhile list.distinct(1) list.sel(1) lstrip_def)
  then obtain u where u: "dropWhile is_space (rev t @ [c]) = u @ [c]"
    using dropWhile_Nil_or_snoc [of is_space "rev t" c] by (auto simp: dropWhile_eq_Nil_conv)
  show ?thesis
    using c by (simp add: Cons lstrip_def u)
qed

lemma strip_idem [simp]: "strip (strip s) = strip s"
  unfolding strip_def
  by (simp add: lstrip_rev_lstrip)

lemma normalize_symbol_idem [simp]: "normalize_symbol (normalize_symbol s) = normalize_symbol s"
  by (simp add: normalize_symbol_def strip_upper)

lemma strip_normalize_symbol [simp]: "strip (normalize_symbol s) = normalize_symbol s"
  by (simp add: normalize_symbol_def strip_upper)

lemma upper_normalize_symbol [simp]: "upper (normalize_symbol s) = normalize_symbol s"
  by (simp add: normalize_symbol_def)

text \<open>
  \<open>x.strip() if x and x.strip() else None\<close>, the optional texts of several records.
\<close>

definition strip_opt :: "string option \<Rightarrow> string option" where
  "strip_opt x = (case x of None \<Rightarrow> None
     | Some s \<Rightarrow> if s \<noteq> [] \<and> strip s \<noteq> [] then Some (strip s) else None)"

lemma strip_opt_None [simp]: "strip_opt None = None"
  by (simp add: strip_opt_def)

lemma strip_opt_idem [simp]: "strip_opt (strip_opt x) = strip_opt x"
  by (auto simp: strip_opt_def split: option.splits)

lemma strip_opt_SomeD: "strip_opt x = Some y \<Longrightarrow> strip_opt (Some y) = Some y"
  using strip_opt_idem [of x] by simp

lemma strip_opt_Some_strip [simp]: "s \<noteq> [] \<Longrightarrow> strip s = s \<Longrightarrow> strip_opt (Some s) = Some s"
  by (simp add: strip_opt_def)

subsection \<open>Time stamps\<close>

text \<open>
  A \<open>datetime\<close>: a naive one carries only its local reading, an aware one also the UTC
  offset of its zone.  Both numbers count microseconds.  Aware values compare by their
  instant, as in Python; the order operators are used by the code only after it has
  established awareness (mixing both kinds is a \<open>TypeError\<close>, see \<open>dt_compare_ok\<close>).
\<close>

datatype datetime = Naive (local_us: int) | Aware (local_us: int) (offset_us: int)

fun tz_aware :: "datetime \<Rightarrow> bool" where
  "tz_aware (Naive _) = False"
| "tz_aware (Aware _ _) = True"

fun instant :: "datetime \<Rightarrow> int" where
  "instant (Naive l) = l"
| "instant (Aware l z) = l - z"

definition dt_less :: "datetime \<Rightarrow> datetime \<Rightarrow> bool" where
  "dt_less a b = (instant a < instant b)"

definition dt_le :: "datetime \<Rightarrow> datetime \<Rightarrow> bool" where
  "dt_le a b = (instant a \<le> instant b)"

definition dt_eq :: "datetime \<Rightarrow> datetime \<Rightarrow> bool" where
  "dt_eq a b = (tz_aware a = tz_aware b \<and> instant a = instant b)"

definition dt_compare_ok :: "datetime \<Rightarrow> datetime \<Rightarrow> bool" where
  "dt_compare_ok a b = (tz_aware a = tz_aware b)"

definition us_per_day :: int where
  "us_per_day = 86400000000"

definition us_per_second :: int where
  "us_per_second = 1000000"

text \<open>\<open>datetime.date()\<close>: the day of the local reading, as a proleptic ordinal.\<close>

definition date_of :: "datetime \<Rightarrow> int" where
  "date_of t = local_us t div us_per_day"

lemma dt_not_less [simp]: "\<not> dt_less a b \<longleftrightarrow> dt_le b a"
  by (auto simp: dt_less_def dt_le_def)

lemma dt_le_refl [simp]: "dt_le a a"
  by (simp add: dt_le_def)

lemma dt_le_trans: "dt_le a b \<Longrightarrow> dt_le b c \<Longrightarrow> dt_le a c"
  by (simp add: dt_le_def)

lemma dt_eq_refl [simp]: "dt_eq a a"
  by (simp add: dt_eq_def)

lemma dt_eq_trans: "dt_eq a b \<Longrightarrow> dt_eq b c \<Longrightarrow> dt_eq a c"
  by (simp add: dt_eq_def)

subsection \<open>Searching in strings\<close>

definition starts_with :: "string \<Rightarrow> string \<Rightarrow> bool" where
  "starts_with p s \<longleftrightarrow> take (length p) s = p"

fun contains :: "string \<Rightarrow> string \<Rightarrow> bool" where
  "contains p [] = (p = [])"
| "contains p (c # s) = (starts_with p (c # s) \<or> contains p s)"

text \<open>\<open>sep.join(parts)\<close>.\<close>

fun join :: "string \<Rightarrow> string list \<Rightarrow> string" where
  "join sep [] = []"
| "join sep [x] = x"
| "join sep (x # y # xs) = x @ sep @ join sep (y # xs)"

lemma append_sep_inject:
  assumes "x \<notin> set b" and "x \<notin> set d" and "a @ [x] @ b = c @ [x] @ d"
  shows "a = c \<and> b = d"
  using assms
proof (induction a arbitrary: c)
  case Nil
  then show ?case by (cases c) auto
next
  case (Cons y a)
  then show ?case by (cases c) auto
qed

subsection \<open>Sorted lists\<close>

lemma distinct_map_sort_key: "distinct (map f (sort_key g xs)) = distinct (map f xs)"
  by (simp add: distinct_map)

end
