(* ===== verification/Decimals.thy ===== *)
theory Decimals
  imports Prelude "HOL-Library.Log_Nat"
begin

text \<open>
  Python's \<open>decimal.Decimal\<close> under the default context, the number type of the whole
  program: 28 significant digits, ROUND_HALF_EVEN.  A finite Decimal is modelled by the
  rational it denotes and every arithmetic operation rounds its exact result, as the
  context does; comparisons are exact.  The exponent limits of the context (plus or minus
  999999) are not modelled.  Values that the code still has to test with \<open>is_finite\<close>
  have the type \<open>dec\<close>, which has the infinities and NaN as well.
\<close>

subsection \<open>Rounding to an integer, half to even\<close>

definition half_even :: "rat \<Rightarrow> int" where
  "half_even y =
     (let f = \<lfloor>y\<rfloor>; r = y - of_int f in
      if r < 1/2 then f else if 1/2 < r then f + 1 else if even f then f else f + 1)"

lemma half_even_of_int [simp]: "half_even (of_int n) = n"
  by (simp add: half_even_def)

lemma half_even_numeral [simp]:
  "half_even 0 = 0" "half_even 1 = 1" "half_even (numeral n) = numeral n"
  using half_even_of_int [of 0] half_even_of_int [of 1] half_even_of_int [of "numeral n"]
  by simp_all

lemma half_even_error: "\<bar>of_int (half_even y) - y\<bar> \<le> 1/2"
proof -
  define f where "f = \<lfloor>y\<rfloor>"
  have "of_int f \<le> y" "y < of_int f + 1"
    unfolding f_def by linarith+
  then show ?thesis
    unfolding half_even_def Let_def f_def [symmetric] by (auto simp: abs_if)
qed

lemma half_even_mono: "x \<le> y \<Longrightarrow> half_even x \<le> half_even y"
proof -
  assume le: "x \<le> y"
  then have f: "\<lfloor>x\<rfloor> \<le> \<lfloor>y\<rfloor>" by (rule floor_mono)
  have b: "half_even z = \<lfloor>z\<rfloor> \<or> half_even z = \<lfloor>z\<rfloor> + 1" for z
    by (auto simp: half_even_def Let_def)
  show ?thesis
  proof (cases "\<lfloor>x\<rfloor> = \<lfloor>y\<rfloor>")
    case True
    with le show ?thesis by (auto simp: half_even_def Let_def)
  next
    case False
    with f have "\<lfloor>x\<rfloor> + 1 \<le> \<lfloor>y\<rfloor>" by simp
    with b [of x] b [of y] show ?thesis by linarith
  qed
qed

lemma half_even_ge: "of_int n \<le> y \<Longrightarrow> n \<le> half_even y"
  using half_even_mono [of "of_int n" y] by simp

lemma half_even_le: "y \<le> of_int n \<Longrightarrow> half_even y \<le> n"
  using half_even_mono [of y "of_int n"] by simp

lemma half_even_minus: "half_even (- y) = - half_even y"
proof (cases "y \<in> \<int>")
  case True
  then obtain n where "y = of_int n" by (auto elim: Ints_cases)
  then show ?thesis
    using half_even_of_int [of "- n"] by simp
next
  case False
  then have c: "\<lfloor>- y\<rfloor> = - \<lfloor>y\<rfloor> - 1"
    by (smt (verit) Ints_of_int ceiling_def ceiling_altdef)
  show ?thesis
    by (auto simp: half_even_def Let_def c)
qed

subsection \<open>Rounding to 28 significant digits\<close>

text \<open>
  \<open>mag x\<close> is the decimal exponent of \<open>x\<close>: \<open>10 ^ mag x \<le> \<bar>x\<bar> < 10 ^ (mag x + 1)\<close>,
  computed from the digit counts of numerator and denominator.
\<close>

definition mag :: "rat \<Rightarrow> int" where
  "mag x = (case quotient_of \<bar>x\<bar> of (n, d) \<Rightarrow>
     let k = int (floorlog 10 (nat n)) - int (floorlog 10 (nat d))
     in if 10 powi k \<le> \<bar>x\<bar> then k else k - 1)"

definition prec :: int where
  "prec = 28"

definition ulp :: "rat \<Rightarrow> rat" where
  "ulp x = 10 powi (mag x - (prec - 1))"

definition rnd :: "rat \<Rightarrow> rat" where
  "rnd x = (if x = 0 then 0 else of_int (half_even (x / ulp x)) * ulp x)"

lemma ten_powi_pos [simp]: "(0::rat) < 10 powi k"
  by (simp add: zero_less_power_int)

lemma ten_powi_not_le [simp]: "\<not> (10::rat) powi k \<le> 0"
  by (simp add: not_le)

lemma ten_powi_nz [simp]: "(10::rat) powi k \<noteq> 0"
  by (simp add: power_int_eq_0_iff)

lemma ten_powi_mono: "i \<le> j \<Longrightarrow> (10::rat) powi i \<le> 10 powi j"
  by (simp add: power_int_increasing)

lemma ten_powi_less_iff: "(10::rat) powi i < 10 powi j \<longleftrightarrow> i < j"
  by (meson less_le_not_le linorder_not_less power_int_strict_increasing ten_powi_mono
      one_less_numeral_iff semiring_norm(76) linorder_less_linear order_less_irrefl)

lemma floorlog10_bounds:
  assumes "0 < n"
  shows "(10::rat) powi (int (floorlog 10 n) - 1) \<le> of_nat n"
    and "of_nat n < (10::rat) powi int (floorlog 10 n)"
proof -
  have pos: "0 < floorlog 10 n"
    using assms by (simp add: floorlog_def)
  have b: "10 ^ (floorlog 10 n - 1) \<le> n \<and> n < 10 ^ floorlog 10 n"
    using floorlog_bounds [of n 10] assms by simp
  have "(10::rat) powi (int (floorlog 10 n) - 1) = of_nat (10 ^ (floorlog 10 n - 1))"
    using pos by (simp add: power_int_def nat_diff_distrib)
  also have "\<dots> \<le> of_nat n"
    using b by (simp only: of_nat_le_iff)
  finally show "(10::rat) powi (int (floorlog 10 n) - 1) \<le> of_nat n" .
  have "of_nat n < (of_nat (10 ^ floorlog 10 n) :: rat)"
    using b by (simp only: of_nat_less_iff)
  then show "of_nat n < (10::rat) powi int (floorlog 10 n)"
    by (simp add: power_int_def)
qed

lemma mag_bounds:
  assumes "x \<noteq> 0"
  shows "10 powi mag x \<le> \<bar>x\<bar>" and "\<bar>x\<bar> < 10 powi (mag x + 1)"
proof -
  obtain n d where q: "quotient_of \<bar>x\<bar> = (n, d)" by (cases "quotient_of \<bar>x\<bar>")
  have d: "0 < d" using q by (rule quotient_of_denom_pos)
  have x: "\<bar>x\<bar> = of_int n / of_int d" using q by (rule quotient_of_div)
  with assms d have n: "0 < n"
    by (metis abs_le_zero_iff divide_nonpos_pos of_int_0_less_iff of_int_0_le_iff linorder_not_less
        of_int_le_0_iff)
  define a where "a = int (floorlog 10 (nat n))"
  define b where "b = int (floorlog 10 (nat d))"
  have nb: "10 powi (a - 1) \<le> (of_int n :: rat)" "of_int n < (10::rat) powi a"
    using floorlog10_bounds [of "nat n"] n by (simp_all add: a_def)
  have db: "10 powi (b - 1) \<le> (of_int d :: rat)" "of_int d < (10::rat) powi b"
    using floorlog10_bounds [of "nat d"] d by (simp_all add: b_def)
  have "\<bar>x\<bar> < 10 powi a / 10 powi (b - 1)"
    unfolding x using nb db d n by (intro frac_less) auto
  also have "\<dots> = 10 powi (a - b + 1)"
    by (simp add: power_int_diff [symmetric] algebra_simps)
  finally have up: "\<bar>x\<bar> < 10 powi (a - b + 1)" .
  have "10 powi (a - 1 - b) = 10 powi (a - 1) / (10::rat) powi b"
    by (simp add: power_int_diff)
  also have "\<dots> \<le> \<bar>x\<bar>"
    unfolding x using nb db d n by (intro frac_le) auto
  finally have lo: "10 powi (a - b - 1) \<le> \<bar>x\<bar>" by (simp add: algebra_simps)
  have m: "mag x = (if 10 powi (a - b) \<le> \<bar>x\<bar> then a - b else a - b - 1)"
    by (simp add: mag_def q a_def b_def Let_def)
  show "10 powi mag x \<le> \<bar>x\<bar>" using lo by (simp add: m)
  show "\<bar>x\<bar> < 10 powi (mag x + 1)" using up by (auto simp: m)
qed

lemma mag_unique:
  assumes "10 powi k \<le> \<bar>x\<bar>" and "\<bar>x\<bar> < 10 powi (k + 1)"
  shows "mag x = k"
proof -
  have nz: "x \<noteq> 0" using assms(1) by (auto simp: not_le)
  have "(10::rat) powi k < 10 powi (mag x + 1)"
    using assms(1) mag_bounds(2) [OF nz] by linarith
  moreover have "(10::rat) powi mag x < 10 powi (k + 1)"
    using assms(2) mag_bounds(1) [OF nz] by linarith
  ultimately show ?thesis by (simp add: ten_powi_less_iff)
qed

lemma mag_minus [simp]: "mag (- x) = mag x"
  by (simp add: mag_def)

lemma mag_mono: "0 < x \<Longrightarrow> x \<le> y \<Longrightarrow> mag x \<le> mag y"
proof -
  assume a: "0 < x" "x \<le> y"
  then have "10 powi mag x < (10::rat) powi (mag y + 1)"
    using mag_bounds(1) [of x] mag_bounds(2) [of y] by auto
  then show ?thesis by (simp add: ten_powi_less_iff)
qed

lemma ulp_pos [simp]: "0 < ulp x"
  by (simp add: ulp_def)

lemma ulp_nz [simp]: "ulp x \<noteq> 0"
  by (simp add: ulp_def)

lemma scaled_bounds:
  assumes "0 < x"
  shows "10 powi (prec - 1) \<le> x / ulp x" and "x / ulp x < 10 powi prec"
proof -
  have "10 powi (prec - 1) * ulp x = 10 powi mag x"
    by (simp add: ulp_def power_int_add [symmetric])
  then show "10 powi (prec - 1) \<le> x / ulp x"
    using mag_bounds(1) [of x] assms by (simp add: le_divide_eq)
  have "10 powi prec * ulp x = 10 powi (mag x + 1)"
    by (simp add: ulp_def power_int_add [symmetric])
  then show "x / ulp x < 10 powi prec"
    using mag_bounds(2) [of x] assms by (simp add: divide_less_eq)
qed

lemma ten_powi_of_int: "0 \<le> k \<Longrightarrow> (10::rat) powi k = of_int (10 ^ nat k)"
  by (simp add: power_int_def)

lemma half_even_scaled:
  assumes "0 < x"
  shows "10 powi (prec - 1) \<le> (of_int (half_even (x / ulp x)) :: rat)"
    and "(of_int (half_even (x / ulp x)) :: rat) \<le> 10 powi prec"
proof -
  have p: "0 \<le> prec - 1" "0 \<le> prec" by (simp_all add: prec_def)
  have "10 ^ nat (prec - 1) \<le> half_even (x / ulp x)"
    using scaled_bounds(1) [OF assms] by (intro half_even_ge) (simp only: ten_powi_of_int p)
  then show "10 powi (prec - 1) \<le> (of_int (half_even (x / ulp x)) :: rat)"
    by (simp only: ten_powi_of_int p of_int_le_iff)
  have "half_even (x / ulp x) \<le> 10 ^ nat prec"
    using scaled_bounds(2) [OF assms] by (intro half_even_le) (simp only: ten_powi_of_int p less_imp_le)
  then show "(of_int (half_even (x / ulp x)) :: rat) \<le> 10 powi prec"
    by (simp only: ten_powi_of_int p of_int_le_iff)
qed

lemma rnd_0 [simp]: "rnd 0 = 0"
  by (simp add: rnd_def)

lemma ulp_minus [simp]: "ulp (- x) = ulp x"
  by (simp add: ulp_def)

lemma rnd_minus [simp]: "rnd (- x) = - rnd x"
  by (simp add: rnd_def half_even_minus)

lemma rnd_between:
  assumes "0 < x"
  shows "10 powi mag x \<le> rnd x" and "rnd x \<le> 10 powi (mag x + 1)"
proof -
  have e: "10 powi (prec - 1) * ulp x = 10 powi mag x" "10 powi prec * ulp x = 10 powi (mag x + 1)"
    by (simp_all add: ulp_def power_int_add [symmetric])
  show "10 powi mag x \<le> rnd x"
    using mult_right_mono [OF half_even_scaled(1) [OF assms], of "ulp x"] assms
    by (simp add: rnd_def e less_imp_le)
  show "rnd x \<le> 10 powi (mag x + 1)"
    using mult_right_mono [OF half_even_scaled(2) [OF assms], of "ulp x"] assms
    by (simp add: rnd_def e less_imp_le)
qed

lemma rnd_pos: "0 < x \<Longrightarrow> 0 < rnd x"
  using rnd_between(1) [of x] ten_powi_pos [of "mag x"] by linarith

lemma rnd_mono_pos: "0 < x \<Longrightarrow> x \<le> y \<Longrightarrow> rnd x \<le> rnd y"
proof -
  assume a: "0 < x" "x \<le> y"
  show ?thesis
  proof (cases "mag x = mag y")
    case True
    then have u: "ulp y = ulp x" by (simp add: ulp_def)
    have "half_even (x / ulp x) \<le> half_even (y / ulp x)"
      using a by (intro half_even_mono divide_right_mono) (auto simp: less_imp_le)
    then show ?thesis
      using a u by (simp add: rnd_def mult_right_mono less_imp_le)
  next
    case False
    with mag_mono [OF a] have "mag x + 1 \<le> mag y" by simp
    then have "10 powi (mag x + 1) \<le> (10::rat) powi mag y" by (rule ten_powi_mono)
    with rnd_between(2) [of x] rnd_between(1) [of y] a show ?thesis by linarith
  qed
qed

lemma rnd_mono: "x \<le> y \<Longrightarrow> rnd x \<le> rnd y"
proof -
  assume le: "x \<le> y"
  consider "0 < x" | "x \<le> 0" "0 \<le> y" | "y < 0" by linarith
  then show ?thesis
  proof cases
    case 1
    with le show ?thesis by (simp add: rnd_mono_pos)
  next
    case 2
    have "rnd x \<le> 0"
      using rnd_pos [of "- x"] 2(1) by (cases "x = 0") auto
    moreover have "0 \<le> rnd y"
      using rnd_pos [of y] 2(2) by (cases "y = 0") auto
    ultimately show ?thesis by simp
  next
    case 3
    with le have "rnd (- y) \<le> rnd (- x)" by (intro rnd_mono_pos) auto
    then show ?thesis by simp
  qed
qed

subsection \<open>Representable values\<close>

text \<open>
  The values a Decimal of the context can hold exactly: at most 28 significant digits.
\<close>

definition rep :: "rat \<Rightarrow> bool" where
  "rep x \<longleftrightarrow> (\<exists>c e. x = of_int c * 10 powi e \<and> \<bar>c\<bar> \<le> 10 ^ nat prec)"

lemma repI: "x = of_int c * 10 powi e \<Longrightarrow> \<bar>c\<bar> \<le> 10 ^ nat prec \<Longrightarrow> rep x"
  unfolding rep_def by blast

lemma rep_minus: "rep (- x) \<longleftrightarrow> rep x"
proof -
  have "rep (- x)" if x: "rep x" for x
  proof -
    from x obtain c e where "x = of_int c * 10 powi e" "\<bar>c\<bar> \<le> 10 ^ nat prec"
      by (auto simp: rep_def)
    then show ?thesis by (intro repI [of _ "- c" e]) auto
  qed
  from this [of x] this [of "- x"] show ?thesis by auto
qed

lemma rep_rnd: "rep (rnd x)"
proof -
  have pos: "rep (rnd x)" if "0 < x" for x
  proof -
    have "(of_int (half_even (x / ulp x)) :: rat) \<le> of_int (10 ^ nat prec)"
      using half_even_scaled(2) [OF that] by (simp add: power_int_def prec_def)
    then have "half_even (x / ulp x) \<le> 10 ^ nat prec" by (simp only: of_int_le_iff)
    moreover have "(0::rat) < of_int (half_even (x / ulp x))"
      using half_even_scaled(1) [OF that] ten_powi_pos [of "prec - 1"] by linarith
    then have "0 < half_even (x / ulp x)" by (simp only: of_int_0_less_iff)
    ultimately show ?thesis
      using that by (intro repI [of _ "half_even (x / ulp x)" "mag x - (prec - 1)"])
        (auto simp: rnd_def ulp_def)
  qed
  consider "x = 0" | "0 < x" | "0 < - x" by linarith
  then show ?thesis
  proof cases
    case 1
    then show ?thesis by (simp add: repI [of _ 0 0])
  next
    case 2
    then show ?thesis by (rule pos)
  next
    case 3
    then have "rep (rnd (- x))" by (rule pos)
    then show ?thesis by (simp add: rep_minus)
  qed
qed

lemma rnd_exact: "rep x \<Longrightarrow> rnd x = x"
proof -
  assume "rep x"
  then obtain c e where x: "x = of_int c * 10 powi e" and c: "\<bar>c\<bar> \<le> 10 ^ nat prec"
    by (auto simp: rep_def)
  show ?thesis
  proof (cases "x = 0")
    case False
    have "\<bar>x\<bar> = of_int \<bar>c\<bar> * 10 powi e"
      by (simp add: x abs_mult power_int_abs)
    also have "\<dots> \<le> of_int (10 ^ nat prec) * 10 powi e"
      using c by (intro mult_right_mono) (simp_all only: of_int_le_iff, simp add: less_imp_le)
    also have "\<dots> = 10 powi (prec + e)"
      by (simp add: power_int_add ten_powi_of_int prec_def)
    finally have ub: "\<bar>x\<bar> \<le> 10 powi (prec + e)" .
    with mag_bounds(1) [OF False] have m: "mag x \<le> prec + e"
      by (meson not_le order_trans ten_powi_less_iff)
    define k where "k = mag x - (prec - 1)"
    show ?thesis
    proof (cases "k \<le> e")
      case True
      have "x / ulp x = of_int c * 10 powi (e - k)"
        by (simp add: x ulp_def k_def power_int_diff)
      also have "\<dots> = of_int (c * 10 ^ nat (e - k))"
        using True by (simp add: power_int_def)
      finally have "x / ulp x = of_int (c * 10 ^ nat (e - k))" .
      then have "of_int (half_even (x / ulp x)) = x / ulp x"
        by (simp only: half_even_of_int)
      then show ?thesis using False by (simp add: rnd_def)
    next
      case F: False
      with m have km: "mag x = prec + e" by (simp add: k_def)
      with mag_bounds(1) [OF False] ub have ax: "\<bar>x\<bar> = 10 powi mag x" by simp
      have sc: "10 powi mag x / ulp x = of_int (10 ^ 27)"
        by (simp add: ulp_def power_int_diff prec_def)
      have "x = 10 powi mag x \<or> x = - (10 powi mag x)" using ax by linarith
      then have "x / ulp x = of_int (10 ^ 27) \<or> x / ulp x = of_int (- (10 ^ 27))"
        using sc by (metis minus_divide_left of_int_minus)
      then have "of_int (half_even (x / ulp x)) = x / ulp x"
        by (metis half_even_of_int)
      then show ?thesis using False by (simp add: rnd_def)
    qed
  qed simp
qed

lemma rnd_idem [simp]: "rnd (rnd x) = rnd x"
  by (rule rnd_exact [OF rep_rnd])

lemma rnd_eqI:
  assumes "x * 10 ^ k = of_int c" and "\<bar>c\<bar> \<le> 10 ^ 28"
  shows "rnd x = x"
proof (rule rnd_exact, rule repI [of _ c "- int k"])
  show "x = of_int c * 10 powi - int k"
    using assms(1) by (simp add: power_int_minus field_simps)
  show "\<bar>c\<bar> \<le> 10 ^ nat prec"
    using assms(2) by (simp add: prec_def)
qed

lemma rnd_of_int: "\<bar>c\<bar> \<le> 10 ^ 28 \<Longrightarrow> rnd (of_int c) = of_int c"
  by (rule rnd_eqI [of _ 0 c]) auto

lemma rnd_numeral [simp]:
  "rnd 1 = 1"
  "numeral n \<le> (10::int) ^ 28 \<Longrightarrow> rnd (numeral n) = numeral n"
  using rnd_of_int [of 1] rnd_of_int [of "numeral n"] by simp_all

lemma rnd_error: "\<bar>rnd x - x\<bar> \<le> ulp x / 2"
proof (cases "x = 0")
  case False
  have "rnd x - x = (of_int (half_even (x / ulp x)) - x / ulp x) * ulp x"
    using False by (simp add: rnd_def left_diff_distrib)
  then have "\<bar>rnd x - x\<bar> = \<bar>of_int (half_even (x / ulp x)) - x / ulp x\<bar> * ulp x"
    by (simp add: abs_mult less_imp_le)
  also have "\<dots> \<le> 1/2 * ulp x"
    by (intro mult_right_mono half_even_error) (simp add: less_imp_le)
  finally show ?thesis by simp
qed (simp add: less_imp_le)

text \<open>The rounding of a value whose decimal exponent is known, for evaluation.\<close>

lemma half_even_unique:
  assumes "\<bar>y - of_int c\<bar> < 1/2"
  shows "half_even y = c"
proof (rule antisym)
  have "\<bar>of_int (half_even y) - (of_int c :: rat)\<bar> < 1"
    using half_even_error [of y] assms by linarith
  then have "\<bar>half_even y - c\<bar> < 1"
    by (metis of_int_1_less_iff of_int_abs of_int_diff of_int_less_1_iff)
  then show "half_even y \<le> c" "c \<le> half_even y" by simp_all
qed

lemma half_even_tie: "y = of_int n + 1/2 \<Longrightarrow> half_even y = (if even n then n else n + 1)"
proof -
  assume y: "y = of_int n + 1/2"
  then have "\<lfloor>y\<rfloor> = n" by linarith
  with y show ?thesis by (simp add: half_even_def)
qed

lemma rnd_eval_half_even:
  fixes y :: rat
  assumes "10 ^ 27 \<le> \<bar>y\<bar>" and "\<bar>y\<bar> < 10 ^ 28" and c: "half_even y = c"
    and x: "x = y / 10 ^ k" and z: "z = of_int c / 10 ^ k"
  shows "rnd x = z"
proof -
  have p: "(10::rat) powi (i - int k) = 10 powi i / 10 ^ k" for i
    by (simp add: power_int_diff)
  have "mag x = 27 - int k"
  proof (rule mag_unique)
    show "10 powi (27 - int k) \<le> \<bar>x\<bar>"
      unfolding p using assms(1) by (simp add: x abs_div divide_right_mono)
    have "27 - int k + 1 = 28 - int k" by simp
    then show "\<bar>x\<bar> < 10 powi (27 - int k + 1)"
      unfolding p using assms(2) p [of 28] by (simp add: x divide_strict_right_mono)
  qed
  then have u: "ulp x = 1 / 10 ^ k"
    using p [of 0] by (simp add: ulp_def prec_def)
  have "x \<noteq> 0" using assms(1) x by auto
  moreover have "x / ulp x = y" by (simp only: u) (simp add: x)
  ultimately show ?thesis
    using c by (simp add: rnd_def) (simp add: u z)
qed

lemmas rnd_evalI = rnd_eval_half_even [OF _ _ half_even_unique]

subsection \<open>The laws a rounding mode gives\<close>

text \<open>
  What the accounting proofs use of the context's rounding, and nothing else: it is
  monotone, odd, fixes zero, keeps positive values positive and does nothing twice.
\<close>

locale rounding =
  fixes r :: "rat \<Rightarrow> rat"
  assumes r_mono: "x \<le> y \<Longrightarrow> r x \<le> r y"
    and r_odd: "r (- x) = - r x"
    and r_pos: "0 < x \<Longrightarrow> 0 < r x"
    and r_fix: "r (r x) = r x"
begin

lemma r_zero: "r 0 = 0"
  using r_odd [of 0] by simp

lemma r_nonneg: "0 \<le> x \<Longrightarrow> 0 \<le> r x"
  using r_mono [of 0 x] by (simp add: r_zero)

lemma r_pos_iff: "0 < r x \<longleftrightarrow> 0 < x"
  using r_pos [of x] r_mono [of x 0] by (cases "0 < x") (auto simp: r_zero)

lemma r_nonneg_iff: "0 \<le> r x \<longleftrightarrow> 0 \<le> x"
  using r_pos_iff [of "- x"] by (simp add: r_odd not_less [symmetric])

lemma r_zero_iff: "r x = 0 \<longleftrightarrow> x = 0"
  using r_pos_iff [of x] r_pos_iff [of "- x"] by (auto simp: r_odd r_zero)

lemma r_sub_nonneg: "0 \<le> r (x - y) \<longleftrightarrow> y \<le> x"
  by (simp add: r_nonneg_iff)

lemma r_sub_pos: "0 < r (x - y) \<longleftrightarrow> y < x"
  by (simp add: r_pos_iff)

lemma r_mult_pos: "0 < x \<Longrightarrow> 0 < y \<Longrightarrow> 0 < r (x * y)"
  by (simp add: r_pos_iff)

lemma r_div_pos: "0 < x \<Longrightarrow> 0 < y \<Longrightarrow> 0 < r (x / y)"
  by (simp add: r_pos_iff)

lemma r_le_fixed: "r b = b \<Longrightarrow> x \<le> b \<Longrightarrow> r x \<le> b"
  using r_mono [of x b] by simp

lemma r_ge_fixed: "r b = b \<Longrightarrow> b \<le> x \<Longrightarrow> b \<le> r x"
  using r_mono [of b x] by simp

lemma r_add_ge: "r x = x \<Longrightarrow> 0 \<le> y \<Longrightarrow> x \<le> r (x + y)"
  by (rule r_ge_fixed) auto

lemma r_sub_le: "r x = x \<Longrightarrow> 0 \<le> y \<Longrightarrow> r (x - y) \<le> x"
  by (rule r_le_fixed) auto

end

interpretation dec28: rounding rnd
  by unfold_locales (auto intro: rnd_mono rnd_pos)

declare dec28.r_pos_iff [simp] dec28.r_nonneg_iff [simp] dec28.r_zero_iff [simp]

lemma rnd_nonpos_iff [simp]: "rnd x \<le> 0 \<longleftrightarrow> x \<le> 0"
  by (simp add: not_less [symmetric])

lemma rnd_neg_iff [simp]: "rnd x < 0 \<longleftrightarrow> x < 0"
  by (simp add: not_le [symmetric])

subsection \<open>Arithmetic of the context\<close>

definition dadd :: "rat \<Rightarrow> rat \<Rightarrow> rat" where
  "dadd x y = rnd (x + y)"

definition dsub :: "rat \<Rightarrow> rat \<Rightarrow> rat" where
  "dsub x y = rnd (x - y)"

definition dmul :: "rat \<Rightarrow> rat \<Rightarrow> rat" where
  "dmul x y = rnd (x * y)"

text \<open>Division where the divisor is not zero; every use of the code is guarded.\<close>

definition ddiv :: "rat \<Rightarrow> rat \<Rightarrow> rat" where
  "ddiv x y = rnd (x / y)"

text \<open>\<open>sum(xs, start=Decimal(0))\<close>: every partial sum is rounded.\<close>

definition dsum :: "rat list \<Rightarrow> rat" where
  "dsum xs = foldl dadd 0 xs"

text \<open>\<open>abs\<close> and unary minus round as well.\<close>

definition dabs :: "rat \<Rightarrow> rat" where
  "dabs x = rnd \<bar>x\<bar>"

definition dneg :: "rat \<Rightarrow> rat" where
  "dneg x = rnd (- x)"

lemmas dec_defs = dadd_def dsub_def dmul_def ddiv_def dabs_def dneg_def

lemma dsum_Nil [simp]: "dsum [] = 0"
  by (simp add: dsum_def)

lemma dsum_snoc [simp]: "dsum (xs @ [x]) = dadd (dsum xs) x"
  by (simp add: dsum_def)

lemma dsum_single [simp]: "dsum [x] = rnd x"
  by (simp add: dsum_def dadd_def)

lemma foldl_dadd_nonneg: "0 \<le> a \<Longrightarrow> \<forall>x\<in>set xs. 0 \<le> x \<Longrightarrow> 0 \<le> foldl dadd a xs"
  by (induction xs arbitrary: a) (auto simp: dadd_def)

lemma dsum_nonneg: "\<forall>x\<in>set xs. 0 \<le> x \<Longrightarrow> 0 \<le> dsum xs"
  by (simp add: dsum_def foldl_dadd_nonneg)

lemma foldl_dadd_pos: "0 < a \<Longrightarrow> \<forall>x\<in>set xs. 0 \<le> x \<Longrightarrow> 0 < foldl dadd a xs"
  by (induction xs arbitrary: a) (auto simp: dadd_def add_pos_nonneg)

lemma dsum_pos: "xs \<noteq> [] \<Longrightarrow> \<forall>x\<in>set xs. 0 < x \<Longrightarrow> 0 < dsum xs"
  by (cases xs) (auto simp: dsum_def dadd_def intro!: foldl_dadd_pos less_imp_le)

lemma rnd_foldl_dadd: "rnd a = a \<Longrightarrow> rnd (foldl dadd a xs) = foldl dadd a xs"
  by (induction xs arbitrary: a) (auto simp: dadd_def)

lemma rnd_dsum [simp]: "rnd (dsum xs) = dsum xs"
  by (simp add: dsum_def rnd_foldl_dadd)

text \<open>
  Leaving summands out never raises a sum of nonnegative Decimals, rounding included:
  induction with both accumulators generalised.
\<close>

lemma foldl_dadd_filter:
  assumes "\<forall>x\<in>set xs. 0 \<le> f x" and "a \<le> b" and "rnd b = b"
  shows "foldl dadd a (map f (filter P xs)) \<le> foldl dadd b (map f xs)"
  using assms
proof (induction xs arbitrary: a b)
  case (Cons x xs)
  show ?case
  proof (cases "P x")
    case True
    have "foldl dadd (dadd a (f x)) (map f (filter P xs)) \<le> foldl dadd (dadd b (f x)) (map f xs)"
      using Cons.prems by (intro Cons.IH) (auto simp: dadd_def intro: rnd_mono)
    with True show ?thesis by simp
  next
    case False
    have "a \<le> dadd b (f x)"
      using Cons.prems dec28.r_add_ge [of b "f x"] by (auto simp: dadd_def)
    then have "foldl dadd a (map f (filter P xs)) \<le> foldl dadd (dadd b (f x)) (map f xs)"
      using Cons.prems by (intro Cons.IH) (auto simp: dadd_def)
    with False show ?thesis by simp
  qed
qed simp

lemma dsum_filter_le:
  "\<forall>x\<in>set xs. 0 \<le> f x \<Longrightarrow> dsum (map f (filter P xs)) \<le> dsum (map f xs)"
  by (simp add: dsum_def foldl_dadd_filter)

subsection \<open>Quantising\<close>

text \<open>
  \<open>x.quantize(Decimal("0.01"))\<close>: half-even to two places; the result must fit the
  precision or the context signals InvalidOperation.
\<close>

definition quantize2 :: "rat \<Rightarrow> rat res" where
  "quantize2 x = (let c = half_even (x * 100) in
     if \<bar>c\<bar> < 10 ^ 28 then Inr (of_int c / 100) else Inl (Raise InvalidOperation []))"

lemma quantize2D:
  assumes "quantize2 x = Inr a"
  shows "a = of_int (half_even (x * 100)) / 100" and "\<bar>half_even (x * 100)\<bar> < 10 ^ 28"
  using assms by (auto simp: quantize2_def Let_def split: if_splits)

lemma quantize2_mono:
  assumes "quantize2 x = Inr a" and "quantize2 y = Inr b" and "x \<le> y"
  shows "a \<le> b"
  unfolding quantize2D(1) [OF assms(1)] quantize2D(1) [OF assms(2)]
  using assms(3) by (intro divide_right_mono) (auto intro!: half_even_mono)

lemma quantize2_error:
  assumes "quantize2 x = Inr a"
  shows "\<bar>a - x\<bar> \<le> 1/200"
proof -
  have "\<bar>a * 100 - x * 100\<bar> \<le> 1/2"
    using half_even_error [of "x * 100"] by (simp add: quantize2D(1) [OF assms])
  then show ?thesis
    by (simp only: abs_le_iff) linarith
qed

lemma quantize2_fixed:
  assumes "quantize2 x = Inr a"
  shows "quantize2 a = Inr a"
proof -
  have "a * 100 = of_int (half_even (x * 100))"
    by (simp add: quantize2D(1) [OF assms])
  then have "half_even (a * 100) = half_even (x * 100)"
    by (simp only: half_even_of_int)
  with quantize2D [OF assms] show ?thesis by (simp add: quantize2_def)
qed

subsection \<open>Decimals that may not be finite\<close>

datatype dec = Fin rat | PInf | NInf | NaN

fun is_finite :: "dec \<Rightarrow> bool" where
  "is_finite (Fin _) = True"
| "is_finite _ = False"

text \<open>\<open>isinstance(v, Decimal) and v.is_finite() and v > 0\<close>, and the same with \<open>v >= 0\<close>.\<close>

fun dec_positive :: "dec \<Rightarrow> bool" where
  "dec_positive (Fin x) = (0 < x)"
| "dec_positive _ = False"

fun dec_nonnegative :: "dec \<Rightarrow> bool" where
  "dec_nonnegative (Fin x) = (0 \<le> x)"
| "dec_nonnegative _ = False"

text \<open>The value of a Decimal that a guard has established to be finite.\<close>

fun fin :: "dec \<Rightarrow> rat" where
  "fin (Fin x) = x"
| "fin _ = 0"

lemma dec_positiveD: "dec_positive d \<Longrightarrow> d = Fin (fin d) \<and> 0 < fin d"
  by (cases d) auto

lemma dec_nonnegativeD: "dec_nonnegative d \<Longrightarrow> d = Fin (fin d) \<and> 0 \<le> fin d"
  by (cases d) auto

subsection \<open>Division where the code does not exclude a zero divisor\<close>

definition ddiv_checked :: "rat \<Rightarrow> rat \<Rightarrow> rat res" where
  "ddiv_checked x y =
     (if y = 0 then Inl (Raise (if x = 0 then InvalidOperation else DivisionByZero) [])
      else Inr (ddiv x y))"

lemma ddiv_checked_Inr [res_simps]: "ddiv_checked x y = Inr z \<longleftrightarrow> y \<noteq> 0 \<and> z = ddiv x y"
  by (auto simp: ddiv_checked_def)

lemma ddiv_checked_nz [simp]: "y \<noteq> 0 \<Longrightarrow> ddiv_checked x y = Inr (ddiv x y)"
  by (simp add: ddiv_checked_def)

subsection \<open>Exact sums\<close>

text \<open>
  Sums are exact, whatever the order of the summands, as long as all of them are
  multiples of one power of ten and the total stays within 28 digits of it.
\<close>

definition common_grid :: "int \<Rightarrow> rat list \<Rightarrow> bool" where
  "common_grid e xs \<longleftrightarrow> (\<forall>x\<in>set xs. \<exists>c::int. 0 \<le> c \<and> x = of_int c * 10 powi e) \<and>
     sum_list xs \<le> 10 ^ 28 * 10 powi e"

lemma grid_sum:
  "\<forall>x\<in>set xs. \<exists>c::int. 0 \<le> c \<and> x = of_int c * 10 powi e \<Longrightarrow>
     \<exists>c::int. 0 \<le> c \<and> sum_list xs = of_int c * (10::rat) powi e"
proof (induction xs)
  case Nil
  show ?case by (rule exI [of _ 0]) simp
next
  case (Cons x xs)
  then obtain c1 c2 :: int where "0 \<le> c1" "x = of_int c1 * 10 powi e" "0 \<le> c2"
    "sum_list xs = of_int c2 * 10 powi e"
    by auto
  then show ?case by (intro exI [of _ "c1 + c2"]) (simp add: algebra_simps)
qed

lemma foldl_dadd_exact:
  assumes "a = of_int c * 10 powi e" and "0 \<le> c"
    and "\<forall>x\<in>set xs. \<exists>c::int. 0 \<le> c \<and> x = of_int c * 10 powi e"
    and "a + sum_list xs \<le> 10 ^ 28 * 10 powi e"
  shows "foldl dadd a xs = a + sum_list xs"
  using assms
proof (induction xs arbitrary: a c)
  case (Cons x xs)
  from Cons.prems(3) obtain d :: int where d: "0 \<le> d" "x = of_int d * 10 powi e" by auto
  from grid_sum [of xs e] Cons.prems(3) obtain t :: int
    where t: "0 \<le> t" "sum_list xs = of_int t * 10 powi e" by auto
  have ax: "a + x = of_int (c + d) * 10 powi e"
    using Cons.prems(1) d by (simp add: algebra_simps)
  have "of_int (c + d + t) * (10::rat) powi e \<le> of_int (10 ^ 28) * 10 powi e"
    using Cons.prems(4) ax t by (simp add: algebra_simps)
  then have "of_int (c + d + t) \<le> (of_int (10 ^ 28) :: rat)"
    by (simp only: mult_le_cancel_right ten_powi_pos)
  then have "c + d + t \<le> 10 ^ 28" by (simp only: of_int_le_iff)
  then have "rep (a + x)"
    using Cons.prems(2) d t ax by (intro repI [OF ax]) (simp add: prec_def)
  then have "dadd a x = a + x" by (simp add: dadd_def rnd_exact)
  moreover have "foldl dadd (a + x) xs = (a + x) + sum_list xs"
    using Cons.prems d by (intro Cons.IH [OF ax]) (auto simp: algebra_simps)
  ultimately show ?case by simp
qed simp

lemma dsum_exact: "common_grid e xs \<Longrightarrow> dsum xs = sum_list xs"
  using foldl_dadd_exact [of 0 0 e xs] by (simp add: dsum_def common_grid_def)

lemma common_grid_nonneg: "common_grid e xs \<Longrightarrow> x \<in> set xs \<Longrightarrow> 0 \<le> x"
  by (force simp: common_grid_def less_imp_le [OF ten_powi_pos])

lemma common_grid_le:
  assumes "common_grid e xs" and "set ys \<subseteq> set xs" and "sum_list ys \<le> sum_list xs"
  shows "common_grid e ys"
  using assms by (auto simp: common_grid_def)

lemma sum_list_filter_le: "\<forall>x\<in>set xs. 0 \<le> f x \<Longrightarrow> sum_list (map f (filter P xs)) \<le> (sum_list (map f xs) :: rat)"
  by (induction xs) auto

lemma common_grid_filter:
  assumes "common_grid e (map f xs)"
  shows "common_grid e (map f (filter P xs))"
proof (rule common_grid_le [OF assms])
  show "sum_list (map f (filter P xs)) \<le> sum_list (map f xs)"
    using common_grid_nonneg [OF assms] by (intro sum_list_filter_le) auto
qed auto

lemma common_grid_add:
  assumes "common_grid e (a # b # xs)"
  shows "dadd a b = a + b" and "common_grid e ((a + b) # xs)"
proof -
  have pos: "0 \<le> x" if "x \<in> set (a # b # xs)" for x
    using common_grid_nonneg [OF assms that] .
  then have "0 \<le> sum_list xs" by (intro sum_list_nonneg) auto
  then have "common_grid e [a]" "common_grid e [a, b]"
    using pos [of b] by (auto intro!: common_grid_le [OF assms])
  from this [THEN dsum_exact] show "dadd a b = a + b"
    by (simp add: dsum_def dadd_def)
  have "\<exists>c::int. 0 \<le> c \<and> a + b = of_int c * 10 powi e"
    using grid_sum [of "[a, b]" e] assms by (auto simp: common_grid_def)
  then show "common_grid e ((a + b) # xs)"
    using assms by (auto simp: common_grid_def algebra_simps)
qed

end
