(* ===== verification/Order_Models.thy ===== *)
theory Order_Models
  imports Decimals
begin

text \<open>
  The immutable records of the paper order lifecycle: \<open>Fill\<close>
  (app/paper\_trading/fill\_models.py), \<open>OrderRequest\<close> and \<open>PaperOrder\<close>
  (app/paper\_trading/order\_models.py).  A constructor with its \<open>__post_init__\<close> is a
  function from the raw field values to an exception or the normalised record;
  \<open>dataclasses.replace\<close> calls the same constructor again.  The Decimals of these records
  are finite values; the code does not test that, and a NaN makes its first comparison
  raise.
\<close>

subsection \<open>Enumerations\<close>

datatype asset_class = STOCK | CRYPTO

datatype order_side = BUY | SELL

datatype order_type = MARKET | LIMIT | STOP | STOP_LIMIT

datatype time_in_force = DAY | GTC | IOC

datatype order_status =
  NEW | ACCEPTED | PARTIALLY_FILLED | FILLED | CANCELLED | REJECTED | EXPIRED

definition TERMINAL_ORDER_STATUSES :: "order_status set" where
  "TERMINAL_ORDER_STATUSES = {FILLED, CANCELLED, REJECTED, EXPIRED}"

fun order_status_value :: "order_status \<Rightarrow> string" where
  "order_status_value NEW = ''NEW''"
| "order_status_value ACCEPTED = ''ACCEPTED''"
| "order_status_value PARTIALLY_FILLED = ''PARTIALLY_FILLED''"
| "order_status_value FILLED = ''FILLED''"
| "order_status_value CANCELLED = ''CANCELLED''"
| "order_status_value REJECTED = ''REJECTED''"
| "order_status_value EXPIRED = ''EXPIRED''"

abbreviation value_error :: "string \<Rightarrow> exn" where
  "value_error msg \<equiv> Raise ValueError msg"

subsection \<open>Fill\<close>

record fill =
  f_fill_id :: string
  f_order_id :: string
  f_quantity :: rat
  f_price :: rat
  f_timestamp :: datetime
  f_commission :: rat
  f_slippage :: rat
  f_venue :: "string option"
  f_liquidity_flag :: "string option"

definition fill_post_init :: "fill \<Rightarrow> fill res" where
  "fill_post_init f =
     (if strip (f_fill_id f) = [] then Inl (value_error ''fill_id is required'')
      else if strip (f_order_id f) = [] then Inl (value_error ''order_id is required'')
      else if f_quantity f \<le> 0 then Inl (value_error ''quantity must be positive'')
      else if f_price f \<le> 0 then Inl (value_error ''price must be positive'')
      else if f_commission f < 0 then Inl (value_error ''commission cannot be negative'')
      else if \<not> tz_aware (f_timestamp f) then Inl (value_error ''timestamp must be timezone-aware'')
      else Inr (f\<lparr>f_fill_id := strip (f_fill_id f), f_order_id := strip (f_order_id f),
                 f_venue := strip_opt (f_venue f),
                 f_liquidity_flag := map_option upper (strip_opt (f_liquidity_flag f))\<rparr>))"

definition fill_notional :: "fill \<Rightarrow> rat" where
  "fill_notional f = dmul (f_quantity f) (f_price f)"

subsection \<open>OrderRequest\<close>

record order_request =
  rq_symbol :: string
  rq_asset_class :: asset_class
  rq_side :: order_side
  rq_order_type :: order_type
  rq_quantity :: rat
  rq_time_in_force :: time_in_force
  rq_limit_price :: "rat option"
  rq_stop_price :: "rat option"
  rq_client_order_id :: "string option"

definition validate_order_prices ::
  "order_type \<Rightarrow> rat option \<Rightarrow> rat option \<Rightarrow> unit res" where
  "validate_order_prices ot limit_price stop_price =
     (if (case limit_price of Some p \<Rightarrow> p \<le> 0 | None \<Rightarrow> False)
      then Inl (value_error ''limit_price must be positive'')
      else if (case stop_price of Some p \<Rightarrow> p \<le> 0 | None \<Rightarrow> False)
      then Inl (value_error ''stop_price must be positive'')
      else (case ot of
        MARKET \<Rightarrow> check (limit_price = None \<and> stop_price = None)
                    (value_error ''market orders cannot specify prices'')
      | LIMIT \<Rightarrow>
          (if limit_price = None then Inl (value_error ''limit orders require limit_price'')
           else check (stop_price = None) (value_error ''limit orders cannot specify stop_price''))
      | STOP \<Rightarrow>
          (if stop_price = None then Inl (value_error ''stop orders require stop_price'')
           else check (limit_price = None) (value_error ''stop orders cannot specify limit_price''))
      | STOP_LIMIT \<Rightarrow> check (limit_price \<noteq> None \<and> stop_price \<noteq> None)
          (value_error ''stop-limit orders require both limit_price and stop_price'')))"

definition order_request_post_init :: "order_request \<Rightarrow> order_request res" where
  "order_request_post_init r =
     (if normalize_symbol (rq_symbol r) = [] then Inl (value_error ''symbol is required'')
      else if rq_quantity r \<le> 0 then Inl (value_error ''quantity must be positive'')
      else rbind (validate_order_prices (rq_order_type r) (rq_limit_price r) (rq_stop_price r))
        (\<lambda>_. Inr (r\<lparr>rq_symbol := normalize_symbol (rq_symbol r),
                   rq_client_order_id := strip_opt (rq_client_order_id r)\<rparr>)))"

subsection \<open>PaperOrder\<close>

record paper_order =
  po_order_id :: string
  po_request :: order_request
  po_status :: order_status
  po_created_at :: datetime
  po_updated_at :: datetime
  po_filled_quantity :: rat
  po_average_fill_price :: "rat option"
  po_rejection_reason :: "string option"
  po_fills :: "fill list"

definition remaining_quantity :: "paper_order \<Rightarrow> rat" where
  "remaining_quantity po = dsub (rq_quantity (po_request po)) (po_filled_quantity po)"

definition is_terminal :: "paper_order \<Rightarrow> bool" where
  "is_terminal po = (po_status po \<in> TERMINAL_ORDER_STATUSES)"

definition total_commission :: "paper_order \<Rightarrow> rat" where
  "total_commission po = dsum (map f_commission (po_fills po))"

definition total_slippage :: "paper_order \<Rightarrow> rat" where
  "total_slippage po = dsum (map f_slippage (po_fills po))"

text \<open>The part of \<open>__post_init__\<close> that ties the stored totals to the recorded fills.\<close>

definition fills_consistent :: "string \<Rightarrow> paper_order \<Rightarrow> unit res" where
  "fills_consistent oid po =
     (if po_fills po = [] then Inr ()
      else if \<exists>f\<in>set (po_fills po). f_order_id f \<noteq> oid
      then Inl (value_error ''all fills must belong to the order'')
      else let fills_quantity = dsum (map f_quantity (po_fills po));
               fills_notional = dsum (map fill_notional (po_fills po)) in
        if fills_quantity \<noteq> po_filled_quantity po
        then Inl (value_error ''fills quantity must equal filled_quantity'')
        else rbind (ddiv_checked fills_notional fills_quantity) (\<lambda>fills_average.
          check (Some fills_average = po_average_fill_price po)
            (value_error ''fills must match average_fill_price'')))"

definition status_consistent :: "string option \<Rightarrow> paper_order \<Rightarrow> unit res" where
  "status_consistent reason po =
     (if po_status po = FILLED \<and> po_filled_quantity po \<noteq> rq_quantity (po_request po)
      then Inl (value_error ''filled orders must have their full quantity'')
      else if po_status po = PARTIALLY_FILLED \<and>
        \<not> (0 < po_filled_quantity po \<and> po_filled_quantity po < rq_quantity (po_request po))
      then Inl (value_error ''partially filled orders require a partial filled quantity'')
      else if po_status po = REJECTED then
        (if reason = None then Inl (value_error ''rejected orders require a reason'')
         else check (po_filled_quantity po = 0)
           (value_error ''rejected orders cannot have fills''))
      else check (reason = None)
        (value_error ''rejection_reason is only valid for rejected orders''))"

definition paper_order_post_init :: "paper_order \<Rightarrow> paper_order res" where
  "paper_order_post_init po = (let oid = strip (po_order_id po) in
     if oid = [] then Inl (value_error ''order_id is required'')
     else if \<not> tz_aware (po_created_at po) then Inl (value_error ''created_at must be timezone-aware'')
     else if \<not> tz_aware (po_updated_at po) then Inl (value_error ''updated_at must be timezone-aware'')
     else if dt_less (po_updated_at po) (po_created_at po)
     then Inl (value_error ''updated_at cannot precede created_at'')
     else if po_filled_quantity po < 0 then Inl (value_error ''filled_quantity cannot be negative'')
     else if po_filled_quantity po > rq_quantity (po_request po)
     then Inl (value_error ''filled_quantity cannot exceed order quantity'')
     else if (case po_average_fill_price po of Some p \<Rightarrow> p \<le> 0 | None \<Rightarrow> False)
     then Inl (value_error ''average_fill_price must be positive'')
     else if 0 < po_filled_quantity po \<and> po_average_fill_price po = None
     then Inl (value_error ''average_fill_price is required when filled_quantity is positive'')
     else if \<not> 0 < po_filled_quantity po \<and> po_average_fill_price po \<noteq> None
     then Inl (value_error ''average_fill_price requires a fill'')
     else rbind (fills_consistent oid po) (\<lambda>_.
       let reason = strip_opt (po_rejection_reason po) in
       rbind (status_consistent reason po) (\<lambda>_.
         Inr (po\<lparr>po_order_id := oid, po_rejection_reason := reason\<rparr>))))"

subsection \<open>What a constructed record satisfies\<close>

text \<open>
  \<open>well_formed\<close> is the abstract contract of \<open>PaperOrder\<close>: every record the constructor
  returns satisfies it, and the constructor returns such a record unchanged.
\<close>

definition well_formed :: "paper_order \<Rightarrow> bool" where
  "well_formed po \<longleftrightarrow>
     po_order_id po \<noteq> [] \<and> strip (po_order_id po) = po_order_id po \<and>
     tz_aware (po_created_at po) \<and> tz_aware (po_updated_at po) \<and>
     dt_le (po_created_at po) (po_updated_at po) \<and>
     0 \<le> po_filled_quantity po \<and> po_filled_quantity po \<le> rq_quantity (po_request po) \<and>
     (0 < po_filled_quantity po \<longleftrightarrow> po_average_fill_price po \<noteq> None) \<and>
     (\<forall>p. po_average_fill_price po = Some p \<longrightarrow> 0 < p) \<and>
     (po_fills po \<noteq> [] \<longrightarrow>
        (\<forall>f\<in>set (po_fills po). f_order_id f = po_order_id po) \<and>
        dsum (map f_quantity (po_fills po)) = po_filled_quantity po \<and>
        po_filled_quantity po \<noteq> 0 \<and>
        po_average_fill_price po =
          Some (ddiv (dsum (map fill_notional (po_fills po))) (po_filled_quantity po))) \<and>
     (po_status po = FILLED \<longrightarrow> po_filled_quantity po = rq_quantity (po_request po)) \<and>
     (po_status po = PARTIALLY_FILLED \<longrightarrow>
        0 < po_filled_quantity po \<and> po_filled_quantity po < rq_quantity (po_request po)) \<and>
     (po_status po = REJECTED \<longleftrightarrow> po_rejection_reason po \<noteq> None) \<and>
     (po_status po = REJECTED \<longrightarrow> po_filled_quantity po = 0) \<and>
     strip_opt (po_rejection_reason po) = po_rejection_reason po"

lemma fills_consistent_Inr:
  "fills_consistent oid po = Inr u \<longleftrightarrow>
     (po_fills po \<noteq> [] \<longrightarrow>
        (\<forall>f\<in>set (po_fills po). f_order_id f = oid) \<and>
        dsum (map f_quantity (po_fills po)) = po_filled_quantity po \<and>
        po_filled_quantity po \<noteq> 0 \<and>
        po_average_fill_price po =
          Some (ddiv (dsum (map fill_notional (po_fills po))) (po_filled_quantity po)))"
  by (auto simp: fills_consistent_def Let_def res_simps)

lemma status_consistent_Inr:
  "status_consistent reason po = Inr u \<longleftrightarrow>
     (po_status po = FILLED \<longrightarrow> po_filled_quantity po = rq_quantity (po_request po)) \<and>
     (po_status po = PARTIALLY_FILLED \<longrightarrow>
        0 < po_filled_quantity po \<and> po_filled_quantity po < rq_quantity (po_request po)) \<and>
     (po_status po = REJECTED \<longleftrightarrow> reason \<noteq> None) \<and>
     (po_status po = REJECTED \<longrightarrow> po_filled_quantity po = 0)"
  by (auto simp: status_consistent_def res_simps)

lemma paper_order_post_init_Inr:
  "paper_order_post_init po = Inr po' \<longleftrightarrow>
     well_formed po' \<and>
     po' = po\<lparr>po_order_id := strip (po_order_id po),
              po_rejection_reason := strip_opt (po_rejection_reason po)\<rparr>"
  (is "?L \<longleftrightarrow> well_formed po' \<and> po' = ?r")
proof -
  have "?L \<longleftrightarrow> well_formed ?r \<and> po' = ?r"
    unfolding paper_order_post_init_def Let_def well_formed_def
    by (simp only: res_simps fills_consistent_Inr status_consistent_Inr
        paper_order.simps strip_idem strip_opt_idem not_less dt_not_less)
      (simp split: option.split, safe; force?)
  then show ?thesis by blast
qed

lemma well_formed_post_init: "well_formed po \<Longrightarrow> paper_order_post_init po = Inr po"
  by (simp add: paper_order_post_init_Inr) (simp add: well_formed_def)

lemma fill_post_init_Inr:
  assumes "fill_post_init f = Inr f'"
  shows "0 < f_quantity f'" and "0 < f_price f'" and "0 \<le> f_commission f'"
    and "tz_aware (f_timestamp f')" and "f_quantity f' = f_quantity f"
    and "f_price f' = f_price f" and "f_order_id f' = strip (f_order_id f)"
    and "f_timestamp f' = f_timestamp f" and "f_fill_id f' = strip (f_fill_id f)"
    and "f_fill_id f' \<noteq> []" and "fill_notional f' = fill_notional f"
  using assms by (auto simp: fill_post_init_def fill_notional_def split: if_splits)

lemma order_request_post_init_idem:
  assumes "order_request_post_init r = Inr r'"
  shows "order_request_post_init r' = Inr r'"
  using assms by (auto simp: order_request_post_init_def res_simps split: if_splits)

end
