(* ===== verification/Orders.thy ===== *)
theory Orders
  imports Order_Models
begin

text \<open>
  The order lifecycle of app/paper\_trading/orders.py: creation, acceptance, rejection,
  cancellation, expiry and fills.  The injected factories and the clock appear as the
  values they return: \<open>raw_id\<close> for an identifier factory, \<open>now\<close> for \<open>_utc_now()\<close>.
\<close>

subsection \<open>Guards\<close>

fun join_values :: "string list \<Rightarrow> string" where
  "join_values [] = []"
| "join_values [s] = s"
| "join_values (s # t # ts) = s @ '', '' @ join_values (t # ts)"

definition require_status :: "paper_order \<Rightarrow> order_status list \<Rightarrow> order_status \<Rightarrow> unit res" where
  "require_status po allowed target =
     check (po_status po \<in> set allowed) (Raise InvalidOrderTransitionError
       (''cannot transition order '' @ po_order_id po @
        '' from '' @ order_status_value (po_status po) @
        '' to '' @ order_status_value target @
        ''; allowed source statuses: '' @ join_values (map order_status_value allowed)))"

definition validate_transition_time :: "datetime \<Rightarrow> unit res" where
  "validate_transition_time t =
     check (tz_aware t) (Raise OrderValidationError ''order timestamps must be timezone-aware'')"

definition transition_time :: "paper_order \<Rightarrow> datetime option \<Rightarrow> datetime \<Rightarrow> datetime res" where
  "transition_time po ts now =
     (let timestamp = (case ts of Some t \<Rightarrow> t | None \<Rightarrow> now) in
      rbind (validate_transition_time timestamp) (\<lambda>_.
        if dt_less timestamp (po_updated_at po)
        then Inl (Raise OrderValidationError ''transition time cannot precede updated_at'')
        else Inr timestamp))"

subsection \<open>Operations\<close>

definition create_order :: "order_request \<Rightarrow> string \<Rightarrow> datetime \<Rightarrow> paper_order res" where
  "create_order request raw_id timestamp = (let oid = strip raw_id in
     if oid = [] then Inl (Raise OrderValidationError ''order ID factory returned an empty value'')
     else rbind (validate_transition_time timestamp) (\<lambda>_.
       paper_order_post_init
         \<lparr>po_order_id = oid, po_request = request, po_status = NEW,
          po_created_at = timestamp, po_updated_at = timestamp,
          po_filled_quantity = 0, po_average_fill_price = None,
          po_rejection_reason = None, po_fills = []\<rparr>))"

definition accept_order :: "paper_order \<Rightarrow> datetime option \<Rightarrow> datetime \<Rightarrow> paper_order res" where
  "accept_order po ts now =
     rbind (require_status po [NEW] ACCEPTED) (\<lambda>_.
     rbind (transition_time po ts now) (\<lambda>t.
       paper_order_post_init (po\<lparr>po_status := ACCEPTED, po_updated_at := t\<rparr>)))"

definition reject_order ::
  "paper_order \<Rightarrow> string \<Rightarrow> datetime option \<Rightarrow> datetime \<Rightarrow> paper_order res" where
  "reject_order po reason ts now =
     rbind (require_status po [NEW] REJECTED) (\<lambda>_.
     if strip reason = [] then Inl (Raise OrderValidationError ''rejection reason is required'')
     else rbind (transition_time po ts now) (\<lambda>t.
       paper_order_post_init (po\<lparr>po_status := REJECTED, po_updated_at := t,
                                 po_rejection_reason := Some (strip reason)\<rparr>)))"

definition cancel_order :: "paper_order \<Rightarrow> datetime option \<Rightarrow> datetime \<Rightarrow> paper_order res" where
  "cancel_order po ts now =
     rbind (require_status po [NEW, ACCEPTED, PARTIALLY_FILLED] CANCELLED) (\<lambda>_.
     rbind (transition_time po ts now) (\<lambda>t.
       paper_order_post_init (po\<lparr>po_status := CANCELLED, po_updated_at := t\<rparr>)))"

definition expire_order :: "paper_order \<Rightarrow> datetime option \<Rightarrow> datetime \<Rightarrow> paper_order res" where
  "expire_order po ts now =
     rbind (require_status po [NEW, ACCEPTED, PARTIALLY_FILLED] EXPIRED) (\<lambda>_.
     rbind (transition_time po ts now) (\<lambda>t.
       paper_order_post_init (po\<lparr>po_status := EXPIRED, po_updated_at := t\<rparr>)))"

text \<open>The arguments of \<open>apply_fill\<close> beside the order, its quantity and its price.\<close>

record fill_args =
  fa_at :: "datetime option"
  fa_commission :: rat
  fa_slippage :: rat
  fa_venue :: "string option"
  fa_liquidity_flag :: "string option"
  fa_raw_fill_id :: string

text \<open>The new average price and quantity, computed from the old ones.\<close>

definition filled_average :: "paper_order \<Rightarrow> rat \<Rightarrow> rat \<Rightarrow> rat" where
  "filled_average po quantity price =
     (let previous_notional = dmul (po_filled_quantity po)
            (case po_average_fill_price po of Some p \<Rightarrow> p | None \<Rightarrow> 0);
          fill_notional = dmul quantity price;
          new_filled_quantity = dadd (po_filled_quantity po) quantity
      in ddiv (dadd previous_notional fill_notional) new_filled_quantity)"

definition apply_fill ::
  "paper_order \<Rightarrow> rat \<Rightarrow> rat \<Rightarrow> fill_args \<Rightarrow> datetime \<Rightarrow> paper_order res" where
  "apply_fill po quantity price a now =
     rbind (require_status po [ACCEPTED, PARTIALLY_FILLED] PARTIALLY_FILLED) (\<lambda>_.
     if quantity \<le> 0 then Inl (Raise OrderValidationError ''fill quantity must be positive'')
     else if price \<le> 0 then Inl (Raise OrderValidationError ''fill price must be positive'')
     else if quantity > remaining_quantity po
     then Inl (Raise OrderValidationError ''fill quantity exceeds remaining quantity'')
     else if fa_commission a < 0
     then Inl (Raise OrderValidationError ''commission cannot be negative'')
     else rbind (transition_time po (fa_at a) now) (\<lambda>timestamp.
     if strip (fa_raw_fill_id a) = []
     then Inl (Raise OrderValidationError ''fill ID factory returned an empty value'')
     else rbind (fill_post_init
         \<lparr>f_fill_id = strip (fa_raw_fill_id a), f_order_id = po_order_id po,
          f_quantity = quantity, f_price = price, f_timestamp = timestamp,
          f_commission = fa_commission a, f_slippage = fa_slippage a,
          f_venue = fa_venue a, f_liquidity_flag = fa_liquidity_flag a\<rparr>) (\<lambda>fill.
       let new_filled_quantity = dadd (po_filled_quantity po) quantity in
       paper_order_post_init
         (po\<lparr>po_status := (if new_filled_quantity = rq_quantity (po_request po)
                             then FILLED else PARTIALLY_FILLED),
             po_updated_at := timestamp,
             po_filled_quantity := new_filled_quantity,
             po_average_fill_price := Some (filled_average po quantity price),
             po_fills := po_fills po @ [fill]\<rparr>))))"

lemmas order_op_defs =
  accept_order_def reject_order_def cancel_order_def expire_order_def apply_fill_def

lemma require_status_Inr [res_simps]:
  "require_status po allowed target = Inr u \<longleftrightarrow> po_status po \<in> set allowed"
  by (simp add: require_status_def check_Inr)

lemma transition_time_Inr [res_simps]:
  "transition_time po ts now = Inr t \<longleftrightarrow>
     t = (case ts of Some s \<Rightarrow> s | None \<Rightarrow> now) \<and> tz_aware t \<and> dt_le (po_updated_at po) t"
  by (auto simp: transition_time_def validate_transition_time_def Let_def res_simps)

subsection \<open>The lifecycle as a stepping component\<close>

text \<open>One operation of the lifecycle, with its arguments.\<close>

datatype order_op =
    Accept "datetime option"
  | Reject string "datetime option"
  | Cancel "datetime option"
  | Expire "datetime option"
  | ApplyFill rat rat fill_args

fun order_step :: "datetime \<Rightarrow> paper_order \<Rightarrow> order_op \<Rightarrow> paper_order res" where
  "order_step now po (Accept ts) = accept_order po ts now"
| "order_step now po (Reject reason ts) = reject_order po reason ts now"
| "order_step now po (Cancel ts) = cancel_order po ts now"
| "order_step now po (Expire ts) = expire_order po ts now"
| "order_step now po (ApplyFill q p a) = apply_fill po q p a now"

text \<open>What an operation may do to an order, whatever the operation.\<close>

definition order_extends :: "paper_order \<Rightarrow> paper_order \<Rightarrow> bool" where
  "order_extends po po' \<longleftrightarrow>
     po_order_id po' = po_order_id po \<and> po_request po' = po_request po \<and>
     po_created_at po' = po_created_at po \<and>
     dt_le (po_updated_at po) (po_updated_at po') \<and>
     rnd (po_filled_quantity po) \<le> rnd (po_filled_quantity po') \<and>
     (\<exists>fs. po_fills po' = po_fills po @ fs)"

lemma order_extends_refl: "order_extends po po"
  by (simp add: order_extends_def)

lemma order_extends_trans: "order_extends a b \<Longrightarrow> order_extends b c \<Longrightarrow> order_extends a c"
  unfolding order_extends_def by (auto intro: dt_le_trans order_trans)

lemma rnd_dadd_ge: "0 \<le> y \<Longrightarrow> rnd x \<le> rnd (dadd x y)"
  by (simp add: dadd_def rnd_mono)

lemma order_step_Inr:
  assumes "order_step now po a = Inr po'"
  shows "well_formed po'" and "\<not> is_terminal po"
  using assms
  by (cases a; auto simp: order_op_defs res_simps paper_order_post_init_Inr Let_def
      is_terminal_def TERMINAL_ORDER_STATUSES_def)+

lemma order_step_extends:
  assumes "well_formed po" and "order_step now po a = Inr po'"
  shows "order_extends po po'"
proof -
  have s: "strip (po_order_id po) = po_order_id po"
    using assms(1) by (simp add: well_formed_def)
  show ?thesis
    using assms(2) by (cases a)
      (auto simp: order_op_defs res_simps paper_order_post_init_Inr Let_def s
        order_extends_def rnd_dadd_ge less_imp_le)
qed

text \<open>
  The invariant of orders that were created and then only stepped: a well-formed record
  whose fills are each valid, and with nothing filled while no fill is recorded.
\<close>

definition order_inv :: "paper_order \<Rightarrow> bool" where
  "order_inv po \<longleftrightarrow> well_formed po \<and>
     (po_fills po = [] \<longrightarrow> po_filled_quantity po = 0) \<and>
     (\<forall>f\<in>set (po_fills po). 0 < f_quantity f \<and> 0 < f_price f \<and> 0 \<le> f_commission f)"

lemma order_inv_well_formed: "order_inv po \<Longrightarrow> well_formed po"
  by (simp add: order_inv_def)

lemma create_order_inv: "create_order rq raw_id t = Inr po \<Longrightarrow> order_inv po"
  by (auto simp: create_order_def Let_def res_simps paper_order_post_init_Inr order_inv_def)

lemma order_step_inv:
  assumes "order_inv po" and "order_step now po a = Inr po'"
  shows "order_inv po'"
proof -
  have "well_formed po'" using assms(2) by (rule order_step_Inr)
  with assms show ?thesis
    by (cases a) (auto simp: order_op_defs res_simps paper_order_post_init_Inr Let_def
        order_inv_def dest: fill_post_init_Inr(1,2,3))
qed

interpretation lifecycle: monotone_stepping "order_step now" order_inv order_extends for now
  by unfold_locales
    (fact order_step_inv order_extends_refl order_extends_trans
      order_step_extends [OF order_inv_well_formed])+

subsection \<open>When a valid fill is accepted\<close>

text \<open>The guards of \<open>apply_fill\<close> and of \<open>Fill\<close>, all satisfied.\<close>

definition fill_acceptable ::
  "paper_order \<Rightarrow> rat \<Rightarrow> rat \<Rightarrow> fill_args \<Rightarrow> datetime \<Rightarrow> bool" where
  "fill_acceptable po quantity price a now \<longleftrightarrow>
     po_status po \<in> {ACCEPTED, PARTIALLY_FILLED} \<and> 0 < quantity \<and> 0 < price \<and>
     quantity \<le> remaining_quantity po \<and>
     dadd (po_filled_quantity po) quantity \<le> rq_quantity (po_request po) \<and>
     0 \<le> fa_commission a \<and> strip (fa_raw_fill_id a) \<noteq> [] \<and>
     (let t = (case fa_at a of Some s \<Rightarrow> s | None \<Rightarrow> now)
      in tz_aware t \<and> dt_le (po_updated_at po) t)"

lemma filled_is_sum: "order_inv po \<Longrightarrow> po_filled_quantity po = dsum (map f_quantity (po_fills po))"
  by (cases "po_fills po = []") (auto simp: order_inv_def well_formed_def)

lemma filled_average_pos:
  assumes "order_inv po" and "0 < q" and "0 < p"
  shows "0 < filled_average po q p"
proof -
  have "0 \<le> (case po_average_fill_price po of Some p \<Rightarrow> p | None \<Rightarrow> 0)" and "0 \<le> po_filled_quantity po"
    using assms(1) by (auto simp: order_inv_def well_formed_def less_imp_le split: option.splits)
  then show ?thesis
    using assms(2,3) by (simp add: filled_average_def Let_def dec_defs add_nonneg_pos)
qed

lemma apply_fill_well_formed:
  assumes inv: "order_inv po" and ok: "fill_acceptable po q p a now"
    and f: "f_order_id f = po_order_id po" "f_quantity f = q" "fill_notional f = dmul q p"
    and t: "tz_aware t" "dt_le (po_updated_at po) t"
  shows "well_formed
         (po\<lparr>po_status := (if dadd (po_filled_quantity po) q = rq_quantity (po_request po)
                             then FILLED else PARTIALLY_FILLED),
             po_updated_at := t,
             po_filled_quantity := dadd (po_filled_quantity po) q,
             po_average_fill_price := Some (filled_average po q p),
             po_fills := po_fills po @ [f]\<rparr>) \<longleftrightarrow>
    filled_average po q p =
      ddiv (dadd (dsum (map fill_notional (po_fills po))) (dmul q p))
           (dadd (po_filled_quantity po) q)"
    (is "well_formed ?po \<longleftrightarrow> ?avg")
proof -
  have wf: "well_formed po" using inv by (simp add: order_inv_def)
  have pos: "0 < dadd (po_filled_quantity po) q"
    using wf ok by (simp add: well_formed_def fill_acceptable_def dadd_def add_nonneg_pos)
  have le: "dadd (po_filled_quantity po) q \<le> rq_quantity (po_request po)"
    using ok by (simp add: fill_acceptable_def)
  have av: "0 < filled_average po q p"
    using filled_average_pos [OF inv] ok by (simp add: fill_acceptable_def)
  have st: "po_status po \<in> {ACCEPTED, PARTIALLY_FILLED}"
    using ok by (simp add: fill_acceptable_def)
  have sum: "dsum (map f_quantity (po_fills po @ [f])) = dadd (po_filled_quantity po) q"
    by (simp add: filled_is_sum [OF inv] f)
  have ids: "\<forall>g\<in>set (po_fills po @ [f]). f_order_id g = po_order_id po"
    using wf f by (auto simp: well_formed_def)
  have rr: "po_rejection_reason po = None"
    using wf st by (auto simp: well_formed_def)
  have "well_formed ?po \<longleftrightarrow>
      Some (filled_average po q p) = Some (ddiv (dsum (map fill_notional (po_fills po @ [f])))
           (dadd (po_filled_quantity po) q))"
    using wf t pos le av sum ids rr unfolding well_formed_def
    by (auto intro: dt_le_trans)
  then show ?thesis by (simp add: f)
qed

text \<open>
  An acceptable fill passes every guard of \<open>apply_fill\<close>; what decides is whether the
  average price recomputed from the rounded running average agrees, to the last digit,
  with the average recomputed from the fills.
\<close>

lemma apply_fill_decided:
  assumes inv: "order_inv po" and ok: "fill_acceptable po q p a now"
  shows "(\<exists>po'. apply_fill po q p a now = Inr po') \<longleftrightarrow>
    filled_average po q p =
      ddiv (dadd (dsum (map fill_notional (po_fills po))) (dmul q p))
           (dadd (po_filled_quantity po) q)"
proof -
  define t where "t = (case fa_at a of Some s \<Rightarrow> s | None \<Rightarrow> now)"
  have t: "tz_aware t" "dt_le (po_updated_at po) t"
    using ok by (simp_all add: fill_acceptable_def t_def Let_def)
  have tt: "transition_time po (fa_at a) now = Inr t"
    unfolding transition_time_Inr using t by (simp add: t_def)
  have oid: "strip (po_order_id po) = po_order_id po" "po_order_id po \<noteq> []"
    "strip_opt (po_rejection_reason po) = po_rejection_reason po"
    using inv by (simp_all add: order_inv_def well_formed_def)
  define f0 where "f0 = \<lparr>f_fill_id = strip (fa_raw_fill_id a), f_order_id = po_order_id po,
    f_quantity = q, f_price = p, f_timestamp = t, f_commission = fa_commission a,
    f_slippage = fa_slippage a, f_venue = fa_venue a, f_liquidity_flag = fa_liquidity_flag a\<rparr>"
  obtain f where f: "fill_post_init f0 = Inr f"
    using ok t oid by (auto simp: fill_post_init_def f0_def fill_acceptable_def not_less not_le)
  have ff: "f_order_id f = po_order_id po" "f_quantity f = q" "fill_notional f = dmul q p"
    using fill_post_init_Inr(5,7,11) [OF f] oid by (simp_all add: f0_def fill_notional_def)
  have rs: "require_status po [ACCEPTED, PARTIALLY_FILLED] PARTIALLY_FILLED = Inr ()"
    using ok by (simp add: require_status_Inr fill_acceptable_def)
  show ?thesis
    unfolding apply_fill_well_formed [OF inv ok ff t, symmetric]
    using ok by (auto simp: apply_fill_def rs tt f0_def [symmetric] f Let_def
        paper_order_post_init_Inr oid fill_acceptable_def cong: if_cong)
qed

subsection \<open>Properties\<close>

text \<open>
  C9: An order that was created and then driven through any sequence of successful
  lifecycle operations satisfies the whole \<open>PaperOrder\<close> contract; its filled quantity
  is the (rounded) sum of its fills and never exceeds the requested quantity; its
  identity, its request and its creation time never change, its time stamps only grow
  and its fills are only appended.
\<close>

theorem order_lifecycle_invariant:
  assumes "create_order rq raw_id t0 = Inr po"
    and "run (order_step now) po ops = Inr po'"
  shows "well_formed po' \<and> order_extends po po' \<and>
    po_filled_quantity po' = dsum (map f_quantity (po_fills po')) \<and>
    0 \<le> po_filled_quantity po' \<and> po_filled_quantity po' \<le> rq_quantity (po_request po')"
proof -
  have inv: "order_inv po" using assms(1) by (rule create_order_inv)
  have inv': "order_inv po'" using inv assms(2) by (rule lifecycle.run_good)
  have "order_extends po po'" using inv assms(2) by (rule lifecycle.run_rel)
  with inv' filled_is_sum [OF inv'] show ?thesis
    by (auto simp: order_inv_def well_formed_def)
qed

text \<open>
  C10: Terminal statuses are absorbing: every lifecycle operation on a filled, cancelled,
  rejected or expired order raises \<open>InvalidOrderTransitionError\<close>.
\<close>

theorem terminal_orders_are_final:
  assumes "is_terminal po"
  shows "\<exists>msg. order_step now po a = Inl (Raise InvalidOrderTransitionError msg)"
  using assms
  by (cases a) (auto simp: order_op_defs require_status_def is_terminal_def
      TERMINAL_ORDER_STATUSES_def)

text \<open>
  C25: A fill that passes every guard of \<open>apply_fill\<close> is recorded exactly when the average
  price the code carries forward (from the rounded running average) equals, digit for
  digit, the average \<open>PaperOrder\<close> recomputes from the recorded fills.
\<close>

theorem valid_fill_recorded_iff_averages_agree:
  assumes "order_inv po" and "fill_acceptable po q p a now"
  shows "(\<exists>po'. apply_fill po q p a now = Inr po') \<longleftrightarrow>
    filled_average po q p =
      ddiv (dadd (dsum (map fill_notional (po_fills po))) (dmul q p))
           (dadd (po_filled_quantity po) q)"
  using assms by (rule apply_fill_decided)

text \<open>
  The first fill of an order is always recorded, and so is a second one after a first
  whose price has at most 28 digits and whose notional is exact: the two ways of
  computing the average then agree.
\<close>

theorem first_two_fills_recorded:
  assumes inv: "order_inv po" and ok: "fill_acceptable po q p a now"
    and fills: "po_fills po = [] \<or> (\<exists>f. po_fills po = [f] \<and> rnd (f_price f) = f_price f \<and>
      rnd (f_quantity f) = f_quantity f \<and>
      rnd (f_quantity f * f_price f) = f_quantity f * f_price f)"
  shows "\<exists>po'. apply_fill po q p a now = Inr po'"
proof -
  have wf: "well_formed po" using inv by (rule order_inv_well_formed)
  have "dmul (po_filled_quantity po) (case po_average_fill_price po of Some p \<Rightarrow> p | None \<Rightarrow> 0) =
      dsum (map fill_notional (po_fills po))"
    using fills
  proof
    assume "po_fills po = []"
    then show ?thesis using inv by (simp add: order_inv_def dec_defs)
  next
    assume "\<exists>f. po_fills po = [f] \<and> rnd (f_price f) = f_price f \<and>
      rnd (f_quantity f) = f_quantity f \<and> rnd (f_quantity f * f_price f) = f_quantity f * f_price f"
    then obtain f where f: "po_fills po = [f]" "rnd (f_price f) = f_price f"
      "rnd (f_quantity f) = f_quantity f" "rnd (f_quantity f * f_price f) = f_quantity f * f_price f"
      by blast
    have q: "po_filled_quantity po = f_quantity f"
      using filled_is_sum [OF inv] f by simp
    have "0 < f_quantity f" using inv f by (simp add: order_inv_def)
    with wf f q have "po_average_fill_price po = Some (f_price f)"
      by (simp add: well_formed_def fill_notional_def dec_defs)
    with f q show ?thesis by (simp add: fill_notional_def dec_defs)
  qed
  then show ?thesis
    unfolding apply_fill_decided [OF inv ok] by (simp add: filled_average_def Let_def)
qed

subsection \<open>Concrete runs\<close>

definition ex_request :: order_request where
  "ex_request = \<lparr>rq_symbol = ''ABC'', rq_asset_class = STOCK, rq_side = BUY,
     rq_order_type = MARKET, rq_quantity = 10, rq_time_in_force = DAY,
     rq_limit_price = None, rq_stop_price = None, rq_client_order_id = None\<rparr>"

definition ex_args :: fill_args where
  "ex_args = \<lparr>fa_at = None, fa_commission = 0, fa_slippage = 0, fa_venue = None,
     fa_liquidity_flag = None, fa_raw_fill_id = ''F''\<rparr>"

definition ex_run :: "order_op list \<Rightarrow> paper_order res" where
  "ex_run ops = rbind (create_order ex_request ''O'' (Aware 0 0))
     (\<lambda>po. run (order_step (Aware 0 0)) po ops)"

lemma strip_F: "strip ''F'' = ''F''" and strip_O: "strip ''O'' = ''O''"
  by (simp_all add: strip_def lstrip_def is_space_def)

lemma ex_rnds:
  "rnd (5/3) = 1666666666666666666666666667 / 10 ^ 27"
  "rnd (4/3) = 1333333333333333333333333333 / 10 ^ 27"
  by (rule rnd_evalI [where y = "5/3 * 10 ^ 27" and k = 27 and c = 1666666666666666666666666667];
      simp)
    (rule rnd_evalI [where y = "4/3 * 10 ^ 27" and k = 27 and c = 1333333333333333333333333333];
      simp)

lemma ex_rnds_exact:
  "rnd (5000000000000000000000000001 / 1000000000000000000000000000) =
     5000000000000000000000000001 / 1000000000000000000000000000"
  "rnd (8000000000000000000000000001 / 1000000000000000000000000000) =
     8000000000000000000000000001 / 1000000000000000000000000000"
  by (rule rnd_eqI [where k = 27 and c = 5000000000000000000000000001]; simp)
    (rule rnd_eqI [where k = 27 and c = 8000000000000000000000000001]; simp)

text \<open>The tie: 1333333333333333333333333333.5 units in the last place round to even.\<close>

lemma ex_rnd_tie:
  "rnd (2666666666666666666666666667 / 2000000000000000000000000000) =
     1333333333333333333333333334 / 1000000000000000000000000000"
proof (rule rnd_eval_half_even [where k = 27 and c = 1333333333333333333333333334])
  show "half_even (2666666666666666666666666667 / 2) = 1333333333333333333333333334"
    by (subst half_even_tie [where n = 1333333333333333333333333333]) simp_all
qed simp_all

lemmas ex_run_defs = ex_run_def ex_request_def ex_args_def strip_F strip_O create_order_def
  paper_order_post_init_def validate_transition_time_def Let_def fills_consistent_def
  status_consistent_def order_op_defs require_status_def transition_time_def
  remaining_quantity_def dec_defs filled_average_def fill_post_init_def fill_notional_def
  dsum_def ddiv_checked_def dt_less_def


definition ex_accepted :: paper_order where
  "ex_accepted = \<lparr>po_order_id = ''O'', po_request = ex_request, po_status = ACCEPTED,
     po_created_at = Aware 0 0, po_updated_at = Aware 0 0, po_filled_quantity = 0,
     po_average_fill_price = None, po_rejection_reason = None, po_fills = []\<rparr>"

lemma ex_accepted_inv: "order_inv ex_accepted"
  by (simp add: order_inv_def well_formed_def ex_accepted_def ex_request_def strip_O)

lemma ex_fill_acceptable: "fill_acceptable ex_accepted 4 2 ex_args (Aware 0 0)"
  by (simp add: fill_acceptable_def ex_accepted_def ex_request_def ex_args_def strip_F
      remaining_quantity_def dec_defs)

lemma ex_created: "create_order ex_request ''O'' (Aware 0 0) = Inr (ex_accepted\<lparr>po_status := NEW\<rparr>)"
  by (simp add: ex_run_defs ex_accepted_def)

lemma ex_three_steps:
  "\<exists>po'. run (order_step (Aware 5 0)) (ex_accepted\<lparr>po_status := NEW\<rparr>)
     [Accept None, ApplyFill 4 2 ex_args, Cancel None] = Inr po' \<and> po_filled_quantity po' = 4"
  by (simp add: ex_run_defs ex_accepted_def)

theorem order_lifecycle_invariant_witness:
  "\<exists>po'. run (order_step (Aware 5 0)) (ex_accepted\<lparr>po_status := NEW\<rparr>)
     [Accept None, ApplyFill 4 2 ex_args, Cancel None] = Inr po' \<and>
     po_filled_quantity po' = 4 \<and> well_formed po'"
  using ex_three_steps order_lifecycle_invariant [OF ex_created] by blast

theorem terminal_orders_are_final_witness:
  "\<exists>msg. order_step (Aware 0 0) (ex_accepted\<lparr>po_status := CANCELLED\<rparr>) (ApplyFill 1 1 ex_args) =
     Inl (Raise InvalidOrderTransitionError msg)"
  by (rule terminal_orders_are_final) (simp add: is_terminal_def TERMINAL_ORDER_STATUSES_def)

theorem valid_fill_recorded_witness:
  "\<exists>po'. apply_fill ex_accepted 4 2 ex_args (Aware 0 0) = Inr po'"
  unfolding valid_fill_recorded_iff_averages_agree [OF ex_accepted_inv ex_fill_acceptable]
  by (simp add: ex_accepted_def filled_average_def dec_defs)

theorem first_two_fills_recorded_witness:
  "\<exists>po'. apply_fill ex_accepted 4 2 ex_args (Aware 0 0) = Inr po'"
  by (rule first_two_fills_recorded [OF ex_accepted_inv ex_fill_acceptable])
    (simp add: ex_accepted_def)

end
