(* ===== verification/Matching.thy ===== *)
theory Matching
  imports Orders
begin

text \<open>
  The top-of-book matcher of app/paper\_trading/matching\_engine.py: a validated quote, the
  match of one order against it and the reasons for not matching.
\<close>

abbreviation matching_error :: "string \<Rightarrow> exn" where
  "matching_error msg \<equiv> Raise MatchingError msg"

record market_quote =
  mq_symbol :: string
  mq_bid_price :: rat
  mq_ask_price :: rat
  mq_available_volume :: rat
  mq_timestamp :: datetime
  mq_last_trade_price :: "rat option"

definition market_quote_post_init :: "market_quote \<Rightarrow> market_quote res" where
  "market_quote_post_init q =
     (if normalize_symbol (mq_symbol q) = [] then Inl (matching_error ''quote symbol is required'')
      else if mq_bid_price q \<le> 0 then Inl (matching_error ''bid_price must be positive'')
      else if mq_ask_price q \<le> 0 then Inl (matching_error ''ask_price must be positive'')
      else if mq_ask_price q < mq_bid_price q
      then Inl (matching_error ''ask_price cannot be below bid_price'')
      else if mq_available_volume q < 0
      then Inl (matching_error ''available_volume cannot be negative'')
      else if \<not> tz_aware (mq_timestamp q) then Inl (matching_error ''timestamp must be timezone-aware'')
      else if (case mq_last_trade_price q of Some p \<Rightarrow> p \<le> 0 | None \<Rightarrow> False)
      then Inl (matching_error ''last_trade_price must be positive when provided'')
      else Inr (q\<lparr>mq_symbol := normalize_symbol (mq_symbol q)\<rparr>))"

record match_result =
  mr_order_id :: string
  mr_matched :: bool
  mr_filled_quantity :: rat
  mr_remaining_quantity :: rat
  mr_execution_price :: "rat option"
  mr_slippage :: rat
  mr_timestamp :: datetime
  mr_liquidity_flag :: "string option"
  mr_reason :: "string option"

definition is_partial :: "match_result \<Rightarrow> bool" where
  "is_partial r = (mr_matched r \<and> 0 < mr_remaining_quantity r)"

definition unsupported_type_error :: exn where
  "unsupported_type_error = matching_error ''unsupported order type for matching''"

definition execution_price :: "paper_order \<Rightarrow> market_quote \<Rightarrow> rat option res" where
  "execution_price po q = (let ot = rq_order_type (po_request po) in
     case rq_side (po_request po) of
       BUY \<Rightarrow> (let market_price = mq_ask_price q in
         if ot = MARKET then Inr (Some market_price)
         else if ot = LIMIT then
           (case rq_limit_price (po_request po) of
              None \<Rightarrow> Inl (matching_error ''limit order requires limit_price'')
            | Some l \<Rightarrow> Inr (if market_price \<le> l then Some market_price else None))
         else Inl unsupported_type_error)
     | SELL \<Rightarrow> (let market_price = mq_bid_price q in
         if ot = MARKET then Inr (Some market_price)
         else if ot = LIMIT then
           (case rq_limit_price (po_request po) of
              None \<Rightarrow> Inl (matching_error ''limit order requires limit_price'')
            | Some l \<Rightarrow> Inr (if market_price \<ge> l then Some market_price else None))
         else Inl unsupported_type_error))"

definition reference_price :: "paper_order \<Rightarrow> market_quote \<Rightarrow> rat" where
  "reference_price po q =
     (case mq_last_trade_price q of Some p \<Rightarrow> p
      | None \<Rightarrow> if rq_side (po_request po) = BUY then mq_ask_price q else mq_bid_price q)"

definition no_match :: "paper_order \<Rightarrow> market_quote \<Rightarrow> string \<Rightarrow> match_result" where
  "no_match po q reason =
     \<lparr>mr_order_id = po_order_id po, mr_matched = False, mr_filled_quantity = 0,
      mr_remaining_quantity = remaining_quantity po, mr_execution_price = None,
      mr_slippage = 0, mr_timestamp = mq_timestamp q, mr_liquidity_flag = None,
      mr_reason = Some reason\<rparr>"

definition match_order :: "paper_order \<Rightarrow> market_quote \<Rightarrow> match_result res" where
  "match_order po q =
     (if normalize_symbol (rq_symbol (po_request po)) \<noteq> mq_symbol q
      then Inl (matching_error ''order and quote symbols must match'')
      else if po_status po \<notin> {ACCEPTED, PARTIALLY_FILLED}
      then Inl (matching_error ''only accepted or partially filled orders can be matched'')
      else let remaining = remaining_quantity po in
      if remaining \<le> 0 then Inl (matching_error ''order has no remaining quantity'')
      else if mq_available_volume q = 0 then Inr (no_match po q ''no available volume'')
      else rbind (execution_price po q) (\<lambda>price.
        case price of
          None \<Rightarrow> Inr (no_match po q ''order price does not cross the market'')
        | Some price \<Rightarrow>
            let filled = min remaining (mq_available_volume q);
                reference = reference_price po q;
                slippage = (if rq_side (po_request po) = BUY
                            then dsub price reference else dsub reference price)
            in Inr \<lparr>mr_order_id = po_order_id po, mr_matched = True,
                    mr_filled_quantity = filled,
                    mr_remaining_quantity = dsub remaining filled,
                    mr_execution_price = Some price, mr_slippage = slippage,
                    mr_timestamp = mq_timestamp q,
                    mr_liquidity_flag = Some ''TAKER'', mr_reason = None\<rparr>))"

subsection \<open>Lemmas\<close>

text \<open>The contract of a constructed quote.\<close>

definition quote_ok :: "market_quote \<Rightarrow> bool" where
  "quote_ok q \<longleftrightarrow> normalize_symbol (mq_symbol q) = mq_symbol q \<and> mq_symbol q \<noteq> [] \<and>
     0 < mq_bid_price q \<and> mq_bid_price q \<le> mq_ask_price q \<and> 0 \<le> mq_available_volume q \<and>
     tz_aware (mq_timestamp q) \<and> (\<forall>p. mq_last_trade_price q = Some p \<longrightarrow> 0 < p)"

lemma market_quote_post_init_ok: "market_quote_post_init q = Inr q' \<Longrightarrow> quote_ok q'"
  by (auto simp: market_quote_post_init_def res_simps quote_ok_def not_le not_less
      split: option.splits)

text \<open>The limit of an order, as a test on the price it would trade at.\<close>

definition price_acceptable :: "order_request \<Rightarrow> rat \<Rightarrow> bool" where
  "price_acceptable rq p \<longleftrightarrow>
     (case rq_limit_price rq of None \<Rightarrow> True
      | Some l \<Rightarrow> rq_order_type rq = LIMIT \<longrightarrow> (if rq_side rq = BUY then p \<le> l else l \<le> p))"

definition market_side_price :: "order_side \<Rightarrow> market_quote \<Rightarrow> rat" where
  "market_side_price s q = (case s of BUY \<Rightarrow> mq_ask_price q | SELL \<Rightarrow> mq_bid_price q)"

lemma execution_price_Some:
  "execution_price po q = Inr (Some p) \<longleftrightarrow>
     p = market_side_price (rq_side (po_request po)) q \<and>
     (rq_order_type (po_request po) = MARKET \<or>
      rq_order_type (po_request po) = LIMIT \<and> rq_limit_price (po_request po) \<noteq> None) \<and>
     price_acceptable (po_request po) p"
  by (auto simp: execution_price_def Let_def market_side_price_def price_acceptable_def
      split: order_side.splits option.splits)

lemma match_order_matchedE:
  assumes "match_order po q = Inr r" and "mr_matched r"
  obtains p where "normalize_symbol (rq_symbol (po_request po)) = mq_symbol q"
    and "po_status po \<in> {ACCEPTED, PARTIALLY_FILLED}"
    and "0 < remaining_quantity po" and "mq_available_volume q \<noteq> 0"
    and "execution_price po q = Inr (Some p)"
    and "mr_filled_quantity r = min (remaining_quantity po) (mq_available_volume q)"
    and "mr_remaining_quantity r = dsub (remaining_quantity po) (mr_filled_quantity r)"
    and "mr_execution_price r = Some p" and "mr_timestamp r = mq_timestamp q"
proof -
  have vol: "mq_available_volume q \<noteq> 0"
    using assms by (auto simp: match_order_def Let_def no_match_def res_simps)
  then obtain price where price: "execution_price po q = Inr price"
    using assms by (auto simp: match_order_def Let_def res_simps)
  then obtain p where p: "price = Some p"
    using assms vol by (cases price) (auto simp: match_order_def Let_def no_match_def res_simps)
  show thesis
    using that [of p] assms vol price p
    by (auto simp: match_order_def Let_def res_simps not_le split del: if_split)
qed

lemma match_order_matched:
  assumes "match_order po q = Inr r" and "mr_matched r" and "0 \<le> mq_available_volume q"
  shows "po_status po \<in> {ACCEPTED, PARTIALLY_FILLED}"
    and "normalize_symbol (rq_symbol (po_request po)) = mq_symbol q"
    and "mr_filled_quantity r = min (remaining_quantity po) (mq_available_volume q)"
    and "0 < mr_filled_quantity r" and "mr_filled_quantity r \<le> remaining_quantity po"
    and "mr_execution_price r = Some (market_side_price (rq_side (po_request po)) q)"
    and "price_acceptable (po_request po) (market_side_price (rq_side (po_request po)) q)"
    and "mr_timestamp r = mq_timestamp q"
    and "mr_remaining_quantity r = dsub (remaining_quantity po) (mr_filled_quantity r)"
    and "rq_order_type (po_request po) \<in> {MARKET, LIMIT}"
  by (rule match_order_matchedE [OF assms(1,2)]; use assms(3) in \<open>auto simp: execution_price_Some\<close>)+

text \<open>A stop order is never matched: the matcher raises.\<close>

lemma match_order_stop:
  assumes "rq_order_type (po_request po) \<in> {STOP, STOP_LIMIT}"
    and "normalize_symbol (rq_symbol (po_request po)) = mq_symbol q"
    and "po_status po \<in> {ACCEPTED, PARTIALLY_FILLED}" and "0 < remaining_quantity po"
    and "mq_available_volume q \<noteq> 0"
  shows "match_order po q = Inl unsupported_type_error"
  using assms by (auto simp: match_order_def Let_def execution_price_def split: order_side.splits)

subsection \<open>Properties\<close>

text \<open>
  C27: A match trades at the far side of the quote (ask for a buy, bid for a sell), never
  through the order's limit, for exactly the smaller of the open quantity and the
  quoted volume, which is positive and leaves a nonnegative remainder.
\<close>

theorem match_respects_limit_and_volume:
  assumes "market_quote_post_init q0 = Inr q" and "match_order po q = Inr r" and "mr_matched r"
  shows "mr_execution_price r = Some (market_side_price (rq_side (po_request po)) q) \<and>
    price_acceptable (po_request po) (market_side_price (rq_side (po_request po)) q) \<and>
    0 < mr_filled_quantity r \<and>
    mr_filled_quantity r = min (remaining_quantity po) (mq_available_volume q) \<and>
    0 \<le> mr_remaining_quantity r \<and>
    (is_partial r \<longleftrightarrow> mq_available_volume q < remaining_quantity po)"
proof -
  have q: "0 \<le> mq_available_volume q"
    using market_quote_post_init_ok [OF assms(1)] by (simp add: quote_ok_def)
  note m = match_order_matched [OF assms(2,3) q]
  show ?thesis
    using m(3-7,9) assms(3) by (auto simp: is_partial_def dsub_def)
qed

definition ex_quote :: market_quote where
  "ex_quote = \<lparr>mq_symbol = ''ABC'', mq_bid_price = 9, mq_ask_price = 10,
     mq_available_volume = 4, mq_timestamp = Aware 1 0, mq_last_trade_price = None\<rparr>"

lemma normalize_ABC [simp]: "normalize_symbol ''ABC'' = ''ABC''"
  by (simp add: normalize_symbol_def strip_def lstrip_def is_space_def upper_def upper_char_def)

lemma ex_quote_ok: "market_quote_post_init ex_quote = Inr ex_quote"
  by (simp add: market_quote_post_init_def ex_quote_def)

definition ex_match :: match_result where
  "ex_match = \<lparr>mr_order_id = ''O'', mr_matched = True, mr_filled_quantity = 4,
     mr_remaining_quantity = 6, mr_execution_price = Some 10, mr_slippage = 0,
     mr_timestamp = Aware 1 0, mr_liquidity_flag = Some ''TAKER'', mr_reason = None\<rparr>"

lemma ex_match: "match_order ex_accepted ex_quote = Inr ex_match"
  by (simp add: match_order_def Let_def execution_price_def ex_accepted_def ex_request_def
      ex_quote_def remaining_quantity_def reference_price_def dec_defs ex_match_def)

theorem match_respects_limit_and_volume_witness:
  "0 < mr_filled_quantity ex_match \<and> 0 \<le> mr_remaining_quantity ex_match"
proof -
  have "mr_matched ex_match" by (simp add: ex_match_def)
  from match_respects_limit_and_volume [OF ex_quote_ok ex_match this] show ?thesis by blast
qed

end
