(* ===== verification/Order_Book.thy ===== *)
theory Order_Book
  imports Orders
begin

text \<open>
  \<open>PaperOrderBook\<close> (app/paper\_trading/order\_book.py), the in-memory store of paper
  orders: an insertion-ordered dictionary from order identifiers to orders.  An operation
  takes the book and returns its result or exception together with the book it leaves
  behind, because an exception does not undo what was stored before it.
\<close>

type_synonym order_book = "(string, paper_order) pydict"

definition normalize_order_id :: "string \<Rightarrow> string res" where
  "normalize_order_id oid =
     (if strip oid = [] then Inl (value_error ''order_id is required'') else Inr (strip oid))"

definition ob_normalize_symbol :: "string \<Rightarrow> string res" where
  "ob_normalize_symbol s =
     (if normalize_symbol s = [] then Inl (value_error ''symbol is required'')
      else Inr (normalize_symbol s))"

definition ob_empty :: order_book where
  "ob_empty = []"

definition ob_submit :: "order_book \<Rightarrow> paper_order \<Rightarrow> paper_order res \<times> order_book" where
  "ob_submit b po =
     (case dict_get b (po_order_id po) of
        Some _ \<Rightarrow> (Inl (Raise DuplicateOrderError
                     (''order '' @ po_order_id po @ '' already exists'')), b)
      | None \<Rightarrow> (Inr po, dict_set (po_order_id po) po b))"

definition ob_get :: "order_book \<Rightarrow> string \<Rightarrow> paper_order res" where
  "ob_get b oid = rbind (normalize_order_id oid) (\<lambda>normalized.
     case dict_get b normalized of
       Some po \<Rightarrow> Inr po
     | None \<Rightarrow> Inl (Raise OrderNotFoundError (''order '' @ normalized @ '' was not found'')))"

definition ob_contains :: "order_book \<Rightarrow> string \<Rightarrow> bool res" where
  "ob_contains b oid = rbind (normalize_order_id oid) (\<lambda>normalized.
     Inr (normalized \<in> set (dict_keys b)))"

definition ob_update :: "order_book \<Rightarrow> paper_order \<Rightarrow> paper_order res \<times> order_book" where
  "ob_update b po =
     (case ob_get b (po_order_id po) of
        Inl e \<Rightarrow> (Inl e, b)
      | Inr current \<Rightarrow>
          if \<not> dt_eq (po_created_at po) (po_created_at current)
          then (Inl (Raise OrderBookError ''updated order must preserve created_at''), b)
          else if dt_less (po_updated_at po) (po_updated_at current)
          then (Inl (Raise StaleOrderUpdateError
                  (''order '' @ po_order_id po @ '' update is stale'')), b)
          else (Inr po, dict_set (po_order_id po) po b))"

definition ob_cancel ::
  "order_book \<Rightarrow> string \<Rightarrow> datetime option \<Rightarrow> datetime \<Rightarrow> paper_order res \<times> order_book" where
  "ob_cancel b oid ts now =
     (case rbind (ob_get b oid) (\<lambda>po. cancel_order po ts now) of
        Inl e \<Rightarrow> (Inl e, b)
      | Inr cancelled \<Rightarrow> ob_update b cancelled)"

definition ob_open_orders :: "order_book \<Rightarrow> paper_order list" where
  "ob_open_orders b = filter (\<lambda>po. \<not> is_terminal po) (dict_values b)"

definition ob_open_orders_for_symbol :: "order_book \<Rightarrow> string \<Rightarrow> paper_order list res" where
  "ob_open_orders_for_symbol b s = rbind (ob_normalize_symbol s) (\<lambda>normalized.
     Inr (filter (\<lambda>po. normalize_symbol (rq_symbol (po_request po)) = normalized)
            (ob_open_orders b)))"

definition ob_terminal_orders :: "order_book \<Rightarrow> paper_order list" where
  "ob_terminal_orders b = filter is_terminal (dict_values b)"

definition ob_history :: "order_book \<Rightarrow> paper_order list" where
  "ob_history b = dict_values b"

definition ob_len :: "order_book \<Rightarrow> nat" where
  "ob_len b = length b"

text \<open>The loop of \<open>expire_day_orders\<close> over the tuple of open orders taken at its start.\<close>

fun expire_loop ::
  "paper_order list \<Rightarrow> datetime option \<Rightarrow> datetime \<Rightarrow> order_book \<Rightarrow> paper_order list res \<times> order_book" where
  "expire_loop [] ts now b = (Inr [], b)"
| "expire_loop (po # pos) ts now b =
     (if rq_time_in_force (po_request po) \<noteq> DAY then expire_loop pos ts now b
      else case expire_order po ts now of
        Inl e \<Rightarrow> (Inl e, b)
      | Inr transitioned \<Rightarrow>
          (case ob_update b transitioned of
             (Inl e, b') \<Rightarrow> (Inl e, b')
           | (Inr _, b') \<Rightarrow>
               (case expire_loop pos ts now b' of
                  (Inl e, b'') \<Rightarrow> (Inl e, b'')
                | (Inr expired, b'') \<Rightarrow> (Inr (transitioned # expired), b''))))"

definition ob_expire_day_orders ::
  "order_book \<Rightarrow> datetime option \<Rightarrow> datetime \<Rightarrow> paper_order list res \<times> order_book" where
  "ob_expire_day_orders b ts now = expire_loop (ob_open_orders b) ts now b"

subsection \<open>The book's invariant\<close>

text \<open>
  Every key is the stripped, non-empty identifier of the order stored under it, keys are
  distinct and every stored order is well formed.
\<close>

definition book_inv :: "order_book \<Rightarrow> bool" where
  "book_inv b \<longleftrightarrow> distinct (dict_keys b) \<and>
     (\<forall>k po. dict_get b k = Some po \<longrightarrow> po_order_id po = k \<and> well_formed po)"

lemma book_inv_empty [inv_intros]: "book_inv ob_empty"
  by (simp add: book_inv_def ob_empty_def)

lemma book_inv_set [inv_intros]:
  "book_inv b \<Longrightarrow> well_formed po \<Longrightarrow> book_inv (dict_set (po_order_id po) po b)"
  by (auto simp: book_inv_def)

lemma well_formed_id: "well_formed po \<Longrightarrow> strip (po_order_id po) = po_order_id po \<and> po_order_id po \<noteq> []"
  by (simp add: well_formed_def)

lemma ob_get_wf:
  "well_formed po \<Longrightarrow> ob_get b (po_order_id po) =
     (case dict_get b (po_order_id po) of
        Some po' \<Rightarrow> Inr po'
      | None \<Rightarrow> Inl (Raise OrderNotFoundError (''order '' @ po_order_id po @ '' was not found'')))"
  by (simp add: ob_get_def normalize_order_id_def well_formed_id)

lemma ob_get_Inr: "ob_get b oid = Inr po \<longleftrightarrow> strip oid \<noteq> [] \<and> dict_get b (strip oid) = Some po"
  by (auto simp: ob_get_def normalize_order_id_def res_simps split: option.splits)

lemma ob_submit_cases:
  assumes "ob_submit b po = (r, b')"
  obtains (duplicate) e where "r = Inl e" "b' = b" "dict_get b (po_order_id po) \<noteq> None"
  | (stored) "r = Inr po" "b' = b @ [(po_order_id po, po)]" "dict_get b (po_order_id po) = None"
  using assms by (auto simp: ob_submit_def dict_set_new split: option.splits)

lemma ob_update_cases:
  assumes "ob_update b po = (r, b')"
  obtains (failed) e where "r = Inl e" "b' = b"
  | (stored) cur where "r = Inr po" "b' = dict_set (po_order_id po) po b"
      "dict_get b (strip (po_order_id po)) = Some cur"
      "dt_eq (po_created_at po) (po_created_at cur)"
      "dt_le (po_updated_at cur) (po_updated_at po)"
proof (cases "ob_get b (po_order_id po)")
  case (Inl e)
  with assms show thesis by (intro failed [of e]) (auto simp: ob_update_def)
next
  case (Inr cur)
  with assms failed stored show thesis
    by (auto simp: ob_update_def ob_get_Inr split: if_splits)
qed

lemma ob_update_ok:
  assumes "well_formed po" and "dict_get b (po_order_id po) = Some cur"
    and "dt_eq (po_created_at po) (po_created_at cur)" and "dt_le (po_updated_at cur) (po_updated_at po)"
  shows "ob_update b po = (Inr po, dict_set (po_order_id po) po b)"
  using assms by (simp add: ob_update_def ob_get_wf)

lemma ob_submit_inv: "book_inv b \<Longrightarrow> well_formed po \<Longrightarrow> book_inv (snd (ob_submit b po))"
  by (auto simp: ob_submit_def split: option.splits intro: book_inv_set)

lemma ob_update_inv: "book_inv b \<Longrightarrow> well_formed po \<Longrightarrow> book_inv (snd (ob_update b po))"
  by (cases "ob_update b po") (auto elim!: ob_update_cases intro: book_inv_set)

subsection \<open>What every operation leaves in place\<close>

text \<open>
  The book only grows: identifiers are never removed or reordered, and an order is only
  replaced by one with its identifier, its creation time and a time stamp not before.
\<close>

definition book_extends :: "order_book \<Rightarrow> order_book \<Rightarrow> bool" where
  "book_extends b b' \<longleftrightarrow>
     (\<exists>ks. dict_keys b' = dict_keys b @ ks) \<and>
     (\<forall>k po. dict_get b k = Some po \<longrightarrow>
        (\<exists>po'. dict_get b' k = Some po' \<and> dt_eq (po_created_at po') (po_created_at po) \<and>
           dt_le (po_updated_at po) (po_updated_at po')))"

lemma book_extends_refl [simp]: "book_extends b b"
  by (simp add: book_extends_def)

lemma book_extends_trans: "book_extends a b \<Longrightarrow> book_extends b c \<Longrightarrow> book_extends a c"
  unfolding book_extends_def
proof (elim conjE exE, intro conjI allI impI)
  fix ks ks' assume "dict_keys b = dict_keys a @ ks" "dict_keys c = dict_keys b @ ks'"
  then show "\<exists>ks. dict_keys c = dict_keys a @ ks" by simp
next
  fix k po
  assume "\<forall>k po. dict_get a k = Some po \<longrightarrow> (\<exists>po'. dict_get b k = Some po' \<and>
      dt_eq (po_created_at po') (po_created_at po) \<and> dt_le (po_updated_at po) (po_updated_at po'))"
    and "dict_get a k = Some po"
  then obtain po' where b: "dict_get b k = Some po'" "dt_eq (po_created_at po') (po_created_at po)"
      "dt_le (po_updated_at po) (po_updated_at po')" by blast
  assume "\<forall>k po. dict_get b k = Some po \<longrightarrow> (\<exists>po'. dict_get c k = Some po' \<and>
      dt_eq (po_created_at po') (po_created_at po) \<and> dt_le (po_updated_at po) (po_updated_at po'))"
  with b(1) obtain po'' where c: "dict_get c k = Some po''" "dt_eq (po_created_at po'') (po_created_at po')"
      "dt_le (po_updated_at po') (po_updated_at po'')" by blast
  with b show "\<exists>po'. dict_get c k = Some po' \<and>
      dt_eq (po_created_at po') (po_created_at po) \<and> dt_le (po_updated_at po) (po_updated_at po')"
    by (blast intro: dt_eq_trans dt_le_trans)
qed

lemma ob_submit_extends: "book_extends b (snd (ob_submit b po))"
  by (cases "ob_submit b po", auto elim!: ob_submit_cases)
    (auto simp: book_extends_def)

lemma ob_update_extends:
  assumes "book_inv b" and "strip (po_order_id po) = po_order_id po"
  shows "book_extends b (snd (ob_update b po))"
proof (cases "ob_update b po")
  case (Pair r b')
  then show ?thesis
  proof (cases rule: ob_update_cases)
    case (stored cur)
    then have "po_order_id po \<in> set (dict_keys b)"
      using assms(2) by (metis dict_get_None option.distinct(1))
    with stored Pair assms(2) show ?thesis
      by (auto simp: book_extends_def dict_keys_set)
  qed (use Pair in simp)
qed

lemma cancel_order_Inr:
  "cancel_order po ts now = Inr po' \<Longrightarrow> well_formed po' \<and> strip (po_order_id po') = po_order_id po'"
  by (auto simp: cancel_order_def res_simps paper_order_post_init_Inr)

lemma expire_order_Inr:
  "expire_order po ts now = Inr po' \<Longrightarrow> well_formed po' \<and> strip (po_order_id po') = po_order_id po'"
  by (auto simp: expire_order_def res_simps paper_order_post_init_Inr)

lemma ob_cancel_keeps:
  assumes "book_inv b"
  shows "book_inv (snd (ob_cancel b oid ts now)) \<and> book_extends b (snd (ob_cancel b oid ts now))"
  using assms cancel_order_Inr
  by (auto simp: ob_cancel_def res_simps split: sum.splits intro: ob_update_inv ob_update_extends)

lemma expire_loop_keeps:
  "book_inv b \<Longrightarrow> book_inv (snd (expire_loop pos ts now b)) \<and>
     book_extends b (snd (expire_loop pos ts now b))"
proof (induction pos ts now b rule: expire_loop.induct)
  case (2 po pos ts now b)
  show ?case
  proof (cases "rq_time_in_force (po_request po) = DAY")
    case True
    show ?thesis
    proof (cases "expire_order po ts now")
      case (Inr po')
      obtain r b' where u: "ob_update b po' = (r, b')" by (cases "ob_update b po'")
      have b': "book_inv b'" "book_extends b b'"
        using ob_update_inv [of b po'] ob_update_extends [of b po'] u "2.prems" expire_order_Inr [OF Inr]
        by auto
      show ?thesis
      proof (cases r)
        case r: (Inr x)
        have "book_inv (snd (expire_loop pos ts now b')) \<and> book_extends b' (snd (expire_loop pos ts now b'))"
          using "2.IH"(2) True Inr u r b' by simp
        with b' u r True Inr show ?thesis
          by (auto split: prod.splits sum.splits intro: book_extends_trans)
      qed (use u b' True Inr in simp)
    qed (use True "2.prems" in simp)
  qed (use 2 in simp)
qed simp

subsection \<open>Expiring the open DAY orders\<close>

definition is_open_day :: "paper_order \<Rightarrow> bool" where
  "is_open_day po \<longleftrightarrow> \<not> is_terminal po \<and> rq_time_in_force (po_request po) = DAY"

definition expired_at :: "datetime \<Rightarrow> paper_order \<Rightarrow> paper_order" where
  "expired_at t po = po\<lparr>po_status := EXPIRED, po_updated_at := t\<rparr>"

lemma not_terminal_status:
  "\<not> is_terminal po \<longleftrightarrow> po_status po \<in> {NEW, ACCEPTED, PARTIALLY_FILLED}"
  by (cases "po_status po") (auto simp: is_terminal_def TERMINAL_ORDER_STATUSES_def)

lemma expire_order_open:
  assumes "well_formed po" and "\<not> is_terminal po"
    and "t = (case ts of Some s \<Rightarrow> s | None \<Rightarrow> now)" and "tz_aware t" and "dt_le (po_updated_at po) t"
  shows "expire_order po ts now = Inr (expired_at t po)"
proof -
  have "transition_time po ts now = Inr t"
    using assms(3-5) by (simp add: transition_time_Inr)
  moreover have "require_status po [NEW, ACCEPTED, PARTIALLY_FILLED] EXPIRED = Inr ()"
    using assms(2) by (simp add: require_status_Inr not_terminal_status)
  moreover have "well_formed (expired_at t po)"
    using assms not_terminal_status [of po] unfolding well_formed_def expired_at_def
    by (auto intro: dt_le_trans)
  ultimately show ?thesis
    by (simp add: expire_order_def expired_at_def [symmetric] well_formed_post_init)
qed

definition expire_ids :: "datetime \<Rightarrow> string set \<Rightarrow> order_book \<Rightarrow> order_book" where
  "expire_ids t ids b = map (\<lambda>(k, po). (k, if k \<in> ids then expired_at t po else po)) b"

lemma keys_expire_ids [simp]: "dict_keys (expire_ids t ids b) = dict_keys b"
  by (induction b) (auto simp: expire_ids_def)

lemma get_expire_ids:
  "dict_get (expire_ids t ids b) k =
     map_option (\<lambda>po. if k \<in> ids then expired_at t po else po) (dict_get b k)"
  by (induction b) (auto simp: expire_ids_def)

lemma expire_ids_twice:
  "ids \<inter> ids' = {} \<Longrightarrow> expire_ids t ids' (expire_ids t ids b) = expire_ids t (ids \<union> ids') b"
  by (auto simp: expire_ids_def)

lemma ob_update_expired:
  assumes "book_inv b" and "dict_get b (po_order_id po) = Some po"
    and "tz_aware t" and "dt_le (po_updated_at po) t" and "well_formed (expired_at t po)"
  shows "ob_update b (expired_at t po) = (Inr (expired_at t po), expire_ids t {po_order_id po} b)"
proof -
  have "ob_update b (expired_at t po) =
      (Inr (expired_at t po), dict_set (po_order_id po) (expired_at t po) b)"
    using ob_update_ok [OF assms(5), of b po] assms(2,4) by (simp add: expired_at_def)
  moreover have "dict_set (po_order_id po) (expired_at t po) b = expire_ids t {po_order_id po} b"
    unfolding dict_set_present [OF conjunct1 [OF assms(1) [unfolded book_inv_def]] assms(2)]
      expire_ids_def
  proof (rule map_cong [OF refl], clarsimp)
    fix po' assume "(po_order_id po, po') \<in> set b"
    then have "dict_get b (po_order_id po) = Some po'"
      using assms(1) by (simp add: book_inv_def)
    with assms(2) show "expired_at t po = expired_at t po'" by simp
  qed
  ultimately show ?thesis by simp
qed

lemma expire_loop_all:
  assumes "book_inv b" and "distinct (map po_order_id pos)"
    and "\<forall>po\<in>set pos. dict_get b (po_order_id po) = Some po \<and> \<not> is_terminal po"
    and t: "t = (case ts of Some s \<Rightarrow> s | None \<Rightarrow> now)" "tz_aware t"
    and "\<forall>po\<in>set pos. is_open_day po \<longrightarrow> dt_le (po_updated_at po) t"
  shows "expire_loop pos ts now b =
    (Inr (map (expired_at t) (filter is_open_day pos)),
     expire_ids t (po_order_id ` set (filter is_open_day pos)) b)"
  using assms(1-3,6)
proof (induction pos arbitrary: b)
  case Nil
  then show ?case by (simp add: expire_ids_def)
next
  case (Cons po pos)
  show ?case
  proof (cases "is_open_day po")
    case False
    with Cons show ?thesis by (simp add: is_open_day_def)
  next
    case True
    have wf: "well_formed po"
      using Cons.prems(1,3) by (auto simp: book_inv_def)
    have le: "dt_le (po_updated_at po) t" and nt: "\<not> is_terminal po"
      using Cons.prems(3,4) True by auto
    have ex: "expire_order po ts now = Inr (expired_at t po)"
      using expire_order_open [OF wf nt t le] .
    then have wf': "well_formed (expired_at t po)" by (simp add: expire_order_Inr)
    have up: "ob_update b (expired_at t po) =
        (Inr (expired_at t po), expire_ids t {po_order_id po} b)"
      using ob_update_expired [OF Cons.prems(1) _ t(2) le wf'] Cons.prems(3) by simp
    let ?b = "expire_ids t {po_order_id po} b"
    have inv: "book_inv ?b"
      using ob_update_inv [OF Cons.prems(1) wf'] up by simp
    have ids: "po_order_id po \<notin> po_order_id ` set pos"
      using Cons.prems(2) by simp
    have stored: "\<forall>p\<in>set pos. dict_get ?b (po_order_id p) = Some p \<and> \<not> is_terminal p"
    proof
      fix p assume p: "p \<in> set pos"
      with ids have "po_order_id p \<noteq> po_order_id po" by (metis image_eqI)
      with p Cons.prems(3) show "dict_get ?b (po_order_id p) = Some p \<and> \<not> is_terminal p"
        by (simp add: get_expire_ids)
    qed
    have "expire_loop pos ts now ?b =
        (Inr (map (expired_at t) (filter is_open_day pos)),
         expire_ids t (po_order_id ` set (filter is_open_day pos)) ?b)"
      using Cons.prems(2,4) stored by (intro Cons.IH [OF inv]) simp_all
    moreover have "{po_order_id po} \<inter> po_order_id ` set (filter is_open_day pos) = {}"
      using ids by auto
    moreover have "rq_time_in_force (po_request po) = DAY"
      using True by (simp add: is_open_day_def)
    ultimately show ?thesis
      using True by (simp add: ex up expire_ids_twice)
  qed
qed

lemma open_orders_stored:
  assumes "book_inv b"
  shows "distinct (map po_order_id (ob_open_orders b))"
    and "\<forall>po\<in>set (ob_open_orders b). dict_get b (po_order_id po) = Some po \<and> \<not> is_terminal po"
proof -
  have k: "po_order_id po = k" if "(k, po) \<in> set b" for k po
    using assms that by (simp add: book_inv_def)
  then have "map po_order_id (dict_values b) = dict_keys b" by auto
  then have "distinct (map po_order_id (dict_values b))"
    using assms by (simp only: book_inv_def)
  then show "distinct (map po_order_id (ob_open_orders b))"
    unfolding ob_open_orders_def by (rule distinct_map_filter)
  show "\<forall>po\<in>set (ob_open_orders b). dict_get b (po_order_id po) = Some po \<and> \<not> is_terminal po"
    using assms k by (auto simp: ob_open_orders_def book_inv_def)
qed

subsection \<open>The book as a stepping component\<close>

text \<open>
  A call on the book.  Orders passed to \<open>submit\<close> and \<open>update\<close> are \<open>PaperOrder\<close> objects,
  so their constructor has run; the book after the call is the state whether or not the
  call raised.
\<close>

datatype book_call =
    Submit paper_order
  | Update paper_order
  | CancelOrder string "datetime option"
  | ExpireDayOrders "datetime option"

fun book_step :: "datetime \<Rightarrow> order_book \<Rightarrow> book_call \<Rightarrow> order_book res" where
  "book_step now b (Submit po) = rbind (paper_order_post_init po) (\<lambda>po. Inr (snd (ob_submit b po)))"
| "book_step now b (Update po) = rbind (paper_order_post_init po) (\<lambda>po. Inr (snd (ob_update b po)))"
| "book_step now b (CancelOrder oid ts) = Inr (snd (ob_cancel b oid ts now))"
| "book_step now b (ExpireDayOrders ts) = Inr (snd (ob_expire_day_orders b ts now))"

lemma book_step_keeps:
  assumes "book_inv b" and "book_step now b c = Inr b'"
  shows "book_inv b' \<and> book_extends b b'"
proof (cases c)
  case (Submit po)
  with assms show ?thesis
    by (auto simp: res_simps paper_order_post_init_Inr intro: ob_submit_inv ob_submit_extends)
next
  case (Update po)
  with assms show ?thesis
    by (auto simp: res_simps paper_order_post_init_Inr intro: ob_update_inv)
      (auto simp: well_formed_def intro: ob_update_extends)
next
  case (CancelOrder oid ts)
  with assms ob_cancel_keeps show ?thesis by auto
next
  case (ExpireDayOrders ts)
  with assms expire_loop_keeps show ?thesis by (auto simp: ob_expire_day_orders_def)
qed

interpretation book: monotone_stepping "book_step now" book_inv book_extends for now
  by unfold_locales
    (fact conjunct1 [OF book_step_keeps] conjunct2 [OF book_step_keeps] book_extends_refl
      book_extends_trans)+

subsection \<open>Properties\<close>

text \<open>
  C11: Over any sequence of calls on the book, failing ones included, identifiers stay
  unique and equal to the identifiers of the orders stored under them, no order is ever
  lost or moved, and the time stamps of every stored order only grow.
\<close>

theorem order_book_invariant:
  assumes "run (book_step now) ob_empty calls = Inr b"
    and "run (book_step now) b calls' = Inr b'"
  shows "book_inv b' \<and> book_extends b b'"
proof -
  have "book_inv b" using book_inv_empty assms(1) by (rule book.run_good)
  with assms(2) show ?thesis by (blast intro: book.run_good book.run_rel)
qed

text \<open>
  C28: \<open>expire_day_orders\<close> at a time stamp not before any open DAY order returns exactly
  the open DAY orders, expired, in insertion order, leaves no open DAY order behind and
  changes no other order.
\<close>

theorem expire_day_orders_exact:
  assumes inv: "book_inv b" and "tz_aware t"
    and "\<forall>po\<in>set (ob_open_orders b). is_open_day po \<longrightarrow> dt_le (po_updated_at po) t"
  shows "fst (ob_expire_day_orders b (Some t) now) =
      Inr (map (expired_at t) (filter is_open_day (ob_open_orders b))) \<and>
    filter is_open_day (ob_open_orders (snd (ob_expire_day_orders b (Some t) now))) = [] \<and>
    (\<forall>k po. dict_get b k = Some po \<longrightarrow> \<not> is_open_day po \<longrightarrow>
       dict_get (snd (ob_expire_day_orders b (Some t) now)) k = Some po)"
proof -
  define ids where "ids = po_order_id ` set (filter is_open_day (ob_open_orders b))"
  have ex: "ob_expire_day_orders b (Some t) now =
      (Inr (map (expired_at t) (filter is_open_day (ob_open_orders b))), expire_ids t ids b)"
    unfolding ob_expire_day_orders_def ids_def
    using assms open_orders_stored [OF inv] by (intro expire_loop_all) auto
  have ids: "k \<in> ids \<longleftrightarrow> is_open_day po" if "dict_get b k = Some po" for k po
  proof
    assume "k \<in> ids"
    then obtain po' where "po' \<in> set (ob_open_orders b)" "is_open_day po'" "k = po_order_id po'"
      by (auto simp: ids_def)
    with that open_orders_stored(2) [OF inv] show "is_open_day po" by auto
  next
    assume "is_open_day po"
    then have "po \<in> set (filter is_open_day (ob_open_orders b))"
      using dict_get_in [OF that] by (simp add: ob_open_orders_def is_open_day_def)
    moreover have "k = po_order_id po" using inv that by (simp add: book_inv_def)
    ultimately show "k \<in> ids" unfolding ids_def by blast
  qed
  have none: "\<not> is_open_day po" if po: "po \<in> set (dict_values (expire_ids t ids b))" for po
  proof -
    have "distinct (dict_keys (expire_ids t ids b))" using inv by (simp add: book_inv_def)
    with po obtain k where "dict_get (expire_ids t ids b) k = Some po"
      using in_dict_values [of "expire_ids t ids b" po] by blast
    then obtain po' where k: "dict_get b k = Some po'"
      and "po = (if k \<in> ids then expired_at t po' else po')"
      by (auto simp: get_expire_ids)
    with ids [OF k] show ?thesis
      by (auto simp: is_open_day_def expired_at_def is_terminal_def TERMINAL_ORDER_STATUSES_def)
  qed
  then have "filter is_open_day (ob_open_orders (expire_ids t ids b)) = []"
    by (simp add: filter_empty_conv ob_open_orders_def)
  moreover have "dict_get (expire_ids t ids b) k = Some po"
    if "dict_get b k = Some po" "\<not> is_open_day po" for k po
    using ids [OF that(1)] that by (simp add: get_expire_ids)
  ultimately show ?thesis
    unfolding ex fst_conv snd_conv by blast
qed

text \<open>
  Cancelling a stored open order at a valid time returns it cancelled, replaces
  exactly that entry, and makes every later cancellation of it raise
  \<open>InvalidOrderTransitionError\<close>.
\<close>

theorem cancel_order_effect:
  assumes inv: "book_inv b" and get: "dict_get b oid = Some po" and "\<not> is_terminal po"
    and "tz_aware t" and "dt_le (po_updated_at po) t"
  shows "\<exists>po' b'. ob_cancel b oid (Some t) now = (Inr po', b') \<and>
    po' = po\<lparr>po_status := CANCELLED, po_updated_at := t\<rparr> \<and>
    dict_get b' = (dict_get b)(oid \<mapsto> po') \<and>
    (\<exists>msg. ob_cancel b' oid (Some t') now' = (Inl (Raise InvalidOrderTransitionError msg), b'))"
proof -
  have wf: "well_formed po" and oid: "po_order_id po = oid"
    using inv get by (auto simp: book_inv_def)
  define po' where "po' = po\<lparr>po_status := CANCELLED, po_updated_at := t\<rparr>"
  have wf': "well_formed po'"
    using wf assms not_terminal_status [of po] unfolding well_formed_def po'_def
    by (auto intro: dt_le_trans)
  have s: "strip oid = oid" "oid \<noteq> []" using well_formed_id [OF wf] oid by auto
  have c: "cancel_order po (Some t) now = Inr po'"
    using assms not_terminal_status [of po] wf'
    by (simp add: cancel_order_def po'_def [symmetric] well_formed_post_init require_status_def
        transition_time_def validate_transition_time_def)
  have get': "ob_get b oid = Inr po" using get s by (simp add: ob_get_Inr)
  have up: "ob_update b po' = (Inr po', dict_set oid po' b)"
    using ob_update_ok [OF wf', of b po] get oid assms(5) by (simp add: po'_def)
  have first: "ob_cancel b oid (Some t) now = (Inr po', dict_set oid po' b)"
    by (simp add: ob_cancel_def get' c up)
  have "ob_get (dict_set oid po' b) oid = Inr po'" using s by (simp add: ob_get_Inr)
  moreover have "\<exists>msg. cancel_order po' (Some t') now' = Inl (Raise InvalidOrderTransitionError msg)"
    by (simp add: cancel_order_def require_status_def po'_def)
  ultimately have "\<exists>msg. ob_cancel (dict_set oid po' b) oid (Some t') now' =
      (Inl (Raise InvalidOrderTransitionError msg), dict_set oid po' b)"
    by (auto simp: ob_cancel_def)
  with first show ?thesis
    unfolding po'_def [symmetric] by (auto simp: fun_eq_iff)
qed

definition ex_book :: order_book where
  "ex_book = [(''O'', ex_accepted)]"

lemma ex_book_inv: "book_inv ex_book"
  using ex_accepted_inv by (simp add: book_inv_def ex_book_def order_inv_def ex_accepted_def)

lemma ex_accepted_not_terminal: "\<not> is_terminal ex_accepted"
  by (simp add: is_terminal_def TERMINAL_ORDER_STATUSES_def ex_accepted_def)

theorem order_book_invariant_witness:
  "book_inv (snd (ob_cancel ex_book ''O'' None (Aware 3 0))) \<and>
     book_extends ex_book (snd (ob_cancel ex_book ''O'' None (Aware 3 0)))"
proof -
  have "paper_order_post_init ex_accepted = Inr ex_accepted"
    using ex_accepted_inv by (simp add: order_inv_def well_formed_post_init)
  then have 1: "run (book_step (Aware 3 0)) ob_empty [Submit ex_accepted] = Inr ex_book"
    by (simp add: ob_submit_def ob_empty_def ex_book_def ex_accepted_def)
  have 2: "run (book_step (Aware 3 0)) ex_book [CancelOrder ''O'' None] =
      Inr (snd (ob_cancel ex_book ''O'' None (Aware 3 0)))"
    by simp
  show ?thesis using order_book_invariant [OF 1 2] .
qed

theorem expire_day_orders_exact_witness:
  "fst (ob_expire_day_orders ex_book (Some (Aware 3 0)) (Aware 9 0)) =
     Inr [expired_at (Aware 3 0) ex_accepted]"
proof -
  have op: "ob_open_orders ex_book = [ex_accepted]"
    using ex_accepted_not_terminal by (simp add: ob_open_orders_def ex_book_def)
  have day: "is_open_day ex_accepted"
    using ex_accepted_not_terminal by (simp add: is_open_day_def ex_accepted_def ex_request_def)
  have "\<forall>po\<in>set (ob_open_orders ex_book). is_open_day po \<longrightarrow> dt_le (po_updated_at po) (Aware 3 0)"
    by (simp add: op) (simp add: ex_accepted_def dt_le_def)
  from expire_day_orders_exact [OF ex_book_inv _ this] op day show ?thesis by simp
qed

theorem cancel_order_effect_witness:
  "\<exists>po' b'. ob_cancel ex_book ''O'' (Some (Aware 3 0)) (Aware 9 0) = (Inr po', b') \<and>
     po_status po' = CANCELLED"
proof -
  have g: "dict_get ex_book ''O'' = Some ex_accepted" by (simp add: ex_book_def)
  have t: "dt_le (po_updated_at ex_accepted) (Aware 3 0)" by (simp add: ex_accepted_def dt_le_def)
  show ?thesis
    using cancel_order_effect [OF ex_book_inv g ex_accepted_not_terminal _ t] by fastforce
qed

end
