(* ===== verification/Execution_Engine.thy ===== *)
theory Execution_Engine
  imports Matching Order_Book
begin

text \<open>
  \<open>PaperExecutionEngine\<close> (app/paper\_trading/execution\_engine.py): the loop that matches one
  quote against the open orders of its symbol, applies the fills and stores the results.
  The order book is an injected dependency; the loop is stated over its \<open>update\<close>
  operation, the laws it needs of a store are the locale \<open>order_store\<close>, and the book of
  \<open>Order_Book\<close> is the interpretation.
\<close>

subsection \<open>Reports\<close>

text \<open>A formatted message: literal text, and Decimals left unprinted.\<close>

datatype msg_part = Txt string | Num rat

record execution_report =
  er_order :: paper_order
  er_match_result :: "match_result option"
  er_fills :: "fill list"
  er_message :: "msg_part list"

definition er_matched :: "execution_report \<Rightarrow> bool" where
  "er_matched r = (case er_match_result r of Some m \<Rightarrow> mr_matched m | None \<Rightarrow> False)"

definition fill_message :: "paper_order \<Rightarrow> fill \<Rightarrow> msg_part list" where
  "fill_message po f =
     [Txt (''Order '' @ po_order_id po @ '' '' @
        (if po_status po = FILLED then ''filled'' else ''partially filled'') @ '': ''),
      Num (f_quantity f), Txt '' at '', Num (f_price f)]"

definition not_filled_report :: "paper_order \<Rightarrow> match_result \<Rightarrow> execution_report" where
  "not_filled_report po r =
     \<lparr>er_order = po, er_match_result = Some r, er_fills = [],
      er_message = [Txt (''Order '' @ po_order_id po @ '' was not filled: '' @
        (case mr_reason r of Some s \<Rightarrow> s | None \<Rightarrow> ''None''))]\<rparr>"

definition fill_report :: "paper_order \<Rightarrow> match_result \<Rightarrow> execution_report" where
  "fill_report updated r =
     \<lparr>er_order = updated, er_match_result = Some r, er_fills = [last (po_fills updated)],
      er_message = fill_message updated (last (po_fills updated))\<rparr>"

definition plain_report :: "paper_order \<Rightarrow> string \<Rightarrow> execution_report" where
  "plain_report po verb =
     \<lparr>er_order = po, er_match_result = None, er_fills = [],
      er_message = [Txt (''Order '' @ po_order_id po @ '' '' @ verb)]\<rparr>"

subsection \<open>The quote loop\<close>

text \<open>
  \<open>put\<close> is the book's \<open>update\<close>, \<open>raw_ids\<close> the successive results of the fill-id factory
  (its argument counts the fills made so far) and \<open>now\<close> the clock.  The first component
  is the tuple of reports or the exception, the second the store that is left.
\<close>

definition match_fill_args :: "match_result \<Rightarrow> string \<Rightarrow> fill_args" where
  "match_fill_args r raw_id =
     \<lparr>fa_at = Some (mr_timestamp r), fa_commission = 0, fa_slippage = mr_slippage r,
      fa_venue = None, fa_liquidity_flag = mr_liquidity_flag r, fa_raw_fill_id = raw_id\<rparr>"

fun process_loop ::
  "('s \<Rightarrow> paper_order \<Rightarrow> paper_order res \<times> 's) \<Rightarrow> (nat \<Rightarrow> string) \<Rightarrow> datetime \<Rightarrow> market_quote \<Rightarrow>
   nat \<Rightarrow> paper_order list \<Rightarrow> 's \<Rightarrow> execution_report list res \<times> 's" where
  "process_loop put raw_ids now q n [] s = (Inr [], s)"
| "process_loop put raw_ids now q n (po # pos) s =
     (case match_order po q of
        Inl e \<Rightarrow> (Inl e, s)
      | Inr r \<Rightarrow>
        if \<not> mr_matched r then
          (case process_loop put raw_ids now q n pos s of
             (Inl e, s') \<Rightarrow> (Inl e, s')
           | (Inr reports, s') \<Rightarrow> (Inr (not_filled_report po r # reports), s'))
        else (case mr_execution_price r of
          None \<Rightarrow> (Inl (Raise ExecutionEngineError
                    ''matched result did not contain an execution price''), s)
        | Some price \<Rightarrow>
          (case apply_fill po (mr_filled_quantity r) price (match_fill_args r (raw_ids n)) now of
             Inl e \<Rightarrow> (Inl e, s)
           | Inr updated \<Rightarrow>
             (case put s updated of
                (Inl e, s') \<Rightarrow> (Inl e, s')
              | (Inr _, s') \<Rightarrow>
                (case process_loop put raw_ids now q (Suc n) pos s' of
                   (Inl e, s'') \<Rightarrow> (Inl e, s'')
                 | (Inr reports, s'') \<Rightarrow> (Inr (fill_report updated r # reports), s''))))))"

definition process_quote ::
  "(nat \<Rightarrow> string) \<Rightarrow> datetime \<Rightarrow> order_book \<Rightarrow> market_quote \<Rightarrow>
   execution_report list res \<times> order_book" where
  "process_quote raw_ids now b q =
     (case ob_open_orders_for_symbol b (mq_symbol q) of
        Inl e \<Rightarrow> (Inl e, b)
      | Inr pos \<Rightarrow> process_loop ob_update raw_ids now q 0 pos b)"

definition engine_submit :: "order_book \<Rightarrow> paper_order \<Rightarrow> execution_report res \<times> order_book" where
  "engine_submit b po =
     (if po_status po \<noteq> ACCEPTED
      then (Inl (Raise ExecutionEngineError ''only accepted orders can be submitted''), b)
      else case ob_submit b po of
        (Inl e, b') \<Rightarrow> (Inl e, b')
      | (Inr stored, b') \<Rightarrow> (Inr (plain_report stored ''submitted''), b'))"

definition engine_cancel ::
  "order_book \<Rightarrow> string \<Rightarrow> datetime option \<Rightarrow> datetime \<Rightarrow> execution_report res \<times> order_book" where
  "engine_cancel b oid ts now =
     (case ob_cancel b oid ts now of
        (Inl e, b') \<Rightarrow> (Inl e, b')
      | (Inr cancelled, b') \<Rightarrow> (Inr (plain_report cancelled ''cancelled''), b'))"

definition engine_expire_day_orders ::
  "order_book \<Rightarrow> datetime option \<Rightarrow> datetime \<Rightarrow> execution_report list res \<times> order_book" where
  "engine_expire_day_orders b ts now =
     (case ob_expire_day_orders b ts now of
        (Inl e, b') \<Rightarrow> (Inl e, b')
      | (Inr expired, b') \<Rightarrow> (Inr (map (\<lambda>po. plain_report po ''expired'') expired), b'))"

subsection \<open>One trade\<close>

text \<open>What a quote may do to one order: one more fill, at the far side of the quote, within
  the limit, the open quantity and the quoted volume.\<close>

definition traded :: "market_quote \<Rightarrow> paper_order \<Rightarrow> paper_order \<Rightarrow> bool" where
  "traded q po po' \<longleftrightarrow> well_formed po' \<and> po_order_id po' = po_order_id po \<and>
     po_request po' = po_request po \<and>
     (\<exists>f. po_fills po' = po_fills po @ [f] \<and>
        0 < f_quantity f \<and> f_quantity f \<le> mq_available_volume q \<and>
        f_quantity f \<le> remaining_quantity po \<and>
        f_price f = market_side_price (rq_side (po_request po)) q \<and>
        price_acceptable (po_request po) (f_price f))"

lemma fill_post_init_values:
  "fill_post_init f = Inr f' \<Longrightarrow> f_quantity f' = f_quantity f \<and> f_price f' = f_price f"
  by (simp add: fill_post_init_Inr(5,6))

lemma apply_fill_Inr:
  assumes "apply_fill po qty p a now = Inr po'" and "well_formed po"
  shows "well_formed po'" and "po_order_id po' = po_order_id po"
    and "po_request po' = po_request po"
    and "\<exists>f. po_fills po' = po_fills po @ [f] \<and> f_quantity f = qty \<and> f_price f = p"
  using assms well_formed_id [OF assms(2)]
  by (auto simp: apply_fill_def res_simps paper_order_post_init_Inr Let_def
      dest!: fill_post_init_values)

lemma match_traded:
  assumes "match_order po q = Inr r" and "mr_matched r" and "0 \<le> mq_available_volume q"
    and "mr_execution_price r = Some price" and "well_formed po"
    and "apply_fill po (mr_filled_quantity r) price a now = Inr po'"
  shows "traded q po po'"
proof -
  note m = match_order_matched [OF assms(1-3)]
  have price: "price = market_side_price (rq_side (po_request po)) q"
    using m(6) assms(4) by simp
  obtain f where f: "po_fills po' = po_fills po @ [f]" "f_quantity f = mr_filled_quantity r"
    "f_price f = price"
    using apply_fill_Inr(4) [OF assms(6,5)] by blast
  have "mr_filled_quantity r \<le> mq_available_volume q"
    using m(3) by simp
  then show ?thesis
    unfolding traded_def
    using f m(4,5,7) price apply_fill_Inr(1-3) [OF assms(6,5)] by auto
qed

subsection \<open>The store interface\<close>

locale order_store =
  fixes lookup :: "'s \<Rightarrow> string \<Rightarrow> paper_order option"
    and put :: "'s \<Rightarrow> paper_order \<Rightarrow> paper_order res \<times> 's"
    and good :: "'s \<Rightarrow> bool"
  assumes put_failed: "put s po = (Inl e, s') \<Longrightarrow> s' = s"
    and put_stored: "good s \<Longrightarrow> well_formed po \<Longrightarrow> put s po = (Inr r, s') \<Longrightarrow>
      good s' \<and> lookup s' = (lookup s)(po_order_id po \<mapsto> po)"
    and good_wf: "good s \<Longrightarrow> lookup s k = Some po \<Longrightarrow> well_formed po \<and> po_order_id po = k"
begin

lemma process_loop_safe:
  assumes "good s" and "distinct (map po_order_id pos)"
    and "\<forall>po\<in>set pos. lookup s (po_order_id po) = Some po"
    and "0 \<le> mq_available_volume q"
    and "process_loop put raw_ids now q n pos s = (res, s')"
  shows "good s' \<and>
    (\<forall>k. k \<notin> po_order_id ` set pos \<longrightarrow> lookup s' k = lookup s k) \<and>
    (\<forall>po\<in>set pos. lookup s' (po_order_id po) = Some po \<or>
       (\<exists>po'. lookup s' (po_order_id po) = Some po' \<and> traded q po po')) \<and>
    (\<forall>reports. res = Inr reports \<longrightarrow>
       map (lookup s' \<circ> po_order_id) pos = map (Some \<circ> er_order) reports)"
  using assms
proof (induction pos arbitrary: n s res s')
  case Nil
  then show ?case by auto
next
  case (Cons po pos)
  have wf: "well_formed po" using Cons.prems(1,3) good_wf by auto
  show ?case
  proof (cases "match_order po q")
    case (Inl e)
    with Cons.prems show ?thesis by auto
  next
    case (Inr r)
    show ?thesis
    proof (cases "mr_matched r")
      case False
      obtain res1 s1 where l: "process_loop put raw_ids now q n pos s = (res1, s1)"
        by (cases "process_loop put raw_ids now q n pos s")
      have s': "s' = s1" and res: "res = (case res1 of Inl e \<Rightarrow> Inl e
          | Inr reports \<Rightarrow> Inr (not_filled_report po r # reports))"
        using Cons.prems(5) Inr False l by (auto split: sum.splits)
      have "po_order_id po \<notin> po_order_id ` set pos" using Cons.prems(2) by simp
      then show ?thesis
        using Cons.IH [OF Cons.prems(1) _ _ Cons.prems(4) l] Cons.prems(2,3) s' res
        by (auto simp: not_filled_report_def split: sum.splits)
    next
      case True
      obtain price where price: "mr_execution_price r = Some price"
        using match_order_matched(6) [OF Inr True Cons.prems(4)] by blast
      show ?thesis
      proof (cases "apply_fill po (mr_filled_quantity r) price (match_fill_args r (raw_ids n)) now")
        case (Inl e)
        with Cons.prems Inr True price show ?thesis by auto
      next
        case up: (Inr updated)
        have tr: "traded q po updated"
          using match_traded [OF Inr True Cons.prems(4) price wf up] .
        then have wf': "well_formed updated" and id: "po_order_id updated = po_order_id po"
          by (simp_all add: traded_def)
        obtain pr s1 where p: "put s updated = (pr, s1)" by (cases "put s updated")
        show ?thesis
        proof (cases pr)
          case (Inl e)
          with p have "s1 = s" by (simp add: put_failed)
          with Cons.prems Inr True price up p \<open>pr = Inl e\<close> show ?thesis by auto
        next
          case pr: (Inr x)
          have s1: "good s1" "lookup s1 = (lookup s)(po_order_id po \<mapsto> updated)"
            using put_stored [OF Cons.prems(1) wf'] p pr id by auto
          have ids: "po_order_id po \<notin> po_order_id ` set pos" using Cons.prems(2) by simp
          have pos: "\<forall>p\<in>set pos. lookup s1 (po_order_id p) = Some p"
            using Cons.prems(3) ids s1(2) by (metis fun_upd_other image_eqI list.set_intros(2))
          obtain res1 s2 where l: "process_loop put raw_ids now q (Suc n) pos s1 = (res1, s2)"
            by (cases "process_loop put raw_ids now q (Suc n) pos s1")
          have s': "s' = s2" and res: "res = (case res1 of Inl e \<Rightarrow> Inl e
              | Inr reports \<Rightarrow> Inr (fill_report updated r # reports))"
            using Cons.prems(5) Inr True price up p pr l by (auto split: sum.splits)
          have ih: "good s2 \<and>
            (\<forall>k. k \<notin> po_order_id ` set pos \<longrightarrow> lookup s2 k = lookup s1 k) \<and>
            (\<forall>po\<in>set pos. lookup s2 (po_order_id po) = Some po \<or>
               (\<exists>po'. lookup s2 (po_order_id po) = Some po' \<and> traded q po po')) \<and>
            (\<forall>reports. res1 = Inr reports \<longrightarrow>
               map (lookup s2 \<circ> po_order_id) pos = map (Some \<circ> er_order) reports)"
            using Cons.IH [OF s1(1) _ pos Cons.prems(4) l] Cons.prems(2) by (simp add: comp_def)
          then have "lookup s2 (po_order_id po) = Some updated"
            using ids s1(2) by simp
          with ih ids s1(2) s' res tr show ?thesis
            by (auto simp: fill_report_def comp_def split: sum.splits)
        qed
      qed
    qed
  qed
qed

end

interpretation book_store: order_store dict_get ob_update book_inv
proof unfold_locales
  show "ob_update s po = (Inl e, s') \<Longrightarrow> s' = s" for s po e s'
    by (auto elim: ob_update_cases)
  show "book_inv s \<Longrightarrow> well_formed po \<Longrightarrow> ob_update s po = (Inr r, s') \<Longrightarrow>
      book_inv s' \<and> dict_get s' = (dict_get s)(po_order_id po \<mapsto> po)" for s po r s'
    using ob_update_inv [of s po] by (auto elim!: ob_update_cases simp: fun_eq_iff)
  show "book_inv s \<Longrightarrow> dict_get s k = Some po \<Longrightarrow> well_formed po \<and> po_order_id po = k" for s k po
    by (simp add: book_inv_def)
qed

subsection \<open>Properties\<close>

lemma open_for_symbol:
  assumes "book_inv b" and "ob_open_orders_for_symbol b s = Inr pos"
  shows "distinct (map po_order_id pos)"
    and "\<forall>po\<in>set pos. dict_get b (po_order_id po) = Some po \<and> \<not> is_terminal po \<and>
      normalize_symbol (rq_symbol (po_request po)) = normalize_symbol s"
  using assms open_orders_stored [OF assms(1)]
  by (auto simp: ob_open_orders_for_symbol_def ob_normalize_symbol_def res_simps distinct_map_filter)

text \<open>
  C15: Processing a quote, whether it succeeds or raises part-way, keeps the book's
  invariant and touches only open orders of the quote's symbol, each of which it leaves
  alone or fills exactly once, at the far side of the quote, within its limit, its open
  quantity and the quoted volume; on success there is one report per open order of the
  symbol, in book order, carrying the order as it is then stored.
\<close>

theorem process_quote_sound:
  assumes q: "market_quote_post_init q0 = Inr q" and inv: "book_inv b"
    and run: "process_quote raw_ids now b q = (res, b')"
  shows "book_inv b' \<and>
    (\<forall>k po. dict_get b k = Some po \<longrightarrow>
       dict_get b' k = Some po \<or>
       (\<not> is_terminal po \<and> normalize_symbol (rq_symbol (po_request po)) = mq_symbol q \<and>
        (\<exists>po'. dict_get b' k = Some po' \<and> traded q po po'))) \<and>
    (\<forall>reports pos. res = Inr reports \<longrightarrow> ob_open_orders_for_symbol b (mq_symbol q) = Inr pos \<longrightarrow>
       map (dict_get b' \<circ> po_order_id) pos = map (Some \<circ> er_order) reports)"
proof -
  have qok: "quote_ok q" using q by (rule market_quote_post_init_ok)
  then obtain pos where pos: "ob_open_orders_for_symbol b (mq_symbol q) = Inr pos"
    by (auto simp: ob_open_orders_for_symbol_def ob_normalize_symbol_def quote_ok_def)
  note o = open_for_symbol [OF inv pos]
  have l: "process_loop ob_update raw_ids now q 0 pos b = (res, b')"
    using run pos by (simp add: process_quote_def)
  have vol: "0 \<le> mq_available_volume q" using qok by (simp add: quote_ok_def)
  have safe: "book_inv b' \<and>
    (\<forall>k. k \<notin> po_order_id ` set pos \<longrightarrow> dict_get b' k = dict_get b k) \<and>
    (\<forall>po\<in>set pos. dict_get b' (po_order_id po) = Some po \<or>
       (\<exists>po'. dict_get b' (po_order_id po) = Some po' \<and> traded q po po')) \<and>
    (\<forall>reports. res = Inr reports \<longrightarrow>
       map (dict_get b' \<circ> po_order_id) pos = map (Some \<circ> er_order) reports)"
    using o by (intro book_store.process_loop_safe [OF inv _ _ vol l]) auto
  have "dict_get b' k = Some po \<or>
       (\<not> is_terminal po \<and> normalize_symbol (rq_symbol (po_request po)) = mq_symbol q \<and>
        (\<exists>po'. dict_get b' k = Some po' \<and> traded q po po'))" if k: "dict_get b k = Some po" for k po
  proof (cases "k \<in> po_order_id ` set pos")
    case False
    with safe k show ?thesis by simp
  next
    case True
    then obtain po2 where p: "po2 \<in> set pos" "k = po_order_id po2" by auto
    with o(2) k have "po2 = po" by auto
    with p safe o(2) qok show ?thesis by (auto simp: quote_ok_def)
  qed
  with safe pos show ?thesis by auto
qed

text \<open>
  C29: A stop or stop-limit order that is first in line for its symbol blocks the book:
  every quote with volume raises \<open>MatchingError\<close> before any other order is looked at,
  and nothing is filled.
\<close>

theorem stop_order_blocks_quotes:
  assumes "quote_ok q" and "book_inv b"
    and "ob_open_orders_for_symbol b (mq_symbol q) = Inr (po # pos)"
    and "rq_order_type (po_request po) \<in> {STOP, STOP_LIMIT}"
    and "po_status po \<noteq> NEW" and "0 < remaining_quantity po" and "mq_available_volume q \<noteq> 0"
  shows "process_quote raw_ids now b q = (Inl unsupported_type_error, b)"
proof -
  have "\<not> is_terminal po" "normalize_symbol (rq_symbol (po_request po)) = mq_symbol q"
    using open_for_symbol(2) [OF assms(2,3)] assms(1) by (auto simp: quote_ok_def)
  moreover from this have "po_status po \<in> {ACCEPTED, PARTIALLY_FILLED}"
    using assms(5) by (auto simp: not_terminal_status)
  ultimately have "match_order po q = Inl unsupported_type_error"
    using assms(4,6,7) by (intro match_order_stop) auto
  then show ?thesis using assms(3) by (simp add: process_quote_def)
qed

definition ex_second :: paper_order where
  "ex_second = ex_accepted\<lparr>po_order_id := ''P''\<rparr>"

definition ex_book2 :: order_book where
  "ex_book2 = [(''O'', ex_accepted), (''P'', ex_second)]"

definition ex_stop :: paper_order where
  "ex_stop = ex_accepted\<lparr>po_request := ex_request\<lparr>rq_order_type := STOP, rq_stop_price := Some 7\<rparr>\<rparr>"

definition ex_stop_book :: order_book where
  "ex_stop_book = [(''O'', ex_stop), (''P'', ex_second)]"

lemma strip_P: "strip ''P'' = ''P''"
  by (simp add: strip_def lstrip_def is_space_def)

lemma ex_books_inv: "book_inv ex_book2" "book_inv ex_stop_book"
  by (auto simp: book_inv_def ex_book2_def ex_stop_book_def ex_stop_def ex_second_def
      well_formed_def ex_accepted_def ex_request_def strip_O strip_P)

lemma ex_open2:
  "ob_open_orders_for_symbol ex_book2 ''ABC'' = Inr [ex_accepted, ex_second]"
  "ob_open_orders_for_symbol ex_stop_book ''ABC'' = Inr [ex_stop, ex_second]"
  by (simp_all add: ob_open_orders_for_symbol_def ob_normalize_symbol_def ob_open_orders_def
      ex_book2_def ex_stop_book_def ex_stop_def ex_second_def is_terminal_def
      TERMINAL_ORDER_STATUSES_def ex_accepted_def ex_request_def)

definition ex_filled :: paper_order where
  "ex_filled = ex_accepted\<lparr>po_status := PARTIALLY_FILLED, po_updated_at := Aware 1 0,
     po_filled_quantity := 4, po_average_fill_price := Some 10,
     po_fills := [\<lparr>f_fill_id = ''F'', f_order_id = ''O'', f_quantity = 4, f_price = 10,
       f_timestamp = Aware 1 0, f_commission = 0, f_slippage = 0,
       f_venue = None, f_liquidity_flag = Some ''TAKER''\<rparr>]\<rparr>"

definition ex_filled2 :: paper_order where
  "ex_filled2 = ex_filled\<lparr>po_order_id := ''P'',
     po_fills := map (f_order_id_update (\<lambda>_. ''P'')) (po_fills ex_filled)\<rparr>"

definition ex_match2 :: match_result where
  "ex_match2 = ex_match\<lparr>mr_order_id := ''P''\<rparr>"

lemma strip_TAKER: "strip ''TAKER'' = ''TAKER''" "upper ''TAKER'' = ''TAKER''"
  by (simp_all add: strip_def lstrip_def is_space_def upper_def upper_char_def)

lemma ex_fill:
  "apply_fill ex_accepted (mr_filled_quantity ex_match) 10 (match_fill_args ex_match ''F'')
     (Aware 9 0) = Inr ex_filled"
  by (simp add: ex_filled_def ex_accepted_def ex_run_defs match_fill_args_def ex_match_def strip_TAKER)

lemma ex_matches2:
  "match_order ex_second ex_quote = Inr ex_match2"
  "apply_fill ex_second (mr_filled_quantity ex_match2) 10 (match_fill_args ex_match2 ''F'')
     (Aware 9 0) = Inr ex_filled2"
  "mr_matched ex_match" "mr_execution_price ex_match = Some 10"
  "mr_matched ex_match2" "mr_execution_price ex_match2 = Some 10"
  by (simp_all add: ex_filled2_def ex_filled_def ex_second_def ex_accepted_def ex_run_defs
      match_fill_args_def ex_match_def ex_match2_def strip_TAKER strip_P match_order_def
      execution_price_def ex_quote_def reference_price_def)

lemma ex_updates:
  "ob_update ex_book2 ex_filled = (Inr ex_filled, [(''O'', ex_filled), (''P'', ex_second)])"
  "ob_update [(''O'', ex_filled), (''P'', ex_second)] ex_filled2 =
     (Inr ex_filled2, [(''O'', ex_filled), (''P'', ex_filled2)])"
  by (simp_all add: ob_update_def ob_get_def normalize_order_id_def ex_book2_def ex_second_def
      ex_filled_def ex_filled2_def ex_accepted_def strip_O strip_P dt_less_def)

lemma ex_quote_symbol: "mq_symbol ex_quote = ''ABC''"
  by (simp add: ex_quote_def)

text \<open>
  The quoted volume is not shared between orders: with 4 shares on offer, two open
  market orders are both filled with 4, so 8 shares trade against a quote of 4.
\<close>

theorem quoted_volume_is_not_shared:
  "\<exists>r1 r2. fst (process_quote (\<lambda>_. ''F'') (Aware 9 0) ex_book2 ex_quote) = Inr [r1, r2] \<and>
     map f_quantity (er_fills r1 @ er_fills r2) = [4, 4] \<and> mq_available_volume ex_quote = 4"
proof -
  have "fst (process_quote (\<lambda>_. ''F'') (Aware 9 0) ex_book2 ex_quote) =
      Inr [fill_report ex_filled ex_match, fill_report ex_filled2 ex_match2]"
    using ex_open2(1) by (simp add: process_quote_def ex_updates ex_match ex_fill ex_matches2
        ex_quote_symbol)
  then show ?thesis
    by (simp add: fill_report_def ex_filled_def ex_filled2_def ex_quote_def)
qed

theorem process_quote_sound_witness:
  "book_inv (snd (process_quote (\<lambda>_. ''F'') (Aware 9 0) ex_book2 ex_quote))"
  using process_quote_sound [OF ex_quote_ok ex_books_inv(1)] by (metis prod.collapse)

theorem stop_order_blocks_quotes_witness:
  "process_quote (\<lambda>_. ''F'') (Aware 9 0) ex_stop_book ex_quote =
     (Inl unsupported_type_error, ex_stop_book)"
proof (rule stop_order_blocks_quotes [OF market_quote_post_init_ok [OF ex_quote_ok] ex_books_inv(2)])
  show "ob_open_orders_for_symbol ex_stop_book (mq_symbol ex_quote) = Inr (ex_stop # [ex_second])"
    using ex_open2(2) by (simp add: ex_quote_def)
qed (simp_all add: ex_stop_def ex_accepted_def ex_request_def remaining_quantity_def dec_defs
      ex_quote_def)

end
