(* ===== verification/Settlement.thy ===== *)
theory Settlement
  imports Decimals "HOL-Library.Multiset"
begin

text \<open>
  Settlement and good-faith-violation checks of a cash account (app/compliance): the
  market calendar, the ledger of purchase lots and \<open>evaluate_sell_compliance\<close>.  Dates are
  proleptic ordinals (\<open>date.toordinal\<close>), of which Python represents 1 to 3652059.
\<close>

subsection \<open>Calendar\<close>

definition max_ordinal :: int where
  "max_ordinal = 3652059"

definition weekday :: "int \<Rightarrow> int" where
  "weekday d = (d + 6) mod 7"

definition is_market_business_day :: "int set \<Rightarrow> int \<Rightarrow> bool" where
  "is_market_business_day holidays d \<longleftrightarrow> weekday d < 5 \<and> d \<notin> holidays"

text \<open>The \<open>while remaining\<close> loop; stepping past the last date raises.\<close>

function business_day_loop :: "int set \<Rightarrow> int \<Rightarrow> nat \<Rightarrow> int res" where
  "business_day_loop holidays current remaining =
     (if remaining = 0 then Inr current
      else if max_ordinal \<le> current then Inl (Raise OverflowError ''date value out of range'')
      else if is_market_business_day holidays (current + 1)
      then business_day_loop holidays (current + 1) (remaining - 1)
      else business_day_loop holidays (current + 1) remaining)"
  by pat_completeness auto
termination
  by (relation "measure (\<lambda>(_, current, _). nat (max_ordinal - current))") auto

declare business_day_loop.simps [simp del]

definition add_market_business_days :: "int set \<Rightarrow> int \<Rightarrow> int \<Rightarrow> int res" where
  "add_market_business_days holidays start days =
     (if days < 0 then Inl (Raise ValueError ''days must be non-negative'')
      else business_day_loop holidays start (nat days))"

definition settlement_date :: "int set \<Rightarrow> int \<Rightarrow> int \<Rightarrow> int res" where
  "settlement_date holidays trade_date settlement_days =
     add_market_business_days holidays trade_date settlement_days"

text \<open>The business days after one date up to another.\<close>

definition business_days :: "int set \<Rightarrow> int \<Rightarrow> int \<Rightarrow> int set" where
  "business_days holidays a b = {d \<in> {a<..b}. is_market_business_day holidays d}"

lemma finite_business_days [simp]: "finite (business_days holidays a b)"
  by (rule finite_subset [of _ "{a<..b}"]) (auto simp: business_days_def)

lemma business_days_step:
  assumes "a < b"
  shows "card (business_days holidays a b) =
    (if is_market_business_day holidays (a + 1) then 1 else 0) + card (business_days holidays (a + 1) b)"
proof -
  have eq: "business_days holidays a b =
      (if is_market_business_day holidays (a + 1) then {a + 1} else {}) \<union> business_days holidays (a + 1) b"
    using assms by (auto simp: business_days_def) (metis add.commute add1_zle_eq order_le_less zless_imp_add1_zle)+
  have "a + 1 \<notin> business_days holidays (a + 1) b" by (simp add: business_days_def)
  then show ?thesis by (simp add: eq)
qed

lemma business_days_empty: "b \<le> a \<Longrightarrow> business_days holidays a b = {}"
  by (auto simp: business_days_def)

lemma business_day_loop_Inr:
  "business_day_loop holidays cur n = Inr d \<Longrightarrow>
     cur \<le> d \<and> card (business_days holidays cur d) = n \<and>
     (if n = 0 then d = cur else is_market_business_day holidays d \<and> cur < d)"
proof (induction holidays cur n arbitrary: d rule: business_day_loop.induct)
  case (1 holidays cur n)
  show ?case
  proof (cases "n = 0")
    case True
    with "1.prems" have "d = cur" by (subst (asm) business_day_loop.simps) simp
    with True show ?thesis by (simp add: business_days_empty)
  next
    case False
    with "1.prems" have lt: "\<not> max_ordinal \<le> cur"
      by (subst (asm) business_day_loop.simps) (auto split: if_splits)
    show ?thesis
    proof (cases "is_market_business_day holidays (cur + 1)")
      case True
      with "1.prems" False lt have "business_day_loop holidays (cur + 1) (n - 1) = Inr d"
        by (subst (asm) business_day_loop.simps) simp
      from "1.IH"(1) [OF False lt True this] True False business_days_step [of cur d holidays]
      show ?thesis by (auto split: if_splits)
    next
      case nb: False
      with "1.prems" False lt have "business_day_loop holidays (cur + 1) n = Inr d"
        by (subst (asm) business_day_loop.simps) simp
      from "1.IH"(2) [OF False lt nb this] nb False business_days_step [of cur d holidays]
      show ?thesis by (auto split: if_splits)
    qed
  qed
qed

lemma business_day_loop_total:
  "n \<le> card (business_days holidays cur max_ordinal) \<Longrightarrow> \<exists>d. business_day_loop holidays cur n = Inr d"
proof (induction holidays cur n rule: business_day_loop.induct)
  case (1 holidays cur n)
  show ?case
  proof (cases "n = 0 \<or> max_ordinal \<le> cur")
    case True
    then have "n = 0" using "1.prems" by (auto simp: business_days_empty)
    then show ?thesis by (subst business_day_loop.simps) simp
  next
    case False
    then have "cur < max_ordinal" by simp
    from False "1.IH" "1.prems" business_days_step [OF this, of holidays] show ?thesis
      by (subst business_day_loop.simps) auto
  qed
qed

lemma business_days_mono: "b \<le> c \<Longrightarrow> card (business_days holidays a b) \<le> card (business_days holidays a c)"
  by (intro card_mono finite_business_days) (auto simp: business_days_def)

lemma business_day_loop_max: "business_day_loop holidays cur n = Inr d \<Longrightarrow> cur \<le> max_ordinal \<Longrightarrow> d \<le> max_ordinal"
proof (induction holidays cur n arbitrary: d rule: business_day_loop.induct)
  case (1 holidays cur n)
  from "1.prems"(1) "1.IH" "1.prems"(2) show ?case
    by (subst (asm) business_day_loop.simps) (auto split: if_splits)
qed

lemma nth_business_day_unique:
  assumes "is_market_business_day h d" and "is_market_business_day h d'" and "a < d" and "a < d'"
    and "card (business_days h a d) = card (business_days h a d')"
  shows "d = d'"
proof -
  have strict: "card (business_days h a x) < card (business_days h a y)"
    if "x < y" "is_market_business_day h y" "a < y" for x y
  proof (rule psubset_card_mono [OF finite_business_days])
    have "y \<in> business_days h a y" "y \<notin> business_days h a x"
      using that by (simp_all add: business_days_def)
    moreover have "business_days h a x \<subseteq> business_days h a y"
      using that(1) by (auto simp: business_days_def)
    ultimately show "business_days h a x \<subset> business_days h a y" by blast
  qed
  show ?thesis
  proof (rule linorder_cases [of d d'])
    assume "d < d'"
    from strict [OF this assms(2,4)] assms(5) show ?thesis by simp
  next
    assume "d' < d"
    from strict [OF this assms(1,3)] assms(5) show ?thesis by simp
  qed
qed

subsection \<open>Lots and decisions\<close>

datatype account_type = CASH | MARGIN

datatype funding_source = SETTLED_CASH | UNSETTLED_SALE_PROCEEDS | PROVISIONAL_DEPOSIT | UNKNOWN_SOURCE

datatype security_type = SEC_STOCK | SEC_OPTION

record purchase_lot =
  pl_symbol :: string
  pl_quantity :: dec
  pl_purchase_timestamp :: datetime
  pl_funding_source :: funding_source
  pl_funding_settlement_date :: "int option"
  pl_remaining_quantity :: dec

definition purchase_lot_post_init :: "purchase_lot \<Rightarrow> purchase_lot res" where
  "purchase_lot_post_init lot =
     (if strip (pl_symbol lot) = [] then Inl (Raise ValueError ''symbol must not be empty'')
      else if \<not> dec_positive (pl_quantity lot)
      then Inl (Raise ValueError ''quantity must be finite and positive'')
      else if \<not> dec_nonnegative (pl_remaining_quantity lot)
      then Inl (Raise ValueError ''remaining_quantity must be finite and non-negative'')
      else if fin (pl_quantity lot) < fin (pl_remaining_quantity lot)
      then Inl (Raise ValueError ''remaining_quantity cannot exceed quantity'')
      else if \<not> tz_aware (pl_purchase_timestamp lot)
      then Inl (Raise ValueError ''purchase_timestamp must include a timezone'')
      else Inr lot)"

text \<open>The quantities of a decision are computed from Decimals found finite.\<close>

record sell_decision =
  sd_approved :: bool
  sd_approval_reason :: string
  sd_requested_quantity :: rat
  sd_safe_sell_quantity :: rat
  sd_restricted_quantity :: rat
  sd_next_eligible_sell_date :: "int option"
  sd_warnings :: "string list"

definition sell_decision_post_init :: "sell_decision \<Rightarrow> sell_decision res" where
  "sell_decision_post_init d =
     (if strip (sd_approval_reason d) = []
      then Inl (Raise ValueError ''approval_reason must not be empty'')
      else if sd_requested_quantity d < 0 \<or> sd_safe_sell_quantity d < 0 \<or> sd_restricted_quantity d < 0
      then Inl (Raise ValueError ''decision quantities must be finite and non-negative'')
      else Inr d)"

subsection \<open>Ledger\<close>

type_synonym settlement_ledger = "purchase_lot list"

definition record_purchase ::
  "settlement_ledger \<Rightarrow> string \<Rightarrow> dec \<Rightarrow> datetime \<Rightarrow> funding_source \<Rightarrow> int option \<Rightarrow>
   settlement_ledger res" where
  "record_purchase lots symbol quantity purchase_timestamp source settlement =
     rbind (purchase_lot_post_init
       \<lparr>pl_symbol = normalize_symbol symbol, pl_quantity = quantity,
        pl_purchase_timestamp = purchase_timestamp, pl_funding_source = source,
        pl_funding_settlement_date = settlement, pl_remaining_quantity = quantity\<rparr>)
       (\<lambda>lot. Inr (lots @ [lot]))"

definition record_purchase_funded_by_sale ::
  "settlement_ledger \<Rightarrow> string \<Rightarrow> dec \<Rightarrow> datetime \<Rightarrow> int \<Rightarrow> security_type \<Rightarrow> int set \<Rightarrow>
   settlement_ledger res" where
  "record_purchase_funded_by_sale lots symbol quantity purchase_timestamp trade_date security holidays =
     (if security \<notin> {SEC_STOCK, SEC_OPTION}
      then Inl (Raise ValueError ''T+1 is supported only for applicable stocks and options'')
      else rbind (settlement_date holidays trade_date 1) (\<lambda>settlement.
        record_purchase lots symbol quantity purchase_timestamp UNSETTLED_SALE_PROCEEDS
          (Some settlement)))"

subsection \<open>The validator\<close>

definition valid_lot :: "purchase_lot \<Rightarrow> bool" where
  "valid_lot lot \<longleftrightarrow> is_finite (pl_quantity lot) \<and> dec_positive (pl_quantity lot) \<and>
     is_finite (pl_remaining_quantity lot) \<and> dec_nonnegative (pl_remaining_quantity lot) \<and>
     fin (pl_remaining_quantity lot) \<le> fin (pl_quantity lot) \<and>
     tz_aware (pl_purchase_timestamp lot)"

definition lot_is_safe :: "int \<Rightarrow> purchase_lot \<Rightarrow> bool" where
  "lot_is_safe current_date lot =
     (case pl_funding_source lot of
        SETTLED_CASH \<Rightarrow> True
      | UNKNOWN_SOURCE \<Rightarrow> False
      | _ \<Rightarrow> (case pl_funding_settlement_date lot of
               None \<Rightarrow> False
             | Some d \<Rightarrow> d \<le> current_date))"

definition safe_cash_quantity :: "purchase_lot list \<Rightarrow> datetime \<Rightarrow> rat" where
  "safe_cash_quantity lots now =
     dsum (map (fin \<circ> pl_remaining_quantity) (filter (lot_is_safe (date_of now)) lots))"

definition dated_lots :: "purchase_lot list \<Rightarrow> datetime \<Rightarrow> purchase_lot list" where
  "dated_lots lots now =
     sort_key (\<lambda>lot. the (pl_funding_settlement_date lot))
       (filter (\<lambda>lot. \<not> lot_is_safe (date_of now) lot \<and> pl_funding_source lot \<noteq> UNKNOWN_SOURCE \<and>
          pl_funding_settlement_date lot \<noteq> None) lots)"

fun accumulate_until :: "rat \<Rightarrow> rat \<Rightarrow> purchase_lot list \<Rightarrow> int option" where
  "accumulate_until requested available [] = None"
| "accumulate_until requested available (lot # lots) =
     (let available' = dadd available (fin (pl_remaining_quantity lot)) in
      if requested \<le> available' then pl_funding_settlement_date lot
      else accumulate_until requested available' lots)"

definition date_when_quantity_is_safe :: "purchase_lot list \<Rightarrow> datetime \<Rightarrow> rat \<Rightarrow> int option" where
  "date_when_quantity_is_safe lots now requested =
     (let available = safe_cash_quantity lots now in
      if requested \<le> available then Some (date_of now)
      else accumulate_until requested available (dated_lots lots now))"

definition validate_request ::
  "string \<Rightarrow> dec \<Rightarrow> account_type option \<Rightarrow> datetime \<Rightarrow> purchase_lot list \<Rightarrow> string list" where
  "validate_request symbol quantity account ts lots =
     (if strip symbol = [] then [''Symbol is missing or malformed.''] else []) @
     (if dec_positive quantity then [] else [''Requested quantity must be a finite positive Decimal.'']) @
     (if account \<notin> {Some CASH, Some MARGIN} then [''Account type is missing or unknown.''] else []) @
     (if tz_aware ts then [] else [''Current timestamp must be timezone-aware.'']) @
     (if list_ex (\<lambda>lot. \<not> valid_lot lot) lots
      then [''One or more position lots are malformed or uncertain.''] else [])"

definition reject_malformed :: "dec \<Rightarrow> string list \<Rightarrow> sell_decision res" where
  "reject_malformed quantity warnings =
     (let reported = if dec_nonnegative quantity then fin quantity else 0 in
      sell_decision_post_init
        \<lparr>sd_approved = False,
         sd_approval_reason =
           ''Rejected: settlement information is missing, malformed, or uncertain.'',
         sd_requested_quantity = reported, sd_safe_sell_quantity = 0,
         sd_restricted_quantity = reported, sd_next_eligible_sell_date = None,
         sd_warnings = warnings\<rparr>)"

definition matching_lots :: "string \<Rightarrow> purchase_lot list \<Rightarrow> purchase_lot list" where
  "matching_lots symbol lots =
     filter (\<lambda>lot. normalize_symbol (pl_symbol lot) = normalize_symbol symbol) lots"

definition evaluate_sell_compliance ::
  "string \<Rightarrow> dec \<Rightarrow> account_type option \<Rightarrow> datetime \<Rightarrow> purchase_lot list \<Rightarrow> sell_decision res" where
  "evaluate_sell_compliance symbol quantity account now lots =
     (let malformed = validate_request symbol quantity account now lots in
      if malformed \<noteq> [] then reject_malformed quantity malformed
      else let requested = fin quantity; matching = matching_lots symbol lots;
        total = dsum (map (fin \<circ> pl_remaining_quantity) matching) in
      if total < requested then
        (let safe = (if account = Some MARGIN then total else safe_cash_quantity matching now) in
         sell_decision_post_init
           \<lparr>sd_approved = False,
            sd_approval_reason = ''Rejected: requested quantity exceeds the recorded remaining position.'',
            sd_requested_quantity = requested, sd_safe_sell_quantity = safe,
            sd_restricted_quantity = dsub requested safe, sd_next_eligible_sell_date = None,
            sd_warnings = [''A new explicit request within the recorded position is required.'']\<rparr>)
      else if account = Some MARGIN then
        sell_decision_post_init
          \<lparr>sd_approved = True,
           sd_approval_reason =
             ''Approved: cash-account GFV restrictions do not apply to the identified margin account.'',
           sd_requested_quantity = requested, sd_safe_sell_quantity = total,
           sd_restricted_quantity = 0, sd_next_eligible_sell_date = None, sd_warnings = []\<rparr>
      else let safe = safe_cash_quantity matching now;
        restricted = max 0 (dsub requested safe);
        approved = (requested \<le> safe);
        next_date = (if approved then None
                     else date_when_quantity_is_safe matching now requested) in
      if approved then
        sell_decision_post_init
          \<lparr>sd_approved = True,
           sd_approval_reason =
             ''Approved: the explicit requested quantity is supported by GFV-safe lots.'',
           sd_requested_quantity = requested, sd_safe_sell_quantity = safe,
           sd_restricted_quantity = 0, sd_next_eligible_sell_date = None, sd_warnings = []\<rparr>
      else
        sell_decision_post_init
          \<lparr>sd_approved = False,
           sd_approval_reason =
             ''Rejected: requested quantity exceeds the quantity currently safe from a Good Faith Violation.'',
           sd_requested_quantity = requested, sd_safe_sell_quantity = safe,
           sd_restricted_quantity = restricted, sd_next_eligible_sell_date = next_date,
           sd_warnings =
             [''The original sell request remains rejected and was not automatically reduced.'',
              ''safe_sell_quantity is informational; submit a new explicit request to use it.''] @
             (if next_date = None
              then [''Eligibility cannot be determined for one or more restricted lots.''] else [])\<rparr>)"

subsection \<open>What the validator computes\<close>

lemma sell_decision_post_init_Inr [res_simps]:
  "sell_decision_post_init d = Inr d' \<longleftrightarrow> d' = d \<and> strip (sd_approval_reason d) \<noteq> [] \<and>
     0 \<le> sd_requested_quantity d \<and> 0 \<le> sd_safe_sell_quantity d \<and> 0 \<le> sd_restricted_quantity d"
  by (auto simp: sell_decision_post_init_def)

lemma strip_nonempty:
  assumes "\<not> is_space c"
  shows "strip (c # s) \<noteq> []"
proof -
  have "lstrip (rev (c # s)) \<noteq> []"
    using assms by (simp add: lstrip_def dropWhile_eq_Nil_conv)
  with assms show ?thesis by (simp add: strip_def lstrip_def)
qed

lemma reason_texts [simp]: "strip (CHR ''R'' # s) \<noteq> []" "strip (CHR ''A'' # s) \<noteq> []"
  by (simp_all add: strip_nonempty is_space_def)

lemma valid_requestD:
  assumes "validate_request s q acc now lots = []"
  shows "dec_positive q" and "0 < fin q" and "\<forall>lot\<in>set lots. valid_lot lot" and "tz_aware now"
    and "strip s \<noteq> []" and "acc \<in> {Some CASH, Some MARGIN}"
  using assms dec_positiveD [of q]
  by (auto simp: validate_request_def list_ex_iff split: if_splits)

abbreviation lot_quantity :: "purchase_lot \<Rightarrow> rat" where
  "lot_quantity \<equiv> fin \<circ> pl_remaining_quantity"

lemma valid_lot_nonneg: "valid_lot lot \<Longrightarrow> 0 \<le> lot_quantity lot"
  using dec_nonnegativeD [of "pl_remaining_quantity lot"] by (simp add: valid_lot_def)

lemma matching_nonneg:
  "\<forall>lot\<in>set lots. valid_lot lot \<Longrightarrow> \<forall>lot\<in>set (matching_lots s lots). 0 \<le> lot_quantity lot"
  using valid_lot_nonneg by (auto simp: matching_lots_def)

lemma safe_le_total:
  "\<forall>lot\<in>set lots. 0 \<le> lot_quantity lot \<Longrightarrow> safe_cash_quantity lots now \<le> dsum (map lot_quantity lots)"
  unfolding safe_cash_quantity_def by (rule dsum_filter_le)

lemma safe_nonneg: "\<forall>lot\<in>set lots. 0 \<le> lot_quantity lot \<Longrightarrow> 0 \<le> safe_cash_quantity lots now"
  unfolding safe_cash_quantity_def by (rule dsum_nonneg) auto

lemma dsub_nonneg [simp]: "0 \<le> dsub x y \<longleftrightarrow> y \<le> x"
  by (simp add: dsub_def dec28.r_sub_nonneg)

text \<open>A malformed request is answered by a rejection that reports the problem.\<close>

lemma evaluate_malformed:
  assumes "validate_request s q acc now lots \<noteq> []"
  shows "\<exists>d. evaluate_sell_compliance s q acc now lots = Inr d \<and> \<not> sd_approved d \<and>
    sd_safe_sell_quantity d = 0 \<and> sd_warnings d = validate_request s q acc now lots"
  using assms dec_nonnegativeD [of q]
  by (auto simp: evaluate_sell_compliance_def reject_malformed_def Let_def res_simps)

definition sellable :: "string \<Rightarrow> account_type option \<Rightarrow> datetime \<Rightarrow> purchase_lot list \<Rightarrow> rat" where
  "sellable s acc now lots =
     (if acc = Some MARGIN then dsum (map lot_quantity (matching_lots s lots))
      else safe_cash_quantity (matching_lots s lots) now)"

lemma evaluate_wellformed:
  assumes "validate_request s q acc now lots = []"
  shows "\<exists>d. evaluate_sell_compliance s q acc now lots = Inr d \<and>
    sd_requested_quantity d = fin q \<and> sd_safe_sell_quantity d = sellable s acc now lots \<and>
    (sd_approved d \<longleftrightarrow> fin q \<le> sellable s acc now lots) \<and>
    sd_restricted_quantity d = (if sd_approved d then 0 else dsub (fin q) (sellable s acc now lots)) \<and>
    sd_next_eligible_sell_date d =
      (if sd_approved d \<or> dsum (map lot_quantity (matching_lots s lots)) < fin q then None
       else accumulate_until (fin q) (safe_cash_quantity (matching_lots s lots) now)
              (dated_lots (matching_lots s lots) now))"
proof -
  note v = valid_requestD [OF assms]
  note nn = matching_nonneg [OF v(3), of s]
  note le = safe_le_total [OF nn, of now]
  have nneg: "0 \<le> dsum (map lot_quantity (matching_lots s lots))"
    using nn by (intro dsum_nonneg) auto
  show ?thesis
    using v(2,6) le safe_nonneg [OF nn, of now] nneg
    by (auto simp: evaluate_sell_compliance_def assms Let_def sellable_def res_simps max_def
        date_when_quantity_is_safe_def split del: if_split split: if_splits)
qed

lemma accumulate_until_iff:
  assumes "common_grid e (a # map lot_quantity lots)" and "a < r"
    and "sorted (map (\<lambda>lot. the (pl_funding_settlement_date lot)) lots)"
    and "\<forall>lot\<in>set lots. pl_funding_settlement_date lot \<noteq> None"
  shows "(\<exists>x. accumulate_until r a lots = Some x \<and> x \<le> day) \<longleftrightarrow>
    r \<le> a + sum_list (map lot_quantity
      (filter (\<lambda>lot. the (pl_funding_settlement_date lot) \<le> day) lots))"
  using assms
proof (induction lots arbitrary: a)
  case (Cons lot lots)
  let ?date = "\<lambda>lot. the (pl_funding_settlement_date lot)"
  let ?q = "lot_quantity lot"
  note g = common_grid_add [OF Cons.prems(1) [unfolded list.map]]
  have nn: "0 \<le> sum_list (map lot_quantity (filter P lots))" for P
    using common_grid_nonneg [OF Cons.prems(1)] by (intro sum_list_nonneg) auto
  have "0 \<le> ?q" using common_grid_nonneg [OF Cons.prems(1), of ?q] by simp
  obtain x where x: "pl_funding_settlement_date lot = Some x"
    using Cons.prems(4) by auto
  have late: "filter (\<lambda>lot. ?date lot \<le> day) lots = []" if "day < x"
    using Cons.prems(3) that x by (auto simp: filter_empty_conv)
  show ?case
  proof (cases "r \<le> a + ?q")
    case True
    with x nn [of "\<lambda>lot. ?date lot \<le> day"] late Cons.prems(2) g(1) \<open>0 \<le> ?q\<close> show ?thesis
      by (cases "x \<le> day") (auto simp: Let_def comp_def)
  next
    case False
    then have "(\<exists>x. accumulate_until r (a + ?q) lots = Some x \<and> x \<le> day) \<longleftrightarrow>
        r \<le> (a + ?q) + sum_list (map lot_quantity (filter (\<lambda>lot. ?date lot \<le> day) lots))"
      using Cons.prems(3,4) by (intro Cons.IH [OF g(2)]) auto
    with False x late Cons.prems(2) g(1) show ?thesis
      by (cases "x \<le> day") (auto simp: Let_def comp_def algebra_simps)
  qed
qed simp

lemma sum_list_sort_key: "sum_list (map f (sort_key k xs)) = (sum_list (map f xs) :: rat)"
  by (metis mset_map mset_sort sum_mset_sum_list)

lemma sum_list_filter_split:
  "(\<And>x. x \<in> set xs \<Longrightarrow> P x \<Longrightarrow> Q x) \<Longrightarrow>
     sum_list (map f (filter Q xs)) =
     sum_list (map f (filter P xs)) + (sum_list (map f (filter (\<lambda>x. \<not> P x \<and> Q x) xs)) :: rat)"
  by (induction xs) auto

text \<open>A lot that is safe stays safe; an unsafe one becomes safe on its settlement date.\<close>

lemma lot_is_safe_later: "lot_is_safe a lot \<Longrightarrow> a \<le> b \<Longrightarrow> lot_is_safe b lot"
  by (auto simp: lot_is_safe_def split: funding_source.splits option.splits)

lemma lot_becomes_safe:
  "\<not> lot_is_safe a lot \<Longrightarrow> lot_is_safe b lot \<longleftrightarrow>
     pl_funding_source lot \<noteq> UNKNOWN_SOURCE \<and> pl_funding_settlement_date lot \<noteq> None \<and>
     the (pl_funding_settlement_date lot) \<le> b"
  by (auto simp: lot_is_safe_def split: funding_source.splits option.splits)

lemma safe_cash_quantity_later:
  assumes "common_grid e (map lot_quantity lots)" and "date_of now \<le> date_of later"
  shows "safe_cash_quantity lots later = safe_cash_quantity lots now +
    sum_list (map lot_quantity (filter (\<lambda>lot. the (pl_funding_settlement_date lot) \<le> date_of later)
      (dated_lots lots now)))"
proof -
  have exact: "safe_cash_quantity lots t = sum_list (map lot_quantity (filter (lot_is_safe (date_of t)) lots))" for t
    unfolding safe_cash_quantity_def
    by (rule dsum_exact [of e]) (rule common_grid_filter [OF assms(1)])
  have "filter (\<lambda>lot. \<not> lot_is_safe (date_of now) lot \<and> lot_is_safe (date_of later) lot) lots =
      filter (\<lambda>lot. the (pl_funding_settlement_date lot) \<le> date_of later)
        (filter (\<lambda>lot. \<not> lot_is_safe (date_of now) lot \<and> pl_funding_source lot \<noteq> UNKNOWN_SOURCE \<and>
          pl_funding_settlement_date lot \<noteq> None) lots)"
    unfolding filter_filter by (rule filter_cong) (auto simp: lot_becomes_safe [of "date_of now"])
  then show ?thesis
    using sum_list_filter_split [of lots "lot_is_safe (date_of now)" "lot_is_safe (date_of later)" lot_quantity]
      lot_is_safe_later [OF _ assms(2)]
    by (simp add: exact dated_lots_def filter_sort sum_list_sort_key)
qed

lemma dated_lots_grid:
  assumes "common_grid e (map lot_quantity lots)"
  shows "common_grid e (safe_cash_quantity lots now # map lot_quantity (dated_lots lots now))"
proof -
  define P where "P = lot_is_safe (date_of now)"
  define Q where "Q = (\<lambda>lot. \<not> P lot \<and> pl_funding_source lot \<noteq> UNKNOWN_SOURCE \<and>
          pl_funding_settlement_date lot \<noteq> None)"
  have nn: "\<forall>x\<in>set lots. 0 \<le> lot_quantity x" using common_grid_nonneg [OF assms] by auto
  have safe: "safe_cash_quantity lots now = sum_list (map lot_quantity (filter P lots))"
    unfolding safe_cash_quantity_def P_def
    by (rule dsum_exact [of e]) (rule common_grid_filter [OF assms])
  have "sum_list (map lot_quantity (filter P lots)) + sum_list (map lot_quantity (filter Q lots)) \<le>
      sum_list (map lot_quantity lots)"
    using nn unfolding Q_def by (induction lots) auto
  moreover have "\<exists>c::int. 0 \<le> c \<and> safe_cash_quantity lots now = of_int c * 10 powi e"
    unfolding safe using assms by (intro grid_sum) (auto simp: common_grid_def)
  moreover have "dated_lots lots now = sort_key (\<lambda>lot. the (pl_funding_settlement_date lot)) (filter Q lots)"
    by (simp add: dated_lots_def P_def Q_def)
  ultimately show ?thesis
    using assms by (auto simp: common_grid_def sum_list_sort_key safe)
qed

subsection \<open>Properties\<close>

text \<open>
  C30: The settlement date of a trade is the n-th market business day after it and
  nothing else; the calculation raises only if Python's calendar ends before that day.
\<close>

theorem settlement_is_nth_business_day:
  assumes "0 < n" and "trade \<le> max_ordinal"
  shows "settlement_date holidays trade n = Inr d \<longleftrightarrow>
    trade < d \<and> d \<le> max_ordinal \<and> is_market_business_day holidays d \<and>
    card (business_days holidays trade d) = nat n"
proof
  assume "settlement_date holidays trade n = Inr d"
  then have "business_day_loop holidays trade (nat n) = Inr d"
    using assms(1) by (simp add: settlement_date_def add_market_business_days_def)
  from business_day_loop_Inr [OF this] business_day_loop_max [OF this assms(2)] assms(1)
  show "trade < d \<and> d \<le> max_ordinal \<and> is_market_business_day holidays d \<and>
      card (business_days holidays trade d) = nat n"
    by (auto split: if_splits)
next
  assume d: "trade < d \<and> d \<le> max_ordinal \<and> is_market_business_day holidays d \<and>
    card (business_days holidays trade d) = nat n"
  then have "nat n \<le> card (business_days holidays trade max_ordinal)"
    using business_days_mono [of d max_ordinal holidays trade] by simp
  from business_day_loop_total [OF this] obtain d' where
    d': "business_day_loop holidays trade (nat n) = Inr d'" by blast
  from business_day_loop_Inr [OF this] assms(1) d have "d' = d"
    by (intro nth_business_day_unique [where a = trade and h = holidays]) auto
  with d' assms(1) show "settlement_date holidays trade n = Inr d"
    by (simp add: settlement_date_def add_market_business_days_def)
qed


text \<open>
  C24: The next eligible date is exact: while the lots do not change, a rejected request
  within the position is approved on a later day if and only if a date was announced and
  that day is not before it.  (Lot quantities on a common decimal grid, so that sums do
  not depend on the order of the lots.)
\<close>

theorem next_eligible_date_is_exact:
  assumes "validate_request s q (Some CASH) now lots = []" and "tz_aware later"
    and "date_of now \<le> date_of later"
    and "common_grid e (map lot_quantity (matching_lots s lots))"
    and "evaluate_sell_compliance s q (Some CASH) now lots = Inr d"
    and "evaluate_sell_compliance s q (Some CASH) later lots = Inr d'"
    and "\<not> sd_approved d" and "fin q \<le> sum_list (map lot_quantity (matching_lots s lots))"
  shows "sd_approved d' \<longleftrightarrow> (\<exists>x. sd_next_eligible_sell_date d = Some x \<and> x \<le> date_of later)"
proof -
  let ?lots = "matching_lots s lots"
  have v': "validate_request s q (Some CASH) later lots = []"
    using assms(1,2) by (auto simp: validate_request_def split: if_splits)
  have total: "dsum (map lot_quantity ?lots) = sum_list (map lot_quantity ?lots)"
    using assms(4) by (rule dsum_exact)
  have d: "safe_cash_quantity ?lots now < fin q"
    "sd_next_eligible_sell_date d =
       accumulate_until (fin q) (safe_cash_quantity ?lots now) (dated_lots ?lots now)"
    using evaluate_wellformed [OF assms(1)] assms(5,7,8) by (auto simp: sellable_def total)
  have "sd_approved d' \<longleftrightarrow> fin q \<le> safe_cash_quantity ?lots later"
    using evaluate_wellformed [OF v'] assms(6) by (auto simp: sellable_def)
  also have "\<dots> \<longleftrightarrow> (\<exists>x. accumulate_until (fin q) (safe_cash_quantity ?lots now)
      (dated_lots ?lots now) = Some x \<and> x \<le> date_of later)"
    unfolding safe_cash_quantity_later [OF assms(4,3)]
    by (rule accumulate_until_iff [OF dated_lots_grid [OF assms(4)] d(1), symmetric])
      (auto simp: dated_lots_def)
  finally show ?thesis by (simp only: d(2))
qed

text \<open>
  A purchase recorded in the ledger is a valid lot with its whole quantity
  remaining, appended to the unchanged lots before it; one funded by a sale carries the
  next business day after the sale, and can be sold from that day on and not earlier.
\<close>

theorem sale_funded_purchase_is_restricted_until_settlement:
  assumes "record_purchase_funded_by_sale lots s q ts trade security holidays = Inr lots'"
    and "trade \<le> max_ordinal"
  shows "\<exists>lot d. lots' = lots @ [lot] \<and> valid_lot lot \<and> pl_remaining_quantity lot = q \<and>
    pl_symbol lot = normalize_symbol s \<and> trade < d \<and> is_market_business_day holidays d \<and>
    card (business_days holidays trade d) = 1 \<and> (\<forall>day. lot_is_safe day lot = (d \<le> day))"
proof -
  from assms(1) obtain d where d: "settlement_date holidays trade 1 = Inr d"
    and r: "record_purchase lots s q ts UNSETTLED_SALE_PROCEEDS (Some d) = Inr lots'"
    by (auto simp: record_purchase_funded_by_sale_def res_simps)
  have "business_day_loop holidays trade 1 = Inr d"
    using d by (simp add: settlement_date_def add_market_business_days_def)
  from business_day_loop_Inr [OF this] r show ?thesis
    by (cases q)
      (auto simp: record_purchase_def res_simps purchase_lot_post_init_def valid_lot_def lot_is_safe_def)
qed

definition ex_lots :: "purchase_lot list" where
  "ex_lots =
     [\<lparr>pl_symbol = ''ABC'', pl_quantity = Fin 5, pl_purchase_timestamp = Aware 0 0,
       pl_funding_source = SETTLED_CASH, pl_funding_settlement_date = None,
       pl_remaining_quantity = Fin 5\<rparr>,
      \<lparr>pl_symbol = ''ABC'', pl_quantity = Fin 5, pl_purchase_timestamp = Aware 0 0,
       pl_funding_source = UNSETTLED_SALE_PROCEEDS, pl_funding_settlement_date = Some 8,
       pl_remaining_quantity = Fin 5\<rparr>]"

definition ex_day :: "int \<Rightarrow> datetime" where
  "ex_day d = Aware (d * us_per_day) 0"

lemma ex_day [simp]: "date_of (ex_day d) = d" "tz_aware (ex_day d)"
  by (simp_all add: ex_day_def date_of_def us_per_day_def)

lemma ex_matching: "matching_lots ''ABC'' ex_lots = ex_lots"
  by (simp add: matching_lots_def ex_lots_def)

lemma ex_valid: "validate_request ''ABC'' (Fin 7) (Some CASH) (ex_day k) ex_lots = []"
  by (simp add: validate_request_def ex_lots_def valid_lot_def strip_def lstrip_def is_space_def)

lemma ex_grid: "common_grid 0 (map lot_quantity ex_lots)"
  unfolding common_grid_def
  by (auto simp: ex_lots_def intro: exI [of _ 5])

lemma ex_friday: "is_market_business_day {} 8" "business_days {} 5 8 = {8}"
proof -
  have "d = 6 \<or> d = 7 \<or> d = 8" if "5 < d" "d \<le> 8" for d :: int using that by arith
  then show "business_days {} 5 8 = {8}"
    by (force simp: business_days_def is_market_business_day_def weekday_def)
qed (simp add: is_market_business_day_def weekday_def)

lemma ex_settles: "business_day_loop {} 5 1 = Inr 8"
  by (simp add: business_day_loop.simps [of "{}" 5] business_day_loop.simps [of "{}" 6]
      business_day_loop.simps [of "{}" 7] business_day_loop.simps [of "{}" 8]
      is_market_business_day_def weekday_def max_ordinal_def)

lemma ex_decision:
  "\<exists>d. evaluate_sell_compliance ''ABC'' (Fin 7) (Some CASH) (ex_day 5) ex_lots = Inr d \<and>
     \<not> sd_approved d \<and> sd_next_eligible_sell_date d = Some 8"
  by (simp add: evaluate_sell_compliance_def ex_valid ex_matching Let_def res_simps)
    (simp add: ex_lots_def safe_cash_quantity_def lot_is_safe_def dated_lots_def dec_defs
      dsum_def date_when_quantity_is_safe_def sell_decision_post_init_def)

lemma ex_later:
  "\<exists>d. evaluate_sell_compliance ''ABC'' (Fin 7) (Some CASH) (ex_day 8) ex_lots = Inr d"
  using evaluate_wellformed [OF ex_valid] by blast

theorem settlement_is_nth_business_day_witness: "settlement_date {} 5 1 = Inr 8"
  by (subst settlement_is_nth_business_day) (simp_all add: ex_friday max_ordinal_def)

theorem next_eligible_date_is_exact_witness:
  "\<exists>d. evaluate_sell_compliance ''ABC'' (Fin 7) (Some CASH) (ex_day 8) ex_lots = Inr d \<and> sd_approved d"
proof -
  obtain d d' where d: "evaluate_sell_compliance ''ABC'' (Fin 7) (Some CASH) (ex_day 5) ex_lots = Inr d"
      "\<not> sd_approved d" "sd_next_eligible_sell_date d = Some 8"
    and d': "evaluate_sell_compliance ''ABC'' (Fin 7) (Some CASH) (ex_day 8) ex_lots = Inr d'"
    using ex_decision ex_later by blast
  from next_eligible_date_is_exact [OF ex_valid _ _ _ d(1) d' d(2), of 0] d' d(3)
  show ?thesis by (simp add: ex_matching ex_grid) (simp add: ex_lots_def)
qed

theorem sale_funded_purchase_witness:
  "\<exists>lot. record_purchase_funded_by_sale [] ''ABC'' (Fin 5) (Aware 0 0) 5 SEC_STOCK {} = Inr [lot] \<and>
     valid_lot lot"
proof -
  have "\<exists>l. record_purchase_funded_by_sale [] ''ABC'' (Fin 5) (Aware 0 0) 5 SEC_STOCK {} = Inr l"
    using ex_settles
    by (simp add: record_purchase_funded_by_sale_def settlement_date_def
        add_market_business_days_def record_purchase_def res_simps purchase_lot_post_init_def)
      (simp add: normalize_symbol_def strip_def lstrip_def is_space_def upper_def upper_char_def)
  then obtain l where l: "record_purchase_funded_by_sale [] ''ABC'' (Fin 5) (Aware 0 0) 5 SEC_STOCK {} = Inr l" ..
  from sale_funded_purchase_is_restricted_until_settlement [OF l] l show ?thesis
    by (auto simp: max_ordinal_def)
qed

end
