(* ===== verification/Decimal_Text.thy ===== *)
theory Decimal_Text
  imports Decimals
begin

text \<open>
  The text of a Decimal: \<open>format(value.normalize(), "f")\<close> as the order fingerprint uses it
  (app/order\_compliance/validator.py).  \<open>normalize\<close> rounds to the 28 digits of the context
  and strips trailing zeros of the coefficient; the format \<open>f\<close> prints without exponent.
  A parser of such texts and the round trip show that the text determines the number.
  A zero prints as \<open>0\<close> (the sign of a negative zero is not modelled).
\<close>

subsection \<open>Digits\<close>

definition digit :: "nat \<Rightarrow> char" where
  "digit n = char_of (48 + n)"

fun digits :: "nat \<Rightarrow> string" where
  "digits n = (if n < 10 then [digit n] else digits (n div 10) @ [digit (n mod 10)])"

declare digits.simps [simp del]

definition digit_value :: "char \<Rightarrow> nat" where
  "digit_value c = of_char c - 48"

definition digits_value :: "string \<Rightarrow> nat" where
  "digits_value s = foldl (\<lambda>a c. 10 * a + digit_value c) 0 s"

fun padded :: "nat \<Rightarrow> nat \<Rightarrow> string" where
  "padded 0 n = []"
| "padded (Suc k) n = padded k (n div 10) @ [digit (n mod 10)]"

definition is_digit :: "char \<Rightarrow> bool" where
  "is_digit c = (let n = (of_char c :: nat) in 48 \<le> n \<and> n \<le> 57)"

lemma of_char_digit [simp]: "n < 10 \<Longrightarrow> (of_char (digit n) :: nat) = 48 + n"
  by (simp add: digit_def of_char_of)

lemma digit_value_digit [simp]: "n < 10 \<Longrightarrow> digit_value (digit n) = n"
  by (simp add: digit_value_def)

lemma is_digit_digit [simp]: "n < 10 \<Longrightarrow> is_digit (digit n)"
  by (simp add: is_digit_def)

lemma digits_value_Nil [simp]: "digits_value [] = 0"
  by (simp add: digits_value_def)

lemma digits_value_snoc [simp]: "digits_value (s @ [c]) = 10 * digits_value s + digit_value c"
  by (simp add: digits_value_def)

lemma digits_value_digits [simp]: "digits_value (digits n) = n"
proof (induction n rule: digits.induct)
  case (1 n)
  show ?case
  proof (cases "n < 10")
    case True
    then show ?thesis by (simp add: digits.simps [of n] digits_value_def)
  next
    case False
    with 1 show ?thesis by (simp add: digits.simps [of n])
  qed
qed

lemma digits_are_digits: "c \<in> set (digits n) \<Longrightarrow> is_digit c"
proof (induction n rule: digits.induct)
  case (1 n)
  then show ?case by (cases "n < 10") (auto simp: digits.simps [of n])
qed

lemma digits_nonempty [simp]: "digits n \<noteq> []"
  by (subst digits.simps) simp

lemma length_padded [simp]: "length (padded k n) = k"
  by (induction k arbitrary: n) auto

lemma padded_are_digits: "c \<in> set (padded k n) \<Longrightarrow> is_digit c"
  by (induction k arbitrary: n) auto

lemma digits_value_padded: "digits_value (s @ padded k n) = 10 ^ k * digits_value s + n mod 10 ^ k"
proof (induction k arbitrary: n)
  case (Suc k)
  have "digits_value (s @ padded (Suc k) n) =
      10 * (10 ^ k * digits_value s + (n div 10) mod 10 ^ k) + n mod 10"
    using Suc [of "n div 10"] digits_value_snoc [of "s @ padded k (n div 10)" "digit (n mod 10)"]
    by simp
  also have "\<dots> = 10 ^ Suc k * digits_value s + (10 * ((n div 10) mod 10 ^ k) + n mod 10)"
    by simp
  also have "10 * ((n div 10) mod 10 ^ k) + n mod 10 = n mod 10 ^ Suc k"
    by (simp add: mod_mult2_eq)
  finally show ?case .
qed simp

subsection \<open>Normalising and formatting\<close>

text \<open>Coefficient and exponent without trailing zeros.\<close>

function strip_zeros :: "int \<Rightarrow> int \<Rightarrow> int \<times> int" where
  "strip_zeros c e = (if c \<noteq> 0 \<and> c mod 10 = 0 then strip_zeros (c div 10) (e + 1) else (c, e))"
  by pat_completeness auto
termination
  by (relation "measure (\<lambda>(c, e). nat \<bar>c\<bar>)") auto

declare strip_zeros.simps [simp del]

definition decimal_normalize :: "rat \<Rightarrow> int \<times> int" where
  "decimal_normalize x =
     (if x = 0 then (0, 0) else strip_zeros (half_even (x / ulp x)) (mag x - (prec - 1)))"

definition format_f :: "int \<times> int \<Rightarrow> string" where
  "format_f ce = (case ce of (c, e) \<Rightarrow>
     (if c < 0 then ''-'' else []) @
     (let n = nat \<bar>c\<bar> in
      if 0 \<le> e then digits n @ replicate (nat e) CHR ''0''
      else digits (n div 10 ^ nat (- e)) @ ''.'' @ padded (nat (- e)) n))"

definition decimal_text :: "rat \<Rightarrow> string" where
  "decimal_text x = format_f (decimal_normalize x)"

text \<open>Reading such a text back.\<close>

definition text_value :: "string \<Rightarrow> rat" where
  "text_value s =
     (let t = filter (\<lambda>c. c \<noteq> CHR ''-'') s;
          ip = takeWhile is_digit t;
          fp = drop 1 (dropWhile is_digit t);
          v = of_nat (digits_value (ip @ fp)) / 10 ^ length fp in
      if CHR ''-'' \<in> set s then - v else v)"

lemma strip_zeros_value:
  "strip_zeros c e = (c', e') \<Longrightarrow> of_int c' * (10::rat) powi e' = of_int c * 10 powi e"
proof (induction c e arbitrary: c' e' rule: strip_zeros.induct)
  case (1 c e)
  show ?case
  proof (cases "c \<noteq> 0 \<and> c mod 10 = 0")
    case True
    then have "c = c div 10 * 10" by auto
    then have c: "of_int c = (of_int (c div 10) * 10 :: rat)" by (metis of_int_mult of_int_numeral)
    from True "1.prems" have "strip_zeros (c div 10) (e + 1) = (c', e')"
      by (subst (asm) strip_zeros.simps) simp
    from "1.IH" [OF True this] show ?thesis
      by (simp add: c power_int_add ac_simps)
  next
    case False
    then have "strip_zeros c e = (c, e)" by (subst strip_zeros.simps) auto
    with "1.prems" show ?thesis by simp
  qed
qed

lemma decimal_normalize_value:
  "decimal_normalize x = (c, e) \<Longrightarrow> of_int c * 10 powi e = rnd x"
  by (auto simp: decimal_normalize_def rnd_def ulp_def split: if_splits dest: strip_zeros_value)

lemma not_digit [simp]: "\<not> is_digit CHR ''.''" "\<not> is_digit CHR ''-''" "\<not> is_digit CHR ''|''"
  by (simp_all add: is_digit_def)

lemma is_digit_zero [simp]: "is_digit CHR ''0''"
  by (simp add: is_digit_def)

lemma digits_value_zeros: "digits_value (s @ replicate k CHR ''0'') = 10 ^ k * digits_value s"
proof (induction k)
  case (Suc k)
  have "s @ replicate (Suc k) CHR ''0'' = (s @ replicate k CHR ''0'') @ [CHR ''0'']"
    by (simp add: replicate_append_same)
  then show ?case
    using Suc digits_value_snoc [of "s @ replicate k CHR ''0''" "CHR ''0''"]
    by (simp add: digit_value_def)
qed simp

lemma digit_only: "\<forall>c\<in>set s. is_digit c \<Longrightarrow> filter (\<lambda>c. c \<noteq> CHR ''-'') s = s \<and> CHR ''-'' \<notin> set s"
  by (auto simp: filter_id_conv)

lemma text_value_format_f: "text_value (format_f (c, e)) = of_int c * 10 powi e"
proof -
  define n where "n = nat \<bar>c\<bar>"
  define body where "body = (if 0 \<le> e then digits n @ replicate (nat e) CHR ''0''
      else digits (n div 10 ^ nat (- e)) @ ''.'' @ padded (nat (- e)) n)"
  have fmt: "format_f (c, e) = (if c < 0 then ''-'' else []) @ body"
    by (simp add: format_f_def n_def body_def Let_def)
  have body: "\<forall>x\<in>set body. is_digit x \<or> x = CHR ''.''"
    by (auto simp: body_def dest: digits_are_digits padded_are_digits)
  then have nominus: "CHR ''-'' \<notin> set body" by force
  then have filt: "filter (\<lambda>c. c \<noteq> CHR ''-'') body = body"
    by (auto simp: filter_id_conv)
  define v where "v = (of_nat (digits_value (takeWhile is_digit body @ drop 1 (dropWhile is_digit body))) :: rat) /
      10 ^ length (drop 1 (dropWhile is_digit body))"
  have tv: "text_value (format_f (c, e)) = (if c < 0 then - v else v)"
    using nominus filt by (simp add: fmt text_value_def Let_def v_def)
  have "v = of_nat n * 10 powi e"
  proof (cases "0 \<le> e")
    case True
    then have all: "\<forall>x\<in>set body. is_digit x" by (auto simp: body_def dest: digits_are_digits)
    have tw: "takeWhile is_digit body = body" using all by (simp add: takeWhile_eq_all_conv)
    have dw: "dropWhile is_digit body = []" using all by (simp add: dropWhile_eq_Nil_conv)
    have "v = of_nat (digits_value body)" by (simp add: v_def tw dw)
    also have "\<dots> = of_nat n * 10 ^ nat e" using True by (simp add: body_def digits_value_zeros)
    finally show ?thesis using True by (simp add: power_int_def)
  next
    case False
    define k where "k = nat (- e)"
    have b: "body = digits (n div 10 ^ k) @ CHR ''.'' # padded k n"
      using False by (simp add: body_def k_def)
    have tw: "takeWhile is_digit body = digits (n div 10 ^ k)"
      unfolding b by (simp add: takeWhile_append2 digits_are_digits)
    have dw: "dropWhile is_digit body = CHR ''.'' # padded k n"
      unfolding b by (simp add: dropWhile_append2 digits_are_digits)
    have "v = of_nat n / 10 ^ k"
      by (simp add: v_def tw dw digits_value_padded)
    then show ?thesis
      using False by (simp add: k_def power_int_def field_simps)
  qed
  then show ?thesis
    using tv by (auto simp: n_def)
qed

text \<open>Decoding a printed Decimal gives it back, to the context's 28 digits.\<close>

lemma text_value_decimal_text: "text_value (decimal_text x) = rnd x"
  by (cases "decimal_normalize x") (simp add: decimal_text_def text_value_format_f decimal_normalize_value)

lemma decimal_text_inject: "decimal_text x = decimal_text y \<Longrightarrow> rnd x = rnd y"
  by (metis text_value_decimal_text)

lemma decimal_text_nonempty [simp]: "decimal_text x \<noteq> []"
  by (auto simp: decimal_text_def format_f_def Let_def split: prod.splits)

lemma decimal_text_no_bar: "CHR ''|'' \<notin> set (decimal_text x)"
proof
  assume "CHR ''|'' \<in> set (decimal_text x)"
  then have "is_digit CHR ''|''"
    by (auto simp: decimal_text_def format_f_def Let_def split: prod.splits if_splits
        dest: digits_are_digits padded_are_digits)
  then show False by simp
qed

end
