(* ===== verification/Compliance.thy ===== *)
theory Compliance
  imports Settlement Decimal_Text
begin

text \<open>
  The order compliance gate (app/order\_compliance): the proposal, account, market and
  limit records (models.py), price ticks (price\_rules.py), sessions (market\_hours.py), the
  kill switch and \<open>evaluate_order_compliance\<close> (validator.py).  The gate is handed values it
  does not trust: Decimals that may be NaN or infinite, and a missing kill switch, risk or
  settlement decision (\<open>None\<close>).
\<close>

subsection \<open>Models\<close>

datatype proposal_side = BUY | SELL

datatype proposal_type = MARKET | LIMIT | STOP | STOP_LIMIT

datatype trading_session = REGULAR | EXTENDED_HOURS

datatype market_status = OPEN | CLOSED | HALTED | CIRCUIT_BREAKER | UNKNOWN

datatype symbol_status = TRADABLE | NOT_TRADABLE | SYMBOL_HALTED | SYMBOL_UNKNOWN

fun side_value :: "proposal_side \<Rightarrow> string" where
  "side_value BUY = ''BUY''" | "side_value SELL = ''SELL''"

fun type_value :: "proposal_type \<Rightarrow> string" where
  "type_value MARKET = ''MARKET''" | "type_value LIMIT = ''LIMIT''"
| "type_value STOP = ''STOP''" | "type_value STOP_LIMIT = ''STOP_LIMIT''"

fun session_value :: "trading_session \<Rightarrow> string" where
  "session_value REGULAR = ''REGULAR''" | "session_value EXTENDED_HOURS = ''EXTENDED_HOURS''"

fun market_status_value :: "market_status \<Rightarrow> string" where
  "market_status_value OPEN = ''OPEN''" | "market_status_value CLOSED = ''CLOSED''"
| "market_status_value HALTED = ''HALTED''"
| "market_status_value CIRCUIT_BREAKER = ''CIRCUIT_BREAKER''"
| "market_status_value UNKNOWN = ''UNKNOWN''"

fun symbol_status_value :: "symbol_status \<Rightarrow> string" where
  "symbol_status_value TRADABLE = ''TRADABLE''"
| "symbol_status_value NOT_TRADABLE = ''NOT_TRADABLE''"
| "symbol_status_value SYMBOL_HALTED = ''HALTED''"
| "symbol_status_value SYMBOL_UNKNOWN = ''UNKNOWN''"

record proposed_order =
  pr_request_id :: string
  pr_symbol :: string
  pr_side :: proposal_side
  pr_order_type :: proposal_type
  pr_quantity :: dec
  pr_limit_price :: "dec option"
  pr_stop_price :: "dec option"
  pr_requested_session :: trading_session
  pr_created_timestamp :: datetime

record account_state =
  ac_account_type :: account_type
  ac_account_equity :: dec
  ac_daily_realized_pnl :: dec
  ac_daily_unrealized_pnl :: dec
  ac_trades_executed_today :: int
  ac_open_order_request_ids :: "string list"
  ac_open_order_fingerprints :: "string list"
  ac_symbol_position_quantity :: dec
  ac_symbol_market_value :: dec
  ac_total_gross_exposure :: dec
  ac_current_timestamp :: datetime

record market_state =
  ms_symbol :: string
  ms_market_status :: market_status
  ms_symbol_status :: symbol_status
  ms_regular_open :: datetime
  ms_regular_close :: datetime
  ms_extended_open :: datetime
  ms_extended_close :: datetime
  ms_price_tick_size :: "dec option"
  ms_status_as_of :: datetime
  ms_verified_reference_price :: "dec option"

record compliance_limits =
  cl_maximum_daily_loss_amount :: dec
  cl_maximum_daily_loss_percent :: dec
  cl_maximum_trades_per_day :: int
  cl_maximum_position_percent :: dec
  cl_maximum_gross_exposure_percent :: dec
  cl_maximum_market_status_age_seconds :: int
  cl_allow_extended_hours :: bool
  cl_allow_market_orders_in_extended_hours :: bool

record compliance_decision =
  cd_approved :: bool
  cd_approval_reason :: string
  cd_request_id :: string
  cd_checks_passed :: "string list"
  cd_checks_failed :: "string list"
  cd_warnings :: "string list"
  cd_maximum_compliant_quantity :: "rat option"
  cd_normalized_limit_price :: "rat option"
  cd_normalized_stop_price :: "rat option"
  cd_lower_valid_tick :: "rat option"
  cd_upper_valid_tick :: "rat option"

record kill_switch_state =
  ks_enabled :: bool
  ks_reason :: string
  ks_activated_timestamp :: "datetime option"
  ks_activated_by :: string

text \<open>\<open>LegacyRiskDecision\<close> (app/risk/models.py), with its constructor's checks.\<close>

record risk_decision =
  rd_approved :: bool
  rd_approval_reason :: string
  rd_risk_score :: int
  rd_max_position_percent :: rat
  rd_stop_loss_valid :: bool
  rd_take_profit_valid :: bool
  rd_warnings :: "string list"

definition risk_decision_post_init :: "risk_decision \<Rightarrow> risk_decision res" where
  "risk_decision_post_init d =
     (if \<not> (0 \<le> rd_risk_score d \<and> rd_risk_score d \<le> 100)
      then Inl (Raise ValueError ''risk_score must be between 0 and 100'')
      else if \<not> (0 \<le> rd_max_position_percent d \<and> rd_max_position_percent d \<le> 100)
      then Inl (Raise ValueError ''max_position_percent must be between 0 and 100'')
      else if strip (rd_approval_reason d) = []
      then Inl (Raise ValueError ''approval_reason must not be empty'')
      else Inr d)"

subsection \<open>Kill switch and sessions\<close>

definition kill_switch_failure :: "kill_switch_state option \<Rightarrow> string option" where
  "kill_switch_failure state =
     (case state of
        None \<Rightarrow> Some ''Kill-switch state is missing or malformed.''
      | Some ks \<Rightarrow>
        if ks_enabled ks then
          (if strip (ks_reason ks) = [] \<or> strip (ks_activated_by ks) = []
           then Some ''Kill switch is enabled with incomplete activation metadata.''
           else if \<not> (case ks_activated_timestamp ks of None \<Rightarrow> False | Some t \<Rightarrow> tz_aware t)
           then Some ''Kill switch is enabled with an invalid activation timestamp.''
           else Some (''Kill switch is enabled: '' @ ks_reason ks))
        else None)"

definition in_window :: "datetime \<Rightarrow> datetime \<Rightarrow> datetime \<Rightarrow> bool" where
  "in_window a t b \<longleftrightarrow> dt_le a t \<and> dt_le t b"

text \<open>The age of a time stamp against \<open>timedelta(seconds=maximum)\<close>.\<close>

definition fresh :: "datetime \<Rightarrow> datetime \<Rightarrow> int \<Rightarrow> bool" where
  "fresh now ts maximum_seconds \<longleftrightarrow>
     0 \<le> instant now - instant ts \<and> instant now - instant ts \<le> maximum_seconds * us_per_second"

definition validate_market_and_session ::
  "proposed_order \<Rightarrow> market_state \<Rightarrow> compliance_limits \<Rightarrow> datetime \<Rightarrow> string list" where
  "validate_market_and_session ord m lims now =
     (if list_ex (\<lambda>t. \<not> tz_aware t)
           [ms_regular_open m, ms_regular_close m, ms_extended_open m, ms_extended_close m,
            ms_status_as_of m, now]
      then [''Market/session timestamps must be timezone-aware.'']
      else
        (if fresh now (ms_status_as_of m) (cl_maximum_market_status_age_seconds lims) then []
         else [''Market status is stale or future-dated.'']) @
        (if ms_symbol_status m \<noteq> TRADABLE
         then [''Symbol status is not tradable: '' @ symbol_status_value (ms_symbol_status m) @ ''.'']
         else []) @
        (if ms_market_status m \<noteq> OPEN
         then [''Market status does not permit trading: '' @ market_status_value (ms_market_status m) @ ''.'']
         else []) @
        (case pr_requested_session ord of
           REGULAR \<Rightarrow>
             (if in_window (ms_regular_open m) now (ms_regular_close m) then []
              else [''Current time is outside the supplied regular session.''])
         | EXTENDED_HOURS \<Rightarrow>
             (if \<not> cl_allow_extended_hours lims then [''Extended-hours trading is disabled.''] else []) @
             (if in_window (ms_extended_open m) now (ms_extended_close m) then []
              else [''Current time is outside the supplied extended-hours session.'']) @
             (if pr_order_type ord = MARKET \<and> \<not> cl_allow_market_orders_in_extended_hours lims
              then [''Market orders are disabled during extended hours.''] else [])))"

subsection \<open>Price ticks\<close>

record price_validation =
  pv_failures :: "string list"
  pv_normalized_limit_price :: "rat option"
  pv_normalized_stop_price :: "rat option"
  pv_lower_valid_tick :: "rat option"
  pv_upper_valid_tick :: "rat option"

definition no_prices :: "string list \<Rightarrow> price_validation" where
  "no_prices failures =
     \<lparr>pv_failures = failures, pv_normalized_limit_price = None, pv_normalized_stop_price = None,
      pv_lower_valid_tick = None, pv_upper_valid_tick = None\<rparr>"

text \<open>One round of the loop over the required prices; \<open>is_limit\<close> tells the two names apart.\<close>

definition price_title :: "bool \<Rightarrow> string" where
  "price_title is_limit = (if is_limit then ''Limit'' else ''Stop'')"

definition validate_price ::
  "rat \<Rightarrow> price_validation \<Rightarrow> bool \<times> dec option \<Rightarrow> price_validation" where
  "validate_price tick pv np = (case np of (is_limit, price) \<Rightarrow>
     (case price of
        None \<Rightarrow> pv\<lparr>pv_failures := pv_failures pv @ [price_title is_limit @ '' price is required.'']\<rparr>
      | Some d \<Rightarrow>
        if \<not> dec_positive d
        then pv\<lparr>pv_failures := pv_failures pv @
               [price_title is_limit @ '' price must be a finite positive Decimal.'']\<rparr>
        else let quotient = ddiv (fin d) tick in
        if quotient \<noteq> of_int (half_even quotient)
        then let pv' = pv\<lparr>pv_failures := pv_failures pv @
                 [price_title is_limit @ '' price does not conform to tick size.'']\<rparr> in
             (if pv_lower_valid_tick pv = None
              then let lower = dmul (of_int \<lfloor>quotient\<rfloor>) tick in
                   pv'\<lparr>pv_lower_valid_tick := Some lower,
                       pv_upper_valid_tick := Some (dadd lower tick)\<rparr>
              else pv')
        else if is_limit then pv\<lparr>pv_normalized_limit_price := Some (fin d)\<rparr>
        else pv\<lparr>pv_normalized_stop_price := Some (fin d)\<rparr>))"

definition valid_tick :: "dec option \<Rightarrow> bool" where
  "valid_tick t = (case t of None \<Rightarrow> False | Some d \<Rightarrow> dec_positive d)"

definition validate_prices :: "proposed_order \<Rightarrow> dec option \<Rightarrow> price_validation" where
  "validate_prices ord tick_size =
     (if pr_order_type ord = MARKET
      then no_prices (if pr_limit_price ord \<noteq> None \<or> pr_stop_price ord \<noteq> None
                      then [''MARKET orders must not contain limit or stop prices.''] else [])
      else if \<not> valid_tick tick_size
      then no_prices [''Price tick size is missing, non-positive, or non-finite.'']
      else
        (let wants_limit = (pr_order_type ord \<in> {LIMIT, STOP_LIMIT});
             wants_stop = (pr_order_type ord \<in> {STOP, STOP_LIMIT});
             failures =
               (if \<not> wants_limit \<and> pr_limit_price ord \<noteq> None
                then [''Limit price is not allowed for this order type.''] else []) @
               (if \<not> wants_stop \<and> pr_stop_price ord \<noteq> None
                then [''Stop price is not allowed for this order type.''] else []);
             required = (if wants_limit then [(True, pr_limit_price ord)] else []) @
                        (if wants_stop then [(False, pr_stop_price ord)] else []) in
         foldl (validate_price (fin (the tick_size))) (no_prices failures) required))"

subsection \<open>The validator\<close>

fun dec_text :: "dec \<Rightarrow> string" where
  "dec_text (Fin x) = decimal_text x"
| "dec_text PInf = ''Infinity''"
| "dec_text NInf = ''-Infinity''"
| "dec_text NaN = ''NaN''"

definition optional_text :: "dec option \<Rightarrow> string" where
  "optional_text d = (case d of None \<Rightarrow> [] | Some x \<Rightarrow> dec_text x)"

definition order_fingerprint :: "proposed_order \<Rightarrow> string" where
  "order_fingerprint ord =
     join ''|'' [normalize_symbol (pr_symbol ord), side_value (pr_side ord),
       type_value (pr_order_type ord), dec_text (pr_quantity ord),
       optional_text (pr_limit_price ord), optional_text (pr_stop_price ord),
       session_value (pr_requested_session ord)]"

definition valid_order :: "proposed_order \<Rightarrow> bool" where
  "valid_order ord \<longleftrightarrow> strip (pr_request_id ord) \<noteq> [] \<and> strip (pr_symbol ord) \<noteq> [] \<and>
     dec_positive (pr_quantity ord) \<and> tz_aware (pr_created_timestamp ord)"

definition valid_account :: "account_state \<Rightarrow> bool" where
  "valid_account st \<longleftrightarrow>
     list_all is_finite [ac_account_equity st, ac_daily_realized_pnl st, ac_daily_unrealized_pnl st,
       ac_symbol_position_quantity st, ac_symbol_market_value st, ac_total_gross_exposure st] \<and>
     dec_positive (ac_account_equity st) \<and> dec_nonnegative (ac_symbol_position_quantity st) \<and>
     dec_nonnegative (ac_symbol_market_value st) \<and> dec_nonnegative (ac_total_gross_exposure st) \<and>
     0 \<le> ac_trades_executed_today st \<and> tz_aware (ac_current_timestamp st)"

definition valid_limits :: "compliance_limits \<Rightarrow> bool" where
  "valid_limits lims \<longleftrightarrow>
     list_all dec_positive [cl_maximum_daily_loss_amount lims, cl_maximum_daily_loss_percent lims,
       cl_maximum_position_percent lims, cl_maximum_gross_exposure_percent lims] \<and>
     0 < cl_maximum_trades_per_day lims \<and> 0 \<le> cl_maximum_market_status_age_seconds lims"

definition daily_loss_ok :: "account_state \<Rightarrow> compliance_limits \<Rightarrow> bool" where
  "daily_loss_ok st lims =
     (if \<not> list_all is_finite [ac_daily_realized_pnl st, ac_daily_unrealized_pnl st,
           ac_account_equity st, cl_maximum_daily_loss_amount lims, cl_maximum_daily_loss_percent lims]
      then False
      else if fin (ac_account_equity st) \<le> 0 then False
      else let combined_pnl = dadd (fin (ac_daily_realized_pnl st)) (fin (ac_daily_unrealized_pnl st));
        loss_magnitude = (if combined_pnl < 0 then dneg combined_pnl else 0);
        loss_percent = dmul (ddiv loss_magnitude (fin (ac_account_equity st))) 100 in
        loss_magnitude < fin (cl_maximum_daily_loss_amount lims) \<and>
        loss_percent < fin (cl_maximum_daily_loss_percent lims))"

definition fresh_order_state :: "proposed_order \<Rightarrow> account_state \<Rightarrow> compliance_limits \<Rightarrow> bool" where
  "fresh_order_state ord st lims \<longleftrightarrow>
     tz_aware (pr_created_timestamp ord) \<and> tz_aware (ac_current_timestamp st) \<and>
     fresh (ac_current_timestamp st) (pr_created_timestamp ord)
       (cl_maximum_market_status_age_seconds lims)"

definition positive_value :: "dec option \<Rightarrow> rat option" where
  "positive_value d = (case d of None \<Rightarrow> None
     | Some x \<Rightarrow> if dec_positive x then Some (fin x) else None)"

definition proposal_price :: "proposed_order \<Rightarrow> market_state \<Rightarrow> rat option" where
  "proposal_price ord m =
     (if pr_order_type ord \<in> {LIMIT, STOP_LIMIT} then positive_value (pr_limit_price ord)
      else if pr_order_type ord = STOP then positive_value (pr_stop_price ord)
      else positive_value (ms_verified_reference_price m))"

text \<open>Only called on a valid account, whose Decimals are finite.\<close>

definition maximum_quantity ::
  "proposed_order \<Rightarrow> account_state \<Rightarrow> risk_decision option \<Rightarrow> sell_decision option \<Rightarrow>
   rat option \<Rightarrow> rat" where
  "maximum_quantity ord st risk gfv price =
     (if pr_side ord = SELL then
        (if ac_account_type st = CASH then
           (case gfv of None \<Rightarrow> 0
            | Some g \<Rightarrow> min (fin (ac_symbol_position_quantity st)) (sd_safe_sell_quantity g))
         else fin (ac_symbol_position_quantity st))
      else case risk of None \<Rightarrow> 0
      | Some r \<Rightarrow> (case price of None \<Rightarrow> 0
        | Some p \<Rightarrow>
          if rd_max_position_percent r < 0 then 0
          else of_int \<lfloor>ddiv (ddiv (dmul (fin (ac_account_equity st)) (rd_max_position_percent r)) 100) p\<rfloor>))"

text \<open>\<open>a <= b\<close> on Decimals: a comparison with NaN signals \<open>InvalidOperation\<close>.\<close>

fun dec_le :: "dec \<Rightarrow> dec \<Rightarrow> bool res" where
  "dec_le NaN b = Inl (Raise InvalidOperation [])"
| "dec_le a NaN = Inl (Raise InvalidOperation [])"
| "dec_le (Fin x) (Fin y) = Inr (x \<le> y)"
| "dec_le NInf b = Inr True"
| "dec_le a PInf = Inr True"
| "dec_le PInf b = Inr False"
| "dec_le a NInf = Inr False"

text \<open>\<open>(held + notional) / equity * 100\<close> for a positive finite equity.\<close>

fun percent_after :: "rat \<Rightarrow> rat \<Rightarrow> dec \<Rightarrow> dec" where
  "percent_after notional equity (Fin x) = Fin (dmul (ddiv (dadd x notional) equity) 100)"
| "percent_after notional equity PInf = PInf"
| "percent_after notional equity NInf = NInf"
| "percent_after notional equity NaN = NaN"

definition exposure_checks ::
  "proposed_order \<Rightarrow> account_state \<Rightarrow> compliance_limits \<Rightarrow> rat option \<Rightarrow> (bool \<times> bool) res" where
  "exposure_checks ord st lims price =
     (if \<not> dec_positive (pr_quantity ord) \<or> \<not> dec_positive (ac_account_equity st)
      then Inr (False, False)
      else if pr_side ord = SELL
      then rbind (dec_le (pr_quantity ord) (ac_symbol_position_quantity st))
             (\<lambda>supported. Inr (supported, supported))
      else case price of
        None \<Rightarrow> Inr (False, False)
      | Some p \<Rightarrow>
          let notional = dmul (fin (pr_quantity ord)) p; equity = fin (ac_account_equity st);
            position_percent = percent_after notional equity (ac_symbol_market_value st);
            gross_percent = percent_after notional equity (ac_total_gross_exposure st) in
          rbind (dec_le position_percent (cl_maximum_position_percent lims)) (\<lambda>position_ok.
          rbind (dec_le gross_percent (cl_maximum_gross_exposure_percent lims)) (\<lambda>gross_ok.
            Inr (position_ok, gross_ok))))"

definition market_failure_label :: "string \<Rightarrow> string" where
  "market_failure_label message =
     (if contains ''stale or future-dated'' message then ''market_freshness''
      else if starts_with ''Symbol'' message then ''symbol_tradable''
      else if starts_with ''Market status'' message then ''market_status''
      else ''market_session'')"

definition add_check :: "string \<Rightarrow> bool \<Rightarrow> string list \<times> string list \<Rightarrow> string list \<times> string list" where
  "add_check name condition pf = (case pf of (passed, failed) \<Rightarrow>
     if condition then (passed @ [name], failed) else (passed, failed @ [name]))"

text \<open>
  \<open>evaluate_order_compliance\<close>: the named checks in the order the code makes them, then
  the decision.
\<close>

definition evaluate_order_compliance ::
  "proposed_order \<Rightarrow> account_state \<Rightarrow> market_state \<Rightarrow> compliance_limits \<Rightarrow>
   kill_switch_state option \<Rightarrow> sell_decision option \<Rightarrow> risk_decision option \<Rightarrow>
   compliance_decision res" where
  "evaluate_order_compliance ord st m lims kill gfv risk =
     (let base_valid = (valid_order ord \<and> valid_account st \<and> valid_limits lims);
        kill_failure = kill_switch_failure kill;
        risk_approved = (case risk of None \<Rightarrow> False | Some r \<Rightarrow> rd_approved r);
        is_cash_sell = (pr_side ord = SELL \<and> ac_account_type st = CASH);
        gfv_approved = (\<not> is_cash_sell \<or> (case gfv of None \<Rightarrow> False
          | Some g \<Rightarrow> sd_approved g \<and> Fin (sd_requested_quantity g) = pr_quantity ord));
        price_result = validate_prices ord (ms_price_tick_size m);
        price = proposal_price ord m;
        maximum = (if base_valid then Some (maximum_quantity ord st risk gfv price) else None);
        within_upstream = (dec_positive (pr_quantity ord) \<and>
          (case maximum of None \<Rightarrow> False | Some q \<Rightarrow> fin (pr_quantity ord) \<le> q));
        market_failures = validate_market_and_session ord m lims (ac_current_timestamp st);
        with_label = (\<lambda>label. filter (\<lambda>item. market_failure_label item = label) market_failures);
        fingerprint = (if base_valid then order_fingerprint ord else []);
        sell_supported = (pr_side ord \<noteq> SELL \<or>
          (dec_positive (pr_quantity ord) \<and> is_finite (ac_symbol_position_quantity st) \<and>
           fin (pr_quantity ord) \<le> fin (ac_symbol_position_quantity st))) in
      rbind (exposure_checks ord st lims price) (\<lambda>(concentration_ok, gross_ok).
        let (passed, failed) = foldl (\<lambda>pf (name, condition). add_check name condition pf) ([], [])
          [(''input_types'', True), (''core_fields'', base_valid),
           (''kill_switch'', kill_failure = None), (''risk_approval'', risk_approved),
           (''gfv_approval'', gfv_approved), (''upstream_quantity'', within_upstream),
           (''account_freshness'', fresh_order_state ord st lims),
           (''market_freshness'', with_label ''market_freshness'' = []),
           (''symbol_match'', normalize_symbol (pr_symbol ord) = normalize_symbol (ms_symbol m)),
           (''symbol_tradable'', with_label ''symbol_tradable'' = []),
           (''market_status'', with_label ''market_status'' = []),
           (''market_session'', with_label ''market_session'' = []),
           (''price_rules'', pv_failures price_result = []),
           (''duplicate_request_id'',
             \<not> List.member (ac_open_order_request_ids st) (pr_request_id ord)),
           (''duplicate_fingerprint'',
             base_valid \<and> \<not> List.member (ac_open_order_fingerprints st) fingerprint),
           (''long_position'', sell_supported),
           (''trade_count'', ac_trades_executed_today st < cl_maximum_trades_per_day lims),
           (''daily_loss'', daily_loss_ok st lims),
           (''position_concentration'', concentration_ok), (''gross_exposure'', gross_ok)];
          approved = (failed = []);
          warnings = (case kill_failure of None \<Rightarrow> [] | Some w \<Rightarrow> [w]) @
            with_label ''market_freshness'' @ with_label ''symbol_tradable'' @
            with_label ''market_status'' @ with_label ''market_session'' @
            pv_failures price_result @
            (if approved then [] else
              [''Informational quantities and tick bounds require a new explicit request; this proposal was not changed.'']) in
        Inr \<lparr>cd_approved = approved,
          cd_approval_reason = (if approved then ''Approved for paper-execution simulation only.''
            else ''Rejected: one or more mandatory compliance checks failed.''),
          cd_request_id = pr_request_id ord, cd_checks_passed = passed, cd_checks_failed = failed,
          cd_warnings = warnings, cd_maximum_compliant_quantity = maximum,
          cd_normalized_limit_price = pv_normalized_limit_price price_result,
          cd_normalized_stop_price = pv_normalized_stop_price price_result,
          cd_lower_valid_tick = pv_lower_valid_tick price_result,
          cd_upper_valid_tick = pv_upper_valid_tick price_result\<rparr>))"

subsection \<open>What the gate checks\<close>

lemma foldl_add_check:
  "foldl (\<lambda>pf (name, condition). add_check name condition pf) (ps, fs) cs =
     (ps @ map fst (filter snd cs), fs @ map fst (filter (Not \<circ> snd) cs))"
  by (induction cs arbitrary: ps fs) (auto simp: add_check_def)

lemma label_cases:
  "market_failure_label x \<in> {''market_freshness'', ''symbol_tradable'', ''market_status'', ''market_session''}"
  by (simp add: market_failure_label_def)

lemma no_labelled_failures:
  "filter (\<lambda>x. market_failure_label x = ''market_freshness'') xs = [] \<and>
   filter (\<lambda>x. market_failure_label x = ''symbol_tradable'') xs = [] \<and>
   filter (\<lambda>x. market_failure_label x = ''market_status'') xs = [] \<and>
   filter (\<lambda>x. market_failure_label x = ''market_session'') xs = [] \<longleftrightarrow> xs = []"
  using label_cases [of "hd xs"] by (cases xs) auto

text \<open>The session rules without their messages.\<close>

definition market_permits ::
  "proposed_order \<Rightarrow> market_state \<Rightarrow> compliance_limits \<Rightarrow> datetime \<Rightarrow> bool" where
  "market_permits ord m lims now \<longleftrightarrow>
     list_all tz_aware [ms_regular_open m, ms_regular_close m, ms_extended_open m,
       ms_extended_close m, ms_status_as_of m, now] \<and>
     fresh now (ms_status_as_of m) (cl_maximum_market_status_age_seconds lims) \<and>
     ms_symbol_status m = TRADABLE \<and> ms_market_status m = OPEN \<and>
     (case pr_requested_session ord of
        REGULAR \<Rightarrow> in_window (ms_regular_open m) now (ms_regular_close m)
      | EXTENDED_HOURS \<Rightarrow> cl_allow_extended_hours lims \<and>
          in_window (ms_extended_open m) now (ms_extended_close m) \<and>
          (pr_order_type ord = MARKET \<longrightarrow> cl_allow_market_orders_in_extended_hours lims))"

lemma validate_market_Nil:
  "validate_market_and_session ord m lims now = [] \<longleftrightarrow> market_permits ord m lims now"
  by (auto simp: validate_market_and_session_def market_permits_def split: trading_session.splits)

lemma kill_switch_ok: "kill_switch_failure k = None \<longleftrightarrow> (\<exists>ks. k = Some ks \<and> \<not> ks_enabled ks)"
  by (auto simp: kill_switch_failure_def split: option.splits)

text \<open>
  What an approval means: the quantity, loss, exposure and duplicate rules written over
  the inputs.
\<close>

definition upstream_quantity_ok ::
  "proposed_order \<Rightarrow> account_state \<Rightarrow> market_state \<Rightarrow> sell_decision option \<Rightarrow> risk_decision \<Rightarrow> bool"
where
  "upstream_quantity_ok ord st m gfv r \<longleftrightarrow>
     (case pr_side ord of
        SELL \<Rightarrow> fin (pr_quantity ord) \<le> fin (ac_symbol_position_quantity st) \<and>
          (ac_account_type st = CASH \<longrightarrow>
             (\<exists>g. gfv = Some g \<and> sd_approved g \<and> Fin (sd_requested_quantity g) = pr_quantity ord \<and>
                fin (pr_quantity ord) \<le> sd_safe_sell_quantity g))
      | BUY \<Rightarrow> (\<exists>p. proposal_price ord m = Some p \<and> 0 < p \<and> 0 \<le> rd_max_position_percent r \<and>
          fin (pr_quantity ord) \<le>
            of_int \<lfloor>ddiv (ddiv (dmul (fin (ac_account_equity st)) (rd_max_position_percent r)) 100) p\<rfloor>))"

definition exposure_ok ::
  "proposed_order \<Rightarrow> account_state \<Rightarrow> market_state \<Rightarrow> compliance_limits \<Rightarrow> bool" where
  "exposure_ok ord st m lims \<longleftrightarrow>
     (pr_side ord = BUY \<longrightarrow> (\<exists>p. proposal_price ord m = Some p \<and>
        (let notional = dmul (fin (pr_quantity ord)) p; equity = fin (ac_account_equity st) in
         dmul (ddiv (dadd (fin (ac_symbol_market_value st)) notional) equity) 100
           \<le> fin (cl_maximum_position_percent lims) \<and>
         dmul (ddiv (dadd (fin (ac_total_gross_exposure st)) notional) equity) 100
           \<le> fin (cl_maximum_gross_exposure_percent lims))))"

definition order_permitted ::
  "proposed_order \<Rightarrow> account_state \<Rightarrow> market_state \<Rightarrow> compliance_limits \<Rightarrow>
   kill_switch_state option \<Rightarrow> sell_decision option \<Rightarrow> risk_decision option \<Rightarrow> bool" where
  "order_permitted ord st m lims kill gfv risk \<longleftrightarrow>
     valid_order ord \<and> valid_account st \<and> valid_limits lims \<and>
     (\<exists>ks. kill = Some ks \<and> \<not> ks_enabled ks) \<and>
     (\<exists>r. risk = Some r \<and> rd_approved r \<and> upstream_quantity_ok ord st m gfv r) \<and>
     fresh_order_state ord st lims \<and> market_permits ord m lims (ac_current_timestamp st) \<and>
     normalize_symbol (pr_symbol ord) = normalize_symbol (ms_symbol m) \<and>
     pv_failures (validate_prices ord (ms_price_tick_size m)) = [] \<and>
     pr_request_id ord \<notin> set (ac_open_order_request_ids st) \<and>
     order_fingerprint ord \<notin> set (ac_open_order_fingerprints st) \<and>
     ac_trades_executed_today st < cl_maximum_trades_per_day lims \<and>
     daily_loss_ok st lims \<and> exposure_ok ord st m lims"

lemma positive_value_Some: "positive_value d = Some p \<Longrightarrow> 0 < p"
  using dec_positiveD by (auto simp: positive_value_def split: option.splits if_splits)

lemma proposal_price_pos: "proposal_price ord m = Some p \<Longrightarrow> 0 < p"
  by (auto simp: proposal_price_def split: if_splits dest: positive_value_Some)

lemma is_finite_Fin: "is_finite d \<longleftrightarrow> d = Fin (fin d)"
  by (cases d) auto

lemma percent_after_Fin: "percent_after n e (Fin x) = Fin (dmul (ddiv (dadd x n) e) 100)"
  by simp

text \<open>On inputs that pass the field checks no comparison can signal.\<close>

lemma exposure_checks_valid:
  assumes "valid_order ord" and "valid_account st" and "valid_limits lims"
  shows "\<exists>c g. exposure_checks ord st lims (proposal_price ord m) = Inr (c, g) \<and>
    (c \<and> g \<longleftrightarrow> exposure_ok ord st m lims \<and>
      (pr_side ord = SELL \<longrightarrow> fin (pr_quantity ord) \<le> fin (ac_symbol_position_quantity st)))"
proof -
  have f: "dec_positive (pr_quantity ord)" "dec_positive (ac_account_equity st)"
    "is_finite (ac_symbol_position_quantity st)" "is_finite (ac_symbol_market_value st)"
    "is_finite (ac_total_gross_exposure st)" "dec_positive (cl_maximum_position_percent lims)"
    "dec_positive (cl_maximum_gross_exposure_percent lims)"
    using assms by (simp_all add: valid_order_def valid_account_def valid_limits_def)
  obtain q e where qe: "pr_quantity ord = Fin q" "0 < q" "ac_account_equity st = Fin e" "0 < e"
    using f(1,2) dec_positiveD by blast
  obtain pos mv ge where st: "ac_symbol_position_quantity st = Fin pos"
    "ac_symbol_market_value st = Fin mv" "ac_total_gross_exposure st = Fin ge"
    using f(3-5) is_finite_Fin by blast
  obtain pp gp where lims: "cl_maximum_position_percent lims = Fin pp"
    "cl_maximum_gross_exposure_percent lims = Fin gp"
    using f(6,7) dec_positiveD by blast
  note vals = qe st lims
  show ?thesis
    by (cases "pr_side ord"; cases "proposal_price ord m")
      (auto simp: exposure_checks_def exposure_ok_def vals Let_def)
qed

lemmas compliance_defs = evaluate_order_compliance_def Let_def foldl_add_check case_prod_beta res_simps

lemma evaluate_valid:
  assumes "valid_order ord" and "valid_account st" and "valid_limits lims"
  shows "\<exists>d. evaluate_order_compliance ord st m lims kill gfv risk = Inr d"
  using exposure_checks_valid [OF assms, of m] by (auto simp: compliance_defs)

lemma within_upstream_iff:
  assumes "valid_order ord" and "risk = Some r"
  shows "(pr_side ord = SELL \<longrightarrow> fin (pr_quantity ord) \<le> fin (ac_symbol_position_quantity st)) \<and>
    (\<not> (pr_side ord = SELL \<and> ac_account_type st = CASH) \<or> (case gfv of None \<Rightarrow> False
          | Some g \<Rightarrow> sd_approved g \<and> Fin (sd_requested_quantity g) = pr_quantity ord)) \<and>
    fin (pr_quantity ord) \<le> maximum_quantity ord st risk gfv (proposal_price ord m) \<longleftrightarrow>
    upstream_quantity_ok ord st m gfv r"
proof -
  have "0 < fin (pr_quantity ord)" using assms(1) dec_positiveD by (auto simp: valid_order_def)
  then show ?thesis
    by (cases "pr_side ord"; cases "proposal_price ord m"; cases gfv; cases "ac_account_type st")
      (auto simp: assms(2) upstream_quantity_ok_def maximum_quantity_def dest: proposal_price_pos)
qed

lemma failed_Nil: "filter (Not \<circ> snd) cs = [] \<longleftrightarrow> list_all snd cs"
  by (induction cs) auto

lemma checks_report:
  "length cs = n \<Longrightarrow>
     length ([] @ map fst (filter snd cs)) + length ([] @ map fst (filter (Not \<circ> snd) cs)) = n"
  "distinct (map fst cs) \<Longrightarrow>
     set ([] @ map fst (filter snd cs)) \<inter> set ([] @ map fst (filter (Not \<circ> snd) cs)) = {}"
proof -
  show "length cs = n \<Longrightarrow>
     length ([] @ map fst (filter snd cs)) + length ([] @ map fst (filter (Not \<circ> snd) cs)) = n"
    using sum_length_filter_compl [of snd cs] by (simp add: comp_def)
  show "distinct (map fst cs) \<Longrightarrow>
     set ([] @ map fst (filter snd cs)) \<inter> set ([] @ map fst (filter (Not \<circ> snd) cs)) = {}"
    by (induction cs) force+
qed

lemma approved_iff_checks:
  "(\<exists>d. evaluate_order_compliance ord st m lims kill gfv risk = Inr d \<and> cd_approved d) \<longleftrightarrow>
     (\<exists>c g. exposure_checks ord st lims (proposal_price ord m) = Inr (c, g) \<and>
     (valid_order ord \<and> valid_account st \<and> valid_limits lims) \<and>
      kill_switch_failure kill = None \<and> (case risk of None \<Rightarrow> False | Some r \<Rightarrow> rd_approved r) \<and>
      (\<not> (pr_side ord = SELL \<and> ac_account_type st = CASH) \<or> (case gfv of None \<Rightarrow> False
          | Some g \<Rightarrow> sd_approved g \<and> Fin (sd_requested_quantity g) = pr_quantity ord)) \<and>
      fin (pr_quantity ord) \<le> maximum_quantity ord st risk gfv (proposal_price ord m) \<and>
      fresh_order_state ord st lims \<and> 
      validate_market_and_session ord m lims (ac_current_timestamp st) = [] \<and>
     normalize_symbol (pr_symbol ord) = normalize_symbol (ms_symbol m) \<and>
     pv_failures (validate_prices ord (ms_price_tick_size m)) = [] \<and>
     pr_request_id ord \<notin> set (ac_open_order_request_ids st) \<and>
     order_fingerprint ord \<notin> set (ac_open_order_fingerprints st) \<and>
     ac_trades_executed_today st < cl_maximum_trades_per_day lims \<and>
     (pr_side ord = SELL \<longrightarrow> fin (pr_quantity ord) \<le> fin (ac_symbol_position_quantity st)) \<and>
     daily_loss_ok st lims \<and> c \<and> g)"
proof (cases "exposure_checks ord st lims (proposal_price ord m)")
  case (Inl e)
  then show ?thesis by (simp add: evaluate_order_compliance_def Let_def)
next
  case (Inr cg)
  obtain c g where cg: "cg = (c, g)" by (cases cg)
  have pos: "valid_order ord \<Longrightarrow> dec_positive (pr_quantity ord)"
    "valid_account st \<Longrightarrow> is_finite (ac_symbol_position_quantity st)"
    by (simp_all add: valid_order_def valid_account_def)
  show ?thesis
    unfolding evaluate_order_compliance_def Let_def Inr cg foldl_add_check rbind.simps prod.case
    using no_labelled_failures [of "validate_market_and_session ord m lims (ac_current_timestamp st)"] pos
    by (simp add: failed_Nil del: filter.simps split del: if_split)
      (cases "valid_order ord \<and> valid_account st \<and> valid_limits lims", simp, argo,
        simp cong: conj_cong)
qed

subsection \<open>Fingerprints\<close>

lemma dec_text_no_bar: "CHR ''|'' \<notin> set (dec_text d)"
  by (cases d) (simp_all add: decimal_text_no_bar)

lemma side_no_bar: "CHR ''|'' \<notin> set (side_value x)"
  by (cases x) simp_all

lemma type_no_bar: "CHR ''|'' \<notin> set (type_value x)"
  by (cases x) simp_all

lemma session_no_bar: "CHR ''|'' \<notin> set (session_value x)"
  by (cases x) simp_all

lemma optional_no_bar: "CHR ''|'' \<notin> set (optional_text x)"
  by (cases x) (simp_all add: optional_text_def dec_text_no_bar)

lemmas value_no_bar = side_no_bar type_no_bar session_no_bar optional_no_bar

lemma side_inject: "side_value x = side_value y \<longleftrightarrow> x = y"
  by (cases x; cases y) simp_all

lemma type_inject: "type_value x = type_value y \<longleftrightarrow> x = y"
  by (cases x; cases y) simp_all

lemma session_inject: "session_value x = session_value y \<longleftrightarrow> x = y"
  by (cases x; cases y) simp_all

lemmas value_inject = side_inject type_inject session_inject

lemma dec_text_nonempty [simp]: "dec_text d \<noteq> []"
  by (cases d) simp_all

lemmas dec_text_nonempty' [simp] = dec_text_nonempty [symmetric]

lemma dec_text_inject: "dec_text a = dec_text b \<Longrightarrow> is_finite a \<Longrightarrow> is_finite b \<Longrightarrow> rnd (fin a) = rnd (fin b)"
  by (cases a; cases b) (auto dest: decimal_text_inject)

lemma optional_text_inject:
  assumes "\<forall>d. x = Some d \<longrightarrow> is_finite d" and "\<forall>d. y = Some d \<longrightarrow> is_finite d"
    and "optional_text x = optional_text y"
  shows "map_option (rnd \<circ> fin) x = map_option (rnd \<circ> fin) y"
  using assms by (cases x; cases y) (auto simp: optional_text_def dest: dec_text_inject)

lemma join_seven:
  "join sep [a, b, c, d, e, f, g] = a @ sep @ b @ sep @ c @ sep @ d @ sep @ e @ sep @ f @ sep @ g"
  by simp

lemma join_seven_inject:
  assumes "join ''|'' [a, b, c, d, e, f, g] = join ''|'' [a', b', c', d', e', f', g']"
    and "\<forall>x\<in>{b, c, d, e, f, g, b', c', d', e', f', g'}. CHR ''|'' \<notin> set x"
  shows "a = a' \<and> b = b' \<and> c = c' \<and> d = d' \<and> e = e' \<and> f = f' \<and> g = g'"
proof -
  note inj = append_sep_inject [where x = "CHR ''|''"]
  let ?s = "[CHR ''|'']"
  from assms have g: "a @ ?s @ b @ ?s @ c @ ?s @ d @ ?s @ e @ ?s @ f = a' @ ?s @ b' @ ?s @ c' @ ?s @ d' @ ?s @ e' @ ?s @ f' \<and> g = g'"
    by (intro inj) (simp_all add: join_seven)
  with assms have f: "a @ ?s @ b @ ?s @ c @ ?s @ d @ ?s @ e = a' @ ?s @ b' @ ?s @ c' @ ?s @ d' @ ?s @ e' \<and> f = f'"
    by (intro inj) simp_all
  with assms have e: "a @ ?s @ b @ ?s @ c @ ?s @ d = a' @ ?s @ b' @ ?s @ c' @ ?s @ d' \<and> e = e'"
    by (intro inj) simp_all
  with assms have d: "a @ ?s @ b @ ?s @ c = a' @ ?s @ b' @ ?s @ c' \<and> d = d'"
    by (intro inj) simp_all
  with assms have c: "a @ ?s @ b = a' @ ?s @ b' \<and> c = c'"
    by (intro inj) simp_all
  with assms have b: "a = a' \<and> b = b'"
    by (intro inj) simp_all
  from b c d e f g show ?thesis by blast
qed

subsection \<open>Properties\<close>

text \<open>
  C16: The gate approves exactly the permitted proposals: valid fields, the kill switch
  present and off, an approving risk decision, a quantity within the risk, settlement and
  position bounds, fresh state, an open market and session, prices on the tick, no
  duplicate identifier or fingerprint, and the trade, loss and exposure limits.
\<close>

theorem approval_iff_permitted:
  "(\<exists>d. evaluate_order_compliance ord st m lims kill gfv risk = Inr d \<and> cd_approved d) \<longleftrightarrow>
     order_permitted ord st m lims kill gfv risk"
proof (cases "valid_order ord \<and> valid_account st \<and> valid_limits lims")
  case False
  then show ?thesis unfolding approved_iff_checks by (auto simp: order_permitted_def)
next
  case True
  then obtain c g where e: "exposure_checks ord st lims (proposal_price ord m) = Inr (c, g)"
    and cg: "c \<and> g \<longleftrightarrow> exposure_ok ord st m lims \<and>
      (pr_side ord = SELL \<longrightarrow> fin (pr_quantity ord) \<le> fin (ac_symbol_position_quantity st))"
    using exposure_checks_valid [of ord st lims m] by blast
  show ?thesis
  proof (cases risk)
    case None
    then show ?thesis unfolding approved_iff_checks by (simp add: order_permitted_def)
  next
    case (Some r)
    from within_upstream_iff [OF conjunct1 [OF True] Some, of st gfv m] cg True Some
    show ?thesis
      unfolding approved_iff_checks order_permitted_def validate_market_Nil e kill_switch_ok
      by auto
  qed
qed


text \<open>
  C32: Two proposals with finite prices have the same fingerprint only if they agree in
  symbol, side, type, session and, to the 28 digits of the context, quantity and prices.
\<close>

theorem fingerprint_identifies_order:
  assumes "order_fingerprint x = order_fingerprint y"
    and "dec_positive (pr_quantity x)" and "dec_positive (pr_quantity y)"
    and "\<forall>d. pr_limit_price x = Some d \<or> pr_limit_price y = Some d \<or> pr_stop_price x = Some d \<or>
      pr_stop_price y = Some d \<longrightarrow> is_finite d"
  shows "normalize_symbol (pr_symbol x) = normalize_symbol (pr_symbol y) \<and> pr_side x = pr_side y \<and>
    pr_order_type x = pr_order_type y \<and> pr_requested_session x = pr_requested_session y \<and>
    rnd (fin (pr_quantity x)) = rnd (fin (pr_quantity y)) \<and>
    map_option (rnd \<circ> fin) (pr_limit_price x) = map_option (rnd \<circ> fin) (pr_limit_price y) \<and>
    map_option (rnd \<circ> fin) (pr_stop_price x) = map_option (rnd \<circ> fin) (pr_stop_price y)"
proof -
  have parts: "normalize_symbol (pr_symbol x) = normalize_symbol (pr_symbol y) \<and>
    side_value (pr_side x) = side_value (pr_side y) \<and>
    type_value (pr_order_type x) = type_value (pr_order_type y) \<and>
    dec_text (pr_quantity x) = dec_text (pr_quantity y) \<and>
    optional_text (pr_limit_price x) = optional_text (pr_limit_price y) \<and>
    optional_text (pr_stop_price x) = optional_text (pr_stop_price y) \<and>
    session_value (pr_requested_session x) = session_value (pr_requested_session y)"
    by (rule join_seven_inject [OF assms(1) [unfolded order_fingerprint_def]])
      (simp add: value_no_bar dec_text_no_bar)
  have "rnd (fin (pr_quantity x)) = rnd (fin (pr_quantity y))"
    using parts assms(2,3) by (cases "pr_quantity x"; cases "pr_quantity y") (auto dest: decimal_text_inject)
  then show ?thesis
    using parts assms(4) optional_text_inject [of "pr_limit_price x" "pr_limit_price y"]
      optional_text_inject [of "pr_stop_price x" "pr_stop_price y"]
    by (auto simp: value_inject)
qed

definition ex_proposal :: proposed_order where
  "ex_proposal = \<lparr>pr_request_id = ''R'', pr_symbol = ''ABC'', pr_side = BUY, pr_order_type = LIMIT,
     pr_quantity = Fin 2, pr_limit_price = Some (Fin 10), pr_stop_price = None,
     pr_requested_session = REGULAR, pr_created_timestamp = Aware 0 0\<rparr>"

definition ex_account :: "dec \<Rightarrow> account_state" where
  "ex_account held = \<lparr>ac_account_type = CASH, ac_account_equity = Fin 1000,
     ac_daily_realized_pnl = Fin 0, ac_daily_unrealized_pnl = Fin 0,
     ac_trades_executed_today = 0, ac_open_order_request_ids = [],
     ac_open_order_fingerprints = [], ac_symbol_position_quantity = Fin 0,
     ac_symbol_market_value = held, ac_total_gross_exposure = Fin 0,
     ac_current_timestamp = Aware 0 0\<rparr>"

definition ex_limits :: compliance_limits where
  "ex_limits = \<lparr>cl_maximum_daily_loss_amount = Fin 500, cl_maximum_daily_loss_percent = Fin 5,
     cl_maximum_trades_per_day = 10, cl_maximum_position_percent = Fin 10,
     cl_maximum_gross_exposure_percent = Fin 50, cl_maximum_market_status_age_seconds = 30,
     cl_allow_extended_hours = False, cl_allow_market_orders_in_extended_hours = False\<rparr>"

definition ex_market :: market_state where
  "ex_market = \<lparr>ms_symbol = ''ABC'', ms_market_status = OPEN, ms_symbol_status = TRADABLE,
     ms_regular_open = Aware 0 0, ms_regular_close = Aware 9 0, ms_extended_open = Aware 0 0,
     ms_extended_close = Aware 9 0, ms_price_tick_size = Some (Fin 1), ms_status_as_of = Aware 0 0,
     ms_verified_reference_price = None\<rparr>"

text \<open>
  A market value that is NaN, which the field check itself recognises as malformed,
  is not answered with a rejection: a buy proposal with a price raises
  \<open>InvalidOperation\<close> in the exposure comparison.
\<close>

theorem nan_market_value_raises:
  "\<not> valid_account (ex_account NaN) \<and>
   evaluate_order_compliance ex_proposal (ex_account NaN) ex_market ex_limits kill gfv risk =
     Inl (Raise InvalidOperation [])"
  by (simp add: evaluate_order_compliance_def Let_def exposure_checks_def ex_proposal_def
      ex_account_def ex_limits_def proposal_price_def positive_value_def valid_account_def)

lemma ex_fields_valid:
  "valid_order ex_proposal" "valid_account (ex_account (Fin 0))" "valid_limits ex_limits"
  by (simp_all add: valid_order_def valid_account_def valid_limits_def ex_proposal_def
      ex_account_def ex_limits_def strip_def lstrip_def is_space_def)


theorem fingerprint_identifies_order_witness:
  "normalize_symbol '' ABC'' = normalize_symbol ''ABC'' \<and>
   rnd (fin (pr_quantity ex_proposal)) = 2"
proof -
  have eq: "order_fingerprint (ex_proposal\<lparr>pr_symbol := '' ABC''\<rparr>) = order_fingerprint ex_proposal"
    by (simp add: order_fingerprint_def ex_proposal_def normalize_symbol_def strip_def lstrip_def
        is_space_def upper_def upper_char_def)
  from fingerprint_identifies_order [OF eq] show ?thesis
    by (simp add: ex_proposal_def)
qed

end
