(* ===== verification/Paper_Simulator.thy ===== *)
theory Paper_Simulator
  imports Compliance "HOL-Library.List_Lexorder" "HOL-Library.Char_ord"
begin

text \<open>
  The deterministic paper simulator (app/paper\_trading): portfolio transitions
  (portfolio.py), the fill rule for one proposal and quote (execution.py), the journal
  (journal.py), the performance figures (metrics.py) and \<open>simulate_proposal\<close>
  (simulator.py) over the records of models.py.  The Decimals of portfolios, positions and
  equity points are finite, so the code's finiteness tests on them hold; those of
  proposals and quotes may be anything.  Strings are ordered by code point, as in Python.
\<close>

subsection \<open>Models\<close>

datatype execution_status = FILLED | REJECTED | NOT_FILLED

datatype journal_event_type =
  PROPOSAL_EVENT | REJECTION_EVENT | NOT_FILLED_EVENT | FILL_EVENT | PORTFOLIO_CHANGE_EVENT

record paper_quote =
  qu_symbol :: string
  qu_bid :: "dec option"
  qu_ask :: "dec option"
  qu_last_price :: "dec option"
  qu_timestamp :: datetime

record paper_position =
  pp_symbol :: string
  pp_quantity :: rat
  pp_average_cost :: rat
  pp_current_mark :: rat
  pp_market_value :: rat
  pp_unrealized_pnl :: rat

record paper_portfolio =
  pf_initial_cash :: rat
  pf_cash :: rat
  pf_positions :: "paper_position list"
  pf_realized_pnl :: rat
  pf_unrealized_pnl :: rat
  pf_equity :: rat
  pf_timestamp :: datetime

record equity_point =
  ep_timestamp :: datetime
  ep_equity :: rat

record paper_fill =
  sf_request_id :: string
  sf_symbol :: string
  sf_side :: string
  sf_quantity :: rat
  sf_fill_price :: rat
  sf_notional :: rat
  sf_realized_pnl :: rat
  sf_timestamp :: datetime

record execution_result =
  xr_status :: execution_status
  xr_reason :: string
  xr_original_proposal :: proposed_order
  xr_fill :: "paper_fill option"
  xr_portfolio_before :: paper_portfolio
  xr_portfolio_after :: paper_portfolio

text \<open>
  A detail of a journal event is a text; one that is \<open>str(d)\<close> of a Decimal is kept as the
  Decimal, which \<open>Decimal(text)\<close> recovers exactly.
\<close>

datatype detail = DText string | DNum dec

record journal_event =
  je_sequence :: nat
  je_event_type :: journal_event_type
  je_request_id :: string
  je_timestamp :: datetime
  je_message :: string
  je_details :: "(string \<times> detail) list"

type_synonym paper_journal = "journal_event list"

record performance_metrics =
  pm_win_rate :: rat
  pm_average_winner :: "rat option"
  pm_average_loser :: "rat option"
  pm_profit_factor :: "rat option"
  pm_expectancy :: "rat option"
  pm_total_return :: rat
  pm_maximum_drawdown :: rat

record simulation_result =
  sr_execution :: execution_result
  sr_portfolio :: paper_portfolio
  sr_journal :: paper_journal
  sr_equity_curve :: "equity_point list"
  sr_metrics :: performance_metrics

subsection \<open>Portfolio\<close>

definition create_portfolio :: "dec \<Rightarrow> datetime \<Rightarrow> paper_portfolio res" where
  "create_portfolio initial_cash ts =
     (if \<not> dec_nonnegative initial_cash \<or> \<not> tz_aware ts
      then Inl (Raise ValueError ''initial cash and timestamp are invalid'')
      else Inr \<lparr>pf_initial_cash = fin initial_cash, pf_cash = fin initial_cash, pf_positions = [],
        pf_realized_pnl = 0, pf_unrealized_pnl = 0, pf_equity = fin initial_cash,
        pf_timestamp = ts\<rparr>)"

definition make_position :: "string \<Rightarrow> rat \<Rightarrow> rat \<Rightarrow> rat \<Rightarrow> paper_position" where
  "make_position symbol quantity average_cost mark =
     \<lparr>pp_symbol = symbol, pp_quantity = quantity, pp_average_cost = average_cost,
      pp_current_mark = mark, pp_market_value = dmul quantity mark,
      pp_unrealized_pnl = dmul (dsub mark average_cost) quantity\<rparr>"

definition positions_dict :: "paper_position list \<Rightarrow> (string, paper_position) pydict" where
  "positions_dict ps = foldl (\<lambda>d p. dict_set (pp_symbol p) p d) [] ps"

text \<open>The two sides: new quantity, average cost, cash and realized result.\<close>

definition buy_leg ::
  "paper_portfolio \<Rightarrow> paper_position option \<Rightarrow> rat \<Rightarrow> rat \<Rightarrow> (rat \<times> rat \<times> rat \<times> rat) res" where
  "buy_leg pf existing quantity fill_price =
     (let notional = dmul quantity fill_price in
      if pf_cash pf < notional then Inl (Raise ValueError ''insufficient simulated cash'')
      else let old_quantity = (case existing of None \<Rightarrow> 0 | Some p \<Rightarrow> pp_quantity p);
             old_cost = (case existing of None \<Rightarrow> 0 | Some p \<Rightarrow> pp_average_cost p);
             new_quantity = dadd old_quantity quantity in
        rbind (ddiv_checked (dadd (dmul old_quantity old_cost) notional) new_quantity)
          (\<lambda>average_cost. Inr (new_quantity, average_cost, dsub (pf_cash pf) notional, 0)))"

definition sell_leg ::
  "paper_portfolio \<Rightarrow> paper_position option \<Rightarrow> rat \<Rightarrow> rat \<Rightarrow> (rat \<times> rat \<times> rat \<times> rat) res" where
  "sell_leg pf existing quantity fill_price =
     (let notional = dmul quantity fill_price in
      case existing of
        None \<Rightarrow> Inl (Raise ValueError ''sale exceeds simulated long position'')
      | Some p \<Rightarrow>
          if pp_quantity p < quantity
          then Inl (Raise ValueError ''sale exceeds simulated long position'')
          else Inr (dsub (pp_quantity p) quantity, pp_average_cost p, dadd (pf_cash pf) notional,
                 dmul (dsub fill_price (pp_average_cost p)) quantity))"

definition apply_fill ::
  "paper_portfolio \<Rightarrow> string \<Rightarrow> proposal_side \<Rightarrow> dec \<Rightarrow> dec \<Rightarrow> dec \<Rightarrow> datetime \<Rightarrow>
   (paper_portfolio \<times> rat) res" where
  "apply_fill pf symbol side quantity fill_price mark_price ts =
     (if \<not> list_all dec_positive [quantity, fill_price, mark_price] \<or> \<not> tz_aware ts
      then Inl (Raise ValueError ''fill values are malformed'')
      else let positions = positions_dict (pf_positions pf); key = normalize_symbol symbol;
        existing = dict_get positions key in
      rbind (case side of
          BUY \<Rightarrow> buy_leg pf existing (fin quantity) (fin fill_price)
        | SELL \<Rightarrow> sell_leg pf existing (fin quantity) (fin fill_price))
       (\<lambda>(new_quantity, average_cost, cash, realized).
        let positions' =
              (if new_quantity = 0 then AList.delete key positions
               else dict_set key (make_position key new_quantity average_cost (fin mark_price)) positions);
            ordered = sort_key pp_symbol (dict_values positions') in
        Inr (\<lparr>pf_initial_cash = pf_initial_cash pf, pf_cash = cash, pf_positions = ordered,
               pf_realized_pnl = dadd (pf_realized_pnl pf) realized,
               pf_unrealized_pnl = dsum (map pp_unrealized_pnl ordered),
               pf_equity = dadd cash (dsum (map pp_market_value ordered)),
               pf_timestamp = ts\<rparr>, realized)))"

subsection \<open>Fill evaluation\<close>

record fill_evaluation =
  fe_status :: execution_status
  fe_reason :: string
  fe_fill_price :: "dec option"

definition rejected_fill :: "string \<Rightarrow> fill_evaluation" where
  "rejected_fill reason = \<lparr>fe_status = REJECTED, fe_reason = reason, fe_fill_price = None\<rparr>"

definition positive_option :: "dec option \<Rightarrow> bool" where
  "positive_option d = (case d of None \<Rightarrow> False | Some x \<Rightarrow> dec_positive x)"

definition evaluate_fill :: "proposed_order \<Rightarrow> paper_quote \<Rightarrow> int \<Rightarrow> fill_evaluation" where
  "evaluate_fill ord q maximum_quote_age_seconds =
     (if maximum_quote_age_seconds < 0 then rejected_fill ''Quote-age configuration is malformed.''
      else if \<not> tz_aware (qu_timestamp q) \<or> \<not> tz_aware (pr_created_timestamp ord)
      then rejected_fill ''Quote and proposal timestamps must be timezone-aware.''
      else if maximum_quote_age_seconds * us_per_second <
              \<bar>instant (pr_created_timestamp ord) - instant (qu_timestamp q)\<bar>
      then rejected_fill ''Quote is stale for the configured maximum age.''
      else if normalize_symbol (qu_symbol q) \<noteq> normalize_symbol (pr_symbol ord)
      then rejected_fill ''Quote symbol does not match proposal.''
      else if pr_order_type ord \<notin> {MARKET, LIMIT}
      then rejected_fill ''Only MARKET and LIMIT are supported.''
      else let price = (if pr_side ord = BUY then qu_ask q else qu_bid q) in
      if \<not> positive_option price
      then rejected_fill (''A valid '' @ (if pr_side ord = BUY then ''ask'' else ''bid'') @ '' is required.'')
      else if pr_order_type ord = MARKET
      then \<lparr>fe_status = FILLED, fe_reason = ''MARKET proposal filled at supplied side quote.'',
             fe_fill_price = price\<rparr>
      else if \<not> positive_option (pr_limit_price ord)
      then rejected_fill ''A valid limit price is required.''
      else let p = fin (the price); limit = fin (the (pr_limit_price ord));
             crossed = (if pr_side ord = BUY then p \<le> limit else limit \<le> p) in
      if \<not> crossed
      then \<lparr>fe_status = NOT_FILLED,
             fe_reason = ''LIMIT proposal did not cross the supplied side quote.'',
             fe_fill_price = None\<rparr>
      else \<lparr>fe_status = FILLED, fe_reason = ''LIMIT proposal filled at supplied side quote.'',
             fe_fill_price = price\<rparr>)"

subsection \<open>Journal\<close>

definition append_event ::
  "paper_journal \<Rightarrow> journal_event_type \<Rightarrow> string \<Rightarrow> datetime \<Rightarrow> string \<Rightarrow> (string \<times> detail) list \<Rightarrow>
   paper_journal res" where
  "append_event journal event_type request_id ts message details =
     (if \<not> tz_aware ts then Inl (Raise ValueError ''journal timestamps must be timezone-aware'')
      else Inr (journal @ [\<lparr>je_sequence = length journal + 1, je_event_type = event_type,
             je_request_id = request_id, je_timestamp = ts, je_message = message,
             je_details = details\<rparr>]))"

subsection \<open>Metrics\<close>

definition valid_point :: "equity_point \<Rightarrow> bool" where
  "valid_point p \<longleftrightarrow> tz_aware (ep_timestamp p) \<and> 0 \<le> ep_equity p"

text \<open>\<open>Decimal(dict(event.details)["realized_pnl"])\<close> of the fill events, in order.\<close>

definition detail_decimal :: "detail \<Rightarrow> rat res" where
  "detail_decimal d = (case d of DNum (Fin x) \<Rightarrow> Inr x | _ \<Rightarrow> Inl (Raise InvalidOperation []))"

fun fill_outcomes :: "paper_journal \<Rightarrow> rat list res" where
  "fill_outcomes [] = Inr []"
| "fill_outcomes (ev # evs) =
     (case (if je_event_type ev = FILL_EVENT then map_of (rev (je_details ev)) ''realized_pnl'' else None) of
        None \<Rightarrow> fill_outcomes evs
      | Some d \<Rightarrow> rbind (detail_decimal d) (\<lambda>x. rbind (fill_outcomes evs) (\<lambda>xs.
          Inr (if x \<noteq> 0 then x # xs else xs))))"

fun drawdown_loop :: "rat \<Rightarrow> rat \<Rightarrow> rat list \<Rightarrow> rat" where
  "drawdown_loop peak maximum [] = maximum"
| "drawdown_loop peak maximum (e # es) =
     (let peak' = max peak e;
          drawdown = (if 0 < peak' then dmul (ddiv (dsub peak' e) peak') 100 else 0) in
      drawdown_loop peak' (max maximum drawdown) es)"

definition calculate_metrics :: "paper_journal \<Rightarrow> equity_point list \<Rightarrow> performance_metrics res" where
  "calculate_metrics journal curve =
     (if curve = [] \<or> list_ex (\<lambda>p. \<not> valid_point p) curve
      then Inl (Raise ValueError ''equity curve is missing or malformed'')
      else let initial = ep_equity (hd curve) in
      if initial \<le> 0 then Inl (Raise ValueError ''initial equity must be positive'')
      else rbind (fill_outcomes journal) (\<lambda>outcomes.
        let winners = filter (\<lambda>v. 0 < v) outcomes; losers = filter (\<lambda>v. v < 0) outcomes;
          count = of_nat (length outcomes); gross_profit = dsum winners;
          gross_loss = dabs (dsum losers) in
        Inr \<lparr>pm_win_rate = (if outcomes \<noteq> [] then dmul (ddiv (of_nat (length winners)) count) 100 else 0),
          pm_average_winner = (if winners \<noteq> [] then Some (ddiv (dsum winners) (of_nat (length winners))) else None),
          pm_average_loser = (if losers \<noteq> [] then Some (ddiv (dsum losers) (of_nat (length losers))) else None),
          pm_profit_factor = (if gross_loss \<noteq> 0 then Some (ddiv gross_profit gross_loss) else None),
          pm_expectancy = (if outcomes \<noteq> [] then Some (ddiv (dsum outcomes) count) else None),
          pm_total_return = dmul (ddiv (dsub (ep_equity (last curve)) initial) initial) 100,
          pm_maximum_drawdown = drawdown_loop initial 0 (map ep_equity curve)\<rparr>))"

subsection \<open>The simulation step\<close>

definition unchanged_result ::
  "paper_portfolio \<Rightarrow> proposed_order \<Rightarrow> paper_journal \<Rightarrow> equity_point list \<Rightarrow> string \<Rightarrow>
   execution_status \<Rightarrow> simulation_result res" where
  "unchanged_result pf ord journal curve reason status =
     rbind (append_event journal (if status = NOT_FILLED then NOT_FILLED_EVENT else REJECTION_EVENT)
              (pr_request_id ord) (pr_created_timestamp ord) reason []) (\<lambda>updated_journal.
     rbind (calculate_metrics updated_journal curve) (\<lambda>metrics.
       Inr \<lparr>sr_execution = \<lparr>xr_status = status, xr_reason = reason, xr_original_proposal = ord,
              xr_fill = None, xr_portfolio_before = pf, xr_portfolio_after = pf\<rparr>,
            sr_portfolio = pf, sr_journal = updated_journal, sr_equity_curve = curve,
            sr_metrics = metrics\<rparr>))"

definition valid_inputs :: "paper_portfolio \<Rightarrow> proposed_order \<Rightarrow> equity_point list \<Rightarrow> bool" where
  "valid_inputs pf ord curve \<longleftrightarrow> curve \<noteq> [] \<and>
     tz_aware (pf_timestamp pf) \<and> tz_aware (pr_created_timestamp ord) \<and>
     0 \<le> pf_cash pf \<and> 0 \<le> pf_equity pf \<and>
     list_all (\<lambda>p. tz_aware (ep_timestamp p) \<and> 0 \<le> ep_equity p) curve \<and>
     ep_equity (last curve) = pf_equity pf \<and>
     dt_le (ep_timestamp (last curve)) (pr_created_timestamp ord)"

definition filled_result ::
  "paper_portfolio \<Rightarrow> proposed_order \<Rightarrow> paper_quote \<Rightarrow> paper_journal \<Rightarrow> equity_point list \<Rightarrow> string \<Rightarrow>
   dec \<Rightarrow> paper_portfolio \<Rightarrow> rat \<Rightarrow> simulation_result res" where
  "filled_result pf ord q journal curve reason price updated realized =
     (let fill = \<lparr>sf_request_id = pr_request_id ord, sf_symbol = normalize_symbol (pr_symbol ord),
            sf_side = side_value (pr_side ord), sf_quantity = fin (pr_quantity ord),
            sf_fill_price = fin price, sf_notional = dmul (fin (pr_quantity ord)) (fin price),
            sf_realized_pnl = realized, sf_timestamp = qu_timestamp q\<rparr> in
      rbind (append_event journal FILL_EVENT (pr_request_id ord) (qu_timestamp q)
               ''Paper fill recorded.''
               [(''fill_price'', DNum (Fin (sf_fill_price fill))), (''quantity'', DNum (Fin (sf_quantity fill))),
                (''realized_pnl'', DNum (Fin (sf_realized_pnl fill))), (''side'', DText (sf_side fill)),
                (''symbol'', DText (sf_symbol fill))]) (\<lambda>filled_journal.
      rbind (append_event filled_journal PORTFOLIO_CHANGE_EVENT (pr_request_id ord) (qu_timestamp q)
               ''Paper portfolio updated.''
               [(''cash'', DNum (Fin (pf_cash updated))), (''equity'', DNum (Fin (pf_equity updated)))])
        (\<lambda>updated_journal.
      let updated_curve = curve @ [\<lparr>ep_timestamp = qu_timestamp q, ep_equity = pf_equity updated\<rparr>] in
      rbind (calculate_metrics updated_journal updated_curve) (\<lambda>metrics.
        Inr \<lparr>sr_execution = \<lparr>xr_status = FILLED, xr_reason = reason, xr_original_proposal = ord,
               xr_fill = Some fill, xr_portfolio_before = pf, xr_portfolio_after = updated\<rparr>,
             sr_portfolio = updated, sr_journal = updated_journal, sr_equity_curve = updated_curve,
             sr_metrics = metrics\<rparr>))))"

definition simulate_proposal ::
  "paper_portfolio \<Rightarrow> proposed_order \<Rightarrow> compliance_decision \<Rightarrow> paper_quote \<Rightarrow> int \<Rightarrow> paper_journal \<Rightarrow>
   equity_point list \<Rightarrow> simulation_result res" where
  "simulate_proposal pf ord decision q maximum_quote_age journal curve =
     (if \<not> valid_inputs pf ord curve
      then Inl (Raise ValueError ''paper simulation inputs are missing, malformed, or inconsistent'')
      else rbind (append_event journal PROPOSAL_EVENT (pr_request_id ord) (pr_created_timestamp ord)
             ''Paper proposal received.''
             [(''symbol'', DText (pr_symbol ord)), (''quantity'', DNum (pr_quantity ord))])
      (\<lambda>proposal_journal.
      let unchanged = unchanged_result pf ord proposal_journal curve in
      if \<not> cd_approved decision \<or> cd_request_id decision \<noteq> pr_request_id ord
      then unchanged ''Order compliance approval is missing, rejected, or mismatched.'' REJECTED
      else let ev = evaluate_fill ord q maximum_quote_age in
      if fe_status ev \<noteq> FILLED then unchanged (fe_reason ev) (fe_status ev)
      else if \<not> positive_option (qu_last_price q)
      then unchanged ''A valid last price is required to mark the filled portfolio.'' REJECTED
      else case fe_fill_price ev of
        None \<Rightarrow> Inl (Raise AssertionError [])
      | Some price \<Rightarrow>
        (case apply_fill pf (pr_symbol ord) (pr_side ord) (pr_quantity ord) price
                (the (qu_last_price q)) (qu_timestamp q) of
           Inl e \<Rightarrow> if subclass_of_ValueError (exn_class e) then unchanged (exn_text e) REJECTED
                    else Inl e
         | Inr (updated, realized) \<Rightarrow>
             filled_result pf ord q proposal_journal curve (fe_reason ev) price updated realized)))"

subsection \<open>The portfolio invariant\<close>

definition position_ok :: "paper_position \<Rightarrow> bool" where
  "position_ok p \<longleftrightarrow> 0 < pp_quantity p \<and> 0 < pp_average_cost p \<and> 0 < pp_current_mark p \<and>
     p = make_position (pp_symbol p) (pp_quantity p) (pp_average_cost p) (pp_current_mark p)"

definition portfolio_inv :: "paper_portfolio \<Rightarrow> bool" where
  "portfolio_inv pf \<longleftrightarrow> 0 \<le> pf_cash pf \<and> tz_aware (pf_timestamp pf) \<and>
     sorted (map pp_symbol (pf_positions pf)) \<and> distinct (map pp_symbol (pf_positions pf)) \<and>
     (\<forall>p\<in>set (pf_positions pf). position_ok p) \<and>
     pf_unrealized_pnl pf = dsum (map pp_unrealized_pnl (pf_positions pf)) \<and>
     pf_equity pf = dadd (pf_cash pf) (dsum (map pp_market_value (pf_positions pf)))"

lemma positions_dict_distinct:
  "distinct (map pp_symbol ps) \<Longrightarrow> positions_dict ps = map (\<lambda>p. (pp_symbol p, p)) ps"
proof (induction ps rule: rev_induct)
  case (snoc p ps)
  then have "dict_get (map (\<lambda>p. (pp_symbol p, p)) ps) (pp_symbol p) = None"
    by (auto simp: dict_get_None comp_def)
  with snoc show ?case by (simp add: positions_dict_def dict_set_new)
qed (simp add: positions_dict_def)

definition holding :: "paper_portfolio \<Rightarrow> string \<Rightarrow> paper_position option" where
  "holding pf s = map_of (map (\<lambda>p. (pp_symbol p, p)) (pf_positions pf)) s"

lemma holding_Some: "holding pf s = Some p \<Longrightarrow> p \<in> set (pf_positions pf) \<and> pp_symbol p = s"
  by (auto simp: holding_def dest: map_of_SomeD)

lemma make_position_ok:
  "0 < q \<Longrightarrow> 0 < c \<Longrightarrow> 0 < m \<Longrightarrow> position_ok (make_position s q c m)"
  by (simp add: position_ok_def make_position_def)

lemma make_position_symbol [simp]: "pp_symbol (make_position s q c m) = s"
  by (simp add: make_position_def)

text \<open>Entries of the dictionary of positions: the key is the symbol, the position is sound.\<close>

definition entries_ok :: "(string, paper_position) pydict \<Rightarrow> bool" where
  "entries_ok d \<longleftrightarrow> distinct (dict_keys d) \<and> (\<forall>(k, p)\<in>set d. pp_symbol p = k \<and> position_ok p)"

lemma entries_ok_positions:
  "portfolio_inv pf \<Longrightarrow> entries_ok (map (\<lambda>p. (pp_symbol p, p)) (pf_positions pf))"
  by (auto simp: entries_ok_def portfolio_inv_def comp_def)

lemma entries_ok_delete: "entries_ok d \<Longrightarrow> entries_ok (AList.delete k d)"
  by (auto simp: entries_ok_def AList.delete_eq distinct_map_filter)

lemma in_dict_set: "(k', v') \<in> set (dict_set k v d) \<Longrightarrow> (k' = k \<and> v' = v) \<or> (k', v') \<in> set d"
  by (induction d) (auto split: if_splits)

lemma entries_ok_set: "entries_ok d \<Longrightarrow> position_ok p \<Longrightarrow> pp_symbol p = k \<Longrightarrow> entries_ok (dict_set k p d)"
  by (auto simp: entries_ok_def dest!: in_dict_set)

lemma entries_symbols: "entries_ok d \<Longrightarrow> map pp_symbol (dict_values d) = dict_keys d"
  by (induction d) (auto simp: entries_ok_def)

lemma legs_Inr:
  assumes "(case side of BUY \<Rightarrow> buy_leg pf existing q price | SELL \<Rightarrow> sell_leg pf existing q price) =
      Inr (n, c, cash, realized)"
    and "\<forall>p. existing = Some p \<longrightarrow> position_ok p" and "0 < q" and "0 < price" and "0 \<le> pf_cash pf"
  shows "0 \<le> n \<and> 0 < c \<and> 0 \<le> cash"
proof -
  have n: "0 < dmul q price" using assms(3,4) by (simp add: dmul_def dec28.r_pos_iff)
  have ex: "0 < pp_quantity p \<and> 0 < pp_average_cost p" if "existing = Some p" for p
    using assms(2) that by (simp add: position_ok_def)
  show ?thesis
  proof (cases side)
    case SELL
    then show ?thesis
      using assms(1,3,5) ex n
      by (auto simp: sell_leg_def Let_def split: option.splits if_splits)
        (simp_all add: dec_defs dec28.r_nonneg_iff)
  next
    case BUY
    then show ?thesis
      using assms(1,3,5) ex n
      by (cases existing)
        (auto simp: buy_leg_def Let_def res_simps dec_defs dec28.r_nonneg_iff dec28.r_pos_iff
          divide_pos_pos add_pos_pos)
  qed
qed

lemma apply_fill_inv:
  assumes "portfolio_inv pf" and "apply_fill pf s side qty price mark ts = Inr (pf', realized)"
  shows "portfolio_inv pf'"
proof -
  define d where "d = map (\<lambda>p. (pp_symbol p, p)) (pf_positions pf)"
  define key where "key = normalize_symbol s"
  have pd: "positions_dict (pf_positions pf) = d"
    using assms(1) by (simp add: d_def portfolio_inv_def positions_dict_distinct)
  have ok: "entries_ok d" using assms(1) by (simp add: d_def entries_ok_positions)
  from assms(2) have vals: "dec_positive qty" "dec_positive price" "dec_positive mark" "tz_aware ts"
    by (auto simp: apply_fill_def split: if_splits)
  then have pos: "0 < fin qty" "0 < fin price" "0 < fin mark" using dec_positiveD by blast+
  obtain n c cash where leg: "(case side of BUY \<Rightarrow> buy_leg pf (dict_get d key) (fin qty) (fin price)
        | SELL \<Rightarrow> sell_leg pf (dict_get d key) (fin qty) (fin price)) = Inr (n, c, cash, realized)"
    and pf': "pf' = (let d' = (if n = 0 then AList.delete key d
               else dict_set key (make_position key n c (fin mark)) d);
            ordered = sort_key pp_symbol (dict_values d') in
         \<lparr>pf_initial_cash = pf_initial_cash pf, pf_cash = cash, pf_positions = ordered,
               pf_realized_pnl = dadd (pf_realized_pnl pf) realized,
               pf_unrealized_pnl = dsum (map pp_unrealized_pnl ordered),
               pf_equity = dadd cash (dsum (map pp_market_value ordered)),
               pf_timestamp = ts\<rparr>)"
    using assms(2) vals
    by (auto simp: apply_fill_def Let_def pd res_simps simp flip: key_def)
  have ex: "\<forall>p. dict_get d key = Some p \<longrightarrow> position_ok p"
    using ok by (auto simp: entries_ok_def dest: map_of_SomeD)
  have l: "0 \<le> n \<and> 0 < c \<and> 0 \<le> cash"
    using legs_Inr [OF leg ex pos(1,2)] assms(1) by (simp add: portfolio_inv_def)
  define d' where "d' = (if n = 0 then AList.delete key d
               else dict_set key (make_position key n c (fin mark)) d)"
  have ok': "entries_ok d'"
    using ok l pos(3) by (auto simp: d'_def intro!: entries_ok_delete entries_ok_set make_position_ok)
  then have "\<forall>p\<in>set (dict_values d'). position_ok p"
    by (auto simp: entries_ok_def)
  moreover have "distinct (map pp_symbol (dict_values d'))"
    unfolding entries_symbols [OF ok'] using ok' by (simp add: entries_ok_def)
  ultimately have "distinct (map pp_symbol (dict_values d'))"
    "\<forall>p\<in>set (dict_values d'). position_ok p" by simp_all
  then show ?thesis
    using l vals(4) unfolding pf' d'_def [symmetric] Let_def
    by (simp add: portfolio_inv_def distinct_map_sort_key)
qed

subsection \<open>A session of simulations\<close>

text \<open>The state a caller threads through: portfolio, journal and equity curve.\<close>

record sim_state =
  ss_portfolio :: paper_portfolio
  ss_journal :: paper_journal
  ss_curve :: "equity_point list"

type_synonym sim_call = "proposed_order \<times> compliance_decision \<times> paper_quote \<times> int"

definition sim_step :: "sim_state \<Rightarrow> sim_call \<Rightarrow> sim_state res" where
  "sim_step s call = (case call of (ord, decision, q, age) \<Rightarrow>
     rbind (simulate_proposal (ss_portfolio s) ord decision q age (ss_journal s) (ss_curve s))
       (\<lambda>r. Inr \<lparr>ss_portfolio = sr_portfolio r, ss_journal = sr_journal r,
                  ss_curve = sr_equity_curve r\<rparr>))"

definition sequenced :: "paper_journal \<Rightarrow> bool" where
  "sequenced j \<longleftrightarrow> map je_sequence j = [1..<length j + 1]"

definition sim_inv :: "sim_state \<Rightarrow> bool" where
  "sim_inv s \<longleftrightarrow> portfolio_inv (ss_portfolio s) \<and> sequenced (ss_journal s) \<and> ss_curve s \<noteq> [] \<and>
     ep_equity (last (ss_curve s)) = pf_equity (ss_portfolio s)"

definition sim_extends :: "sim_state \<Rightarrow> sim_state \<Rightarrow> bool" where
  "sim_extends s s' \<longleftrightarrow> (\<exists>evs. ss_journal s' = ss_journal s @ evs) \<and>
     (\<exists>ps. ss_curve s' = ss_curve s @ ps)"

lemma append_event_Inr:
  "append_event j t r ts m ds = Inr j' \<Longrightarrow> sequenced j \<Longrightarrow>
     sequenced j' \<and> (\<exists>ev. j' = j @ [ev] \<and> je_event_type ev = t \<and> je_request_id ev = r)"
  by (auto simp: append_event_def sequenced_def split: if_splits)

text \<open>What one simulation can return.\<close>

lemma unchanged_result_Inr:
  assumes "unchanged_result pf ord j curve reason status = Inr r" and "sequenced j"
  shows "sr_portfolio r = pf \<and> sr_equity_curve r = curve \<and> xr_fill (sr_execution r) = None \<and>
    xr_status (sr_execution r) = status \<and> sequenced (sr_journal r) \<and>
    (\<exists>ev. sr_journal r = j @ [ev] \<and>
       je_event_type ev = (if status = NOT_FILLED then NOT_FILLED_EVENT else REJECTION_EVENT))"
proof -
  from assms(1) obtain j' where j': "append_event j
      (if status = NOT_FILLED then NOT_FILLED_EVENT else REJECTION_EVENT) (pr_request_id ord)
      (pr_created_timestamp ord) reason [] = Inr j'" and r: "sr_journal r = j'" "sr_portfolio r = pf"
      "sr_equity_curve r = curve" "xr_fill (sr_execution r) = None" "xr_status (sr_execution r) = status"
    by (auto simp: unchanged_result_def res_simps)
  from append_event_Inr [OF j' assms(2)] r show ?thesis by auto
qed

lemma filled_result_Inr:
  assumes "filled_result pf ord q j curve reason price updated realized = Inr r" and "sequenced j"
  shows "sr_portfolio r = updated \<and> xr_status (sr_execution r) = FILLED \<and>
    sr_equity_curve r = curve @ [\<lparr>ep_timestamp = qu_timestamp q, ep_equity = pf_equity updated\<rparr>] \<and>
    (\<exists>f. xr_fill (sr_execution r) = Some f \<and> sf_fill_price f = fin price \<and>
       sf_quantity f = fin (pr_quantity ord) \<and> sf_realized_pnl f = realized) \<and>
    sequenced (sr_journal r) \<and>
    (\<exists>e1 e2. sr_journal r = j @ [e1, e2] \<and> je_event_type e1 = FILL_EVENT \<and>
       je_event_type e2 = PORTFOLIO_CHANGE_EVENT)"
proof -
  from assms(1) obtain ds1 ds2 j1 j2 where
    j1: "append_event j FILL_EVENT (pr_request_id ord) (qu_timestamp q) ''Paper fill recorded.'' ds1 = Inr j1"
    and j2: "append_event j1 PORTFOLIO_CHANGE_EVENT (pr_request_id ord) (qu_timestamp q)
      ''Paper portfolio updated.'' ds2 = Inr j2"
    and r: "sr_journal r = j2" "sr_portfolio r = updated" "xr_status (sr_execution r) = FILLED"
      "sr_equity_curve r = curve @ [\<lparr>ep_timestamp = qu_timestamp q, ep_equity = pf_equity updated\<rparr>]"
      "\<exists>f. xr_fill (sr_execution r) = Some f \<and> sf_fill_price f = fin price \<and>
       sf_quantity f = fin (pr_quantity ord) \<and> sf_realized_pnl f = realized"
    by (auto simp: filled_result_def Let_def res_simps)
  from append_event_Inr [OF j1 assms(2)] append_event_Inr [OF j2] r show ?thesis by auto
qed

lemma evaluate_fill_filled:
  assumes "fe_status (evaluate_fill ord q age) = FILLED"
  shows "\<exists>p. fe_fill_price (evaluate_fill ord q age) = Some (Fin p) \<and> 0 < p \<and>
    (if pr_side ord = BUY then qu_ask q else qu_bid q) = Some (Fin p) \<and>
    pr_order_type ord \<in> {MARKET, LIMIT} \<and>
    normalize_symbol (qu_symbol q) = normalize_symbol (pr_symbol ord) \<and>
    (pr_order_type ord = LIMIT \<longrightarrow> (\<exists>l. pr_limit_price ord = Some (Fin l) \<and>
       (if pr_side ord = BUY then p \<le> l else l \<le> p)))"
  using assms dec_positiveD
  by (auto simp: evaluate_fill_def rejected_fill_def Let_def positive_option_def
      split: if_splits option.splits elim!: dec_positive.elims)

text \<open>The simulation step, taken apart once.\<close>

lemma simulate_cases:
  assumes "simulate_proposal pf ord decision q age j curve = Inr r" and "sequenced j"
  obtains
    (unchanged) ev1 ev2 where "sr_portfolio r = pf" "sr_equity_curve r = curve"
      "xr_fill (sr_execution r) = None" "xr_status (sr_execution r) \<noteq> FILLED"
      "sr_journal r = j @ [ev1, ev2]" "sequenced (sr_journal r)"
      "je_event_type ev1 \<noteq> FILL_EVENT" "je_event_type ev2 \<noteq> FILL_EVENT"
  | (filled) p f realized e1 e2 e3 where
      "apply_fill pf (pr_symbol ord) (pr_side ord) (pr_quantity ord) (Fin p)
         (the (qu_last_price q)) (qu_timestamp q) = Inr (sr_portfolio r, realized)"
      "cd_approved decision" "cd_request_id decision = pr_request_id ord"
      "fe_status (evaluate_fill ord q age) = FILLED"
      "fe_fill_price (evaluate_fill ord q age) = Some (Fin p)"
      "sr_equity_curve r = curve @ [\<lparr>ep_timestamp = qu_timestamp q, ep_equity = pf_equity (sr_portfolio r)\<rparr>]"
      "xr_status (sr_execution r) = FILLED" "xr_fill (sr_execution r) = Some f" "sf_fill_price f = p"
      "sf_quantity f = fin (pr_quantity ord)" "sf_realized_pnl f = realized"
      "sr_journal r = j @ [e1, e2, e3]" "sequenced (sr_journal r)"
      "map je_event_type [e1, e2, e3] = [PROPOSAL_EVENT, FILL_EVENT, PORTFOLIO_CHANGE_EVENT]"
proof -
  from assms(1) obtain j1 where j1: "append_event j PROPOSAL_EVENT (pr_request_id ord)
      (pr_created_timestamp ord) ''Paper proposal received.''
      [(''symbol'', DText (pr_symbol ord)), (''quantity'', DNum (pr_quantity ord))] = Inr j1"
    by (auto simp: simulate_proposal_def res_simps)
  from append_event_Inr [OF this assms(2)] obtain ev where s1: "sequenced j1"
    and ev: "j1 = j @ [ev]" "je_event_type ev = PROPOSAL_EVENT" by blast
  have un: thesis if "unchanged_result pf ord j1 curve reason status = Inr r" "status \<noteq> FILLED" for reason status
    using unchanged_result_Inr [OF that(1) s1] that(2) ev by (auto intro!: unchanged split: if_splits)
  note sim = assms(1) [unfolded simulate_proposal_def, unfolded j1, unfolded rbind.simps Let_def]
  show thesis
  proof (cases "cd_approved decision \<and> cd_request_id decision = pr_request_id ord \<and>
      fe_status (evaluate_fill ord q age) = FILLED \<and> positive_option (qu_last_price q)")
    case False
    with sim show thesis by (auto split: if_splits intro: un)
  next
    case True
    then obtain p where p: "fe_fill_price (evaluate_fill ord q age) = Some (Fin p)"
      using evaluate_fill_filled by blast
    show thesis
    proof (cases "apply_fill pf (pr_symbol ord) (pr_side ord) (pr_quantity ord) (Fin p)
         (the (qu_last_price q)) (qu_timestamp q)")
      case (Inl e)
      with sim True p show thesis by (auto split: if_splits intro: un)
    next
      case (Inr ur)
      obtain updated realized where ur: "ur = (updated, realized)" by (cases ur)
      with sim True p Inr have "filled_result pf ord q j1 curve (fe_reason (evaluate_fill ord q age))
          (Fin p) updated realized = Inr r"
        by (auto split: if_splits)
      from filled_result_Inr [OF this s1] Inr ur True p ev show thesis
        by (auto intro!: filled)
    qed
  qed
qed

interpretation simulator: monotone_stepping sim_step sim_inv sim_extends
proof unfold_locales
  fix s a s' assume inv: "sim_inv s" and step: "sim_step s a = Inr s'"
  obtain ord decision q age where a: "a = (ord, decision, q, age)" by (cases a)
  obtain r where r: "simulate_proposal (ss_portfolio s) ord decision q age (ss_journal s) (ss_curve s) = Inr r"
    and s': "s' = \<lparr>ss_portfolio = sr_portfolio r, ss_journal = sr_journal r, ss_curve = sr_equity_curve r\<rparr>"
    using step by (auto simp: sim_step_def a res_simps)
  have seq: "sequenced (ss_journal s)" using inv by (simp add: sim_inv_def)
  from r seq have "sim_inv s' \<and> sim_extends s s'"
  proof (cases rule: simulate_cases)
    case (unchanged ev1 ev2)
    with inv s' show ?thesis by (auto simp: sim_inv_def sim_extends_def)
  next
    case (filled p f realized e1 e2 e3)
    with inv s' apply_fill_inv [OF _ filled(1)] show ?thesis
      by (auto simp: sim_inv_def sim_extends_def)
  qed
  then show "sim_inv s'" and "sim_extends s s'" by simp_all
next
  show "sim_extends s s" for s by (simp add: sim_extends_def)
  show "sim_extends s u" if "sim_extends s t" "sim_extends t u" for s t u
    using that by (fastforce simp: sim_extends_def)
qed

subsection \<open>Drawdown\<close>

lemma drawdown_step:
  assumes "0 < p" and "0 \<le> e" and "e \<le> p" and "rnd p = p"
  shows "0 \<le> dmul (ddiv (dsub p e) p) 100 \<and> dmul (ddiv (dsub p e) p) 100 \<le> 100 \<and>
    (dmul (ddiv (dsub p e) p) 100 = 0 \<longleftrightarrow> e = p)"
proof -
  have "dsub p e \<le> p"
    unfolding dsub_def by (rule dec28.r_sub_le [OF assms(4,2)])
  then have "ddiv (dsub p e) p \<le> 1"
    using assms(1) by (simp add: ddiv_def dec28.r_le_fixed)
  then have "dmul (ddiv (dsub p e) p) 100 \<le> 100"
    by (simp add: dmul_def dec28.r_le_fixed)
  moreover have "0 \<le> dmul (ddiv (dsub p e) p) 100"
    using assms(1,3) by (simp add: dec_defs dec28.r_nonneg_iff)
  moreover have "dmul (ddiv (dsub p e) p) 100 = 0 \<longleftrightarrow> e = p"
    using assms(1) by (auto simp: dec_defs dec28.r_zero_iff)
  ultimately show ?thesis by simp
qed

lemma drawdown_loop_bounds:
  assumes "0 < peak" and "rnd peak = peak" and "\<forall>e\<in>set es. 0 \<le> e \<and> rnd e = e"
    and "0 \<le> m" and "m \<le> 100"
  shows "m \<le> drawdown_loop peak m es \<and> drawdown_loop peak m es \<le> 100 \<and>
    (drawdown_loop peak m es = 0 \<longleftrightarrow> m = 0 \<and> sorted (peak # es))"
  using assms
proof (induction es arbitrary: peak m)
  case (Cons e es)
  let ?p = "max peak e"
  let ?m = "max m (dmul (ddiv (dsub ?p e) ?p) 100)"
  have p: "0 < ?p" "rnd ?p = ?p" using Cons.prems by (auto simp: max_def)
  have st: "0 \<le> dmul (ddiv (dsub ?p e) ?p) 100 \<and> dmul (ddiv (dsub ?p e) ?p) 100 \<le> 100 \<and>
    (dmul (ddiv (dsub ?p e) ?p) 100 = 0 \<longleftrightarrow> e = ?p)"
    using Cons.prems p by (intro drawdown_step) auto
  have ih: "?m \<le> drawdown_loop ?p ?m es \<and> drawdown_loop ?p ?m es \<le> 100 \<and>
    (drawdown_loop ?p ?m es = 0 \<longleftrightarrow> ?m = 0 \<and> sorted (?p # es))"
    using Cons.prems p st by (intro Cons.IH) auto
  have step: "drawdown_loop peak m (e # es) = drawdown_loop ?p ?m es"
    using p by (simp add: Let_def)
  have "?m = 0 \<and> sorted (?p # es) \<longleftrightarrow> m = 0 \<and> sorted (peak # e # es)"
    using st Cons.prems(4) by (auto simp: max_def split: if_splits)
  with ih show ?case unfolding step by auto
qed (auto simp: max_def)

subsection \<open>Properties\<close>

text \<open>
  C22: Whatever sequence of proposals, decisions and quotes is simulated from a fresh
  portfolio whose cash fits the 28 digits of the context, cash never goes negative, no position is short or empty, positions are unique
  and sorted by symbol, equity is cash plus market value and is the last point of the
  curve, journal events are numbered from 1 without a gap, and journal and curve are only
  ever extended.
\<close>

theorem simulation_session_invariant:
  assumes "create_portfolio initial_cash ts = Inr pf" and "rnd (fin initial_cash) = fin initial_cash"
    and "run sim_step \<lparr>ss_portfolio = pf, ss_journal = [],
           ss_curve = [\<lparr>ep_timestamp = ts, ep_equity = pf_equity pf\<rparr>]\<rparr> calls = Inr s'"
  shows "0 \<le> pf_cash (ss_portfolio s') \<and> portfolio_inv (ss_portfolio s') \<and>
    map je_sequence (ss_journal s') = [1..<length (ss_journal s') + 1] \<and>
    hd (ss_curve s') = \<lparr>ep_timestamp = ts, ep_equity = pf_equity pf\<rparr> \<and>
    ep_equity (last (ss_curve s')) = pf_equity (ss_portfolio s')"
proof -
  let ?s = "\<lparr>ss_portfolio = pf, ss_journal = [], ss_curve = [\<lparr>ep_timestamp = ts, ep_equity = pf_equity pf\<rparr>]\<rparr>"
  have inv: "sim_inv ?s"
    using assms(1,2) dec_nonnegativeD [of initial_cash]
    by (auto simp: create_portfolio_def sim_inv_def portfolio_inv_def sequenced_def dadd_def
        split: if_splits)
  from simulator.run_good [OF inv assms(3)] simulator.run_rel [OF inv assms(3)]
  show ?thesis by (auto simp: sim_inv_def portfolio_inv_def sequenced_def sim_extends_def)
qed

text \<open>
  A simulation leaves portfolio and curve as they were and adds two journal events,
  or it fills: then the order was approved under its own identifier, is a market or limit
  order for the quote's symbol, and trades its whole quantity at the ask (buy) or bid
  (sell), within its limit.
\<close>

theorem portfolio_changes_only_by_approved_fill:
  assumes "simulate_proposal pf ord decision q age j curve = Inr r" and "sequenced j"
  shows "(sr_portfolio r = pf \<and> sr_equity_curve r = curve \<and> length (sr_journal r) = length j + 2 \<and>
      xr_fill (sr_execution r) = None) \<or>
    (\<exists>f p. xr_fill (sr_execution r) = Some f \<and> sf_fill_price f = p \<and>
      sf_quantity f = fin (pr_quantity ord) \<and> length (sr_journal r) = length j + 3 \<and>
      cd_approved decision \<and> cd_request_id decision = pr_request_id ord \<and>
      pr_order_type ord \<in> {MARKET, LIMIT} \<and>
      normalize_symbol (qu_symbol q) = normalize_symbol (pr_symbol ord) \<and>
      (if pr_side ord = BUY then qu_ask q else qu_bid q) = Some (Fin p) \<and> 0 < p \<and>
      (pr_order_type ord = LIMIT \<longrightarrow> (\<exists>l. pr_limit_price ord = Some (Fin l) \<and>
         (if pr_side ord = BUY then p \<le> l else l \<le> p))))"
  using assms
proof (cases rule: simulate_cases)
  case (unchanged ev1 ev2)
  then show ?thesis by auto
next
  case (filled p f realized e1 e2 e3)
  from evaluate_fill_filled [OF filled(4)] filled show ?thesis by auto
qed

text \<open>
  On a sound portfolio with well-formed values a fill is applied exactly when it is
  covered: a purchase by the cash, a sale by the position held.
\<close>

theorem fill_applies_iff_covered:
  assumes "portfolio_inv pf" and "dec_positive qty" and "dec_positive price" and "dec_positive mark"
    and "tz_aware ts"
  shows "(\<exists>r. apply_fill pf s side qty price mark ts = Inr r) \<longleftrightarrow>
    (case side of
       BUY \<Rightarrow> dmul (fin qty) (fin price) \<le> pf_cash pf
     | SELL \<Rightarrow> (\<exists>p. holding pf (normalize_symbol s) = Some p \<and> fin qty \<le> pp_quantity p))"
proof -
  have pd: "dict_get (positions_dict (pf_positions pf)) k = holding pf k" for k
    using assms(1) by (simp add: portfolio_inv_def positions_dict_distinct holding_def)
  have q: "0 < fin qty" using assms(2) dec_positiveD by blast
  have held: "0 < pp_quantity p" if "holding pf k = Some p" for k p
    using holding_Some [OF that] assms(1) by (auto simp: portfolio_inv_def position_ok_def)
  have nz: "dadd (case holding pf k of None \<Rightarrow> 0 | Some p \<Rightarrow> pp_quantity p) (fin qty) \<noteq> 0" for k
    using q held [of k] by (auto simp: dadd_def dec28.r_zero_iff split: option.splits)
  show ?thesis
    using assms(2-5) nz [of "normalize_symbol s"]
    by (cases side) (auto simp: apply_fill_def Let_def pd buy_leg_def sell_leg_def split: option.splits)
qed

text \<open>
  The maximum drawdown of a curve is between 0 and 100 percent, and it is 0 exactly
  for a curve that never falls; the win rate is between 0 and 100.
\<close>

theorem metrics_are_percentages:
  assumes "calculate_metrics j curve = Inr m"
    and "\<forall>p\<in>set curve. rnd (ep_equity p) = ep_equity p"
  shows "0 \<le> pm_maximum_drawdown m \<and> pm_maximum_drawdown m \<le> 100 \<and>
    (pm_maximum_drawdown m = 0 \<longleftrightarrow> sorted (map ep_equity curve)) \<and>
    0 \<le> pm_win_rate m \<and> pm_win_rate m \<le> 100"
proof -
  from assms(1) obtain outs where outs: "fill_outcomes j = Inr outs" and ne: "curve \<noteq> []"
    and pts: "\<forall>p\<in>set curve. valid_point p" and pos: "0 < ep_equity (hd curve)"
    by (auto simp: calculate_metrics_def Let_def res_simps list_ex_iff not_le)
  have m: "pm_maximum_drawdown m = drawdown_loop (ep_equity (hd curve)) 0 (map ep_equity curve)"
    "pm_win_rate m = (if outs \<noteq> [] then dmul (ddiv (of_nat (length (filter (\<lambda>v. 0 < v) outs)))
         (of_nat (length outs))) 100 else 0)"
    using assms(1) outs
    by (auto simp: calculate_metrics_def Let_def res_simps simp del: if_not_P if_P split del: if_split)
  obtain p ps where c: "curve = p # ps" using ne by (cases curve) auto
  have "0 \<le> drawdown_loop (ep_equity p) 0 (map ep_equity curve) \<and>
      drawdown_loop (ep_equity p) 0 (map ep_equity curve) \<le> 100 \<and>
      (drawdown_loop (ep_equity p) 0 (map ep_equity curve) = 0 \<longleftrightarrow>
        (0::rat) = 0 \<and> sorted (ep_equity p # map ep_equity curve))"
    using pts pos assms(2) c by (intro drawdown_loop_bounds) (auto simp: valid_point_def)
  moreover have "ddiv (of_nat (length (filter (\<lambda>v. 0 < v) outs))) (of_nat (length outs)) \<le> 1"
    using length_filter_le [of "\<lambda>v. 0 < v" outs]
    unfolding ddiv_def by (intro dec28.r_le_fixed) (auto simp: divide_le_eq_1 simp flip: of_nat_less_iff)
  then have "pm_win_rate m \<le> 100" unfolding m(2) by (auto simp: dmul_def intro!: dec28.r_le_fixed)
  moreover have "0 \<le> pm_win_rate m" unfolding m(2) by (simp add: dec_defs dec28.r_nonneg_iff)
  ultimately show ?thesis unfolding m(1) using c by auto
qed

definition ex_sim_quote :: paper_quote where
  "ex_sim_quote = \<lparr>qu_symbol = ''ABC'', qu_bid = Some (Fin 9), qu_ask = Some (Fin 10),
     qu_last_price = Some (Fin 10), qu_timestamp = Aware 0 0\<rparr>"

definition ex_approval :: compliance_decision where
  "ex_approval = \<lparr>cd_approved = True, cd_approval_reason = ''ok'', cd_request_id = ''R'',
     cd_checks_passed = [], cd_checks_failed = [], cd_warnings = [],
     cd_maximum_compliant_quantity = None, cd_normalized_limit_price = None,
     cd_normalized_stop_price = None, cd_lower_valid_tick = None, cd_upper_valid_tick = None\<rparr>"

definition ex_portfolio :: paper_portfolio where
  "ex_portfolio = \<lparr>pf_initial_cash = 100, pf_cash = 100, pf_positions = [], pf_realized_pnl = 0,
     pf_unrealized_pnl = 0, pf_equity = 100, pf_timestamp = Aware 0 0\<rparr>"

definition ex_bought :: paper_portfolio where
  "ex_bought = \<lparr>pf_initial_cash = 100, pf_cash = 80,
     pf_positions = [make_position ''ABC'' 2 10 10], pf_realized_pnl = 0,
     pf_unrealized_pnl = 0, pf_equity = 100, pf_timestamp = Aware 0 0\<rparr>"

abbreviation ex_start :: sim_state where
  "ex_start \<equiv> \<lparr>ss_portfolio = ex_portfolio, ss_journal = [],
     ss_curve = [\<lparr>ep_timestamp = Aware 0 0, ep_equity = pf_equity ex_portfolio\<rparr>]\<rparr>"

lemma strip_ABC: "normalize_symbol ''ABC'' = ''ABC''"
  by (simp add: normalize_symbol_def strip_def lstrip_def is_space_def upper_def upper_char_def)

lemma ex_portfolio_created: "create_portfolio (Fin 100) (Aware 0 0) = Inr ex_portfolio"
  by (simp add: create_portfolio_def ex_portfolio_def)

lemma ex_filled:
  "apply_fill ex_portfolio ''ABC'' BUY (Fin 2) (Fin 10) (Fin 10) (Aware 0 0) = Inr (ex_bought, 0)"
  by (simp add: apply_fill_def ex_portfolio_def ex_bought_def Let_def strip_ABC positions_dict_def
      buy_leg_def dec_defs ddiv_checked_def make_position_def dsum_def)

lemma ex_evaluated:
  "evaluate_fill ex_proposal ex_sim_quote 30 =
     \<lparr>fe_status = FILLED, fe_reason = ''LIMIT proposal filled at supplied side quote.'',
      fe_fill_price = Some (Fin 10)\<rparr>"
  by (simp add: evaluate_fill_def ex_proposal_def ex_sim_quote_def Let_def positive_option_def us_per_second_def)

lemma ex_simulated:
  assumes ok: "cd_approved d" "cd_request_id d = ''R''"
  shows "\<exists>r. simulate_proposal ex_portfolio ex_proposal d ex_sim_quote 30 []
     [\<lparr>ep_timestamp = Aware 0 0, ep_equity = 100\<rparr>] = Inr r \<and> sr_portfolio r = ex_bought"
proof -
  have ord: "pr_symbol ex_proposal = ''ABC''" "pr_side ex_proposal = BUY" "pr_quantity ex_proposal = Fin 2"
    "pr_request_id ex_proposal = ''R''" "pr_created_timestamp ex_proposal = Aware 0 0"
    by (simp_all add: ex_proposal_def)
  have pf: "pf_equity ex_bought = 100" "pf_equity ex_portfolio = 100" "pf_cash ex_portfolio = 100"
    "pf_timestamp ex_portfolio = Aware 0 0"
    by (simp_all add: ex_bought_def ex_portfolio_def)
  have q: "qu_last_price ex_sim_quote = Some (Fin 10)" "qu_timestamp ex_sim_quote = Aware 0 0"
    by (simp_all add: ex_sim_quote_def)
  show ?thesis
    by (simp add: simulate_proposal_def valid_inputs_def ord pf ok q ex_evaluated ex_filled Let_def
        positive_option_def append_event_def filled_result_def calculate_metrics_def valid_point_def
        detail_decimal_def)
qed

lemma ex_approval_ok: "cd_approved ex_approval" "cd_request_id ex_approval = ''R''"
  by (simp_all add: ex_approval_def)

lemma ex_stepped:
  "\<exists>s'. run sim_step ex_start [(ex_proposal, ex_approval, ex_sim_quote, 30)] = Inr s' \<and>
     pf_cash (ss_portfolio s') = 80"
  using ex_simulated [OF ex_approval_ok] by (auto simp: sim_step_def ex_portfolio_def ex_bought_def)

theorem simulation_session_invariant_witness:
  "\<exists>s'. run sim_step ex_start [(ex_proposal, ex_approval, ex_sim_quote, 30)] = Inr s' \<and>
     pf_cash (ss_portfolio s') = 80 \<and> portfolio_inv (ss_portfolio s')"
proof -
  obtain s' where s': "run sim_step ex_start [(ex_proposal, ex_approval, ex_sim_quote, 30)] = Inr s'"
    "pf_cash (ss_portfolio s') = 80" using ex_stepped by blast
  from simulation_session_invariant [OF ex_portfolio_created _ s'(1)] s' show ?thesis by simp
qed

theorem portfolio_changes_only_by_approved_fill_witness:
  "\<exists>r. simulate_proposal ex_portfolio ex_proposal ex_approval ex_sim_quote 30 []
     [\<lparr>ep_timestamp = Aware 0 0, ep_equity = 100\<rparr>] = Inr r \<and> length (sr_journal r) = 3"
proof -
  obtain r where r: "simulate_proposal ex_portfolio ex_proposal ex_approval ex_sim_quote 30 []
     [\<lparr>ep_timestamp = Aware 0 0, ep_equity = 100\<rparr>] = Inr r" "sr_portfolio r = ex_bought"
    using ex_simulated [OF ex_approval_ok] by blast
  have "ex_bought \<noteq> ex_portfolio" by (simp add: ex_bought_def ex_portfolio_def)
  with portfolio_changes_only_by_approved_fill [OF r(1)] r show ?thesis
    by (auto simp: sequenced_def)
qed

lemma ex_portfolio_inv: "portfolio_inv ex_portfolio"
  by (simp add: portfolio_inv_def ex_portfolio_def dadd_def)

lemma ex_portfolio_cash: "pf_cash ex_portfolio = 100"
  by (simp add: ex_portfolio_def)

lemma ex_nothing_held: "holding ex_portfolio k = None"
  by (simp add: holding_def ex_portfolio_def)

theorem fill_applies_iff_covered_witness:
  "(\<exists>r. apply_fill ex_portfolio ''ABC'' BUY (Fin 2) (Fin 10) (Fin 10) (Aware 0 0) = Inr r) \<and>
   \<not> (\<exists>r. apply_fill ex_portfolio ''ABC'' SELL (Fin 2) (Fin 10) (Fin 10) (Aware 0 0) = Inr r)"
  using fill_applies_iff_covered [OF ex_portfolio_inv, of "Fin 2" "Fin 10" "Fin 10" "Aware 0 0" "''ABC''" BUY]
    fill_applies_iff_covered [OF ex_portfolio_inv, of "Fin 2" "Fin 10" "Fin 10" "Aware 0 0" "''ABC''" SELL]
  by (simp add: ex_portfolio_cash ex_nothing_held dec_defs)

theorem metrics_are_percentages_witness:
  "\<exists>m. calculate_metrics [] [\<lparr>ep_timestamp = Aware 0 0, ep_equity = 100\<rparr>] = Inr m \<and>
     pm_maximum_drawdown m = 0"
proof -
  have "\<exists>m. calculate_metrics [] [\<lparr>ep_timestamp = Aware 0 0, ep_equity = 100\<rparr>] = Inr m"
    by (simp add: calculate_metrics_def valid_point_def Let_def)
  then obtain m where m: "calculate_metrics [] [\<lparr>ep_timestamp = Aware 0 0, ep_equity = 100\<rparr>] = Inr m" ..
  from metrics_are_percentages [OF m] m show ?thesis by simp
qed

end
