(* ===== verification/Monte_Carlo.thy ===== *)
theory Monte_Carlo
  imports Decimals "HOL-Library.Word" "HOL-Library.Multiset" "HOL-Library.Sublist"
begin

text \<open>
  Monte Carlo resampling (app/monte\_carlo): the SplitMix64 generator and the two samplers of
  bootstrap.py, and the simulation of one resampled series and of all of them
  (simulation.py).  The generator computes on Python integers and masks to 64 bits after
  each operation; it is modelled as written and related to 64-bit words.
\<close>

unbundle bit_operations_syntax

subsection \<open>The generator\<close>

definition MASK :: int where
  "MASK = push_bit 64 1 - 1"

definition gen_init :: "int \<Rightarrow> int" where
  "gen_init seed = seed AND MASK"

definition mix :: "int \<Rightarrow> int" where
  "mix value =
     (let value = ((value XOR drop_bit 30 value) * 0xBF58476D1CE4E5B9) AND MASK;
          value = ((value XOR drop_bit 27 value) * 0x94D049BB133111EB) AND MASK in
      (value XOR drop_bit 31 value) AND MASK)"

text \<open>The value drawn and the state left.\<close>

definition next_uint64 :: "int \<Rightarrow> int \<times> int" where
  "next_uint64 state = (let state = (state + 0x9E3779B97F4A7C15) AND MASK in (mix state, state))"

definition index :: "int \<Rightarrow> int \<Rightarrow> (int \<times> int) res" where
  "index population state =
     (if population \<le> 0 then Inl (Raise ValueError ''sampling population must not be empty'')
      else case next_uint64 state of (v, state') \<Rightarrow> Inr (v mod population, state'))"

subsection \<open>Sampling\<close>

fun draw :: "nat \<Rightarrow> rat list \<Rightarrow> int \<Rightarrow> (rat list \<times> int) res" where
  "draw 0 values state = Inr ([], state)"
| "draw (Suc k) values state =
     rbind (index (int (length values)) state) (\<lambda>(i, state').
     rbind (draw k values state') (\<lambda>(rest, state''). Inr (values ! nat i # rest, state'')))"

definition bootstrap_sample :: "rat list \<Rightarrow> int \<Rightarrow> (rat list \<times> int) res" where
  "bootstrap_sample values state =
     (if values = [] then Inl (Raise ValueError ''sampling population must not be empty'')
      else draw (length values) values state)"

text \<open>\<open>xs[i], xs[j] = xs[j], xs[i]\<close>\<close>

definition swap :: "nat \<Rightarrow> nat \<Rightarrow> 'a list \<Rightarrow> 'a list" where
  "swap i j xs = xs[i := xs ! j, j := xs ! i]"

text \<open>The loop of the shuffle from the given position down to 1.\<close>

fun shuffle :: "nat \<Rightarrow> rat list \<Rightarrow> int \<Rightarrow> (rat list \<times> int) res" where
  "shuffle 0 xs state = Inr (xs, state)"
| "shuffle (Suc i) xs state =
     rbind (index (int (Suc i) + 1) state) (\<lambda>(selected, state').
       shuffle i (swap (Suc i) (nat selected) xs) state')"

definition permutation_sample :: "rat list \<Rightarrow> int \<Rightarrow> (rat list \<times> int) res" where
  "permutation_sample values state =
     (if values = [] then Inl (Raise ValueError ''sampling population must not be empty'')
      else shuffle (length values - 1) values state)"

subsection \<open>One simulation\<close>

datatype sampling_mode = BOOTSTRAP | PERMUTATION

record monte_carlo_config =
  mc_seed :: int
  mc_simulation_count :: int
  mc_sampling_mode :: sampling_mode
  mc_use_trade_outcomes :: bool
  mc_use_return_series :: bool

record simulation_metrics =
  sm_simulation_index :: nat
  sm_ending_equity :: rat
  sm_total_return :: rat
  sm_maximum_drawdown :: rat
  sm_profit_factor :: "rat option"
  sm_expectancy :: rat
  sm_win_rate :: "rat option"
  sm_maximum_consecutive_losses :: nat
  sm_maximum_consecutive_wins :: nat

record sim_vars =
  v_equity :: rat
  v_peak :: rat
  v_maximum_drawdown :: rat
  v_wins :: nat
  v_losses :: nat
  v_directional :: nat
  v_win_streak :: nat
  v_loss_streak :: nat
  v_max_wins :: nat
  v_max_losses :: nat
  v_gross_profit :: rat
  v_gross_loss :: rat

definition count_value :: "rat \<Rightarrow> sim_vars \<Rightarrow> sim_vars" where
  "count_value value v =
     (let v' = (if 0 < value then
           v\<lparr>v_wins := v_wins v + 1, v_directional := v_directional v + 1,
             v_gross_profit := dadd (v_gross_profit v) value,
             v_win_streak := v_win_streak v + 1, v_loss_streak := 0\<rparr>
         else if value < 0 then
           v\<lparr>v_losses := v_losses v + 1, v_directional := v_directional v + 1,
             v_gross_loss := dadd (v_gross_loss v) (dabs value),
             v_loss_streak := v_loss_streak v + 1, v_win_streak := 0\<rparr>
         else v\<lparr>v_win_streak := 0, v_loss_streak := 0\<rparr>) in
      v'\<lparr>v_max_wins := max (v_max_wins v') (v_win_streak v'),
         v_max_losses := max (v_max_losses v') (v_loss_streak v')\<rparr>)"

definition step_value :: "bool \<Rightarrow> sim_vars \<Rightarrow> rat \<Rightarrow> sim_vars res" where
  "step_value trades v value =
     (let equity = (if trades then dadd (v_equity v) value else dmul (v_equity v) (dadd 1 value));
          peak = max (v_peak v) equity in
      rbind (ddiv_checked equity peak) (\<lambda>ratio.
        Inr (count_value value
          (v\<lparr>v_equity := equity, v_peak := peak,
             v_maximum_drawdown := max (v_maximum_drawdown v) (dsub 1 ratio)\<rparr>))))"

definition simulate_series :: "nat \<Rightarrow> rat list \<Rightarrow> rat \<Rightarrow> bool \<Rightarrow> simulation_metrics res" where
  "simulate_series k values starting trades =
     rbind (run (step_value trades)
       \<lparr>v_equity = starting, v_peak = starting, v_maximum_drawdown = 0, v_wins = 0, v_losses = 0,
        v_directional = 0, v_win_streak = 0, v_loss_streak = 0, v_max_wins = 0, v_max_losses = 0,
        v_gross_profit = 0, v_gross_loss = 0\<rparr> values) (\<lambda>v.
     rbind (ddiv_checked (dsum values) (of_nat (length values))) (\<lambda>expectancy.
     rbind (ddiv_checked (v_equity v) starting) (\<lambda>growth.
       Inr \<lparr>sm_simulation_index = k, sm_ending_equity = v_equity v, sm_total_return = dsub growth 1,
         sm_maximum_drawdown = v_maximum_drawdown v,
         sm_profit_factor = (if v_gross_loss v \<noteq> 0 then Some (ddiv (v_gross_profit v) (v_gross_loss v)) else None),
         sm_expectancy = expectancy,
         sm_win_rate = (if v_directional v \<noteq> 0
           then Some (dmul (ddiv (of_nat (v_wins v)) (of_nat (v_directional v))) 100) else None),
         sm_maximum_consecutive_losses = v_max_losses v,
         sm_maximum_consecutive_wins = v_max_wins v\<rparr>)))"

definition sample :: "rat list \<Rightarrow> int \<Rightarrow> sampling_mode \<Rightarrow> (rat list \<times> int) res" where
  "sample values state mode =
     (case mode of BOOTSTRAP \<Rightarrow> bootstrap_sample values state
      | PERMUTATION \<Rightarrow> permutation_sample values state)"

definition validate_config :: "monte_carlo_config \<Rightarrow> unit res" where
  "validate_config c =
     (if mc_simulation_count c \<le> 0
      then Inl (Raise ValueError ''simulation_count must be a positive integer'')
      else if mc_use_trade_outcomes c = mc_use_return_series c
      then Inl (Raise ValueError ''exactly one sampling source must be selected'')
      else Inr ())"

text \<open>The runs of \<open>simulate_backtest\<close>: one generator threads through all of them.\<close>

fun simulate_runs ::
  "nat \<Rightarrow> nat \<Rightarrow> rat list \<Rightarrow> rat \<Rightarrow> monte_carlo_config \<Rightarrow> int \<Rightarrow> simulation_metrics list res" where
  "simulate_runs k 0 values starting c state = Inr []"
| "simulate_runs k (Suc n) values starting c state =
     rbind (sample values state (mc_sampling_mode c)) (\<lambda>(xs, state').
     rbind (simulate_series k xs starting (mc_use_trade_outcomes c)) (\<lambda>m.
     rbind (simulate_runs (Suc k) n values starting c state') (\<lambda>ms. Inr (m # ms))))"

definition backtest_runs ::
  "dec list \<Rightarrow> dec list \<Rightarrow> rat \<Rightarrow> monte_carlo_config \<Rightarrow> simulation_metrics list res" where
  "backtest_runs trade_outcomes returns starting c =
     rbind (validate_config c) (\<lambda>_.
     let values = (if mc_use_trade_outcomes c then trade_outcomes else returns) in
     if values = [] then Inl (Raise ValueError ''selected sampling source has no observations'')
     else if list_ex (\<lambda>v. \<not> is_finite v) values
     then Inl (Raise ValueError ''sampling observations must be finite Decimals'')
     else simulate_runs 0 (nat (mc_simulation_count c)) (map fin values) starting c
            (gen_init (mc_seed c)))"

definition probability :: "bool list \<Rightarrow> rat res" where
  "probability matches =
     (if matches = [] then Inl (Raise ValueError ''probability observations must not be empty'')
      else Inr (dmul (ddiv (of_nat (length (filter id matches))) (of_nat (length matches))) 100))"

subsection \<open>The generator on words\<close>

definition mix_word :: "64 word \<Rightarrow> 64 word" where
  "mix_word v =
     (let v = (v XOR drop_bit 30 v) * 0xBF58476D1CE4E5B9;
          v = (v XOR drop_bit 27 v) * 0x94D049BB133111EB in
      v XOR drop_bit 31 v)"

lemma and_MASK: "x AND MASK = take_bit 64 x"
  by (simp add: MASK_def take_bit_eq_mask mask_eq_exp_minus_1 push_bit_eq_mult)

lemma take_bit_uint [simp]: "take_bit 64 (uint (w :: 64 word)) = uint w"
  using uint_bounded [of w] by (simp add: take_bit_int_eq_self_iff)

lemma xor_shift_word: "uint (w :: 64 word) XOR drop_bit n (uint w) = uint (w XOR drop_bit n w)"
  by (simp add: unsigned_xor_eq unsigned_drop_bit_eq)

lemma times_word: "take_bit 64 (uint (w :: 64 word) * uint c) = uint (w * c)"
  by (simp add: uint_word_ariths take_bit_eq_mod)

lemma constants_word:
  "uint (0xBF58476D1CE4E5B9 :: 64 word) = 0xBF58476D1CE4E5B9"
  "uint (0x94D049BB133111EB :: 64 word) = 0x94D049BB133111EB"
  "uint (0x9E3779B97F4A7C15 :: 64 word) = 0x9E3779B97F4A7C15"
  by simp_all

lemma mix_word: "mix (uint w) = uint (mix_word w)"
  unfolding mix_def mix_word_def Let_def and_MASK constants_word [symmetric]
  by (simp only: xor_shift_word times_word take_bit_uint)

lemma next_word:
  "next_uint64 (uint w) = (uint (mix_word (w + 0x9E3779B97F4A7C15)), uint (w + 0x9E3779B97F4A7C15))"
proof -
  have "(uint w + 0x9E3779B97F4A7C15) AND MASK = uint (w + 0x9E3779B97F4A7C15)"
    unfolding and_MASK constants_word [symmetric] by (simp add: uint_word_ariths take_bit_eq_mod)
  then show ?thesis by (simp add: next_uint64_def Let_def mix_word)
qed

lemma gen_init_word: "gen_init seed = uint (word_of_int seed :: 64 word)"
  by (simp add: gen_init_def and_MASK uint_word_of_int take_bit_eq_mod)

text \<open>A word determines its xor with its own right shift, and back.\<close>

lemma xor_shift_inject:
  assumes "0 < n" and eq: "(a :: 64 word) XOR drop_bit n a = b XOR drop_bit n b"
  shows "a = b"
proof -
  have step: "bit a i = bit b i" if "bit a (i + n) = bit b (i + n)" for i
  proof -
    have "bit (a XOR drop_bit n a) i = bit (b XOR drop_bit n b) i" using eq by simp
    with that show ?thesis by (auto simp: bit_xor_iff bit_drop_bit_eq add.commute)
  qed
  have "bit a (64 - k) = bit b (64 - k)" if "k \<le> 64" for k
    using that
  proof (induction k rule: less_induct)
    case (less k)
    have "bit a (64 - k + n) = bit b (64 - k + n)"
    proof (cases "n \<le> k")
      case True
      then have "64 - k + n = 64 - (k - n)" using less.prems by simp
      then show ?thesis using less.IH [of "k - n"] less.prems True assms(1) by simp
    next
      case False
      then have "64 \<le> 64 - k + n" by simp
      then show ?thesis by (auto dest: bit_imp_le_length)
    qed
    then show ?case by (rule step)
  qed
  then have "bit a i = bit b i" if "i < 64" for i
    using that by (metis diff_diff_cancel diff_le_self less_imp_le_nat)
  then show ?thesis by (intro bit_word_eqI) simp
qed

lemma times_inverse_inject:
  fixes a b c d :: "64 word"
  assumes "c * d = 1" and "a * c = b * c"
  shows "a = b"
proof -
  have unit: "x * c * d = x" for x
    unfolding mult.assoc assms(1) by (rule mult_1_right)
  have "a = a * c * d" by (rule unit [symmetric])
  also have "\<dots> = b * c * d" by (simp only: assms(2))
  also have "\<dots> = b" by (rule unit)
  finally show ?thesis .
qed

lemma inverse_constants:
  "(0xBF58476D1CE4E5B9 :: 64 word) * 0x96DE1B173F119089 = 1"
  "(0x94D049BB133111EB :: 64 word) * 0x319642B2D24D8EC3 = 1"
  unfolding word_uint_eq_iff times_word [symmetric] take_bit_eq_mod by simp_all

lemma mix_word_inject:
  assumes "mix_word a = mix_word b"
  shows "a = b"
proof -
  let ?s = "\<lambda>n (v :: 64 word). v XOR drop_bit n v"
  have "?s 27 (?s 30 a * 0xBF58476D1CE4E5B9) * 0x94D049BB133111EB =
      ?s 27 (?s 30 b * 0xBF58476D1CE4E5B9) * 0x94D049BB133111EB"
    using assms unfolding mix_word_def Let_def by (rule xor_shift_inject [rotated]) simp
  from xor_shift_inject [OF _ times_inverse_inject [OF inverse_constants(2) this]]
  have "?s 30 a * 0xBF58476D1CE4E5B9 = ?s 30 b * 0xBF58476D1CE4E5B9" by simp
  from xor_shift_inject [OF _ times_inverse_inject [OF inverse_constants(1) this]]
  show ?thesis by simp
qed

subsection \<open>Sequences of draws\<close>

fun outputs :: "nat \<Rightarrow> int \<Rightarrow> int list" where
  "outputs 0 state = []"
| "outputs (Suc n) state = (case next_uint64 state of (v, state') \<Rightarrow> v # outputs n state')"

abbreviation gamma :: "64 word" where
  "gamma \<equiv> 0x9E3779B97F4A7C15"

lemma outputs_word:
  "outputs n (uint w) = map (\<lambda>k. uint (mix_word (w + of_nat (k + 1) * gamma))) [0..<n]"
proof (induction n arbitrary: w)
  case (Suc n)
  have "map (\<lambda>k. uint (mix_word (w + of_nat (k + 1) * gamma))) [0..<Suc n] =
      uint (mix_word (w + gamma)) #
      map (\<lambda>k. uint (mix_word ((w + gamma) + of_nat (k + 1) * gamma))) [0..<n]"
    by (simp only: map_upt_Suc) (simp add: algebra_simps)
  then show ?case by (simp add: next_word Suc.IH)
qed simp

lemma gamma_inverse: "gamma * 0xF1DE83E19937733D = 1"
  unfolding word_uint_eq_iff times_word [symmetric] take_bit_eq_mod by simp

lemma of_nat_word_inject:
  assumes "(of_nat i :: 64 word) = of_nat j" and "i < 2 ^ 64" and "j < 2 ^ 64"
  shows "i = j"
proof -
  have "unat (of_nat i :: 64 word) = i" "unat (of_nat j :: 64 word) = j"
    using assms(2,3) by (simp_all add: unat_of_nat)
  then show ?thesis using assms(1) by metis
qed

lemma index_Inr:
  assumes "0 < population"
  shows "\<exists>i s'. index population s = Inr (i, s') \<and> 0 \<le> i \<and> i < population"
  using assms by (simp add: index_def split: prod.splits)

lemma draw_total:
  "values \<noteq> [] \<Longrightarrow> \<exists>xs s'. draw k values s = Inr (xs, s') \<and> length xs = k \<and> set xs \<subseteq> set values"
proof (induction k arbitrary: s)
  case (Suc k)
  obtain i s1 where i: "index (int (length values)) s = Inr (i, s1)" "0 \<le> i" "i < int (length values)"
    using index_Inr [of "int (length values)" s] Suc.prems by auto
  obtain xs s2 where "draw k values s1 = Inr (xs, s2)" "length xs = k" "set xs \<subseteq> set values"
    using Suc.IH [OF Suc.prems] by blast
  moreover have "values ! nat i \<in> set values" using i by (intro nth_mem) simp
  ultimately show ?case by (simp add: i)
qed simp

lemma mset_swap: "i < length xs \<Longrightarrow> j < length xs \<Longrightarrow> mset (swap i j xs) = mset xs"
  by (simp add: swap_def mset_swap)

lemma shuffle_total:
  "i < length xs \<Longrightarrow> \<exists>ys s'. shuffle i xs s = Inr (ys, s') \<and> mset ys = mset xs"
proof (induction i arbitrary: xs s)
  case (Suc i)
  obtain j s1 where j: "index (int (Suc i) + 1) s = Inr (j, s1)" "0 \<le> j" "j < int (Suc i) + 1"
    using index_Inr [of "int (Suc i) + 1" s] by auto
  then have "nat j < length xs" using Suc.prems by simp
  with Suc.prems have m: "mset (swap (Suc i) (nat j) xs) = mset xs" by (intro mset_swap) simp_all
  then have "i < length (swap (Suc i) (nat j) xs)" using Suc.prems by (simp add: swap_def)
  from Suc.IH [OF this, of s1] m show ?case by (simp add: j(1) [simplified])
qed simp

lemma sample_total:
  assumes "values \<noteq> []"
  shows "\<exists>xs s'. sample values s mode = Inr (xs, s') \<and> length xs = length values \<and>
    set xs \<subseteq> set values \<and> (mode = PERMUTATION \<longrightarrow> mset xs = mset values)"
proof (cases mode)
  case BOOTSTRAP
  then show ?thesis using draw_total [OF assms] assms by (simp add: sample_def bootstrap_sample_def)
next
  case PERMUTATION
  obtain ys s' where ys: "shuffle (length values - 1) values s = Inr (ys, s')" "mset ys = mset values"
    using shuffle_total [of "length values - 1" "values" s] assms by auto
  then have "set ys = set values" "length ys = length values"
    by (auto dest: mset_eq_setD mset_eq_length)
  with ys show ?thesis using assms by (simp add: sample_def permutation_sample_def PERMUTATION)
qed

subsection \<open>Counts and streaks\<close>

text \<open>The specification of a streak: no block of consecutive elements with the property is longer.\<close>

definition longest_run :: "('a \<Rightarrow> bool) \<Rightarrow> 'a list \<Rightarrow> nat \<Rightarrow> bool" where
  "longest_run P xs n \<longleftrightarrow>
     (\<exists>ys. sublist ys xs \<and> list_all P ys \<and> length ys = n) \<and>
     (\<forall>ys. sublist ys xs \<and> list_all P ys \<longrightarrow> length ys \<le> n)"

definition trailing :: "('a \<Rightarrow> bool) \<Rightarrow> 'a list \<Rightarrow> nat" where
  "trailing P xs = length (takeWhile P (rev xs))"

lemma trailing_Nil [simp]: "trailing P [] = 0"
  by (simp add: trailing_def)

lemma trailing_snoc [simp]: "trailing P (xs @ [x]) = (if P x then trailing P xs + 1 else 0)"
  by (simp add: trailing_def)

lemma trailing_suffix: "\<exists>ys. suffix ys xs \<and> list_all P ys \<and> length ys = trailing P xs"
proof -
  have "rev (takeWhile P (rev xs)) @ [] = rev (takeWhile P (rev xs))" by simp
  have "xs = rev (dropWhile P (rev xs)) @ rev (takeWhile P (rev xs))"
    by (metis rev_append rev_rev_ident takeWhile_dropWhile_id)
  then have "suffix (rev (takeWhile P (rev xs))) xs" by (metis suffixI)
  moreover have "list_all P (rev (takeWhile P (rev xs)))"
    by (auto simp: list_all_iff dest: set_takeWhileD)
  ultimately show ?thesis by (auto simp: trailing_def)
qed

lemma suffix_le_trailing:
  "suffix ys xs \<Longrightarrow> list_all P ys \<Longrightarrow> length ys \<le> trailing P xs"
proof -
  assume "suffix ys xs" and P: "list_all P ys"
  then obtain zs where "xs = zs @ ys" by (auto simp: suffix_def)
  moreover from P have "takeWhile P (rev ys @ rev zs) = rev ys @ takeWhile P (rev zs)"
    by (intro takeWhile_append2) (simp add: list_all_iff)
  ultimately show ?thesis by (simp add: trailing_def)
qed

lemma longest_run_Nil: "longest_run P [] 0"
  by (simp add: longest_run_def)

lemma longest_run_snoc:
  assumes "longest_run P xs n"
  shows "longest_run P (xs @ [x]) (max n (trailing P (xs @ [x])))"
proof -
  from assms obtain ys where ys: "sublist ys xs" "list_all P ys" "length ys = n"
    and best: "\<And>zs. sublist zs xs \<Longrightarrow> list_all P zs \<Longrightarrow> length zs \<le> n"
    by (auto simp: longest_run_def)
  obtain zs where zs: "suffix zs (xs @ [x])" "list_all P zs" "length zs = trailing P (xs @ [x])"
    using trailing_suffix [of "xs @ [x]" P] by blast
  have "\<exists>ws. sublist ws (xs @ [x]) \<and> list_all P ws \<and> length ws = max n (trailing P (xs @ [x]))"
    using ys zs by (auto simp: max_def sublist_snoc simp del: trailing_snoc)
  moreover have "length ws \<le> max n (trailing P (xs @ [x]))" if "sublist ws (xs @ [x])" "list_all P ws" for ws
    using that best [of ws] suffix_le_trailing [of ws "xs @ [x]" P]
    by (auto simp: sublist_snoc simp del: trailing_snoc)
  ultimately show ?thesis by (auto simp: longest_run_def)
qed

abbreviation won :: "rat \<Rightarrow> bool" where "won \<equiv> \<lambda>v. 0 < v"
abbreviation lost :: "rat \<Rightarrow> bool" where "lost \<equiv> \<lambda>v. v < 0"

definition counted :: "sim_vars \<Rightarrow> rat list \<Rightarrow> bool" where
  "counted v xs \<longleftrightarrow> v_wins v = length (filter won xs) \<and>
     v_directional v = length (filter (\<lambda>x. x \<noteq> 0) xs) \<and>
     v_win_streak v = trailing won xs \<and> v_loss_streak v = trailing lost xs \<and>
     longest_run won xs (v_max_wins v) \<and> longest_run lost xs (v_max_losses v)"

lemma counted_step:
  assumes "counted v xs" and "step_value t v x = Inr v'"
  shows "counted v' (xs @ [x])"
proof -
  have st: "longest_run won (xs @ [x]) (max (v_max_wins v) (trailing won (xs @ [x])))"
    "longest_run lost (xs @ [x]) (max (v_max_losses v) (trailing lost (xs @ [x])))"
    using assms(1) by (auto simp: counted_def simp del: trailing_snoc intro: longest_run_snoc)
  consider "0 < x" | "x < 0" | "x = 0" by linarith
  then show ?thesis
    by cases (use assms st in \<open>auto simp: counted_def step_value_def count_value_def Let_def res_simps\<close>)
qed

lemma counted_run: "run (step_value t) v xs = Inr v' \<Longrightarrow> counted v [] \<Longrightarrow> counted v' xs"
proof (induction xs arbitrary: v' rule: rev_induct)
  case (snoc x xs)
  then obtain v1 where "run (step_value t) v xs = Inr v1" "step_value t v1 x = Inr v'"
    by (auto simp: run_append res_simps)
  with snoc show ?case using counted_step by blast
qed simp

definition win_rate_of :: "rat list \<Rightarrow> rat option" where
  "win_rate_of xs =
     (let directional = length (filter (\<lambda>x. x \<noteq> 0) xs) in
      if directional \<noteq> 0 then Some (dmul (ddiv (of_nat (length (filter won xs))) (of_nat directional)) 100)
      else None)"

lemma simulate_series_counts:
  assumes "simulate_series k xs starting t = Inr m"
  shows "sm_win_rate m = win_rate_of xs \<and> longest_run won xs (sm_maximum_consecutive_wins m) \<and>
    longest_run lost xs (sm_maximum_consecutive_losses m)"
proof -
  obtain v where v: "run (step_value t)
       \<lparr>v_equity = starting, v_peak = starting, v_maximum_drawdown = 0, v_wins = 0, v_losses = 0,
        v_directional = 0, v_win_streak = 0, v_loss_streak = 0, v_max_wins = 0, v_max_losses = 0,
        v_gross_profit = 0, v_gross_loss = 0\<rparr> xs = Inr v"
    and m: "sm_win_rate m = (if v_directional v \<noteq> 0
           then Some (dmul (ddiv (of_nat (v_wins v)) (of_nat (v_directional v))) 100) else None)"
      "sm_maximum_consecutive_losses m = v_max_losses v" "sm_maximum_consecutive_wins m = v_max_wins v"
    using assms by (auto simp: simulate_series_def res_simps)
  have "counted v xs"
    using v by (rule counted_run) (simp add: counted_def longest_run_Nil)
  with m show ?thesis by (simp add: counted_def win_rate_of_def Let_def)
qed

lemma win_rate_of_mset: "mset xs = mset ys \<Longrightarrow> win_rate_of xs = win_rate_of ys"
  unfolding win_rate_of_def by (metis mset_filter size_mset)

lemma simulate_runs_Inr:
  assumes "simulate_runs k n xs starting c s = Inr ms" and "xs \<noteq> []"
  shows "length ms = n \<and> (\<forall>m\<in>set ms. \<exists>j ys. length ys = length xs \<and> set ys \<subseteq> set xs \<and>
    (mc_sampling_mode c = PERMUTATION \<longrightarrow> mset ys = mset xs) \<and>
    simulate_series j ys starting (mc_use_trade_outcomes c) = Inr m)"
  using assms(1)
proof (induction n arbitrary: k s ms)
  case (Suc n)
  obtain ys s1 where ys: "sample xs s (mc_sampling_mode c) = Inr (ys, s1)" "length ys = length xs"
    "set ys \<subseteq> set xs" "mc_sampling_mode c = PERMUTATION \<longrightarrow> mset ys = mset xs"
    using sample_total [OF assms(2)] by blast
  with Suc.prems obtain m ms' where m: "simulate_series k ys starting (mc_use_trade_outcomes c) = Inr m"
    and ms': "simulate_runs (Suc k) n xs starting c s1 = Inr ms'" "ms = m # ms'"
    by (auto simp: res_simps)
  from Suc.IH [OF ms'(1)] ms'(2) m ys show ?case by auto
qed simp

subsection \<open>Properties\<close>

text \<open>
  The generator is SplitMix64 on 64-bit words: its integer arithmetic with masks
  computes the word operations, and no value comes twice in the first \<open>2 ^ 64\<close> draws of
  any seed.
\<close>

theorem generator_has_full_period:
  assumes "n \<le> 2 ^ 64"
  shows "distinct (outputs n (gen_init seed)) \<and>
    outputs n (gen_init seed) =
      map (\<lambda>k. uint (mix_word (word_of_int seed + of_nat (k + 1) * 0x9E3779B97F4A7C15))) [0..<n]"
proof -
  let ?w = "word_of_int seed :: 64 word"
  have "inj_on (\<lambda>k. uint (mix_word (?w + of_nat (k + 1) * gamma))) {0..<n}"
  proof (rule inj_onI)
    fix i j assume ij: "i \<in> {0..<n}" "j \<in> {0..<n}"
      and eq: "uint (mix_word (?w + of_nat (i + 1) * gamma)) = uint (mix_word (?w + of_nat (j + 1) * gamma))"
    have "?w + of_nat (i + 1) * gamma = ?w + of_nat (j + 1) * gamma"
      by (rule mix_word_inject) (rule word_uint_eq_iff [THEN iffD2], rule eq)
    then have "of_nat (i + 1) * gamma = of_nat (j + 1) * gamma" by (rule add_left_imp_eq)
    then have "(of_nat (i + 1) :: 64 word) = of_nat (j + 1)"
      by (rule times_inverse_inject [OF gamma_inverse])
    then have "(of_nat i :: 64 word) = of_nat j" unfolding of_nat_add by (rule add_right_imp_eq)
    moreover have "i < 2 ^ 64" "j < 2 ^ 64"
      using ij assms unfolding atLeastLessThan_iff by linarith+
    ultimately show "i = j" by (rule of_nat_word_inject)
  qed
  then show ?thesis
    unfolding gen_init_word outputs_word by (simp only: distinct_map set_upt distinct_upt simp_thms)
qed

text \<open>
  C33: Resampling a nonempty series always succeeds: a bootstrap sample has the length of
  the series and only its values, a permutation sample has exactly its values, each as
  often.
\<close>

theorem samplers_are_correct:
  assumes "values \<noteq> []"
  shows "\<exists>xs s'. sample values s mode = Inr (xs, s') \<and> length xs = length values \<and>
    set xs \<subseteq> set values \<and> (mode = PERMUTATION \<longrightarrow> mset xs = mset values)"
  using assms by (rule sample_total)

text \<open>
  C34: The streak counters of a simulation are the lengths of the longest blocks of
  consecutive gains and of consecutive losses of its series.
\<close>

theorem streaks_are_longest_runs:
  assumes "simulate_series k xs starting t = Inr m"
  shows "longest_run (\<lambda>v. 0 < v) xs (sm_maximum_consecutive_wins m) \<and>
    longest_run (\<lambda>v. v < 0) xs (sm_maximum_consecutive_losses m)"
  using simulate_series_counts [OF assms] by simp

text \<open>
  Permutation sampling cannot change how often the series wins: every run of a
  permutation experiment has the win rate of the source series, and there are as many
  runs as configured.
\<close>

theorem permutation_keeps_win_rate:
  assumes "backtest_runs trade_outcomes returns starting c = Inr ms"
    and "mc_sampling_mode c = PERMUTATION"
  shows "length ms = nat (mc_simulation_count c) \<and>
    (\<forall>m\<in>set ms. sm_win_rate m =
       win_rate_of (map fin (if mc_use_trade_outcomes c then trade_outcomes else returns)))"
proof -
  let ?v = "map fin (if mc_use_trade_outcomes c then trade_outcomes else returns)"
  from assms(1) have "simulate_runs 0 (nat (mc_simulation_count c)) ?v starting c (gen_init (mc_seed c)) = Inr ms"
    and "?v \<noteq> []"
    by (auto simp: backtest_runs_def Let_def res_simps split: if_splits)
  from simulate_runs_Inr [OF this] assms(2) show ?thesis
    by (metis simulate_series_counts win_rate_of_mset)
qed

definition ex_config :: monte_carlo_config where
  "ex_config = \<lparr>mc_seed = 7, mc_simulation_count = 1, mc_sampling_mode = PERMUTATION,
     mc_use_trade_outcomes = True, mc_use_return_series = False\<rparr>"

lemma ex_series: "\<exists>m. simulate_series 0 [2] 10 True = Inr m \<and> sm_maximum_consecutive_wins m = 1"
  by (simp add: simulate_series_def step_value_def count_value_def Let_def dec_defs res_simps)

lemma ex_runs: "\<exists>ms. backtest_runs [Fin 2] [] 10 ex_config = Inr ms"
  using ex_series
  by (auto simp: backtest_runs_def ex_config_def validate_config_def Let_def sample_def
      permutation_sample_def res_simps)

theorem generator_has_full_period_witness: "distinct (outputs 3 (gen_init 7))"
  by (rule generator_has_full_period [THEN conjunct1]) simp

theorem samplers_are_correct_witness:
  "\<exists>xs s'. sample [1, 2] 0 PERMUTATION = Inr (xs, s') \<and> mset xs = {#1, 2#}"
  using samplers_are_correct [of "[1, 2]" 0 PERMUTATION] by auto

theorem streaks_are_longest_runs_witness: "longest_run (\<lambda>v. 0 < v) [2 :: rat] 1"
  using ex_series streaks_are_longest_runs by metis

theorem permutation_keeps_win_rate_witness:
  "\<exists>ms. backtest_runs [Fin 2] [] 10 ex_config = Inr ms \<and> length ms = 1"
proof -
  obtain ms where ms: "backtest_runs [Fin 2] [] 10 ex_config = Inr ms" using ex_runs by blast
  have "mc_sampling_mode ex_config = PERMUTATION" "mc_simulation_count ex_config = 1"
    by (simp_all add: ex_config_def)
  with permutation_keeps_win_rate [OF ms] ms show ?thesis by simp
qed

end
