(* ===== verification/Trailing_Exit.thy ===== *)
theory Trailing_Exit
  imports Decimals
begin

text \<open>
  Trade management (app/trade\_management): the trailing protective stop of a long position
  (trailing\_exit.py) and the comparison of exit methods over a price path (simulation.py).
  Constructors take Decimals that may not be finite and store finite ones.  Quantising to
  cents can signal \<open>InvalidOperation\<close>, so every price observation is a fallible step.
\<close>

subsection \<open>Configuration and position\<close>

datatype exit_action = HOLD | RAISE_STOP | EXIT

definition require_positive :: "dec \<Rightarrow> string \<Rightarrow> unit res" where
  "require_positive value name =
     check (dec_positive value) (Raise ValueError (name @ '' must be a positive finite Decimal''))"

definition require_nonnegative :: "dec \<Rightarrow> string \<Rightarrow> unit res" where
  "require_nonnegative value name =
     check (dec_nonnegative value) (Raise ValueError (name @ '' must be a nonnegative finite Decimal''))"

record trailing_exit_config =
  tc_activation_gain_percent :: rat
  tc_trailing_distance_percent :: rat
  tc_break_even_trigger_percent :: rat
  tc_minimum_stop_raise_percent :: rat

definition make_config :: "dec \<Rightarrow> dec \<Rightarrow> dec \<Rightarrow> dec \<Rightarrow> trailing_exit_config res" where
  "make_config activation distance break_even minimum_raise =
     rbind (require_nonnegative activation ''activation_gain_percent'') (\<lambda>_.
     rbind (require_positive distance ''trailing_distance_percent'') (\<lambda>_.
     rbind (require_nonnegative break_even ''break_even_trigger_percent'') (\<lambda>_.
     rbind (require_nonnegative minimum_raise ''minimum_stop_raise_percent'') (\<lambda>_.
     if 100 \<le> fin distance
     then Inl (Raise ValueError ''trailing_distance_percent must be less than 100'')
     else Inr \<lparr>tc_activation_gain_percent = fin activation,
       tc_trailing_distance_percent = fin distance,
       tc_break_even_trigger_percent = fin break_even,
       tc_minimum_stop_raise_percent = fin minimum_raise\<rparr>))))"

definition default_config :: trailing_exit_config where
  "default_config = \<lparr>tc_activation_gain_percent = 3, tc_trailing_distance_percent = 2,
     tc_break_even_trigger_percent = 3/2, tc_minimum_stop_raise_percent = 1/10\<rparr>"

record managed_position =
  mp_symbol :: string
  mp_entry_price :: rat
  mp_quantity :: rat
  mp_highest_price :: rat
  mp_protective_stop :: "rat option"
  mp_trailing_activated :: bool

definition make_managed_position ::
  "string \<Rightarrow> dec \<Rightarrow> dec \<Rightarrow> dec \<Rightarrow> dec option \<Rightarrow> bool \<Rightarrow> managed_position res" where
  "make_managed_position symbol entry quantity highest stop activated =
     (if normalize_symbol symbol = [] then Inl (Raise ValueError ''symbol is required'')
      else rbind (require_positive entry ''entry_price'') (\<lambda>_.
      rbind (require_positive quantity ''quantity'') (\<lambda>_.
      rbind (require_positive highest ''highest_price'') (\<lambda>_.
      if fin highest < fin entry
      then Inl (Raise ValueError ''highest_price cannot be below entry_price'')
      else rbind (case stop of None \<Rightarrow> Inr () | Some s \<Rightarrow> require_positive s ''protective_stop'') (\<lambda>_.
      Inr \<lparr>mp_symbol = normalize_symbol symbol, mp_entry_price = fin entry,
        mp_quantity = fin quantity, mp_highest_price = fin highest,
        mp_protective_stop = map_option fin stop, mp_trailing_activated = activated\<rparr>)))))"

record exit_decision =
  ed_action :: exit_action
  ed_reason :: string
  ed_current_price :: rat
  ed_gain_percent :: rat
  ed_previous_stop :: "rat option"
  ed_recommended_stop :: "rat option"
  ed_position :: managed_position

subsection \<open>One price observation\<close>

definition percent_change :: "rat \<Rightarrow> rat \<Rightarrow> rat res" where
  "percent_change starting current =
     rbind (ddiv_checked (dsub current starting) starting) (\<lambda>x. quantize2 (dmul x 100))"

definition rounded_price :: "rat option \<Rightarrow> rat option res" where
  "rounded_price value = (case value of None \<Rightarrow> Inr None
     | Some v \<Rightarrow> rbind (quantize2 v) (\<lambda>r. Inr (Some r)))"

definition higher_stop :: "rat option \<Rightarrow> rat option \<Rightarrow> rat option" where
  "higher_stop existing candidate =
     (case existing of None \<Rightarrow> candidate
      | Some e \<Rightarrow> (case candidate of None \<Rightarrow> existing | Some c \<Rightarrow> Some (max e c)))"

definition stop_was_meaningfully_raised :: "rat option \<Rightarrow> rat option \<Rightarrow> rat \<Rightarrow> bool" where
  "stop_was_meaningfully_raised previous_stop new_stop minimum_raise_percent =
     (case new_stop of None \<Rightarrow> False
      | Some n \<Rightarrow> (case previous_stop of None \<Rightarrow> True
        | Some p \<Rightarrow>
            if n \<le> p then False
            else dmul p (ddiv minimum_raise_percent 100) \<le> dsub n p))"

definition break_even_stop :: "managed_position \<Rightarrow> rat \<Rightarrow> trailing_exit_config \<Rightarrow> rat option" where
  "break_even_stop pos gain_percent c =
     (let candidate = mp_protective_stop pos in
      if tc_break_even_trigger_percent c \<le> gain_percent \<and>
         (case candidate of None \<Rightarrow> True | Some s \<Rightarrow> s < mp_entry_price pos)
      then Some (mp_entry_price pos) else candidate)"

definition trailing_stop_of :: "rat \<Rightarrow> trailing_exit_config \<Rightarrow> rat" where
  "trailing_stop_of highest c = dmul highest (dsub 1 (ddiv (tc_trailing_distance_percent c) 100))"

definition candidate_stop ::
  "managed_position \<Rightarrow> rat \<Rightarrow> rat \<Rightarrow> bool \<Rightarrow> trailing_exit_config \<Rightarrow> rat option" where
  "candidate_stop pos highest gain_percent activated c =
     (let candidate = break_even_stop pos gain_percent c;
          trailing = trailing_stop_of highest c in
      if activated \<and> (case candidate of None \<Rightarrow> True | Some s \<Rightarrow> s < trailing)
      then Some trailing else candidate)"

definition evaluate_long_position ::
  "managed_position \<Rightarrow> dec \<Rightarrow> trailing_exit_config option \<Rightarrow> exit_decision res" where
  "evaluate_long_position pos price config =
     (let c = (case config of None \<Rightarrow> default_config | Some c \<Rightarrow> c) in
      rbind (require_positive price ''current_price'') (\<lambda>_.
      let current = fin price; highest = max (mp_highest_price pos) current;
        rebuild = (\<lambda>stop activated. make_managed_position (mp_symbol pos) (Fin (mp_entry_price pos))
          (Fin (mp_quantity pos)) (Fin highest) (map_option Fin stop) activated) in
      rbind (percent_change (mp_entry_price pos) current) (\<lambda>gain_percent.
      if (case mp_protective_stop pos of None \<Rightarrow> False | Some s \<Rightarrow> current \<le> s)
      then rbind (rebuild (mp_protective_stop pos) (mp_trailing_activated pos)) (\<lambda>updated.
        Inr \<lparr>ed_action = EXIT, ed_reason = ''Current price reached the protective stop.'',
          ed_current_price = current, ed_gain_percent = gain_percent,
          ed_previous_stop = mp_protective_stop pos, ed_recommended_stop = mp_protective_stop pos,
          ed_position = updated\<rparr>)
      else rbind (if mp_trailing_activated pos then Inr True
            else rbind (percent_change (mp_entry_price pos) highest)
                   (\<lambda>g. Inr (tc_activation_gain_percent c \<le> g))) (\<lambda>activated.
        rbind (rounded_price (candidate_stop pos highest gain_percent activated c)) (\<lambda>candidate.
        rbind (rebuild (higher_stop (mp_protective_stop pos) candidate) activated) (\<lambda>updated.
        let raised = stop_was_meaningfully_raised (mp_protective_stop pos)
              (mp_protective_stop updated) (tc_minimum_stop_raise_percent c) in
        Inr \<lparr>ed_action = (if raised then RAISE_STOP else HOLD),
          ed_reason = (if raised
            then ''Price advanced and the protective stop can be raised without reducing protection.''
            else ''The position remains above its protective stop and no meaningful stop increase is required.''),
          ed_current_price = current, ed_gain_percent = gain_percent,
          ed_previous_stop = mp_protective_stop pos,
          ed_recommended_stop = mp_protective_stop updated, ed_position = updated\<rparr>))))))"

subsection \<open>Exit simulation\<close>

datatype exit_method = FIXED_TARGET | TRAILING_STOP | END_OF_DATA

record trade_simulation_result =
  ts_exit_method :: exit_method
  ts_entry_price :: rat
  ts_exit_price :: rat
  ts_highest_price :: rat
  ts_gain_percent :: rat
  ts_observations_processed :: nat

record exit_comparison =
  xc_fixed_target :: trade_simulation_result
  xc_trailing_stop :: trade_simulation_result

definition trailing_improvement_percent :: "exit_comparison \<Rightarrow> rat res" where
  "trailing_improvement_percent c =
     quantize2 (dsub (ts_gain_percent (xc_trailing_stop c)) (ts_gain_percent (xc_fixed_target c)))"

definition validated_prices :: "dec list \<Rightarrow> rat list res" where
  "validated_prices prices =
     (if length prices < 2 then Inl (Raise ValueError ''at least two price observations are required'')
      else if list_ex (\<lambda>v. \<not> dec_positive v) prices
      then Inl (Raise ValueError ''all prices must be positive finite Decimals'')
      else Inr (map fin prices))"

definition sim_result :: "exit_method \<Rightarrow> rat \<Rightarrow> rat \<Rightarrow> rat \<Rightarrow> nat \<Rightarrow> trade_simulation_result res" where
  "sim_result method entry price highest n =
     rbind (percent_change entry price) (\<lambda>gain.
       Inr \<lparr>ts_exit_method = method, ts_entry_price = entry, ts_exit_price = price,
            ts_highest_price = highest, ts_gain_percent = gain, ts_observations_processed = n\<rparr>)"

fun fixed_target_loop ::
  "rat \<Rightarrow> rat \<Rightarrow> rat \<Rightarrow> rat \<Rightarrow> nat \<Rightarrow> rat list \<Rightarrow> trade_simulation_result res" where
  "fixed_target_loop entry target highest final_price n [] =
     sim_result END_OF_DATA entry final_price highest (n - 1)"
| "fixed_target_loop entry target highest final_price n (p # ps) =
     (let highest' = max highest p in
      if target \<le> p then sim_result FIXED_TARGET entry p highest' n
      else fixed_target_loop entry target highest' final_price (Suc n) ps)"

definition simulate_fixed_profit_target :: "dec list \<Rightarrow> rat \<Rightarrow> trade_simulation_result res" where
  "simulate_fixed_profit_target prices target_gain_percent =
     rbind (validated_prices prices) (\<lambda>path.
     let entry = hd path; target = dmul entry (dadd 1 (ddiv target_gain_percent 100)) in
     fixed_target_loop entry target entry (last path) 2 (tl path))"

fun trailing_loop ::
  "trailing_exit_config option \<Rightarrow> rat \<Rightarrow> managed_position \<Rightarrow> rat \<Rightarrow> nat \<Rightarrow> rat list \<Rightarrow>
   trade_simulation_result res" where
  "trailing_loop config entry pos final_price n [] =
     sim_result END_OF_DATA entry final_price (mp_highest_price pos) (n - 1)"
| "trailing_loop config entry pos final_price n (p # ps) =
     rbind (evaluate_long_position pos (Fin p) config) (\<lambda>decision.
       let pos' = ed_position decision in
       if ed_action decision = EXIT
       then sim_result TRAILING_STOP entry p (mp_highest_price pos') n
       else trailing_loop config entry pos' final_price (Suc n) ps)"

definition simulate_trailing_stop ::
  "dec list \<Rightarrow> trailing_exit_config option \<Rightarrow> trade_simulation_result res" where
  "simulate_trailing_stop prices config =
     rbind (validated_prices prices) (\<lambda>path.
     rbind (make_managed_position ''SIM'' (Fin (hd path)) (Fin 1) (Fin (hd path)) None False) (\<lambda>pos.
       trailing_loop config (hd path) pos (last path) 2 (tl path)))"

definition compare_exit_methods ::
  "dec list \<Rightarrow> rat \<Rightarrow> trailing_exit_config option \<Rightarrow> exit_comparison res" where
  "compare_exit_methods prices fixed_target_percent trailing_config =
     rbind (simulate_fixed_profit_target prices fixed_target_percent) (\<lambda>fixed.
     rbind (simulate_trailing_stop prices trailing_config) (\<lambda>trailing.
       Inr \<lparr>xc_fixed_target = fixed, xc_trailing_stop = trailing\<rparr>))"

subsection \<open>The position invariant\<close>

definition position_ok :: "managed_position \<Rightarrow> bool" where
  "position_ok pos \<longleftrightarrow> normalize_symbol (mp_symbol pos) = mp_symbol pos \<and> mp_symbol pos \<noteq> [] \<and>
     0 < mp_entry_price pos \<and> 0 < mp_quantity pos \<and> mp_entry_price pos \<le> mp_highest_price pos \<and>
     (\<forall>s. mp_protective_stop pos = Some s \<longrightarrow> 0 < s)"

definition stop_le :: "rat option \<Rightarrow> rat option \<Rightarrow> bool" where
  "stop_le a b \<longleftrightarrow> (\<forall>s. a = Some s \<longrightarrow> (\<exists>t. b = Some t \<and> s \<le> t))"

definition tightened :: "managed_position \<Rightarrow> managed_position \<Rightarrow> bool" where
  "tightened pos pos' \<longleftrightarrow> mp_symbol pos' = mp_symbol pos \<and> mp_entry_price pos' = mp_entry_price pos \<and>
     mp_quantity pos' = mp_quantity pos \<and> mp_highest_price pos \<le> mp_highest_price pos' \<and>
     stop_le (mp_protective_stop pos) (mp_protective_stop pos') \<and>
     (mp_trailing_activated pos \<longrightarrow> mp_trailing_activated pos')"

lemma require_Inr [res_simps]:
  "require_positive v name = Inr u \<longleftrightarrow> dec_positive v"
  "require_nonnegative v name = Inr u \<longleftrightarrow> dec_nonnegative v"
  by (simp_all add: require_positive_def require_nonnegative_def check_Inr)

lemma make_managed_position_Inr [res_simps]:
  "make_managed_position symbol (Fin entry) (Fin q) (Fin highest) (map_option Fin stop) activated = Inr pos \<longleftrightarrow>
     normalize_symbol symbol \<noteq> [] \<and> 0 < entry \<and> 0 < q \<and> 0 < highest \<and> entry \<le> highest \<and>
     (\<forall>s. stop = Some s \<longrightarrow> 0 < s) \<and>
     pos = \<lparr>mp_symbol = normalize_symbol symbol, mp_entry_price = entry, mp_quantity = q,
       mp_highest_price = highest, mp_protective_stop = stop, mp_trailing_activated = activated\<rparr>"
  by (cases stop) (auto simp: make_managed_position_def res_simps)

lemmas make_managed_position_options [res_simps] =
  make_managed_position_Inr [where stop = None, simplified option.simps]
  make_managed_position_Inr [where stop = "Some s" for s, simplified option.simps]

lemma higher_stop_le: "stop_le e (higher_stop e c)"
  by (cases e; cases c) (auto simp: higher_stop_def stop_le_def)

lemma higher_stop_cases: "higher_stop e c = e \<or> higher_stop e c = c"
  by (cases e; cases c) (auto simp: higher_stop_def max_def)

text \<open>One evaluation, taken apart once.\<close>

lemma evaluate_cases:
  assumes "evaluate_long_position pos price config = Inr d" and "position_ok pos"
  obtains
    (exit) s where "ed_action d = EXIT" "mp_protective_stop pos = Some s" "fin price \<le> s"
      "ed_position d = pos\<lparr>mp_highest_price := max (mp_highest_price pos) (fin price)\<rparr>"
      "0 < fin price"
  | (hold) gain activated candidate where "ed_action d \<noteq> EXIT" "0 < fin price"
      "\<forall>s. mp_protective_stop pos = Some s \<longrightarrow> s < fin price"
      "mp_trailing_activated pos \<longrightarrow> activated"
      "rounded_price (candidate_stop pos (max (mp_highest_price pos) (fin price)) gain activated
         (case config of None \<Rightarrow> default_config | Some c \<Rightarrow> c)) = Inr candidate"
      "ed_position d = pos\<lparr>mp_highest_price := max (mp_highest_price pos) (fin price),
         mp_protective_stop := higher_stop (mp_protective_stop pos) candidate,
         mp_trailing_activated := activated\<rparr>"
      "\<forall>s. mp_protective_stop (ed_position d) = Some s \<longrightarrow> 0 < s"
proof -
  from assms(1) have price: "dec_positive price"
    by (auto simp: evaluate_long_position_def Let_def res_simps)
  then have pos: "0 < fin price" using dec_positiveD by blast
  have sym: "normalize_symbol (mp_symbol pos) = mp_symbol pos" using assms(2) by (simp add: position_ok_def)
  show thesis
  proof (cases "case mp_protective_stop pos of None \<Rightarrow> False | Some s \<Rightarrow> fin price \<le> s")
    case True
    then obtain s where s: "mp_protective_stop pos = Some s" "fin price \<le> s"
      by (auto split: option.splits)
    with assms True pos sym show thesis
      by (intro exit [of s]) (auto simp: evaluate_long_position_def Let_def res_simps)
  next
    case False
    then have ns: "\<forall>s. mp_protective_stop pos = Some s \<longrightarrow> s < fin price"
      by (auto split: option.splits)
    from assms(1) False sym obtain gain activated candidate where
      "mp_trailing_activated pos \<longrightarrow> activated"
      "rounded_price (candidate_stop pos (max (mp_highest_price pos) (fin price)) gain activated
         (case config of None \<Rightarrow> default_config | Some c \<Rightarrow> c)) = Inr candidate"
      "ed_position d = pos\<lparr>mp_highest_price := max (mp_highest_price pos) (fin price),
         mp_protective_stop := higher_stop (mp_protective_stop pos) candidate,
         mp_trailing_activated := activated\<rparr>"
      "\<forall>s. mp_protective_stop (ed_position d) = Some s \<longrightarrow> 0 < s" "ed_action d \<noteq> EXIT"
      by (auto simp: evaluate_long_position_def Let_def res_simps split: if_splits)
    with pos ns show thesis by (intro hold) auto
  qed
qed

definition observe :: "trailing_exit_config option \<Rightarrow> managed_position \<Rightarrow> dec \<Rightarrow> managed_position res" where
  "observe config pos price =
     rbind (evaluate_long_position pos price config) (\<lambda>d. Inr (ed_position d))"

interpretation trailing: monotone_stepping "observe config" position_ok tightened for config
proof unfold_locales
  fix s a s' assume ok: "position_ok s" and st: "observe config s a = Inr s'"
  then obtain d where d: "evaluate_long_position s a config = Inr d" "s' = ed_position d"
    by (auto simp: observe_def res_simps)
  from d(1) ok have "position_ok s' \<and> tightened s s'"
  proof (cases rule: evaluate_cases)
    case (exit x)
    with ok d(2) show ?thesis
      by (auto simp: position_ok_def tightened_def stop_le_def)
  next
    case (hold gain activated candidate)
    with ok d(2) higher_stop_le show ?thesis
      by (auto simp: position_ok_def tightened_def)
  qed
  then show "position_ok s'" and "tightened s s'" by simp_all
next
  show "tightened s s" for s by (simp add: tightened_def stop_le_def)
  show "tightened s u" if "tightened s t" "tightened t u" for s t u
    using that by (force simp: tightened_def stop_le_def)
qed

subsection \<open>How far the stop can go\<close>

definition config_ok :: "trailing_exit_config \<Rightarrow> bool" where
  "config_ok c \<longleftrightarrow> 0 \<le> tc_activation_gain_percent c \<and> 0 < tc_trailing_distance_percent c \<and>
     tc_trailing_distance_percent c < 100 \<and> 0 \<le> tc_break_even_trigger_percent c \<and>
     0 \<le> tc_minimum_stop_raise_percent c"

lemma make_config_ok: "make_config a d b m = Inr c \<Longrightarrow> config_ok c"
  by (cases a; cases d; cases b; cases m) (auto simp: make_config_def res_simps config_ok_def not_le)

lemma trailing_stop_le:
  assumes "0 \<le> highest" and "0 \<le> tc_trailing_distance_percent c"
  shows "trailing_stop_of highest c \<le> rnd highest"
proof -
  have "0 \<le> ddiv (tc_trailing_distance_percent c) 100"
    using assms(2) by (simp add: ddiv_def dec28.r_nonneg_iff)
  then have "dsub 1 (ddiv (tc_trailing_distance_percent c) 100) \<le> 1"
    unfolding dsub_def by (intro dec28.r_le_fixed) simp_all
  then have "highest * dsub 1 (ddiv (tc_trailing_distance_percent c) 100) \<le> highest * 1"
    using assms(1) by (rule mult_left_mono)
  then show ?thesis unfolding trailing_stop_of_def dmul_def by (intro rnd_mono) simp
qed

lemma candidate_stop_le:
  assumes "candidate_stop pos highest gain activated c = Some s" and "mp_protective_stop pos \<noteq> Some s"
    and "mp_entry_price pos \<le> highest" and "0 \<le> highest" and "0 \<le> tc_trailing_distance_percent c"
  shows "s \<le> max highest (rnd highest)"
  using assms(1-3) trailing_stop_le [OF assms(4,5)]
  by (auto simp: candidate_stop_def break_even_stop_def Let_def split: if_splits)

lemma rounded_price_near:
  assumes "rounded_price (Some s) = Inr r"
  shows "\<exists>t. r = Some t \<and> \<bar>t - s\<bar> \<le> 1/200"
  using assms quantize2_error by (auto simp: rounded_price_def res_simps)

subsection \<open>Loops of the simulations\<close>

lemma sim_result_Inr:
  "sim_result method entry price highest n = Inr r \<Longrightarrow>
     ts_exit_method r = method \<and> ts_exit_price r = price \<and> ts_highest_price r = highest \<and>
     ts_observations_processed r = n \<and> ts_entry_price r = entry"
  by (auto simp: sim_result_def res_simps)

lemma Max_snoc: "pre \<noteq> [] \<Longrightarrow> max (Max (set pre)) p = Max (set (pre @ [p]))"
  by (simp add: Max_insert max.commute)

lemma fixed_target_loop_Inr:
  assumes "fixed_target_loop entry target (Max (set pre)) (last (pre @ ps)) (Suc (length pre)) ps = Inr r"
    and "pre \<noteq> []"
  shows "\<exists>n. ts_observations_processed r = n \<and> length pre \<le> n \<and> n \<le> length (pre @ ps) \<and>
    ts_exit_price r = (pre @ ps) ! (n - 1) \<and> ts_highest_price r = Max (set (take n (pre @ ps))) \<and>
    (ts_exit_method r = FIXED_TARGET \<and> length pre < n \<and> target \<le> ts_exit_price r \<and>
       (\<forall>i. length pre \<le> i \<and> i < n - 1 \<longrightarrow> (pre @ ps) ! i < target) \<or>
     ts_exit_method r = END_OF_DATA \<and> n = length (pre @ ps) \<and>
       (\<forall>i. length pre \<le> i \<and> i < n \<longrightarrow> (pre @ ps) ! i < target))"
  using assms
proof (induction ps arbitrary: pre)
  case Nil
  then show ?case by (auto dest!: sim_result_Inr simp: last_conv_nth)
next
  case (Cons p ps)
  show ?case
  proof (cases "target \<le> p")
    case True
    with Cons.prems Max_snoc [OF Cons.prems(2), of p] show ?thesis
      by (intro exI [of _ "Suc (length pre)"])
        (auto simp: Let_def nth_append dest!: sim_result_Inr)
  next
    case False
    have "fixed_target_loop entry target (Max (set (pre @ [p]))) (last ((pre @ [p]) @ ps))
        (Suc (length (pre @ [p]))) ps = Inr r"
      using Cons.prems False Max_snoc [OF Cons.prems(2), of p] by (simp add: Let_def)
    from Cons.IH [OF this] obtain n where n: "ts_observations_processed r = n"
      "length (pre @ [p]) \<le> n" "n \<le> length ((pre @ [p]) @ ps)"
      "ts_exit_price r = ((pre @ [p]) @ ps) ! (n - 1)"
      "ts_highest_price r = Max (set (take n ((pre @ [p]) @ ps)))"
      "ts_exit_method r = FIXED_TARGET \<and> length (pre @ [p]) < n \<and> target \<le> ts_exit_price r \<and>
         (\<forall>i. length (pre @ [p]) \<le> i \<and> i < n - 1 \<longrightarrow> ((pre @ [p]) @ ps) ! i < target) \<or>
       ts_exit_method r = END_OF_DATA \<and> n = length ((pre @ [p]) @ ps) \<and>
         (\<forall>i. length (pre @ [p]) \<le> i \<and> i < n \<longrightarrow> ((pre @ [p]) @ ps) ! i < target)" by auto
    have pth: "(pre @ p # ps) ! length pre < target" using False by simp
    have ext: "\<forall>i. length pre \<le> i \<and> i < m \<longrightarrow> (pre @ p # ps) ! i < target"
      if "\<forall>i. length (pre @ [p]) \<le> i \<and> i < m \<longrightarrow> ((pre @ [p]) @ ps) ! i < target" for m
    proof (intro allI impI)
      fix i assume "length pre \<le> i \<and> i < m"
      then show "(pre @ p # ps) ! i < target"
        using that pth by (cases "i = length pre") auto
    qed
    have split: "ts_exit_method r = FIXED_TARGET \<and> length pre < n \<and> target \<le> ts_exit_price r \<and>
         (\<forall>i. length pre \<le> i \<and> i < n - 1 \<longrightarrow> (pre @ p # ps) ! i < target) \<or>
       ts_exit_method r = END_OF_DATA \<and> n = length (pre @ p # ps) \<and>
         (\<forall>i. length pre \<le> i \<and> i < n \<longrightarrow> (pre @ p # ps) ! i < target)"
      using n(6)
    proof (elim disjE conjE)
      assume "ts_exit_method r = FIXED_TARGET" "length (pre @ [p]) < n" "target \<le> ts_exit_price r"
        "\<forall>i. length (pre @ [p]) \<le> i \<and> i < n - 1 \<longrightarrow> ((pre @ [p]) @ ps) ! i < target"
      with ext [of "n - 1"] show ?thesis by (intro disjI1 conjI) simp_all
    next
      assume "ts_exit_method r = END_OF_DATA" "n = length ((pre @ [p]) @ ps)"
        "\<forall>i. length (pre @ [p]) \<le> i \<and> i < n \<longrightarrow> ((pre @ [p]) @ ps) ! i < target"
      with ext [of n] show ?thesis by (intro disjI2 conjI) simp_all
    qed
    show ?thesis
      by (rule exI [of _ n]) (intro conjI split, use n(1-5) in simp_all)
  qed
qed

lemma evaluate_highest:
  assumes "evaluate_long_position pos price config = Inr d" and "position_ok pos"
  shows "mp_highest_price (ed_position d) = max (mp_highest_price pos) (fin price) \<and>
    (ed_action d = EXIT \<longleftrightarrow> (\<exists>s. mp_protective_stop pos = Some s \<and> fin price \<le> s))"
  using assms by (cases rule: evaluate_cases) auto

lemma evaluate_ok:
  "evaluate_long_position pos price config = Inr d \<Longrightarrow> position_ok pos \<Longrightarrow> position_ok (ed_position d)"
  using trailing.step_good [of pos config price "ed_position d"] by (simp add: observe_def)

lemma trailing_loop_Inr:
  assumes "trailing_loop config entry pos (last (pre @ ps)) (Suc (length pre)) ps = Inr r"
    and "pre \<noteq> []" and "position_ok pos" and "mp_highest_price pos = Max (set pre)"
  shows "\<exists>n. ts_observations_processed r = n \<and> length pre \<le> n \<and> n \<le> length (pre @ ps) \<and>
    ts_exit_price r = (pre @ ps) ! (n - 1) \<and> ts_highest_price r = Max (set (take n (pre @ ps))) \<and>
    (ts_exit_method r = TRAILING_STOP \<and> length pre < n \<and>
       (\<exists>pos' s. run (observe config) pos (map Fin (take (n - 1 - length pre) ps)) = Inr pos' \<and>
          mp_protective_stop pos' = Some s \<and> ts_exit_price r \<le> s) \<or>
     ts_exit_method r = END_OF_DATA \<and> n = length (pre @ ps))"
  using assms
proof (induction ps arbitrary: pre pos)
  case Nil
  then show ?case by (auto dest!: sim_result_Inr simp: last_conv_nth)
next
  case (Cons p ps)
  from Cons.prems(1) obtain d where d: "evaluate_long_position pos (Fin p) config = Inr d"
    by (auto simp: res_simps)
  note h = evaluate_highest [OF d Cons.prems(3)]
  have hi: "mp_highest_price (ed_position d) = Max (set (pre @ [p]))"
    using h Cons.prems(4) Max_snoc [OF Cons.prems(2), of p] by simp
  show ?case
  proof (cases "ed_action d = EXIT")
    case True
    with Cons.prems(1) d have r: "sim_result TRAILING_STOP entry p (Max (set (pre @ [p]))) (Suc (length pre)) = Inr r"
      by (simp add: Let_def hi)
    from sim_result_Inr [OF this] True h show ?thesis
      by (intro exI [of _ "Suc (length pre)"]) (auto simp: nth_append)
  next
    case False
    have "trailing_loop config entry (ed_position d) (last ((pre @ [p]) @ ps))
        (Suc (length (pre @ [p]))) ps = Inr r"
      using Cons.prems(1) d False by (simp add: Let_def)
    from Cons.IH [OF this _ evaluate_ok [OF d Cons.prems(3)] hi] obtain n where n:
      "ts_observations_processed r = n" "length (pre @ [p]) \<le> n" "n \<le> length ((pre @ [p]) @ ps)"
      "ts_exit_price r = ((pre @ [p]) @ ps) ! (n - 1)"
      "ts_highest_price r = Max (set (take n ((pre @ [p]) @ ps)))"
      "ts_exit_method r = TRAILING_STOP \<and> length (pre @ [p]) < n \<and>
       (\<exists>pos' s. run (observe config) (ed_position d) (map Fin (take (n - 1 - length (pre @ [p])) ps)) = Inr pos' \<and>
          mp_protective_stop pos' = Some s \<and> ts_exit_price r \<le> s) \<or>
     ts_exit_method r = END_OF_DATA \<and> n = length ((pre @ [p]) @ ps)" by auto
    have "observe config pos (Fin p) = Inr (ed_position d)" using d by (simp add: observe_def)
    moreover have "take (n - 1 - length pre) (p # ps) = p # take (n - 1 - length (pre @ [p])) ps"
      if "length (pre @ [p]) < n"
    proof -
      have "n - 1 - length pre = Suc (n - 1 - length (pre @ [p]))" using that by simp
      then show ?thesis by simp
    qed
    ultimately show ?thesis using n by (intro exI [of _ n]) auto
  qed
qed

subsection \<open>Properties\<close>

text \<open>
  C35: Over any sequence of price observations the highest price and the protective stop
  of a position only go up, the trailing stop stays activated once it is, and symbol,
  entry and quantity do not change.
\<close>

theorem stop_and_highest_only_increase:
  assumes "make_managed_position symbol entry quantity highest stop activated = Inr pos"
    and "run (observe config) pos prices = Inr pos'"
  shows "mp_highest_price pos \<le> mp_highest_price pos' \<and>
    (\<forall>s. mp_protective_stop pos = Some s \<longrightarrow> (\<exists>s'. mp_protective_stop pos' = Some s' \<and> s \<le> s')) \<and>
    (mp_trailing_activated pos \<longrightarrow> mp_trailing_activated pos') \<and>
    mp_entry_price pos' = mp_entry_price pos \<and> mp_quantity pos' = mp_quantity pos"
proof -
  have "position_ok pos"
    using assms(1) dec_positiveD
    by (cases stop) (auto simp: make_managed_position_def res_simps position_ok_def not_less)
  from trailing.run_rel [OF this assms(2)] show ?thesis
    by (auto simp: tightened_def stop_le_def)
qed

text \<open>
  An observation exits exactly when the price is at or below the stop in force, and
  otherwise the stop it leaves is the old one or lies at most half a cent above the
  highest price seen.
\<close>

theorem exit_exactly_at_stop:
  assumes "evaluate_long_position pos price (Some c) = Inr d" and "position_ok pos" and "config_ok c"
    and "rnd (mp_highest_price (ed_position d)) = mp_highest_price (ed_position d)"
  shows "(ed_action d = EXIT \<longleftrightarrow> (\<exists>s. mp_protective_stop pos = Some s \<and> fin price \<le> s)) \<and>
    mp_highest_price (ed_position d) = max (mp_highest_price pos) (fin price) \<and>
    (mp_protective_stop (ed_position d) = mp_protective_stop pos \<or>
     (\<exists>s s'. mp_protective_stop (ed_position d) = Some s' \<and> \<bar>s' - s\<bar> \<le> 1/200 \<and>
        (s \<le> mp_highest_price (ed_position d) \<or> mp_protective_stop pos = Some s)))"
  using assms(1,2)
proof (cases rule: evaluate_cases)
  case (exit s)
  then show ?thesis by auto
next
  case (hold gain activated candidate)
  define h where "h = max (mp_highest_price pos) (fin price)"
  have h: "mp_highest_price (ed_position d) = h" using hold(6) by (simp add: h_def)
  then have "rnd h = h" "0 \<le> h" "mp_entry_price pos \<le> h"
    using assms(2,4) by (auto simp: position_ok_def h_def)
  then have le: "s \<le> h" if "candidate_stop pos h gain activated c = Some s"
      "mp_protective_stop pos \<noteq> Some s" for s
    using candidate_stop_le [OF that] assms(3) by (simp add: config_ok_def)
  have stop: "mp_protective_stop (ed_position d) = mp_protective_stop pos \<or>
      mp_protective_stop (ed_position d) = candidate"
    using hold(6) higher_stop_cases by auto
  have rp: "rounded_price (candidate_stop pos h gain activated c) = Inr candidate"
    using hold(5) by (simp add: h_def)
  have "mp_protective_stop (ed_position d) = mp_protective_stop pos \<or>
     (\<exists>s s'. mp_protective_stop (ed_position d) = Some s' \<and> \<bar>s' - s\<bar> \<le> 1/200 \<and>
        (s \<le> h \<or> mp_protective_stop pos = Some s))"
  proof (cases "candidate_stop pos h gain activated c")
    case None
    with rp have "candidate = None" by (simp add: rounded_price_def)
    with hold(6) show ?thesis by (auto simp: higher_stop_def split: option.splits)
  next
    case (Some s)
    from rounded_price_near [OF rp [unfolded Some]] obtain s' where "candidate = Some s'" "\<bar>s' - s\<bar> \<le> 1/200"
      by blast
    with stop le [OF Some] show ?thesis by auto
  qed
  then show ?thesis using hold(1,3,6) h by (auto simp: h_def not_le)
qed

text \<open>
  The fixed-target simulation stops at the first observation after the entry that
  reaches the target, or at the end of the data if none does, and reports the highest
  price up to there.
\<close>

theorem fixed_target_is_first_crossing:
  assumes "simulate_fixed_profit_target prices gain = Inr r"
  shows "\<exists>n target. let path = map fin prices in
    target = dmul (path ! 0) (dadd 1 (ddiv gain 100)) \<and>
    ts_observations_processed r = n \<and> 1 \<le> n \<and> n \<le> length path \<and>
    ts_exit_price r = path ! (n - 1) \<and> ts_highest_price r = Max (set (take n path)) \<and>
    (ts_exit_method r = FIXED_TARGET \<and> 1 < n \<and> target \<le> ts_exit_price r \<and>
       (\<forall>i. 1 \<le> i \<and> i < n - 1 \<longrightarrow> path ! i < target) \<or>
     ts_exit_method r = END_OF_DATA \<and> n = length path \<and>
       (\<forall>i. 1 \<le> i \<and> i < n \<longrightarrow> path ! i < target))"
proof -
  from assms obtain entry path where path: "map fin prices = entry # path"
    and loop: "fixed_target_loop entry (dmul entry (dadd 1 (ddiv gain 100))) (Max (set [entry]))
        (last ([entry] @ path)) (Suc (length [entry])) path = Inr r"
    by (cases prices) (auto simp: simulate_fixed_profit_target_def validated_prices_def res_simps Let_def numeral_2_eq_2)
  from fixed_target_loop_Inr [OF loop] path show ?thesis by (simp add: Let_def) (elim conjE, simp)
qed

text \<open>
  The trailing simulation reports the price of the observation it stops at and the
  highest price up to there; it stops early only at a price at or below the stop that
  the observations before it left, and otherwise at the end of the data.
\<close>

theorem trailing_simulation_exits_at_stop:
  assumes "simulate_trailing_stop prices config = Inr r"
  shows "\<exists>n pos. let path = map fin prices in
    make_managed_position ''SIM'' (Fin (path ! 0)) (Fin 1) (Fin (path ! 0)) None False = Inr pos \<and>
    ts_observations_processed r = n \<and> 1 \<le> n \<and> n \<le> length path \<and>
    ts_exit_price r = path ! (n - 1) \<and> ts_highest_price r = Max (set (take n path)) \<and>
    (ts_exit_method r = TRAILING_STOP \<and> 1 < n \<and>
       (\<exists>pos' s. run (observe config) pos (map Fin (take (n - 2) (tl path))) = Inr pos' \<and>
          mp_protective_stop pos' = Some s \<and> ts_exit_price r \<le> s) \<or>
     ts_exit_method r = END_OF_DATA \<and> n = length path)"
proof -
  from assms obtain entry path pos where path: "map fin prices = entry # path"
    and pos: "make_managed_position ''SIM'' (Fin entry) (Fin 1) (Fin entry) None False = Inr pos"
    and loop: "trailing_loop config entry pos (last ([entry] @ path)) (Suc (length [entry])) path = Inr r"
    by (cases prices) (auto simp: simulate_trailing_stop_def validated_prices_def res_simps Let_def
        numeral_2_eq_2 simp del: make_managed_position_options)
  have ok: "position_ok pos" "mp_highest_price pos = Max (set [entry])"
    using pos by (auto simp: res_simps position_ok_def)
  from trailing_loop_Inr [OF loop _ ok] path pos show ?thesis
    by (simp add: Let_def numeral_2_eq_2) (elim conjE, simp)
qed

definition ex_position :: "rat \<Rightarrow> managed_position" where
  "ex_position entry = \<lparr>mp_symbol = ''SIM'', mp_entry_price = entry, mp_quantity = 1,
     mp_highest_price = entry, mp_protective_stop = None, mp_trailing_activated = False\<rparr>"

lemma strip_SIM: "normalize_symbol ''SIM'' = ''SIM''"
  by (simp add: normalize_symbol_def strip_def lstrip_def is_space_def upper_def upper_char_def)

lemma ex_half_even:
  "half_even (49/100) = 0" "half_even (1323/125) = 11" "half_even (21/2) = 10"
  by (rule half_even_unique; simp; fail)+
    (simp add: half_even_tie [of _ 10])

lemma ex_price_rnds:
  "rnd (1/125) = 1/125" "rnd (2/25) = 2/25" "rnd (1/50) = 1/50" "rnd (49/50) = 49/50"
  "rnd (1323/12500) = 1323/12500" "rnd (49/10000) = 49/10000" "rnd (1/1000) = 1/1000"
  "rnd (1/4) = 1/4" "rnd (27/250) = 27/250"
  by (rule rnd_eqI [where k = 3 and c = 8]; simp)
    (rule rnd_eqI [where k = 2 and c = 8] rnd_eqI [where k = 2 and c = 2]
      rnd_eqI [where k = 2 and c = 98] rnd_eqI [where k = 5 and c = 10584]
      rnd_eqI [where k = 4 and c = 49] rnd_eqI [where k = 3 and c = 1]
      rnd_eqI [where k = 2 and c = 25] rnd_eqI [where k = 3 and c = 108]; simp; fail)+

lemmas ex_eval_defs = require_positive_def percent_change_def dec_defs ex_price_rnds ex_half_even
  quantize2_def rounded_price_def candidate_stop_def break_even_stop_def trailing_stop_of_def
  default_config_def Let_def higher_stop_def make_managed_position_def strip_SIM ex_position_def
  stop_was_meaningfully_raised_def ddiv_checked_def position_ok_def

definition ex_raised_position :: managed_position where
  "ex_raised_position = (ex_position (1/10))\<lparr>mp_highest_price := 27/250,
     mp_protective_stop := Some (11/100), mp_trailing_activated := True\<rparr>"

lemma ex_first:
  "evaluate_long_position (ex_position (1/10)) (Fin (27/250)) None = Inr
     \<lparr>ed_action = RAISE_STOP,
      ed_reason = ''Price advanced and the protective stop can be raised without reducing protection.'',
      ed_current_price = 27/250, ed_gain_percent = 8, ed_previous_stop = None,
      ed_recommended_stop = Some (11/100), ed_position = ex_raised_position\<rparr>"
  by (simp add: evaluate_long_position_def ex_eval_defs ex_raised_position_def)

lemma ex_second:
  "evaluate_long_position ex_raised_position (Fin (27/250)) None = Inr
     \<lparr>ed_action = EXIT, ed_reason = ''Current price reached the protective stop.'',
      ed_current_price = 27/250, ed_gain_percent = 8, ed_previous_stop = Some (11/100),
      ed_recommended_stop = Some (11/100), ed_position = ex_raised_position\<rparr>"
  by (simp add: evaluate_long_position_def ex_eval_defs ex_raised_position_def)

text \<open>
  For prices below a cent the evaluation raises instead of managing the position: the
  stop of a position bought at 0.004 and quoted at 0.005 is rounded to 0.00, which its own
  constructor refuses.
\<close>

theorem sub_cent_position_raises:
  "position_ok (ex_position (1/250)) \<and>
   evaluate_long_position (ex_position (1/250)) (Fin (1/200)) None =
     Inl (Raise ValueError ''protective_stop must be a positive finite Decimal'')"
  by (simp add: evaluate_long_position_def ex_eval_defs)

text \<open>
  Rounding to cents can put the stop above the market: with the default settings a
  position bought at 0.10 and quoted at 0.108 gets the stop 0.11, and the next observation
  at the unchanged price exits.
\<close>

theorem stop_can_exceed_price:
  "\<exists>d d'. evaluate_long_position (ex_position (1/10)) (Fin (27/250)) None = Inr d \<and>
     ed_action d = RAISE_STOP \<and> ed_recommended_stop d = Some (11/100) \<and>
     ed_current_price d < 11/100 \<and>
     evaluate_long_position (ed_position d) (Fin (27/250)) None = Inr d' \<and> ed_action d' = EXIT"
  by (simp add: ex_first ex_second)

lemma ex_made:
  "make_managed_position ''SIM'' (Fin (1/10)) (Fin 1) (Fin (1/10)) None False = Inr (ex_position (1/10))"
  by (simp add: make_managed_position_def require_positive_def strip_SIM ex_position_def)

lemma ex_observed: "run (observe None) (ex_position (1/10)) [Fin (27/250)] = Inr ex_raised_position"
  by (simp add: observe_def ex_first)

lemma ex_position_ok: "position_ok (ex_position (1/10))"
  by (simp add: position_ok_def ex_position_def strip_SIM)

lemma ex_gain: "percent_change (1/10) (27/250) = Inr 8"
  by (simp add: ex_eval_defs)

lemma ex_rnds2: "rnd (1/20) = 1/20" "rnd (21/20) = 21/20" "rnd (21/200) = 21/200"
  by (rule rnd_eqI [where k = 2 and c = 5] rnd_eqI [where k = 2 and c = 105]
      rnd_eqI [where k = 3 and c = 105]; simp; fail)+

lemma ex_fixed:
  "\<exists>r. simulate_fixed_profit_target [Fin (1/10), Fin (27/250)] 5 = Inr r"
  by (simp add: simulate_fixed_profit_target_def validated_prices_def Let_def dec_defs ex_rnds2
      sim_result_def ex_gain)

lemma ex_trailed:
  "\<exists>r. simulate_trailing_stop [Fin (1/10), Fin (27/250), Fin (27/250)] None = Inr r \<and>
     ts_exit_method r = TRAILING_STOP"
  by (simp add: simulate_trailing_stop_def validated_prices_def ex_made ex_first ex_second Let_def
      sim_result_def ex_gain)

theorem stop_and_highest_only_increase_witness:
  "mp_highest_price (ex_position (1/10)) \<le> mp_highest_price ex_raised_position"
  using stop_and_highest_only_increase [OF ex_made ex_observed] by simp

theorem exit_exactly_at_stop_witness:
  "\<exists>d. evaluate_long_position (ex_position (1/10)) (Fin (27/250)) (Some default_config) = Inr d \<and>
     ed_action d \<noteq> EXIT"
proof -
  have "evaluate_long_position (ex_position (1/10)) (Fin (27/250)) (Some default_config) =
      evaluate_long_position (ex_position (1/10)) (Fin (27/250)) None"
    by (simp add: evaluate_long_position_def)
  then obtain d where d: "evaluate_long_position (ex_position (1/10)) (Fin (27/250)) (Some default_config) = Inr d"
    "ed_position d = ex_raised_position"
    by (simp add: ex_first)
  have c: "config_ok default_config" by (simp add: config_ok_def default_config_def)
  have r: "rnd (mp_highest_price (ed_position d)) = mp_highest_price (ed_position d)"
    by (simp add: d(2) ex_raised_position_def ex_price_rnds)
  from exit_exactly_at_stop [OF d(1) ex_position_ok c r] d(1) show ?thesis
    by (auto simp: ex_position_def)
qed

theorem fixed_target_is_first_crossing_witness:
  "\<exists>r. simulate_fixed_profit_target [Fin (1/10), Fin (27/250)] 5 = Inr r \<and>
     ts_observations_processed r \<le> 2"
proof -
  obtain r where r: "simulate_fixed_profit_target [Fin (1/10), Fin (27/250)] 5 = Inr r"
    using ex_fixed by blast
  from fixed_target_is_first_crossing [OF r] r show ?thesis by (auto simp: Let_def)
qed

theorem trailing_simulation_exits_at_stop_witness:
  "\<exists>r. simulate_trailing_stop [Fin (1/10), Fin (27/250), Fin (27/250)] None = Inr r \<and>
     1 < ts_observations_processed r"
proof -
  obtain r where r: "simulate_trailing_stop [Fin (1/10), Fin (27/250), Fin (27/250)] None = Inr r"
      "ts_exit_method r = TRAILING_STOP"
    using ex_trailed by blast
  from trailing_simulation_exits_at_stop [OF r(1)] r show ?thesis by (auto simp: Let_def)
qed

end
