(* ===== verification/Text_Checks.thy ===== *)
theory Text_Checks
  imports Decimal_Text
begin

text \<open>
  Checks that constructors make on texts and counts, shared by the records of the
  operations core and of the read models, and the loop \<open>for x in xs: check(x)\<close> that stops
  at the first exception.
\<close>

fun each :: "('a \<Rightarrow> unit res) \<Rightarrow> 'a list \<Rightarrow> unit res" where
  "each f [] = Inr ()"
| "each f (x # xs) = rbind (f x) (\<lambda>_. each f xs)"

lemma each_Inr [simp]: "each f xs = Inr u \<longleftrightarrow> (\<forall>x\<in>set xs. f x = Inr ())"
  by (induction xs) (auto simp: res_simps)

lemma rbind_unit [simp]: "rbind m f = Inr (y :: 'b) \<longleftrightarrow> m = Inr () \<and> f () = Inr y"
  for m :: "'e + unit"
  by (auto simp: res_simps)

definition nonempty_stripped :: "string \<Rightarrow> bool" where
  "nonempty_stripped v \<longleftrightarrow> strip v \<noteq> [] \<and> v = strip v"

definition nonempty_text :: "string \<Rightarrow> bool" where
  "nonempty_text v \<longleftrightarrow> strip v \<noteq> []"

fun none_or :: "('a \<Rightarrow> bool) \<Rightarrow> 'a option \<Rightarrow> bool" where
  "none_or P None = True"
| "none_or P (Some x) = P x"

text \<open>\<open>_required_text\<close>, also written out in several constructors.\<close>

definition required_text :: "string \<times> string \<Rightarrow> unit res" where
  "required_text nv = (case nv of (name, v) \<Rightarrow>
     if strip v = [] then Inl (Raise ValueError (name @ '' must not be empty''))
     else if v \<noteq> strip v then Inl (Raise ValueError (name @ '' must be stripped''))
     else Inr ())"

lemma required_text_Inr [simp]:
  "required_text (name, v) = Inr () \<longleftrightarrow> nonempty_stripped v"
  by (auto simp: required_text_def nonempty_stripped_def)

text \<open>\<open>if bad: raise ValueError(message)\<close>.\<close>

definition demand :: "bool \<Rightarrow> string \<Rightarrow> unit res" where
  "demand ok msg = check ok (Raise ValueError msg)"

lemma demand_Inr [simp]: "demand ok msg = Inr () \<longleftrightarrow> ok"
  by (simp add: demand_def check_Inr)

lemma demand_Inl [simp]: "demand ok msg = Inl e \<longleftrightarrow> \<not> ok \<and> e = Raise ValueError msg"
  by (simp add: demand_def check_Inl)

lemma demand_simps [simp]: "demand True msg = Inr ()" "demand False msg = Inl (Raise ValueError msg)"
  by (simp_all add: demand_def)

text \<open>A fallible function applied to every element, the results in order.\<close>

fun traverse :: "('a \<Rightarrow> 'e + 'b) \<Rightarrow> 'a list \<Rightarrow> 'e + 'b list" where
  "traverse f [] = Inr []"
| "traverse f (x # xs) = rbind (f x) (\<lambda>y. rbind (traverse f xs) (\<lambda>ys. Inr (y # ys)))"

lemma traverse_Inr_iff:
  "traverse f xs = Inr ys \<longleftrightarrow> map f xs = map Inr ys"
proof (induction xs arbitrary: ys)
  case Nil
  then show ?case by auto
next
  case (Cons x xs)
  then show ?case by (cases ys) (auto simp: res_simps)
qed

lemma traverse_total: "(\<And>x. x \<in> set xs \<Longrightarrow> f x = Inr (g x)) \<Longrightarrow> traverse f xs = Inr (map g xs)"
  by (simp add: traverse_Inr_iff)

lemma traverse_Inl: "traverse f xs = Inl e \<Longrightarrow> \<exists>x\<in>set xs. f x = Inl e"
  by (induction xs) (auto simp: res_simps)

lemma traverse_raises_iff:
  "(\<exists>e. traverse f xs = Inl e) \<longleftrightarrow> (\<exists>x\<in>set xs. \<exists>e. f x = Inl e)"
proof (induction xs)
  case (Cons x xs)
  show ?case
  proof (cases "f x")
    case (Inr y)
    with Cons show ?thesis by (cases "traverse f xs") auto
  qed auto
qed simp

text \<open>No element is older than its successor: \<open>not any(a < b for a, b in zip(ts, ts[1:]))\<close>.\<close>

definition newest_first :: "datetime list \<Rightarrow> bool" where
  "newest_first ts \<longleftrightarrow> (\<forall>(a, b)\<in>set (zip ts (tl ts)). \<not> dt_less a b)"

text \<open>\<open>str(n)\<close> of an integer.\<close>

definition int_text :: "int \<Rightarrow> string" where
  "int_text i = (if i < 0 then ''-'' @ digits (nat (- i)) else digits (nat i))"

lemma traverse_ex: "(\<exists>ys. traverse f xs = Inr ys) \<longleftrightarrow> (\<forall>x\<in>set xs. \<exists>y. f x = Inr y)"
proof (induction xs)
  case (Cons x xs)
  then show ?case by (cases "f x"; cases "traverse f xs") auto
qed simp

lemma traverse_map:
  assumes "traverse f xs = Inr ys" and "\<And>x y. f x = Inr y \<Longrightarrow> g y = h x"
  shows "map g ys = map h xs"
  using assms(1)
  by (induction xs arbitrary: ys) (auto simp: res_simps assms(2))

lemma traverse_length: "traverse f xs = Inr ys \<Longrightarrow> length ys = length xs"
  by (metis length_map traverse_Inr_iff)

subsection \<open>Code that raises nothing but \<open>ValueError\<close>\<close>

definition value_errors :: "'a res \<Rightarrow> bool" where
  "value_errors m \<longleftrightarrow> (\<forall>e. m = Inl e \<longrightarrow> exn_class e = ValueError)"

named_theorems raising "rules for the exceptions a computation can raise"

lemma value_errors_Inr [raising]: "value_errors (Inr x)"
  by (simp add: value_errors_def)

lemma value_errors_demand [raising]: "value_errors (demand ok msg)"
  by (simp add: value_errors_def)

lemma value_errors_rbind [raising]:
  "value_errors m \<Longrightarrow> (\<And>x. value_errors (f x)) \<Longrightarrow> value_errors (rbind m f)"
  by (auto simp: value_errors_def res_simps)

lemma value_errors_each [raising]: "(\<And>x. value_errors (f x)) \<Longrightarrow> value_errors (each f xs)"
  by (induction xs) (auto intro: raising)

lemma value_errors_traverse [raising]: "(\<And>x. value_errors (f x)) \<Longrightarrow> value_errors (traverse f xs)"
  by (induction xs) (auto intro!: raising)

lemma value_errors_required_text [raising]: "value_errors (required_text nv)"
  by (cases nv) (simp add: value_errors_def required_text_def)

lemma value_errors_split [raising]:
  "(\<And>a b. p = (a, b) \<Longrightarrow> value_errors (f a b)) \<Longrightarrow> value_errors (case p of (a, b) \<Rightarrow> f a b)"
  by (cases p) simp

end
