(* ===== verification/Operations_Events.thy ===== *)
theory Operations_Events
  imports Text_Checks
begin

text \<open>
  The immutable events of the operations core (app/operations\_core/events.py) and the
  records they carry.  A constructor's \<open>__post_init__\<close> is a function to \<open>unit res\<close>, because
  these constructors check and do not rewrite their fields; \<open>PaperRuntimeSnapshot\<close>, which
  normalises some, returns the record it leaves.  Tests that a value has its declared
  class (\<open>isinstance\<close>) are typing here.  An identifier is its text, and the defaults drawn
  from the clock and from \<open>uuid4\<close> are arguments.
\<close>

subsection \<open>The base class\<close>

record event_base =
  ev_occurred_at :: datetime
  ev_event_id :: string
  ev_source :: string

definition event_base_post_init :: "event_base \<Rightarrow> unit res" where
  "event_base_post_init b =
     rbind (demand (tz_aware (ev_occurred_at b)) ''occurred_at must be timezone-aware'') (\<lambda>_.
       demand (strip (ev_source b) \<noteq> []) ''source must not be empty'')"

subsection \<open>Orders and positions\<close>

record operations_order =
  oo_order_id :: string
  oo_symbol :: string
  oo_side :: string
  oo_quantity :: string
  oo_status :: string
  oo_updated_at :: datetime

definition operations_order_post_init :: "operations_order \<Rightarrow> unit res" where
  "operations_order_post_init x =
     rbind (each required_text
       [(''order_id'', oo_order_id x), (''symbol'', oo_symbol x), (''side'', oo_side x),
        (''quantity'', oo_quantity x), (''status'', oo_status x)]) (\<lambda>_.
     demand (tz_aware (oo_updated_at x)) ''updated_at must be timezone-aware'')"

record operations_position =
  op_account_id :: string
  op_symbol :: string
  op_asset_type :: string
  op_quantity :: string
  op_average_cost :: string
  op_market_value :: "string option"
  op_unrealized_gain_loss :: "string option"
  op_realized_gain_loss :: "string option"
  op_currency :: string
  op_updated_at :: datetime
  op_exposure :: "string option"

definition optional_position_text :: "string \<times> string option \<Rightarrow> unit res" where
  "optional_position_text nv = (case nv of
     (name, None) \<Rightarrow> Inr ()
   | (name, Some v) \<Rightarrow>
       rbind (demand (strip v \<noteq> []) (name @ '' must be None or non-empty text'')) (\<lambda>_.
         demand (v = strip v) (name @ '' must be stripped'')))"

definition operations_position_post_init :: "operations_position \<Rightarrow> unit res" where
  "operations_position_post_init x =
     rbind (each required_text
       [(''account_id'', op_account_id x), (''symbol'', op_symbol x),
        (''asset_type'', op_asset_type x), (''quantity'', op_quantity x),
        (''average_cost'', op_average_cost x), (''currency'', op_currency x)]) (\<lambda>_.
     rbind (optional_position_text (''realized_gain_loss'', op_realized_gain_loss x)) (\<lambda>_.
     rbind (each optional_position_text
       [(''market_value'', op_market_value x),
        (''unrealized_gain_loss'', op_unrealized_gain_loss x),
        (''exposure'', op_exposure x)]) (\<lambda>_.
     demand (tz_aware (op_updated_at x)) ''updated_at must be timezone-aware'')))"

subsection \<open>Timeline entries and decisions\<close>

record operations_timeline_entry =
  ot_timestamp :: datetime
  ot_category :: string
  ot_severity :: string
  ot_source :: string
  ot_title :: string
  ot_description :: string
  ot_related_symbol :: "string option"
  ot_related_order_id :: "string option"

definition operations_timeline_entry_post_init :: "operations_timeline_entry \<Rightarrow> unit res" where
  "operations_timeline_entry_post_init x =
     rbind (demand (tz_aware (ot_timestamp x)) ''timeline timestamp must be timezone-aware'') (\<lambda>_.
     rbind (each (\<lambda>(name, v). demand (nonempty_stripped v)
         (''timeline '' @ name @ '' must be non-empty stripped text''))
       [(''category'', ot_category x), (''severity'', ot_severity x), (''source'', ot_source x),
        (''title'', ot_title x), (''description'', ot_description x)]) (\<lambda>_.
     each (\<lambda>(name, v). demand (none_or nonempty_stripped v)
         (''timeline '' @ name @ '' must be None or stripped text''))
       [(''related_symbol'', ot_related_symbol x),
        (''related_order_id'', ot_related_order_id x)]))"

record operations_decision_record =
  od_decision_id :: string
  od_timestamp :: datetime
  od_strategy_id :: string
  od_symbol :: string
  od_action :: string
  od_confidence :: int
  od_reasoning_summary :: string
  od_risk_assessment :: "string option"
  od_requested_quantity :: "string option"
  od_resulting_order_id :: "string option"
  od_execution_outcome :: string

definition operations_decision_record_post_init :: "operations_decision_record \<Rightarrow> unit res" where
  "operations_decision_record_post_init x =
     rbind (demand (tz_aware (od_timestamp x)) ''decision timestamp must be timezone-aware'') (\<lambda>_.
     rbind (each (\<lambda>(name, v). demand (nonempty_text v)
         (''decision '' @ name @ '' must be non-empty text''))
       [(''decision_id'', od_decision_id x), (''strategy_id'', od_strategy_id x),
        (''symbol'', od_symbol x), (''action'', od_action x),
        (''reasoning_summary'', od_reasoning_summary x),
        (''execution_outcome'', od_execution_outcome x)]) (\<lambda>_.
     rbind (demand (0 \<le> od_confidence x \<and> od_confidence x \<le> 100)
       ''decision confidence must be between 0 and 100'') (\<lambda>_.
     each (\<lambda>(name, v). demand (none_or nonempty_text v)
         (''decision '' @ name @ '' must be None or non-empty text''))
       [(''risk_assessment'', od_risk_assessment x),
        (''requested_quantity'', od_requested_quantity x),
        (''resulting_order_id'', od_resulting_order_id x)])))"

subsection \<open>Portfolio\<close>

record operations_portfolio_highlight =
  oh_symbol :: string
  oh_value :: string

definition operations_portfolio_highlight_post_init ::
  "operations_portfolio_highlight \<Rightarrow> unit res" where
  "operations_portfolio_highlight_post_init x =
     each (\<lambda>(name, v). demand (nonempty_text v)
         (''portfolio highlight '' @ name @ '' is required''))
       [(''symbol'', oh_symbol x), (''value'', oh_value x)]"

record operations_portfolio_summary =
  os_total_market_value :: "string option"
  os_total_cost_basis :: string
  os_realized_pnl :: "string option"
  os_unrealized_pnl :: "string option"
  os_total_pnl :: "string option"
  os_gross_exposure :: "string option"
  os_long_exposure :: "string option"
  os_short_exposure :: "string option"
  os_open_positions :: int
  os_working_orders :: int
  os_winning_positions :: "int option"
  os_losing_positions :: "int option"
  os_largest_position :: "operations_portfolio_highlight option"
  os_largest_unrealized_gain :: "operations_portfolio_highlight option"
  os_largest_unrealized_loss :: "operations_portfolio_highlight option"

definition operations_portfolio_summary_post_init :: "operations_portfolio_summary \<Rightarrow> unit res" where
  "operations_portfolio_summary_post_init x =
     rbind (demand (nonempty_text (os_total_cost_basis x))
       ''portfolio total_cost_basis is required'') (\<lambda>_.
     rbind (each (\<lambda>v. demand (none_or nonempty_text v)
         ''portfolio values must be None or non-empty text'')
       [os_total_market_value x, os_realized_pnl x, os_unrealized_pnl x, os_total_pnl x,
        os_gross_exposure x, os_long_exposure x, os_short_exposure x]) (\<lambda>_.
     rbind (each (\<lambda>n. demand (0 \<le> n) ''portfolio counts must be nonnegative integers'')
       [os_open_positions x, os_working_orders x]) (\<lambda>_.
     each (\<lambda>n. demand (none_or (\<lambda>k. 0 \<le> k) n)
         ''portfolio win/loss counts must be nonnegative or None'')
       [os_winning_positions x, os_losing_positions x])))"

subsection \<open>Health and watchlist\<close>

record operations_health_state =
  oe_runtime_status :: "string option"
  oe_broker_status :: "string option"
  oe_market_data_status :: "string option"
  oe_ai_status :: "string option"
  oe_risk_status :: "string option"
  oe_persistence_status :: "string option"
  oe_last_error :: "string option"
  oe_last_warning :: "string option"
  oe_last_heartbeat :: "datetime option"
  oe_connection_latency :: "string option"
  oe_reconnect_attempts :: int
  oe_degraded :: bool
  oe_healthy :: bool

definition operations_health_state_post_init :: "operations_health_state \<Rightarrow> unit res" where
  "operations_health_state_post_init x =
     rbind (each (\<lambda>(name, v). demand (none_or nonempty_stripped v)
         (''health '' @ name @ '' must be None or stripped text''))
       [(''runtime_status'', oe_runtime_status x), (''broker_status'', oe_broker_status x),
        (''market_data_status'', oe_market_data_status x), (''ai_status'', oe_ai_status x),
        (''risk_status'', oe_risk_status x), (''persistence_status'', oe_persistence_status x),
        (''last_error'', oe_last_error x), (''last_warning'', oe_last_warning x),
        (''connection_latency'', oe_connection_latency x)]) (\<lambda>_.
     rbind (demand (none_or tz_aware (oe_last_heartbeat x))
       ''health heartbeat must be timezone-aware'') (\<lambda>_.
     rbind (demand (0 \<le> oe_reconnect_attempts x)
       ''health reconnect attempts must be nonnegative'') (\<lambda>_.
     demand (\<not> (oe_degraded x \<and> oe_healthy x)) ''health cannot be healthy and degraded'')))"

record operations_watchlist_entry =
  oy_symbol :: string
  oy_latest_price :: "string option"
  oy_change :: "string option"
  oy_change_percent :: "string option"
  oy_bid :: "string option"
  oy_ask :: "string option"
  oy_volume :: "int option"
  oy_market_status :: "string option"
  oy_last_update :: "datetime option"
  oy_stale :: "bool option"
  oy_metadata :: "(string \<times> string) list"

definition operations_watchlist_entry_post_init :: "operations_watchlist_entry \<Rightarrow> unit res" where
  "operations_watchlist_entry_post_init x =
     rbind (demand (strip (oy_symbol x) \<noteq> [] \<and> oy_symbol x = normalize_symbol (oy_symbol x))
       ''watchlist symbol must be normalized'') (\<lambda>_.
     rbind (each (\<lambda>(name, v). demand (none_or nonempty_stripped v)
         (''watchlist '' @ name @ '' must be None or stripped text''))
       [(''latest_price'', oy_latest_price x), (''change'', oy_change x),
        (''change_percent'', oy_change_percent x), (''bid'', oy_bid x), (''ask'', oy_ask x),
        (''market_status'', oy_market_status x)]) (\<lambda>_.
     rbind (demand (none_or (\<lambda>k. 0 \<le> k) (oy_volume x))
       ''watchlist volume must be nonnegative'') (\<lambda>_.
     demand (none_or tz_aware (oy_last_update x))
       ''watchlist last update must be timezone-aware'')))"

record operations_watchlist_state =
  ow_ordered_symbols :: "string list"
  ow_entries :: "operations_watchlist_entry list"
  ow_selected_symbol :: "string option"

definition operations_watchlist_state_post_init :: "operations_watchlist_state \<Rightarrow> unit res" where
  "operations_watchlist_state_post_init x =
     rbind (demand (map oy_symbol (ow_entries x) = ow_ordered_symbols x)
       ''watchlist entries must follow symbol order'') (\<lambda>_.
     demand (none_or (\<lambda>s. s \<in> set (ow_ordered_symbols x)) (ow_selected_symbol x))
       ''watchlist selected symbol must belong to the watchlist'')"

subsection \<open>The paper runtime snapshot\<close>

record paper_runtime_snapshot =
  rs_cycle :: int
  rs_timestamp :: datetime
  rs_session_id :: string
  rs_symbols :: "string list"
  rs_decisions_processed :: int
  rs_orders_attempted :: int
  rs_orders_filled :: int
  rs_orders_rejected :: int
  rs_orders_not_filled :: int
  rs_decisions_skipped :: int
  rs_winning_fills :: int
  rs_losing_fills :: int
  rs_breakeven_fills :: int
  rs_realized_pnl :: dec
  rs_unrealized_pnl :: dec
  rs_current_equity :: dec
  rs_peak_equity :: dec
  rs_current_drawdown :: dec
  rs_win_rate :: dec
  rs_total_return :: dec
  rs_maximum_drawdown :: dec

definition paper_runtime_snapshot_post_init :: "paper_runtime_snapshot \<Rightarrow> paper_runtime_snapshot res" where
  "paper_runtime_snapshot_post_init x =
     (let session_id = strip (rs_session_id x);
          symbols = map normalize_symbol (rs_symbols x) in
      rbind (demand (1 \<le> rs_cycle x) ''paper runtime cycle must be positive'') (\<lambda>_.
      rbind (demand (tz_aware (rs_timestamp x)) ''paper runtime timestamp must be timezone-aware'') (\<lambda>_.
      rbind (demand (session_id \<noteq> []) ''paper runtime session ID is required'') (\<lambda>_.
      rbind (demand ([] \<notin> set symbols) ''paper runtime symbols cannot be blank'') (\<lambda>_.
      rbind (demand (distinct symbols) ''paper runtime symbols must be unique'') (\<lambda>_.
      rbind (demand (\<forall>n\<in>set [rs_decisions_processed x, rs_orders_attempted x,
            rs_orders_filled x, rs_orders_rejected x, rs_orders_not_filled x,
            rs_decisions_skipped x, rs_winning_fills x, rs_losing_fills x,
            rs_breakeven_fills x]. 0 \<le> n)
          ''paper runtime counts must be nonnegative integers'') (\<lambda>_.
      rbind (demand (\<forall>v\<in>set [rs_realized_pnl x, rs_unrealized_pnl x, rs_current_equity x,
            rs_peak_equity x, rs_current_drawdown x, rs_win_rate x, rs_total_return x,
            rs_maximum_drawdown x]. is_finite v)
          ''paper runtime financial values must be finite Decimals'') (\<lambda>_.
      Inr (x\<lparr>rs_session_id := session_id, rs_symbols := symbols\<rparr>)))))))))"

subsection \<open>The event classes\<close>

datatype operations_event =
    PlainEvent event_base
  | OrdersUpdated event_base "operations_order list"
  | PositionsUpdated event_base "operations_position list"
  | WatchlistUpdated event_base operations_watchlist_state
  | HealthUpdated event_base operations_health_state
  | PortfolioUpdated event_base operations_portfolio_summary
  | DecisionsUpdated event_base "operations_decision_record list"
  | TimelineUpdated event_base "operations_timeline_entry list"
  | RuntimeStarting event_base string
  | RuntimeStarted event_base string string
  | RuntimeCycleCompleted event_base int
  | PaperRuntimeUpdated event_base paper_runtime_snapshot
  | RuntimeStopping event_base string
  | RuntimeStopped event_base string int
  | RuntimeFailed event_base string

fun base_of :: "operations_event \<Rightarrow> event_base" where
  "base_of (PlainEvent b) = b"
| "base_of (OrdersUpdated b _) = b"
| "base_of (PositionsUpdated b _) = b"
| "base_of (WatchlistUpdated b _) = b"
| "base_of (HealthUpdated b _) = b"
| "base_of (PortfolioUpdated b _) = b"
| "base_of (DecisionsUpdated b _) = b"
| "base_of (TimelineUpdated b _) = b"
| "base_of (RuntimeStarting b _) = b"
| "base_of (RuntimeStarted b _ _) = b"
| "base_of (RuntimeCycleCompleted b _) = b"
| "base_of (PaperRuntimeUpdated b _) = b"
| "base_of (RuntimeStopping b _) = b"
| "base_of (RuntimeStopped b _ _) = b"
| "base_of (RuntimeFailed b _) = b"

text \<open>The constructors of the event classes, for payloads that are already constructed.\<close>

definition constructed :: "operations_event \<Rightarrow> operations_event res" where
  "constructed ev = rbind (event_base_post_init (base_of ev)) (\<lambda>_. Inr ev)"

definition orders_updated :: "event_base \<Rightarrow> operations_order list \<Rightarrow> operations_event res" where
  "orders_updated b orders = constructed (OrdersUpdated b orders)"

definition positions_updated :: "event_base \<Rightarrow> operations_position list \<Rightarrow> operations_event res" where
  "positions_updated b positions = constructed (PositionsUpdated b positions)"

definition watchlist_updated :: "event_base \<Rightarrow> operations_watchlist_state \<Rightarrow> operations_event res" where
  "watchlist_updated b state = constructed (WatchlistUpdated b state)"

definition health_updated :: "event_base \<Rightarrow> operations_health_state \<Rightarrow> operations_event res" where
  "health_updated b state = constructed (HealthUpdated b state)"

definition portfolio_updated :: "event_base \<Rightarrow> operations_portfolio_summary \<Rightarrow> operations_event res" where
  "portfolio_updated b summary = constructed (PortfolioUpdated b summary)"

definition decisions_updated :: "event_base \<Rightarrow> operations_decision_record list \<Rightarrow> operations_event res" where
  "decisions_updated b decisions = constructed (DecisionsUpdated b decisions)"

definition timeline_updated :: "event_base \<Rightarrow> operations_timeline_entry list \<Rightarrow> operations_event res" where
  "timeline_updated b entries =
     rbind (constructed (TimelineUpdated b entries)) (\<lambda>ev.
     rbind (demand (newest_first (map ot_timestamp entries))
       ''timeline entries must be newest-first'') (\<lambda>_. Inr ev))"

definition runtime_starting :: "event_base \<Rightarrow> string \<Rightarrow> operations_event res" where
  "runtime_starting b env = constructed (RuntimeStarting b env)"

definition runtime_started :: "event_base \<Rightarrow> string \<Rightarrow> string \<Rightarrow> operations_event res" where
  "runtime_started b env model = constructed (RuntimeStarted b env model)"

definition runtime_cycle_completed :: "event_base \<Rightarrow> int \<Rightarrow> operations_event res" where
  "runtime_cycle_completed b n =
     rbind (constructed (RuntimeCycleCompleted b n)) (\<lambda>ev.
     rbind (demand (0 \<le> n) ''cycle_count must be nonnegative'') (\<lambda>_. Inr ev))"

definition paper_runtime_updated :: "event_base \<Rightarrow> paper_runtime_snapshot \<Rightarrow> operations_event res" where
  "paper_runtime_updated b snap = constructed (PaperRuntimeUpdated b snap)"

definition runtime_stopping :: "event_base \<Rightarrow> string \<Rightarrow> operations_event res" where
  "runtime_stopping b why = constructed (RuntimeStopping b why)"

definition runtime_stopped :: "event_base \<Rightarrow> string \<Rightarrow> int \<Rightarrow> operations_event res" where
  "runtime_stopped b why n =
     rbind (constructed (RuntimeStopped b why n)) (\<lambda>ev.
     rbind (demand (0 \<le> n) ''cycles_completed must be nonnegative'') (\<lambda>_. Inr ev))"

definition runtime_failed :: "event_base \<Rightarrow> string \<Rightarrow> operations_event res" where
  "runtime_failed b message =
     rbind (constructed (RuntimeFailed b message)) (\<lambda>ev.
     rbind (demand (strip message \<noteq> []) ''error_message must not be empty'') (\<lambda>_. Inr ev))"

subsection \<open>Valid events\<close>

text \<open>
  The events the constructors return for payloads that were constructed: what every
  consumer of the bus can rely on.
\<close>

fun payload_ok :: "operations_event \<Rightarrow> bool" where
  "payload_ok (OrdersUpdated _ xs) = list_all (\<lambda>x. operations_order_post_init x = Inr ()) xs"
| "payload_ok (PositionsUpdated _ xs) = list_all (\<lambda>x. operations_position_post_init x = Inr ()) xs"
| "payload_ok (WatchlistUpdated _ st) \<longleftrightarrow> operations_watchlist_state_post_init st = Inr () \<and>
     list_all (\<lambda>x. operations_watchlist_entry_post_init x = Inr ()) (ow_entries st)"
| "payload_ok (HealthUpdated _ st) \<longleftrightarrow> operations_health_state_post_init st = Inr ()"
| "payload_ok (PortfolioUpdated _ s) \<longleftrightarrow> operations_portfolio_summary_post_init s = Inr () \<and>
     none_or (\<lambda>h. operations_portfolio_highlight_post_init h = Inr ()) (os_largest_position s) \<and>
     none_or (\<lambda>h. operations_portfolio_highlight_post_init h = Inr ()) (os_largest_unrealized_gain s) \<and>
     none_or (\<lambda>h. operations_portfolio_highlight_post_init h = Inr ()) (os_largest_unrealized_loss s)"
| "payload_ok (DecisionsUpdated _ xs) = list_all (\<lambda>x. operations_decision_record_post_init x = Inr ()) xs"
| "payload_ok (TimelineUpdated _ xs) \<longleftrightarrow> newest_first (map ot_timestamp xs) \<and>
     list_all (\<lambda>x. operations_timeline_entry_post_init x = Inr ()) xs"
| "payload_ok (RuntimeCycleCompleted _ n) \<longleftrightarrow> 0 \<le> n"
| "payload_ok (RuntimeStopped _ _ n) \<longleftrightarrow> 0 \<le> n"
| "payload_ok (RuntimeFailed _ msg) \<longleftrightarrow> strip msg \<noteq> []"
| "payload_ok (PaperRuntimeUpdated _ snap) \<longleftrightarrow> paper_runtime_snapshot_post_init snap = Inr snap"
| "payload_ok _ = True"

definition event_ok :: "operations_event \<Rightarrow> bool" where
  "event_ok ev \<longleftrightarrow> event_base_post_init (base_of ev) = Inr () \<and> payload_ok ev"

text \<open>\<open>type(event).__name__\<close>.\<close>

fun class_name :: "operations_event \<Rightarrow> string" where
  "class_name (PlainEvent _) = ''OperationsEvent''"
| "class_name (OrdersUpdated _ _) = ''OrdersUpdated''"
| "class_name (PositionsUpdated _ _) = ''PositionsUpdated''"
| "class_name (WatchlistUpdated _ _) = ''WatchlistUpdated''"
| "class_name (HealthUpdated _ _) = ''HealthUpdated''"
| "class_name (PortfolioUpdated _ _) = ''PortfolioUpdated''"
| "class_name (DecisionsUpdated _ _) = ''DecisionsUpdated''"
| "class_name (TimelineUpdated _ _) = ''TimelineUpdated''"
| "class_name (RuntimeStarting _ _) = ''RuntimeStarting''"
| "class_name (RuntimeStarted _ _ _) = ''RuntimeStarted''"
| "class_name (RuntimeCycleCompleted _ _) = ''RuntimeCycleCompleted''"
| "class_name (PaperRuntimeUpdated _ _) = ''PaperRuntimeUpdated''"
| "class_name (RuntimeStopping _ _) = ''RuntimeStopping''"
| "class_name (RuntimeStopped _ _ _) = ''RuntimeStopped''"
| "class_name (RuntimeFailed _ _) = ''RuntimeFailed''"

lemma paper_runtime_snapshot_fixed:
  "paper_runtime_snapshot_post_init x = Inr y \<Longrightarrow> paper_runtime_snapshot_post_init y = Inr y"
  by (auto simp: paper_runtime_snapshot_post_init_def Let_def comp_def)

text \<open>What the constructors return for constructed payloads is valid.\<close>

lemmas event_constructors = orders_updated_def positions_updated_def watchlist_updated_def
  health_updated_def portfolio_updated_def decisions_updated_def timeline_updated_def
  runtime_starting_def runtime_started_def runtime_cycle_completed_def paper_runtime_updated_def
  runtime_stopping_def runtime_stopped_def runtime_failed_def constructed_def

lemma decisions_updated_ok:
  "decisions_updated b xs = Inr ev \<Longrightarrow>
   (\<And>x. x \<in> set xs \<Longrightarrow> operations_decision_record_post_init x = Inr ()) \<Longrightarrow> event_ok ev"
  by (auto simp: event_constructors event_ok_def list_all_iff res_simps)

lemma timeline_updated_ok:
  "timeline_updated b xs = Inr ev \<Longrightarrow>
   (\<And>x. x \<in> set xs \<Longrightarrow> operations_timeline_entry_post_init x = Inr ()) \<Longrightarrow> event_ok ev"
  by (auto simp: event_constructors event_ok_def list_all_iff res_simps)

end
