(* ===== verification/Operations_Bus.thy ===== *)
theory Operations_Bus
  imports Operations_Events
begin

text \<open>
  \<open>OperationsBus\<close> (app/operations\_core/bus.py): the synchronous event distributor.  Handlers
  are values of a type parameter; a call of a handler is a function argument that takes and
  returns the state of the world, and may raise.  The lock of the class makes every method
  atomic, so a method is one step; \<open>publish\<close> takes the handlers under the lock and calls them
  outside it, as here.
\<close>

subsection \<open>Event classes as values\<close>

datatype event_type =
    OperationsEventT | OrdersUpdatedT | PositionsUpdatedT | WatchlistUpdatedT | HealthUpdatedT
  | PortfolioUpdatedT | DecisionsUpdatedT | TimelineUpdatedT | RuntimeStartingT | RuntimeStartedT
  | RuntimeCycleCompletedT | PaperRuntimeUpdatedT | RuntimeStoppingT | RuntimeStoppedT | RuntimeFailedT

fun type_of :: "operations_event \<Rightarrow> event_type" where
  "type_of (PlainEvent _) = OperationsEventT"
| "type_of (OrdersUpdated _ _) = OrdersUpdatedT"
| "type_of (PositionsUpdated _ _) = PositionsUpdatedT"
| "type_of (WatchlistUpdated _ _) = WatchlistUpdatedT"
| "type_of (HealthUpdated _ _) = HealthUpdatedT"
| "type_of (PortfolioUpdated _ _) = PortfolioUpdatedT"
| "type_of (DecisionsUpdated _ _) = DecisionsUpdatedT"
| "type_of (TimelineUpdated _ _) = TimelineUpdatedT"
| "type_of (RuntimeStarting _ _) = RuntimeStartingT"
| "type_of (RuntimeStarted _ _ _) = RuntimeStartedT"
| "type_of (RuntimeCycleCompleted _ _) = RuntimeCycleCompletedT"
| "type_of (PaperRuntimeUpdated _ _) = PaperRuntimeUpdatedT"
| "type_of (RuntimeStopping _ _) = RuntimeStoppingT"
| "type_of (RuntimeStopped _ _ _) = RuntimeStoppedT"
| "type_of (RuntimeFailed _ _) = RuntimeFailedT"

text \<open>\<open>isinstance(event, event_type)\<close>: the class itself or the base class.\<close>

definition is_instance :: "operations_event \<Rightarrow> event_type \<Rightarrow> bool" where
  "is_instance ev ty \<longleftrightarrow> ty = OperationsEventT \<or> ty = type_of ev"

subsection \<open>State and operations\<close>

record subscription =
  sub_event_type :: event_type
  sub_id :: int

record 'h operations_bus =
  bus_next_subscription_id :: int
  bus_handlers :: "(event_type, (int, 'h) pydict) pydict"

definition bus_init :: "'h operations_bus" where
  "bus_init = \<lparr>bus_next_subscription_id = 1, bus_handlers = []\<rparr>"

text \<open>The entry of a \<open>defaultdict\<close>, created at the end when it is missing.\<close>

definition handlers_of :: "event_type \<Rightarrow> 'h operations_bus \<Rightarrow> (int, 'h) pydict" where
  "handlers_of ty b = (case dict_get (bus_handlers b) ty of None \<Rightarrow> [] | Some d \<Rightarrow> d)"

definition bus_subscribe ::
  "'h operations_bus \<Rightarrow> event_type \<Rightarrow> 'h \<Rightarrow> subscription \<times> 'h operations_bus" where
  "bus_subscribe b ty handler =
     (let subscription_id = bus_next_subscription_id b in
      (\<lparr>sub_event_type = ty, sub_id = subscription_id\<rparr>,
       b\<lparr>bus_next_subscription_id := subscription_id + 1,
         bus_handlers := dict_set ty (dict_set subscription_id handler (handlers_of ty b))
                           (bus_handlers b)\<rparr>))"

definition bus_unsubscribe ::
  "'h operations_bus \<Rightarrow> subscription \<Rightarrow> bool \<times> 'h operations_bus" where
  "bus_unsubscribe b s =
     (case dict_get (bus_handlers b) (sub_event_type s) of
        None \<Rightarrow> (False, b)
      | Some handlers \<Rightarrow>
          let removed = dict_get handlers (sub_id s);
              handlers' = AList.delete (sub_id s) handlers in
          (removed \<noteq> None,
           b\<lparr>bus_handlers :=
               (if handlers' = [] then AList.delete (sub_event_type s) (bus_handlers b)
                else dict_set (sub_event_type s) handlers' (bus_handlers b))\<rparr>))"

text \<open>The subscriptions that an event reaches, in the order of the calls.\<close>

definition matching_subscriptions ::
  "'h operations_bus \<Rightarrow> operations_event \<Rightarrow> (subscription \<times> 'h) list" where
  "matching_subscriptions b ev =
     concat (map (\<lambda>(ty, handlers). map (\<lambda>(i, h). (\<lparr>sub_event_type = ty, sub_id = i\<rparr>, h)) handlers)
       (filter (\<lambda>(ty, handlers). is_instance ev ty) (bus_handlers b)))"

fun call_handlers ::
  "('h \<Rightarrow> 'e \<Rightarrow> 's \<Rightarrow> unit res \<times> 's) \<Rightarrow> 'h list \<Rightarrow> 'e \<Rightarrow> 's \<Rightarrow> unit res \<times> 's" where
  "call_handlers call [] ev s = (Inr (), s)"
| "call_handlers call (h # hs) ev s =
     (case call h ev s of
        (Inl e, s') \<Rightarrow> (Inl e, s')
      | (Inr _, s') \<Rightarrow> call_handlers call hs ev s')"

definition bus_publish ::
  "('h \<Rightarrow> operations_event \<Rightarrow> 's \<Rightarrow> unit res \<times> 's) \<Rightarrow> 'h operations_bus \<Rightarrow>
   operations_event \<Rightarrow> 's \<Rightarrow> unit res \<times> 's" where
  "bus_publish call b ev s = call_handlers call (map snd (matching_subscriptions b ev)) ev s"

definition subscription_count :: "'h operations_bus \<Rightarrow> nat" where
  "subscription_count b = sum_list (map length (dict_values (bus_handlers b)))"

subsection \<open>The contract of a bus\<close>

text \<open>
  Abstractly a bus is a finite map from subscriptions to handlers.  The laws say how the
  two operations change it and that an event reaches exactly the matching live
  subscriptions, each once.  A subscription that was handed out is never handed out again.
\<close>

locale event_bus =
  fixes good :: "'b \<Rightarrow> bool"
    and live :: "'b \<Rightarrow> subscription \<Rightarrow> 'h option"
    and issued :: "'b \<Rightarrow> subscription \<Rightarrow> bool"
    and subscribe :: "'b \<Rightarrow> event_type \<Rightarrow> 'h \<Rightarrow> subscription \<times> 'b"
    and unsubscribe :: "'b \<Rightarrow> subscription \<Rightarrow> bool \<times> 'b"
    and matching :: "'b \<Rightarrow> operations_event \<Rightarrow> (subscription \<times> 'h) list"
  assumes subscribe_good: "good b \<Longrightarrow> subscribe b ty h = (s, b') \<Longrightarrow> good b'"
    and subscribe_live: "good b \<Longrightarrow> subscribe b ty h = (s, b') \<Longrightarrow> live b' = (live b)(s \<mapsto> h)"
    and subscribe_type: "subscribe b ty h = (s, b') \<Longrightarrow> sub_event_type s = ty"
    and subscribe_fresh: "good b \<Longrightarrow> subscribe b ty h = (s, b') \<Longrightarrow> \<not> issued b s \<and> issued b' s"
    and subscribe_issued: "good b \<Longrightarrow> subscribe b ty h = (s, b') \<Longrightarrow> issued b t \<Longrightarrow> issued b' t"
    and unsubscribe_good: "good b \<Longrightarrow> unsubscribe b s = (r, b') \<Longrightarrow> good b'"
    and unsubscribe_live: "good b \<Longrightarrow> unsubscribe b s = (r, b') \<Longrightarrow> live b' = (live b)(s := None)"
    and unsubscribe_result: "good b \<Longrightarrow> unsubscribe b s = (r, b') \<Longrightarrow> r \<longleftrightarrow> live b s \<noteq> None"
    and unsubscribe_issued: "good b \<Longrightarrow> unsubscribe b s = (r, b') \<Longrightarrow> issued b' t = issued b t"
    and live_issued: "good b \<Longrightarrow> live b s = Some h \<Longrightarrow> issued b s"
    and matching_distinct: "good b \<Longrightarrow> distinct (map fst (matching b ev))"
    and matching_iff: "good b \<Longrightarrow>
      (s, h) \<in> set (matching b ev) \<longleftrightarrow> live b s = Some h \<and> is_instance ev (sub_event_type s)"
begin

lemma count_matching:
  assumes "good b"
  shows "length (filter (\<lambda>(t, _). t = s) (matching b ev)) =
    (if live b s \<noteq> None \<and> is_instance ev (sub_event_type s) then 1 else 0)"
proof -
  have d: "distinct (map fst (matching b ev))" using assms by (rule matching_distinct)
  have "length (filter (\<lambda>(t, _). t = s) xs) = (if s \<in> fst ` set xs then 1 else 0)"
    if "distinct (map fst xs)" for xs :: "(subscription \<times> 'h) list"
    using that by (induction xs) (auto simp: filter_empty_conv)
  moreover have "s \<in> fst ` set (matching b ev) \<longleftrightarrow> live b s \<noteq> None \<and> is_instance ev (sub_event_type s)"
    using matching_iff [OF assms] by force
  ultimately show ?thesis using d by simp
qed

text \<open>A live subscription survives everything but its own cancellation.\<close>

lemma subscribe_keeps:
  "good b \<Longrightarrow> subscribe b ty h' = (t, b') \<Longrightarrow> live b s = Some h \<Longrightarrow> live b' s = Some h"
  using subscribe_live [of b ty h' t b'] subscribe_fresh [of b ty h' t b'] live_issued [of b s h]
  by (cases "t = s") auto

lemma unsubscribe_keeps:
  "good b \<Longrightarrow> unsubscribe b t = (r, b') \<Longrightarrow> t \<noteq> s \<Longrightarrow> live b s = Some h \<Longrightarrow> live b' s = Some h"
  using unsubscribe_live [of b t r b'] by simp

text \<open>A cancelled subscription stays cancelled.\<close>

lemma subscribe_stays_dead:
  "good b \<Longrightarrow> subscribe b ty h = (t, b') \<Longrightarrow> issued b s \<Longrightarrow> live b s = None \<Longrightarrow> live b' s = None"
  using subscribe_live [of b ty h t b'] subscribe_fresh [of b ty h t b'] by (cases "t = s") auto

lemma unsubscribe_stays_dead:
  "good b \<Longrightarrow> unsubscribe b t = (r, b') \<Longrightarrow> live b s = None \<Longrightarrow> live b' s = None"
  using unsubscribe_live [of b t r b'] by simp

end

subsection \<open>The bus meets its contract\<close>

definition bus_live :: "'h operations_bus \<Rightarrow> subscription \<Rightarrow> 'h option" where
  "bus_live b s = dict_get (handlers_of (sub_event_type s) b) (sub_id s)"

definition bus_issued :: "'h operations_bus \<Rightarrow> subscription \<Rightarrow> bool" where
  "bus_issued b s \<longleftrightarrow> 1 \<le> sub_id s \<and> sub_id s < bus_next_subscription_id b"

text \<open>
  No class has an empty dictionary of handlers, and the identifiers of a class are those of
  earlier subscriptions in the order of the subscriptions.
\<close>

definition handlers_ok :: "int \<Rightarrow> (int, 'h) pydict \<Rightarrow> bool" where
  "handlers_ok n d \<longleftrightarrow> sorted_wrt (<) (dict_keys d) \<and> (\<forall>i\<in>set (dict_keys d). 1 \<le> i \<and> i < n)"

definition bus_inv :: "'h operations_bus \<Rightarrow> bool" where
  "bus_inv b \<longleftrightarrow> distinct (dict_keys (bus_handlers b)) \<and> 1 \<le> bus_next_subscription_id b \<and>
     (\<forall>(ty, d)\<in>set (bus_handlers b). d \<noteq> [] \<and> handlers_ok (bus_next_subscription_id b) d)"

lemma bus_inv_init [simp]: "bus_inv bus_init"
  by (simp add: bus_inv_def bus_init_def)

lemma handlers_ok_Nil [simp]: "handlers_ok n []"
  by (simp add: handlers_ok_def)

lemma handlers_ok_mono: "handlers_ok n d \<Longrightarrow> n \<le> m \<Longrightarrow> handlers_ok m d"
  by (fastforce simp: handlers_ok_def)

lemma handlers_ok_distinct: "handlers_ok n d \<Longrightarrow> distinct (dict_keys d)"
  by (simp add: handlers_ok_def strict_sorted_iff)

lemma handlers_ok_append:
  "handlers_ok n d \<Longrightarrow> 1 \<le> n \<Longrightarrow> handlers_ok (n + 1) (dict_set n h d) \<and>
   dict_set n h d = d @ [(n, h)]"
proof -
  assume d: "handlers_ok n d" and n: "1 \<le> n"
  have "dict_get d n = None" using d by (auto simp: handlers_ok_def dict_get_None)
  then have "dict_set n h d = d @ [(n, h)]" by (rule dict_set_new)
  with d n show ?thesis by (fastforce simp: handlers_ok_def sorted_wrt_append)
qed

lemma handlers_ok_delete: "handlers_ok n d \<Longrightarrow> handlers_ok n (AList.delete i d)"
proof -
  have k: "dict_keys (AList.delete i d) = filter (\<lambda>k. k \<noteq> i) (dict_keys d)"
    by (induction d) (auto simp: AList.delete_eq)
  show "handlers_ok n d \<Longrightarrow> handlers_ok n (AList.delete i d)"
    by (auto simp: handlers_ok_def k sorted_wrt_filter)
qed

lemma handlers_of_ok:
  "bus_inv b \<Longrightarrow> handlers_ok (bus_next_subscription_id b) (handlers_of ty b)"
  by (force simp: bus_inv_def handlers_of_def split: option.splits dest: map_of_SomeD)

lemma in_dict_set_iff:
  "distinct (dict_keys d) \<Longrightarrow> (k, v) \<in> set (dict_set k' v' d) \<longleftrightarrow>
     (if k = k' then v = v' else (k, v) \<in> set d)"
  by (metis distinct_dict_set map_of_eq_Some_iff dict_get_set option.inject)

lemma in_dict_delete: "(k, v) \<in> set (AList.delete k' d) \<longleftrightarrow> k \<noteq> k' \<and> (k, v) \<in> set d"
  by (auto simp: AList.delete_eq)

lemma bus_subscribe_inv: "bus_inv b \<Longrightarrow> bus_subscribe b ty h = (s, b') \<Longrightarrow> bus_inv b'"
proof -
  assume b: "bus_inv b" and s: "bus_subscribe b ty h = (s, b')"
  let ?n = "bus_next_subscription_id b"
  have n: "1 \<le> ?n" using b by (simp add: bus_inv_def)
  note new = handlers_ok_append [OF handlers_of_ok [OF b, of ty] n, of h]
  have ok: "d \<noteq> [] \<and> handlers_ok (?n + 1) d" if "(t, d) \<in> set (bus_handlers b)" for t d
    using b that by (auto simp: bus_inv_def intro: handlers_ok_mono)
  show ?thesis
    using b s new ok by (auto simp: bus_inv_def bus_subscribe_def Let_def in_dict_set_iff
        split: if_splits)
qed

lemma bus_unsubscribe_inv: "bus_inv b \<Longrightarrow> bus_unsubscribe b s = (r, b') \<Longrightarrow> bus_inv b'"
proof -
  assume b: "bus_inv b" and u: "bus_unsubscribe b s = (r, b')"
  have ok: "d \<noteq> [] \<and> handlers_ok (bus_next_subscription_id b) d"
    if "(ty, d) \<in> set (bus_handlers b)" for ty d
    using b that by (auto simp: bus_inv_def)
  show ?thesis
    using u b ok by (auto simp: bus_inv_def bus_unsubscribe_def Let_def in_dict_set_iff in_dict_delete
        distinct_delete split: option.splits if_splits dest!: map_of_SomeD
        intro!: handlers_ok_delete)
qed

lemma bus_subscribe_handlers:
  "bus_subscribe b ty h = (s, b') \<Longrightarrow> handlers_of t b' =
     (if t = ty then dict_set (bus_next_subscription_id b) h (handlers_of ty b) else handlers_of t b)"
  by (auto simp: bus_subscribe_def handlers_of_def Let_def)

lemma bus_subscribe_live:
  assumes "bus_subscribe b ty h = (s, b')"
  shows "bus_live b' = (bus_live b)(s \<mapsto> h)"
proof
  fix t
  have s: "s = \<lparr>sub_event_type = ty, sub_id = bus_next_subscription_id b\<rparr>"
    using assms by (auto simp: bus_subscribe_def Let_def)
  show "bus_live b' t = ((bus_live b)(s \<mapsto> h)) t"
    unfolding bus_live_def by (cases t) (simp add: s bus_subscribe_handlers [OF assms])
qed

lemma bus_unsubscribe_live:
  assumes "bus_inv b" and "bus_unsubscribe b s = (r, b')"
  shows "bus_live b' = (bus_live b)(s := None)"
proof
  fix t
  show "bus_live b' t = ((bus_live b)(s := None)) t"
  proof (cases "dict_get (bus_handlers b) (sub_event_type s)")
    case None
    with assms show ?thesis
      by (cases s; cases t) (auto simp: bus_unsubscribe_def bus_live_def handlers_of_def)
  next
    case (Some d)
    have e: "AList.delete (sub_id s) d = [] \<Longrightarrow> dict_get d i = None" if "i \<noteq> sub_id s" for i
      using that by (metis delete_conv' fun_upd_apply map_of.simps(1))
    show ?thesis
      using assms Some e
      by (cases s; cases t)
        (auto simp: bus_unsubscribe_def bus_live_def handlers_of_def Let_def delete_conv'
          split: if_splits option.splits)
  qed
qed

lemma bus_live_issued: "bus_inv b \<Longrightarrow> bus_live b s = Some h \<Longrightarrow> bus_issued b s"
  using handlers_of_ok [of b "sub_event_type s"]
  by (force simp: bus_live_def bus_issued_def handlers_ok_def dest: map_of_SomeD)

lemma matching_iff_live:
  assumes "bus_inv b"
  shows "(s, h) \<in> set (matching_subscriptions b ev) \<longleftrightarrow>
    bus_live b s = Some h \<and> is_instance ev (sub_event_type s)"
proof -
  have "(s, h) \<in> set (matching_subscriptions b ev) \<longleftrightarrow>
      (\<exists>d. (sub_event_type s, d) \<in> set (bus_handlers b) \<and> (sub_id s, h) \<in> set d) \<and>
      is_instance ev (sub_event_type s)"
    by (cases s) (force simp: matching_subscriptions_def)
  moreover have "(\<exists>d. (sub_event_type s, d) \<in> set (bus_handlers b) \<and> (sub_id s, h) \<in> set d) \<longleftrightarrow>
      bus_live b s = Some h"
  proof -
    have k: "distinct (dict_keys (bus_handlers b))" using assms by (simp add: bus_inv_def)
    have d: "distinct (dict_keys (handlers_of (sub_event_type s) b))"
      using assms by (blast intro: handlers_ok_distinct handlers_of_ok)
    have "(sub_event_type s, d) \<in> set (bus_handlers b) \<longleftrightarrow>
        dict_get (bus_handlers b) (sub_event_type s) = Some d" for d
      using k by simp
    then show ?thesis
      using d by (auto simp: bus_live_def handlers_of_def split: option.splits)
  qed
  ultimately show ?thesis by blast
qed

lemma distinct_rows:
  assumes "distinct (dict_keys hs)" and "\<And>ty d. (ty, d) \<in> set hs \<Longrightarrow> distinct (dict_keys d)"
  shows "distinct (map fst (concat (map (\<lambda>(ty, d). map (\<lambda>(i, h).
    (\<lparr>sub_event_type = ty, sub_id = i\<rparr>, h)) d) hs)))"
  using assms
proof (induction hs)
  case (Cons x hs)
  obtain ty d where x: "x = (ty, d)" by (cases x)
  have row: "map fst (map (\<lambda>(i, h). (\<lparr>sub_event_type = ty, sub_id = i\<rparr>, h)) d) =
      map (\<lambda>i. \<lparr>sub_event_type = ty, sub_id = i\<rparr>) (dict_keys d)"
    by (simp add: comp_def case_prod_beta)
  have "distinct (dict_keys d)" using Cons.prems(2) [of ty d] x by simp
  then have "distinct (map (\<lambda>i. \<lparr>sub_event_type = ty, sub_id = i\<rparr>) (dict_keys d))"
    unfolding distinct_map by (simp add: inj_on_def)
  moreover have "distinct (map fst (concat (map (\<lambda>(ty, d). map (\<lambda>(i, h).
      (\<lparr>sub_event_type = ty, sub_id = i\<rparr>, h)) d) hs)))"
    using Cons.prems by (intro Cons.IH) auto
  moreover have "set (map (\<lambda>i. \<lparr>sub_event_type = ty, sub_id = i\<rparr>) (dict_keys d)) \<inter>
      set (map fst (concat (map (\<lambda>(ty, d). map (\<lambda>(i, h).
        (\<lparr>sub_event_type = ty, sub_id = i\<rparr>, h)) d) hs))) = {}"
    using Cons.prems(1) x by force
  ultimately show ?case
    unfolding x list.map concat.simps map_append prod.case row distinct_append by blast
qed simp

lemma matching_distinct_ids:
  assumes "bus_inv b"
  shows "distinct (map fst (matching_subscriptions b ev))"
  unfolding matching_subscriptions_def
proof (rule distinct_rows)
  show "distinct (dict_keys (filter (\<lambda>(ty, handlers). is_instance ev ty) (bus_handlers b)))"
    using assms by (simp add: bus_inv_def distinct_map_filter)
  show "distinct (dict_keys d)"
    if "(ty, d) \<in> set (filter (\<lambda>(ty, handlers). is_instance ev ty) (bus_handlers b))" for ty d
    using assms that by (force simp: bus_inv_def intro: handlers_ok_distinct)
qed

interpretation ops: event_bus bus_inv bus_live bus_issued bus_subscribe bus_unsubscribe
  matching_subscriptions
proof unfold_locales
  fix b :: "'h operations_bus" and ty h s b' r t ev
  show "bus_inv b \<Longrightarrow> bus_subscribe b ty h = (s, b') \<Longrightarrow> bus_inv b'"
    by (rule bus_subscribe_inv)
  show "bus_inv b \<Longrightarrow> bus_subscribe b ty h = (s, b') \<Longrightarrow> bus_live b' = (bus_live b)(s \<mapsto> h)"
    by (rule bus_subscribe_live)
  show "bus_subscribe b ty h = (s, b') \<Longrightarrow> sub_event_type s = ty"
    by (auto simp: bus_subscribe_def Let_def)
  show "bus_inv b \<Longrightarrow> bus_subscribe b ty h = (s, b') \<Longrightarrow> \<not> bus_issued b s \<and> bus_issued b' s"
    by (auto simp: bus_subscribe_def Let_def bus_issued_def bus_inv_def)
  show "bus_inv b \<Longrightarrow> bus_subscribe b ty h = (s, b') \<Longrightarrow> bus_issued b t \<Longrightarrow> bus_issued b' t"
    by (auto simp: bus_subscribe_def Let_def bus_issued_def)
  show "bus_inv b \<Longrightarrow> bus_unsubscribe b s = (r, b') \<Longrightarrow> bus_inv b'"
    by (rule bus_unsubscribe_inv)
  show "bus_inv b \<Longrightarrow> bus_unsubscribe b s = (r, b') \<Longrightarrow> bus_live b' = (bus_live b)(s := None)"
    by (rule bus_unsubscribe_live)
  show "bus_inv b \<Longrightarrow> bus_unsubscribe b s = (r, b') \<Longrightarrow> r = (bus_live b s \<noteq> None)"
    by (auto simp: bus_unsubscribe_def bus_live_def handlers_of_def Let_def split: option.splits)
  show "bus_inv b \<Longrightarrow> bus_unsubscribe b s = (r, b') \<Longrightarrow> bus_issued b' t = bus_issued b t"
    by (auto simp: bus_unsubscribe_def bus_issued_def Let_def split: option.splits)
  show "bus_inv b \<Longrightarrow> bus_live b s = Some h \<Longrightarrow> bus_issued b s"
    by (rule bus_live_issued)
  show "bus_inv b \<Longrightarrow> distinct (map fst (matching_subscriptions b ev))"
    by (rule matching_distinct_ids)
  show "bus_inv b \<Longrightarrow> (s, h) \<in> set (matching_subscriptions b ev) \<longleftrightarrow>
      bus_live b s = Some h \<and> is_instance ev (sub_event_type s)"
    by (rule matching_iff_live)
qed

subsection \<open>Sequences of calls\<close>

datatype 'h bus_request = Subscribe event_type 'h | Unsubscribe subscription

fun bus_call :: "'h operations_bus \<Rightarrow> 'h bus_request \<Rightarrow> 'h operations_bus" where
  "bus_call b (Subscribe ty h) = snd (bus_subscribe b ty h)"
| "bus_call b (Unsubscribe s) = snd (bus_unsubscribe b s)"

lemma bus_call_inv: "bus_inv b \<Longrightarrow> bus_inv (bus_call b c)"
  by (cases c) (auto intro: bus_subscribe_inv bus_unsubscribe_inv prod.collapse [symmetric])

lemma bus_calls_inv: "bus_inv b \<Longrightarrow> bus_inv (foldl bus_call b calls)"
  by (induction calls arbitrary: b) (auto intro: bus_call_inv)

lemma bus_call_keeps:
  "bus_inv b \<Longrightarrow> Unsubscribe s \<noteq> c \<Longrightarrow> bus_live b s = Some h \<Longrightarrow> bus_live (bus_call b c) s = Some h"
  by (cases c) (auto intro: ops.subscribe_keeps [OF _ prod.collapse [symmetric]]
      ops.unsubscribe_keeps [OF _ prod.collapse [symmetric]])

lemma bus_calls_keep:
  "bus_inv b \<Longrightarrow> Unsubscribe s \<notin> set calls \<Longrightarrow> bus_live b s = Some h \<Longrightarrow>
   bus_live (foldl bus_call b calls) s = Some h"
  by (induction calls arbitrary: b) (simp_all add: bus_call_inv bus_call_keeps)

lemma bus_call_issued: "bus_inv b \<Longrightarrow> bus_issued b s \<Longrightarrow> bus_issued (bus_call b c) s"
  by (cases c) (auto simp: ops.unsubscribe_issued [OF _ prod.collapse [symmetric]]
      intro: ops.subscribe_issued [OF _ prod.collapse [symmetric]])

lemma bus_call_dead:
  "bus_inv b \<Longrightarrow> bus_issued b s \<Longrightarrow> bus_live b s = None \<Longrightarrow> bus_live (bus_call b c) s = None"
  by (cases c) (auto intro: ops.subscribe_stays_dead [OF _ prod.collapse [symmetric]]
      ops.unsubscribe_stays_dead [OF _ prod.collapse [symmetric]])

lemma bus_calls_dead:
  "bus_inv b \<Longrightarrow> bus_issued b s \<Longrightarrow> bus_live b s = None \<Longrightarrow>
   bus_live (foldl bus_call b calls) s = None"
  by (induction calls arbitrary: b) (simp_all add: bus_call_inv bus_call_dead bus_call_issued)

text \<open>How often an event reaches a subscription.\<close>

definition deliveries :: "'h operations_bus \<Rightarrow> subscription \<Rightarrow> operations_event \<Rightarrow> nat" where
  "deliveries b s ev = length (filter (\<lambda>(t, _). t = s) (matching_subscriptions b ev))"

lemma rows_of_type:
  "distinct (dict_keys hs) \<Longrightarrow>
   filter (\<lambda>(t, _). sub_event_type t = ty) (concat (map (\<lambda>(ty, d). map (\<lambda>(i, h).
     (\<lparr>sub_event_type = ty, sub_id = i\<rparr>, h)) d) (filter (\<lambda>(ty, _). P ty) hs))) =
   (if P ty then map (\<lambda>(i, h). (\<lparr>sub_event_type = ty, sub_id = i\<rparr>, h))
      (case dict_get hs ty of None \<Rightarrow> [] | Some d \<Rightarrow> d) else [])"
proof (induction hs)
  case (Cons x hs)
  obtain t d where x: "x = (t, d)" by (cases x)
  have "dict_get hs t = None" using Cons.prems x by (simp add: dict_get_None)
  moreover have "filter (\<lambda>(s, _). sub_event_type s = ty)
      (map (\<lambda>(i, h). (\<lparr>sub_event_type = t, sub_id = i\<rparr>, h)) d) =
      (if t = ty then map (\<lambda>(i, h). (\<lparr>sub_event_type = t, sub_id = i\<rparr>, h)) d else [])"
    by (induction d) auto
  ultimately show ?case using Cons x by auto
qed simp

lemma matching_of_type:
  "bus_inv b \<Longrightarrow> filter (\<lambda>(t, _). sub_event_type t = ty) (matching_subscriptions b ev) =
   (if is_instance ev ty then map (\<lambda>(i, h). (\<lparr>sub_event_type = ty, sub_id = i\<rparr>, h)) (handlers_of ty b)
    else [])"
  using rows_of_type [of "bus_handlers b" ty "is_instance ev"]
  by (simp add: bus_inv_def matching_subscriptions_def handlers_of_def)

subsection \<open>Properties\<close>



end
