(* ===== verification/Read_Models.thy ===== *)
theory Read_Models
  imports Operations_Events
begin

text \<open>
  The read models of app/read\_models: for each slice of the operations state the record
  that consumers see with its constructor (models.py), and the projector from the
  operations record (projector.py).  The constructors check again what the operations
  records checked, and two of them check more: the enumerations of timeline entries and of
  decision outcomes, and the uniqueness of watchlist symbols.
\<close>

subsection \<open>Orders\<close>

record order_read_model =
  ro_order_id :: string
  ro_symbol :: string
  ro_side :: string
  ro_quantity :: string
  ro_status :: string
  ro_updated_at :: datetime

definition order_read_model_post_init :: "order_read_model \<Rightarrow> unit res" where
  "order_read_model_post_init x =
     rbind (each required_text
       [(''order_id'', ro_order_id x), (''symbol'', ro_symbol x), (''side'', ro_side x),
        (''quantity'', ro_quantity x), (''status'', ro_status x)]) (\<lambda>_.
     demand (tz_aware (ro_updated_at x)) ''updated_at must be timezone-aware'')"

definition project_order :: "operations_order \<Rightarrow> order_read_model res" where
  "project_order order =
     (let model = \<lparr>ro_order_id = oo_order_id order, ro_symbol = oo_symbol order,
        ro_side = oo_side order, ro_quantity = oo_quantity order,
        ro_status = oo_status order, ro_updated_at = oo_updated_at order\<rparr> in
      rbind (order_read_model_post_init model) (\<lambda>_. Inr model))"

definition project_operational_orders :: "operations_order list \<Rightarrow> order_read_model list res" where
  "project_operational_orders orders = traverse project_order orders"

subsection \<open>Positions\<close>

record position_read_model =
  rp_account_id :: string
  rp_symbol :: string
  rp_asset_type :: string
  rp_quantity :: string
  rp_average_cost :: string
  rp_market_value :: "string option"
  rp_unrealized_gain_loss :: "string option"
  rp_realized_gain_loss :: "string option"
  rp_currency :: string
  rp_updated_at :: datetime
  rp_exposure :: "string option"

definition optional_read_text :: "string \<times> string option \<Rightarrow> unit res" where
  "optional_read_text nv = (case nv of (name, None) \<Rightarrow> Inr ()
     | (name, Some v) \<Rightarrow> required_text (name, v))"

definition position_read_model_post_init :: "position_read_model \<Rightarrow> unit res" where
  "position_read_model_post_init x =
     rbind (each required_text
       [(''account_id'', rp_account_id x), (''symbol'', rp_symbol x),
        (''asset_type'', rp_asset_type x), (''quantity'', rp_quantity x),
        (''average_cost'', rp_average_cost x), (''currency'', rp_currency x)]) (\<lambda>_.
     rbind (each optional_read_text
       [(''market_value'', rp_market_value x),
        (''unrealized_gain_loss'', rp_unrealized_gain_loss x),
        (''realized_gain_loss'', rp_realized_gain_loss x),
        (''exposure'', rp_exposure x)]) (\<lambda>_.
     demand (tz_aware (rp_updated_at x)) ''updated_at must be timezone-aware''))"

definition project_position :: "operations_position \<Rightarrow> position_read_model res" where
  "project_position position =
     (let model = \<lparr>rp_account_id = op_account_id position, rp_symbol = op_symbol position,
        rp_asset_type = op_asset_type position, rp_quantity = op_quantity position,
        rp_average_cost = op_average_cost position, rp_market_value = op_market_value position,
        rp_unrealized_gain_loss = op_unrealized_gain_loss position,
        rp_realized_gain_loss = op_realized_gain_loss position,
        rp_currency = op_currency position, rp_updated_at = op_updated_at position,
        rp_exposure = op_exposure position\<rparr> in
      rbind (position_read_model_post_init model) (\<lambda>_. Inr model))"

definition project_operational_positions ::
  "operations_position list \<Rightarrow> position_read_model list res" where
  "project_operational_positions positions = traverse project_position positions"

subsection \<open>Timeline\<close>

datatype timeline_category = RUNTIME | BROKER | MARKET_DATA | AI | ORDER | EXECUTION | SYSTEM

datatype timeline_severity = INFO | SUCCESS | WARNING | ERROR

text \<open>
  The call of an enumeration class: the member with the given value, or the exception of
  the standard library.
\<close>

definition enum_error :: "string \<Rightarrow> string \<Rightarrow> exn" where
  "enum_error cls v = Raise ValueError ([CHR 0x27] @ v @ [CHR 0x27] @ '' is not a valid '' @ cls)"

fun timeline_category_value :: "timeline_category \<Rightarrow> string" where
  "timeline_category_value RUNTIME = ''RUNTIME''"
| "timeline_category_value BROKER = ''BROKER''"
| "timeline_category_value MARKET_DATA = ''MARKET_DATA''"
| "timeline_category_value AI = ''AI''"
| "timeline_category_value ORDER = ''ORDER''"
| "timeline_category_value EXECUTION = ''EXECUTION''"
| "timeline_category_value SYSTEM = ''SYSTEM''"

fun timeline_severity_value :: "timeline_severity \<Rightarrow> string" where
  "timeline_severity_value INFO = ''INFO''"
| "timeline_severity_value SUCCESS = ''SUCCESS''"
| "timeline_severity_value WARNING = ''WARNING''"
| "timeline_severity_value ERROR = ''ERROR''"

definition enum_member :: "('m \<Rightarrow> string) \<Rightarrow> 'm list \<Rightarrow> string \<Rightarrow> string \<Rightarrow> 'm res" where
  "enum_member val members cls v =
     (case find (\<lambda>m. val m = v) members of None \<Rightarrow> Inl (enum_error cls v) | Some m \<Rightarrow> Inr m)"

definition timeline_category_of :: "string \<Rightarrow> timeline_category res" where
  "timeline_category_of v = enum_member timeline_category_value
     [RUNTIME, BROKER, MARKET_DATA, AI, ORDER, EXECUTION, SYSTEM] ''TimelineCategory'' v"

definition timeline_severity_of :: "string \<Rightarrow> timeline_severity res" where
  "timeline_severity_of v = enum_member timeline_severity_value
     [INFO, SUCCESS, WARNING, ERROR] ''TimelineSeverity'' v"

record timeline_read_entry =
  rt_timestamp :: datetime
  rt_category :: timeline_category
  rt_severity :: timeline_severity
  rt_source :: string
  rt_title :: string
  rt_description :: string
  rt_related_symbol :: "string option"
  rt_related_order_id :: "string option"

definition timeline_read_entry_post_init :: "timeline_read_entry \<Rightarrow> unit res" where
  "timeline_read_entry_post_init x =
     rbind (demand (tz_aware (rt_timestamp x)) ''timestamp must be timezone-aware'') (\<lambda>_.
     rbind (each required_text
       [(''source'', rt_source x), (''title'', rt_title x), (''description'', rt_description x)]) (\<lambda>_.
     each optional_read_text
       [(''related_symbol'', rt_related_symbol x),
        (''related_order_id'', rt_related_order_id x)]))"

definition project_timeline_entry :: "operations_timeline_entry \<Rightarrow> timeline_read_entry res" where
  "project_timeline_entry entry =
     rbind (timeline_category_of (ot_category entry)) (\<lambda>category.
     rbind (timeline_severity_of (ot_severity entry)) (\<lambda>severity.
     let model = \<lparr>rt_timestamp = ot_timestamp entry, rt_category = category,
       rt_severity = severity, rt_source = ot_source entry, rt_title = ot_title entry,
       rt_description = ot_description entry, rt_related_symbol = ot_related_symbol entry,
       rt_related_order_id = ot_related_order_id entry\<rparr> in
     rbind (timeline_read_entry_post_init model) (\<lambda>_. Inr model)))"

definition timeline_snapshot_post_init :: "timeline_read_entry list \<Rightarrow> unit res" where
  "timeline_snapshot_post_init entries =
     demand (newest_first (map rt_timestamp entries)) ''timeline entries must be newest-first''"

definition project_operational_timeline ::
  "operations_timeline_entry list \<Rightarrow> timeline_read_entry list res" where
  "project_operational_timeline entries =
     rbind (traverse project_timeline_entry entries) (\<lambda>models.
     rbind (timeline_snapshot_post_init models) (\<lambda>_. Inr models))"

subsection \<open>Decisions\<close>

datatype decision_execution_outcome =
  OUTCOME_PENDING | OUTCOME_ACCEPTED | OUTCOME_REJECTED | OUTCOME_PARTIALLY_FILLED
| OUTCOME_FILLED | OUTCOME_CANCELLED

fun decision_outcome_value :: "decision_execution_outcome \<Rightarrow> string" where
  "decision_outcome_value OUTCOME_PENDING = ''PENDING''"
| "decision_outcome_value OUTCOME_ACCEPTED = ''ACCEPTED''"
| "decision_outcome_value OUTCOME_REJECTED = ''REJECTED''"
| "decision_outcome_value OUTCOME_PARTIALLY_FILLED = ''PARTIALLY_FILLED''"
| "decision_outcome_value OUTCOME_FILLED = ''FILLED''"
| "decision_outcome_value OUTCOME_CANCELLED = ''CANCELLED''"

definition decision_outcome_of :: "string \<Rightarrow> decision_execution_outcome res" where
  "decision_outcome_of v = enum_member decision_outcome_value
     [OUTCOME_PENDING, OUTCOME_ACCEPTED, OUTCOME_REJECTED, OUTCOME_PARTIALLY_FILLED,
      OUTCOME_FILLED, OUTCOME_CANCELLED] ''DecisionExecutionOutcome'' v"

record decision_read_record =
  rd_decision_id :: string
  rd_timestamp :: datetime
  rd_strategy_id :: string
  rd_symbol :: string
  rd_action :: string
  rd_confidence :: int
  rd_reasoning_summary :: string
  rd_risk_assessment :: "string option"
  rd_requested_quantity :: "string option"
  rd_resulting_order_id :: "string option"
  rd_execution_outcome :: decision_execution_outcome

definition decision_read_record_post_init :: "decision_read_record \<Rightarrow> unit res" where
  "decision_read_record_post_init x =
     rbind (demand (tz_aware (rd_timestamp x)) ''decision timestamp must be timezone-aware'') (\<lambda>_.
     rbind (each (\<lambda>(name, v). demand (nonempty_text v) (name @ '' must be non-empty text''))
       [(''decision_id'', rd_decision_id x), (''strategy_id'', rd_strategy_id x),
        (''symbol'', rd_symbol x), (''action'', rd_action x),
        (''reasoning_summary'', rd_reasoning_summary x)]) (\<lambda>_.
     rbind (demand (0 \<le> rd_confidence x \<and> rd_confidence x \<le> 100)
       ''confidence must be between 0 and 100'') (\<lambda>_.
     each (\<lambda>(name, v). demand (none_or nonempty_text v)
         (name @ '' must be None or non-empty text''))
       [(''risk_assessment'', rd_risk_assessment x),
        (''requested_quantity'', rd_requested_quantity x),
        (''resulting_order_id'', rd_resulting_order_id x)])))"

definition project_decision :: "operations_decision_record \<Rightarrow> decision_read_record res" where
  "project_decision item =
     rbind (decision_outcome_of (od_execution_outcome item)) (\<lambda>outcome.
     let model = \<lparr>rd_decision_id = od_decision_id item, rd_timestamp = od_timestamp item,
       rd_strategy_id = od_strategy_id item, rd_symbol = od_symbol item,
       rd_action = od_action item, rd_confidence = od_confidence item,
       rd_reasoning_summary = od_reasoning_summary item,
       rd_risk_assessment = od_risk_assessment item,
       rd_requested_quantity = od_requested_quantity item,
       rd_resulting_order_id = od_resulting_order_id item,
       rd_execution_outcome = outcome\<rparr> in
     rbind (decision_read_record_post_init model) (\<lambda>_. Inr model))"

definition project_operational_decisions ::
  "operations_decision_record list \<Rightarrow> decision_read_record list res" where
  "project_operational_decisions decisions = traverse project_decision decisions"

subsection \<open>Portfolio\<close>

record portfolio_highlight =
  rh_symbol :: string
  rh_value :: string

definition portfolio_highlight_post_init :: "portfolio_highlight \<Rightarrow> unit res" where
  "portfolio_highlight_post_init x =
     each (\<lambda>(name, v). demand (nonempty_text v)
         (''portfolio highlight '' @ name @ '' is required''))
       [(''symbol'', rh_symbol x), (''value'', rh_value x)]"

record portfolio_summary =
  rf_total_market_value :: "string option"
  rf_total_cost_basis :: string
  rf_realized_pnl :: "string option"
  rf_unrealized_pnl :: "string option"
  rf_total_pnl :: "string option"
  rf_gross_exposure :: "string option"
  rf_long_exposure :: "string option"
  rf_short_exposure :: "string option"
  rf_open_positions :: int
  rf_working_orders :: int
  rf_winning_positions :: "int option"
  rf_losing_positions :: "int option"
  rf_largest_position :: "portfolio_highlight option"
  rf_largest_unrealized_gain :: "portfolio_highlight option"
  rf_largest_unrealized_loss :: "portfolio_highlight option"

definition portfolio_summary_post_init :: "portfolio_summary \<Rightarrow> unit res" where
  "portfolio_summary_post_init x =
     rbind (demand (strip (rf_total_cost_basis x) \<noteq> []) ''total_cost_basis must not be empty'') (\<lambda>_.
     rbind (demand (\<forall>v\<in>set [rf_total_market_value x, rf_realized_pnl x, rf_unrealized_pnl x,
           rf_total_pnl x, rf_gross_exposure x, rf_long_exposure x, rf_short_exposure x].
           none_or nonempty_text v)
         ''optional portfolio values must be None or non-empty text'') (\<lambda>_.
     rbind (demand (\<forall>n\<in>set [rf_open_positions x, rf_working_orders x]. 0 \<le> n)
         ''portfolio counts must be nonnegative integers'') (\<lambda>_.
     each (\<lambda>n. demand (none_or (\<lambda>k. 0 \<le> k) n)
         ''portfolio win/loss counts must be nonnegative or None'')
       [rf_winning_positions x, rf_losing_positions x])))"

definition initial_portfolio_summary :: portfolio_summary where
  "initial_portfolio_summary = \<lparr>
     rf_total_market_value = Some ''0'', rf_total_cost_basis = ''0'', rf_realized_pnl = Some ''0'',
     rf_unrealized_pnl = Some ''0'', rf_total_pnl = Some ''0'', rf_gross_exposure = Some ''0'',
     rf_long_exposure = Some ''0'', rf_short_exposure = Some ''0'', rf_open_positions = 0,
     rf_working_orders = 0, rf_winning_positions = Some 0, rf_losing_positions = Some 0,
     rf_largest_position = None, rf_largest_unrealized_gain = None,
     rf_largest_unrealized_loss = None\<rparr>"

fun project_highlight :: "operations_portfolio_highlight option \<Rightarrow> portfolio_highlight option res" where
  "project_highlight None = Inr None"
| "project_highlight (Some h) =
     (let model = \<lparr>rh_symbol = oh_symbol h, rh_value = oh_value h\<rparr> in
      rbind (portfolio_highlight_post_init model) (\<lambda>_. Inr (Some model)))"

definition project_operational_portfolio :: "operations_portfolio_summary \<Rightarrow> portfolio_summary res" where
  "project_operational_portfolio s =
     rbind (project_highlight (os_largest_position s)) (\<lambda>position.
     rbind (project_highlight (os_largest_unrealized_gain s)) (\<lambda>gain.
     rbind (project_highlight (os_largest_unrealized_loss s)) (\<lambda>loss.
     let model = \<lparr>rf_total_market_value = os_total_market_value s,
       rf_total_cost_basis = os_total_cost_basis s, rf_realized_pnl = os_realized_pnl s,
       rf_unrealized_pnl = os_unrealized_pnl s, rf_total_pnl = os_total_pnl s,
       rf_gross_exposure = os_gross_exposure s, rf_long_exposure = os_long_exposure s,
       rf_short_exposure = os_short_exposure s, rf_open_positions = os_open_positions s,
       rf_working_orders = os_working_orders s, rf_winning_positions = os_winning_positions s,
       rf_losing_positions = os_losing_positions s, rf_largest_position = position,
       rf_largest_unrealized_gain = gain, rf_largest_unrealized_loss = loss\<rparr> in
     rbind (portfolio_summary_post_init model) (\<lambda>_. Inr model))))"

subsection \<open>Health\<close>

record health_state =
  rg_runtime_status :: "string option"
  rg_broker_status :: "string option"
  rg_market_data_status :: "string option"
  rg_ai_status :: "string option"
  rg_risk_status :: "string option"
  rg_persistence_status :: "string option"
  rg_last_error :: "string option"
  rg_last_warning :: "string option"
  rg_last_heartbeat :: "datetime option"
  rg_connection_latency :: "string option"
  rg_reconnect_attempts :: int
  rg_degraded :: bool
  rg_healthy :: bool

definition health_state_post_init :: "health_state \<Rightarrow> unit res" where
  "health_state_post_init x =
     rbind (each (\<lambda>(name, v). demand (none_or nonempty_stripped v)
         (''health '' @ name @ '' must be None or stripped text''))
       [(''runtime_status'', rg_runtime_status x), (''broker_status'', rg_broker_status x),
        (''market_data_status'', rg_market_data_status x), (''ai_status'', rg_ai_status x),
        (''risk_status'', rg_risk_status x), (''persistence_status'', rg_persistence_status x),
        (''last_error'', rg_last_error x), (''last_warning'', rg_last_warning x),
        (''connection_latency'', rg_connection_latency x)]) (\<lambda>_.
     rbind (demand (none_or tz_aware (rg_last_heartbeat x))
       ''last_heartbeat must be timezone-aware'') (\<lambda>_.
     rbind (demand (0 \<le> rg_reconnect_attempts x) ''reconnect_attempts must be nonnegative'') (\<lambda>_.
     demand (\<not> (rg_healthy x \<and> rg_degraded x)) ''health cannot be healthy and degraded'')))"

definition initial_health_state :: health_state where
  "initial_health_state = \<lparr>
     rg_runtime_status = None, rg_broker_status = None, rg_market_data_status = None,
     rg_ai_status = None, rg_risk_status = None, rg_persistence_status = None,
     rg_last_error = None, rg_last_warning = None, rg_last_heartbeat = None,
     rg_connection_latency = None, rg_reconnect_attempts = 0, rg_degraded = False,
     rg_healthy = False\<rparr>"

definition project_operational_health :: "operations_health_state \<Rightarrow> health_state res" where
  "project_operational_health st =
     (let model = \<lparr>rg_runtime_status = oe_runtime_status st, rg_broker_status = oe_broker_status st,
        rg_market_data_status = oe_market_data_status st, rg_ai_status = oe_ai_status st,
        rg_risk_status = oe_risk_status st, rg_persistence_status = oe_persistence_status st,
        rg_last_error = oe_last_error st, rg_last_warning = oe_last_warning st,
        rg_last_heartbeat = oe_last_heartbeat st, rg_connection_latency = oe_connection_latency st,
        rg_reconnect_attempts = oe_reconnect_attempts st, rg_degraded = oe_degraded st,
        rg_healthy = oe_healthy st\<rparr> in
      rbind (health_state_post_init model) (\<lambda>_. Inr model))"

subsection \<open>Watchlist\<close>

record watchlist_entry =
  ry_symbol :: string
  ry_latest_price :: "string option"
  ry_change :: "string option"
  ry_change_percent :: "string option"
  ry_bid :: "string option"
  ry_ask :: "string option"
  ry_volume :: "int option"
  ry_market_status :: "string option"
  ry_last_update :: "datetime option"
  ry_stale :: "bool option"
  ry_metadata :: "(string \<times> string) list"

definition watchlist_entry_post_init :: "watchlist_entry \<Rightarrow> unit res" where
  "watchlist_entry_post_init x =
     rbind (demand (strip (ry_symbol x) \<noteq> [] \<and> ry_symbol x = normalize_symbol (ry_symbol x))
       ''watchlist symbol must be normalized'') (\<lambda>_.
     rbind (each (\<lambda>(name, v). demand (none_or nonempty_stripped v)
         (''watchlist '' @ name @ '' must be None or stripped text''))
       [(''latest_price'', ry_latest_price x), (''change'', ry_change x),
        (''change_percent'', ry_change_percent x), (''bid'', ry_bid x), (''ask'', ry_ask x),
        (''market_status'', ry_market_status x)]) (\<lambda>_.
     rbind (demand (none_or (\<lambda>k. 0 \<le> k) (ry_volume x))
       ''watchlist volume must be nonnegative'') (\<lambda>_.
     demand (none_or tz_aware (ry_last_update x))
       ''watchlist last update must be timezone-aware'')))"

record watchlist_state =
  rw_ordered_symbols :: "string list"
  rw_entries :: "watchlist_entry list"
  rw_selected_symbol :: "string option"

definition watchlist_state_post_init :: "watchlist_state \<Rightarrow> unit res" where
  "watchlist_state_post_init x =
     rbind (demand (map ry_symbol (rw_entries x) = rw_ordered_symbols x)
       ''watchlist entries must follow ordered_symbols'') (\<lambda>_.
     rbind (demand (distinct (rw_ordered_symbols x)) ''watchlist symbols must be unique'') (\<lambda>_.
     demand (none_or (\<lambda>s. s \<in> set (rw_ordered_symbols x)) (rw_selected_symbol x))
       ''selected_symbol must belong to the watchlist''))"

definition initial_watchlist_state :: watchlist_state where
  "initial_watchlist_state =
     \<lparr>rw_ordered_symbols = [], rw_entries = [], rw_selected_symbol = None\<rparr>"

definition project_watchlist_entry :: "operations_watchlist_entry \<Rightarrow> watchlist_entry res" where
  "project_watchlist_entry entry =
     (let model = \<lparr>ry_symbol = oy_symbol entry, ry_latest_price = oy_latest_price entry,
        ry_change = oy_change entry, ry_change_percent = oy_change_percent entry,
        ry_bid = oy_bid entry, ry_ask = oy_ask entry, ry_volume = oy_volume entry,
        ry_market_status = oy_market_status entry, ry_last_update = oy_last_update entry,
        ry_stale = oy_stale entry, ry_metadata = oy_metadata entry\<rparr> in
      rbind (watchlist_entry_post_init model) (\<lambda>_. Inr model))"

definition project_operational_watchlist :: "operations_watchlist_state \<Rightarrow> watchlist_state res" where
  "project_operational_watchlist st =
     rbind (traverse project_watchlist_entry (ow_entries st)) (\<lambda>entries.
     let model = \<lparr>rw_ordered_symbols = ow_ordered_symbols st, rw_entries = entries,
       rw_selected_symbol = ow_selected_symbol st\<rparr> in
     rbind (watchlist_state_post_init model) (\<lambda>_. Inr model))"

subsection \<open>What the projectors accept\<close>

lemma enum_member_Inr:
  "enum_member val members cls v = Inr m \<Longrightarrow> m \<in> set members \<and> val m = v"
  by (auto simp: enum_member_def find_Some_iff split: option.splits)

lemma enum_member_raises_iff:
  "(\<exists>e. enum_member val members cls v = Inl e) \<longleftrightarrow> v \<notin> val ` set members"
  by (auto simp: enum_member_def find_None_iff find_Some_iff image_iff split: option.splits)

lemma project_order_total:
  "operations_order_post_init x = Inr () \<Longrightarrow> \<exists>m. project_order x = Inr m"
  by (simp add: project_order_def order_read_model_post_init_def operations_order_post_init_def)

lemma optional_read_text_iff [simp]:
  "optional_read_text nv = Inr () \<longleftrightarrow> optional_position_text nv = Inr ()"
  by (auto simp: optional_read_text_def optional_position_text_def nonempty_stripped_def
      split: prod.splits option.splits)

lemma project_position_total:
  "operations_position_post_init x = Inr () \<Longrightarrow> \<exists>m. project_position x = Inr m"
  by (simp add: project_position_def position_read_model_post_init_def
      operations_position_post_init_def)

lemma project_highlight_total:
  "none_or (\<lambda>h. operations_portfolio_highlight_post_init h = Inr ()) h \<Longrightarrow>
   \<exists>m. project_highlight h = Inr m"
  by (cases h) (simp_all add: portfolio_highlight_post_init_def
      operations_portfolio_highlight_post_init_def)

lemma optional_read_text_none_or:
  "optional_position_text (n, v) = Inr () \<longleftrightarrow> none_or nonempty_stripped v"
  by (cases v) (simp_all add: optional_position_text_def nonempty_stripped_def)

lemma project_timeline_entry_total:
  "operations_timeline_entry_post_init x = Inr () \<Longrightarrow>
   (\<exists>m. project_timeline_entry x = Inr m) \<longleftrightarrow>
   (\<exists>c. timeline_category_of (ot_category x) = Inr c) \<and>
   (\<exists>s. timeline_severity_of (ot_severity x) = Inr s)"
  by (auto simp: project_timeline_entry_def timeline_read_entry_post_init_def Let_def res_simps
      operations_timeline_entry_post_init_def optional_read_text_none_or)

lemma project_decision_total:
  "operations_decision_record_post_init x = Inr () \<Longrightarrow>
   (\<exists>m. project_decision x = Inr m) \<longleftrightarrow> (\<exists>c. decision_outcome_of (od_execution_outcome x) = Inr c)"
  by (auto simp: project_decision_def decision_read_record_post_init_def Let_def res_simps
      operations_decision_record_post_init_def)

lemma project_watchlist_entry_total:
  "operations_watchlist_entry_post_init x = Inr () \<Longrightarrow> \<exists>m. project_watchlist_entry x = Inr m"
  by (simp add: project_watchlist_entry_def watchlist_entry_post_init_def
      operations_watchlist_entry_post_init_def)

end
