(* ===== verification/Operations_State.thy ===== *)
theory Operations_State
  imports Operations_Bus Read_Models
begin

text \<open>
  \<open>ApplicationStateStore\<close> (app/operations\_core/state.py): the single source of truth of the
  operations center.  It subscribes to the bus, reduces every event to a new immutable
  state and hands the state to its listeners.  The part of \<open>_handle_event\<close> under the lock is
  \<open>apply_event\<close>; a listener is a value whose call takes and returns the state of the world.
  The replay slice (app/replay\_workspace/models.py) is only carried along by the store.
\<close>

subsection \<open>The state\<close>

datatype runtime_phase =
  PHASE_STOPPED | PHASE_STARTING | PHASE_RUNNING | PHASE_STOPPING | PHASE_FAILED

record runtime_state =
  rn_phase :: runtime_phase
  rn_environment :: string
  rn_broker_status :: string
  rn_market_feed_status :: string
  rn_inference_status :: string
  rn_active_model :: string
  rn_cycles_completed :: int
  rn_last_error :: "string option"

definition initial_runtime_state :: runtime_state where
  "initial_runtime_state = \<lparr>rn_phase = PHASE_STOPPED, rn_environment = ''PAPER'',
     rn_broker_status = ''Disconnected'', rn_market_feed_status = ''Idle'',
     rn_inference_status = ''Ready'', rn_active_model = ''Not loaded'',
     rn_cycles_completed = 0, rn_last_error = None\<rparr>"

record timeline_log_entry =
  tl_event_id :: string
  tl_occurred_at :: datetime
  tl_event_type :: string
  tl_source :: string
  tl_message :: string

datatype replay_phase =
  REPLAY_READY | REPLAY_PLAYING | REPLAY_PAUSED | REPLAY_COMPLETED | REPLAY_CANCELLED

text \<open>The two floating point fields are numbers here; they are only compared with 0.\<close>

record replay_state =
  rx_phase :: replay_phase
  rx_current_event :: int
  rx_events_processed :: int
  rx_total_events :: int
  rx_replay_speed :: dec
  rx_elapsed_seconds :: dec

definition replay_state_post_init :: "replay_state \<Rightarrow> unit res" where
  "replay_state_post_init x =
     rbind (each (\<lambda>(name, n). demand (0 \<le> n) (name @ '' must be nonnegative''))
       [(''current_event'', rx_current_event x), (''events_processed'', rx_events_processed x),
        (''total_events'', rx_total_events x)]) (\<lambda>_.
     rbind (demand (rx_current_event x \<le> rx_total_events x)
       ''current_event cannot exceed total_events'') (\<lambda>_.
     rbind (demand (rx_events_processed x \<le> rx_total_events x)
       ''events_processed cannot exceed total_events'') (\<lambda>_.
     rbind (each (\<lambda>(name, v). demand (is_finite v) (name @ '' must be finite''))
       [(''replay_speed'', rx_replay_speed x), (''elapsed_seconds'', rx_elapsed_seconds x)]) (\<lambda>_.
     rbind (demand (0 < fin (rx_replay_speed x)) ''replay_speed must be positive'') (\<lambda>_.
     demand (0 \<le> fin (rx_elapsed_seconds x)) ''elapsed_seconds must be nonnegative'')))))"

definition initial_replay_state :: replay_state where
  "initial_replay_state = \<lparr>rx_phase = REPLAY_READY, rx_current_event = 0,
     rx_events_processed = 0, rx_total_events = 0, rx_replay_speed = Fin 1,
     rx_elapsed_seconds = Fin 0\<rparr>"

record application_state =
  as_runtime :: runtime_state
  as_paper_runtime :: "paper_runtime_snapshot option"
  as_orders :: "operations_order list"
  as_positions :: "operations_position list"
  as_timeline :: "timeline_log_entry list"
  as_revision :: int
  as_order_projection :: "order_read_model list"
  as_position_projection :: "position_read_model list"
  as_timeline_projection :: "timeline_read_entry list"
  as_decision_projection :: "decision_read_record list"
  as_portfolio_projection :: portfolio_summary
  as_health_projection :: health_state
  as_watchlist_projection :: watchlist_state
  as_replay :: replay_state

definition initial_application_state :: application_state where
  "initial_application_state = \<lparr>as_runtime = initial_runtime_state, as_paper_runtime = None,
     as_orders = [], as_positions = [], as_timeline = [], as_revision = 0,
     as_order_projection = [], as_position_projection = [], as_timeline_projection = [],
     as_decision_projection = [], as_portfolio_projection = initial_portfolio_summary,
     as_health_projection = initial_health_state,
     as_watchlist_projection = initial_watchlist_state, as_replay = initial_replay_state\<rparr>"

subsection \<open>Reducers\<close>

fun reduce_runtime :: "runtime_state \<Rightarrow> operations_event \<Rightarrow> runtime_state" where
  "reduce_runtime current (RuntimeStarting _ env) =
     current\<lparr>rn_phase := PHASE_STARTING, rn_environment := env, rn_broker_status := ''Connecting'',
       rn_market_feed_status := ''Starting'', rn_inference_status := ''Loading'',
       rn_cycles_completed := 0, rn_last_error := None\<rparr>"
| "reduce_runtime current (RuntimeStarted _ env model) =
     current\<lparr>rn_phase := PHASE_RUNNING, rn_environment := env, rn_broker_status := ''Connected'',
       rn_market_feed_status := ''Healthy'', rn_inference_status := ''Healthy'',
       rn_active_model := model, rn_last_error := None\<rparr>"
| "reduce_runtime current (RuntimeCycleCompleted _ n) = current\<lparr>rn_cycles_completed := n\<rparr>"
| "reduce_runtime current (RuntimeStopping _ _) = current\<lparr>rn_phase := PHASE_STOPPING\<rparr>"
| "reduce_runtime current (RuntimeStopped _ _ n) =
     current\<lparr>rn_phase := PHASE_STOPPED, rn_broker_status := ''Disconnected'',
       rn_market_feed_status := ''Idle'', rn_inference_status := ''Ready'',
       rn_cycles_completed := n, rn_last_error := None\<rparr>"
| "reduce_runtime current (RuntimeFailed _ message) =
     current\<lparr>rn_phase := PHASE_FAILED, rn_broker_status := ''Disconnected'',
       rn_market_feed_status := ''Error'', rn_inference_status := ''Error'',
       rn_last_error := Some message\<rparr>"
| "reduce_runtime current _ = current"

fun reduce_paper_runtime ::
  "paper_runtime_snapshot option \<Rightarrow> operations_event \<Rightarrow> paper_runtime_snapshot option" where
  "reduce_paper_runtime current (PaperRuntimeUpdated _ snapshot) = Some snapshot"
| "reduce_paper_runtime current _ = current"

fun reduce_orders :: "operations_order list \<Rightarrow> operations_event \<Rightarrow> operations_order list" where
  "reduce_orders current (OrdersUpdated _ orders) = orders"
| "reduce_orders current _ = current"

fun reduce_order_projection ::
  "order_read_model list \<Rightarrow> operations_event \<Rightarrow> order_read_model list res" where
  "reduce_order_projection current (OrdersUpdated _ orders) = project_operational_orders orders"
| "reduce_order_projection current _ = Inr current"

fun reduce_positions :: "operations_position list \<Rightarrow> operations_event \<Rightarrow> operations_position list" where
  "reduce_positions current (PositionsUpdated _ positions) = positions"
| "reduce_positions current _ = current"

fun reduce_position_projection ::
  "position_read_model list \<Rightarrow> operations_event \<Rightarrow> position_read_model list res" where
  "reduce_position_projection current (PositionsUpdated _ positions) =
     project_operational_positions positions"
| "reduce_position_projection current _ = Inr current"

fun reduce_timeline_projection ::
  "timeline_read_entry list \<Rightarrow> operations_event \<Rightarrow> timeline_read_entry list res" where
  "reduce_timeline_projection current (TimelineUpdated _ entries) =
     project_operational_timeline entries"
| "reduce_timeline_projection current _ = Inr current"

fun reduce_decision_projection ::
  "decision_read_record list \<Rightarrow> operations_event \<Rightarrow> decision_read_record list res" where
  "reduce_decision_projection current (DecisionsUpdated _ decisions) =
     project_operational_decisions decisions"
| "reduce_decision_projection current _ = Inr current"

fun reduce_portfolio_projection ::
  "portfolio_summary \<Rightarrow> operations_event \<Rightarrow> portfolio_summary res" where
  "reduce_portfolio_projection current (PortfolioUpdated _ summary) =
     project_operational_portfolio summary"
| "reduce_portfolio_projection current _ = Inr current"

fun reduce_health_projection :: "health_state \<Rightarrow> operations_event \<Rightarrow> health_state res" where
  "reduce_health_projection current (HealthUpdated _ st) = project_operational_health st"
| "reduce_health_projection current _ = Inr current"

fun reduce_watchlist_projection :: "watchlist_state \<Rightarrow> operations_event \<Rightarrow> watchlist_state res" where
  "reduce_watchlist_projection current (WatchlistUpdated _ st) = project_operational_watchlist st"
| "reduce_watchlist_projection current _ = Inr current"

subsection \<open>The timeline\<close>

definition plural :: "nat \<Rightarrow> string \<Rightarrow> string \<Rightarrow> string" where
  "plural n one many = (if n = 1 then one else many)"

fun timeline_message :: "operations_event \<Rightarrow> string" where
  "timeline_message (RuntimeStarting _ env) = ''Starting '' @ env @ '' runtime.''"
| "timeline_message (RuntimeStarted _ env model) = env @ '' runtime started using '' @ model @ ''.''"
| "timeline_message (RuntimeStopping _ why) = why"
| "timeline_message (RuntimeStopped _ why n) = why @ '' Cycles completed: '' @ int_text n @ ''.''"
| "timeline_message (RuntimeFailed _ message) = ''Runtime failed: '' @ message"
| "timeline_message (OrdersUpdated _ orders) =
     ''Order state updated: '' @ int_text (int (length orders)) @ '' '' @
     plural (length orders) ''order'' ''orders'' @ ''.''"
| "timeline_message (PositionsUpdated _ positions) =
     ''Position state updated: '' @ int_text (int (length positions)) @ '' '' @
     plural (length positions) ''position'' ''positions'' @ ''.''"
| "timeline_message ev = class_name ev"

definition timeline_entry_of :: "operations_event \<Rightarrow> timeline_log_entry" where
  "timeline_entry_of ev = \<lparr>tl_event_id = ev_event_id (base_of ev),
     tl_occurred_at = ev_occurred_at (base_of ev), tl_event_type = class_name ev,
     tl_source = ev_source (base_of ev), tl_message = timeline_message ev\<rparr>"

fun logged :: "operations_event \<Rightarrow> bool" where
  "logged (RuntimeCycleCompleted _ _) = False"
| "logged (PaperRuntimeUpdated _ _) = False"
| "logged (TimelineUpdated _ _) = False"
| "logged (DecisionsUpdated _ _) = False"
| "logged (PortfolioUpdated _ _) = False"
| "logged (HealthUpdated _ _) = False"
| "logged (WatchlistUpdated _ _) = False"
| "logged _ = True"

text \<open>\<open>xs[-n:]\<close> for a positive \<open>n\<close>.\<close>

definition last_n :: "nat \<Rightarrow> 'a list \<Rightarrow> 'a list" where
  "last_n n xs = drop (length xs - n) xs"

subsection \<open>The store\<close>

record 'l state_store =
  ss_timeline_limit :: int
  ss_state :: application_state
  ss_listeners :: "(int, 'l) pydict"
  ss_next_listener_id :: int
  ss_subscription :: subscription

definition store_init ::
  "'h operations_bus \<Rightarrow> 'h \<Rightarrow> int \<Rightarrow> ('l state_store \<times> 'h operations_bus) res" where
  "store_init b handle_event timeline_limit =
     rbind (demand (0 < timeline_limit) ''timeline_limit must be positive'') (\<lambda>_.
     let (s, b') = bus_subscribe b OperationsEventT handle_event in
     Inr (\<lparr>ss_timeline_limit = timeline_limit, ss_state = initial_application_state,
            ss_listeners = [], ss_next_listener_id = 1, ss_subscription = s\<rparr>, b'))"

definition store_subscribe ::
  "('l \<Rightarrow> application_state \<Rightarrow> 'w \<Rightarrow> unit res \<times> 'w) \<Rightarrow> 'l state_store \<Rightarrow> 'l \<Rightarrow> 'w \<Rightarrow>
   int res \<times> 'l state_store \<times> 'w" where
  "store_subscribe call st listener w =
     (let listener_id = ss_next_listener_id st;
          st' = st\<lparr>ss_next_listener_id := listener_id + 1,
                  ss_listeners := dict_set listener_id listener (ss_listeners st)\<rparr>;
          (r, w') = call listener (ss_state st') w in
      (rbind r (\<lambda>_. Inr listener_id), st', w'))"

definition store_unsubscribe :: "'l state_store \<Rightarrow> int \<Rightarrow> bool \<times> 'l state_store" where
  "store_unsubscribe st listener_id =
     (dict_get (ss_listeners st) listener_id \<noteq> None,
      st\<lparr>ss_listeners := AList.delete listener_id (ss_listeners st)\<rparr>)"

definition store_close ::
  "'l state_store \<Rightarrow> 'h operations_bus \<Rightarrow> 'l state_store \<times> 'h operations_bus" where
  "store_close st b = (st\<lparr>ss_listeners := []\<rparr>, snd (bus_unsubscribe b (ss_subscription st)))"

text \<open>The new state of one event, or the exception of a projector.\<close>

definition reduce_state :: "int \<Rightarrow> application_state \<Rightarrow> operations_event \<Rightarrow> application_state res" where
  "reduce_state limit st ev =
     (let runtime = reduce_runtime (as_runtime st) ev;
          paper_runtime = reduce_paper_runtime (as_paper_runtime st) ev;
          orders = reduce_orders (as_orders st) ev in
      rbind (reduce_order_projection (as_order_projection st) ev) (\<lambda>order_projection.
      let positions = reduce_positions (as_positions st) ev in
      rbind (reduce_position_projection (as_position_projection st) ev) (\<lambda>position_projection.
      rbind (reduce_timeline_projection (as_timeline_projection st) ev) (\<lambda>timeline_projection.
      rbind (reduce_decision_projection (as_decision_projection st) ev) (\<lambda>decision_projection.
      rbind (reduce_portfolio_projection (as_portfolio_projection st) ev) (\<lambda>portfolio_projection.
      rbind (reduce_health_projection (as_health_projection st) ev) (\<lambda>health_projection.
      rbind (reduce_watchlist_projection (as_watchlist_projection st) ev) (\<lambda>watchlist_projection.
      let timeline = (if logged ev
            then last_n (nat limit) (as_timeline st @ [timeline_entry_of ev]) else as_timeline st) in
      Inr \<lparr>as_runtime = runtime, as_paper_runtime = paper_runtime, as_orders = orders,
           as_positions = positions, as_timeline = timeline, as_revision = as_revision st + 1,
           as_order_projection = order_projection, as_position_projection = position_projection,
           as_timeline_projection = timeline_projection,
           as_decision_projection = decision_projection,
           as_portfolio_projection = portfolio_projection,
           as_health_projection = health_projection,
           as_watchlist_projection = watchlist_projection, as_replay = as_replay st\<rparr>))))))))"

definition apply_event :: "'l state_store \<Rightarrow> operations_event \<Rightarrow> 'l state_store res" where
  "apply_event st ev =
     rbind (reduce_state (ss_timeline_limit st) (ss_state st) ev) (\<lambda>state'.
       Inr (st\<lparr>ss_state := state'\<rparr>))"

text \<open>
  \<open>_handle_event\<close>: the store changes under the lock, then the listeners registered at that
  moment are called with the new state, up to the first that raises.
\<close>

definition handle_event ::
  "('l \<Rightarrow> application_state \<Rightarrow> 'w \<Rightarrow> unit res \<times> 'w) \<Rightarrow> operations_event \<Rightarrow>
   'l state_store \<times> 'w \<Rightarrow> unit res \<times> 'l state_store \<times> 'w" where
  "handle_event call ev sw =
     (case sw of (st, w) \<Rightarrow>
       (case apply_event st ev of
          Inl e \<Rightarrow> (Inl e, st, w)
        | Inr st' \<Rightarrow>
            (case call_handlers call (dict_values (ss_listeners st')) (ss_state st') w of
               (r, w') \<Rightarrow> (r, st', w'))))"

text \<open>\<open>project_orders_read_model\<close> and \<open>project_positions_read_model\<close>.\<close>

definition project_orders_read_model :: "application_state \<Rightarrow> order_read_model list res" where
  "project_orders_read_model st =
     (if as_order_projection st \<noteq> [] \<or> as_orders st = [] then Inr (as_order_projection st)
      else project_operational_orders (as_orders st))"

definition project_positions_read_model :: "application_state \<Rightarrow> position_read_model list res" where
  "project_positions_read_model st =
     (if as_position_projection st \<noteq> [] \<or> as_positions st = [] then Inr (as_position_projection st)
      else project_operational_positions (as_positions st))"

subsection \<open>Which events the store accepts\<close>

definition timeline_categories :: "string list" where
  "timeline_categories =
     [''RUNTIME'', ''BROKER'', ''MARKET_DATA'', ''AI'', ''ORDER'', ''EXECUTION'', ''SYSTEM'']"

definition timeline_severities :: "string list" where
  "timeline_severities = [''INFO'', ''SUCCESS'', ''WARNING'', ''ERROR'']"

definition decision_outcomes :: "string list" where
  "decision_outcomes =
     [''PENDING'', ''ACCEPTED'', ''REJECTED'', ''PARTIALLY_FILLED'', ''FILLED'', ''CANCELLED'']"

text \<open>
  The specification: the read models demand more than the events only of the enumerations
  and of the uniqueness of watchlist symbols.
\<close>

fun store_accepts :: "operations_event \<Rightarrow> bool" where
  "store_accepts (TimelineUpdated _ xs) = list_all (\<lambda>x. ot_category x \<in> set timeline_categories \<and>
     ot_severity x \<in> set timeline_severities) xs"
| "store_accepts (DecisionsUpdated _ xs) =
     list_all (\<lambda>x. od_execution_outcome x \<in> set decision_outcomes) xs"
| "store_accepts (WatchlistUpdated _ st) = distinct (ow_ordered_symbols st)"
| "store_accepts _ = True"

lemma enum_member_ok:
  "(\<exists>m. enum_member val members cls v = Inr m) \<longleftrightarrow> v \<in> set (map val members)"
  by (auto simp: enum_member_def find_None_iff find_Some_iff split: option.splits)

lemma enumerations_ok:
  "(\<exists>c. timeline_category_of v = Inr c) \<longleftrightarrow> v \<in> set timeline_categories"
  "(\<exists>s. timeline_severity_of v = Inr s) \<longleftrightarrow> v \<in> set timeline_severities"
  "(\<exists>c. decision_outcome_of v = Inr c) \<longleftrightarrow> v \<in> set decision_outcomes"
  unfolding timeline_category_of_def timeline_severity_of_def decision_outcome_of_def enum_member_ok
  by (simp_all add: timeline_categories_def timeline_severities_def decision_outcomes_def)

lemma project_timeline_ok:
  assumes "list_all (\<lambda>x. operations_timeline_entry_post_init x = Inr ()) xs"
    and "newest_first (map ot_timestamp xs)"
  shows "(\<exists>ms. project_operational_timeline xs = Inr ms) \<longleftrightarrow>
    (\<forall>x\<in>set xs. ot_category x \<in> set timeline_categories \<and> ot_severity x \<in> set timeline_severities)"
proof -
  have t: "map rt_timestamp ms = map ot_timestamp xs" if "traverse project_timeline_entry xs = Inr ms" for ms
    using that by (rule traverse_map) (auto simp: project_timeline_entry_def Let_def res_simps)
  have "(\<exists>ms. project_operational_timeline xs = Inr ms) \<longleftrightarrow>
      (\<exists>ms. traverse project_timeline_entry xs = Inr ms)"
    using assms(2) by (auto simp: project_operational_timeline_def timeline_snapshot_post_init_def
        res_simps t)
  also have "\<dots> \<longleftrightarrow> (\<forall>x\<in>set xs. \<exists>m. project_timeline_entry x = Inr m)"
    by (rule traverse_ex)
  finally show ?thesis
    using assms(1) by (simp add: list_all_iff project_timeline_entry_total enumerations_ok)
qed

lemma project_decisions_ok:
  assumes "list_all (\<lambda>x. operations_decision_record_post_init x = Inr ()) xs"
  shows "(\<exists>ms. project_operational_decisions xs = Inr ms) \<longleftrightarrow>
    (\<forall>x\<in>set xs. od_execution_outcome x \<in> set decision_outcomes)"
  using assms
  by (simp add: project_operational_decisions_def traverse_ex list_all_iff project_decision_total
      enumerations_ok)

lemma project_portfolio_ok:
  assumes "payload_ok (PortfolioUpdated b s)"
  shows "\<exists>m. project_operational_portfolio s = Inr m"
proof -
  from assms obtain p g l where "project_highlight (os_largest_position s) = Inr p"
      and "project_highlight (os_largest_unrealized_gain s) = Inr g"
      and "project_highlight (os_largest_unrealized_loss s) = Inr l"
    using project_highlight_total by fastforce
  with assms show ?thesis
    by (simp add: project_operational_portfolio_def portfolio_summary_post_init_def
        operations_portfolio_summary_post_init_def nonempty_text_def Let_def)
qed

lemma project_health_ok:
  "operations_health_state_post_init st = Inr () \<Longrightarrow> \<exists>m. project_operational_health st = Inr m"
  by (simp add: project_operational_health_def health_state_post_init_def
      operations_health_state_post_init_def Let_def) blast

lemma project_watchlist_ok:
  assumes "payload_ok (WatchlistUpdated b st)"
  shows "(\<exists>m. project_operational_watchlist st = Inr m) \<longleftrightarrow> distinct (ow_ordered_symbols st)"
proof -
  have s: "map ry_symbol ms = map oy_symbol (ow_entries st)"
    if "traverse project_watchlist_entry (ow_entries st) = Inr ms" for ms
    using that by (rule traverse_map) (auto simp: project_watchlist_entry_def Let_def res_simps)
  have "\<exists>ms. traverse project_watchlist_entry (ow_entries st) = Inr ms"
    using assms project_watchlist_entry_total by (simp add: list_all_iff traverse_ex)
  then obtain ms where "traverse project_watchlist_entry (ow_entries st) = Inr ms" ..
  with s assms show ?thesis
    by (simp add: project_operational_watchlist_def watchlist_state_post_init_def Let_def
        operations_watchlist_state_post_init_def)
qed

lemma reduce_state_Inr:
  "reduce_state limit st ev = Inr st' \<longleftrightarrow>
     reduce_order_projection (as_order_projection st) ev = Inr (as_order_projection st') \<and>
     reduce_position_projection (as_position_projection st) ev = Inr (as_position_projection st') \<and>
     reduce_timeline_projection (as_timeline_projection st) ev = Inr (as_timeline_projection st') \<and>
     reduce_decision_projection (as_decision_projection st) ev = Inr (as_decision_projection st') \<and>
     reduce_portfolio_projection (as_portfolio_projection st) ev = Inr (as_portfolio_projection st') \<and>
     reduce_health_projection (as_health_projection st) ev = Inr (as_health_projection st') \<and>
     reduce_watchlist_projection (as_watchlist_projection st) ev = Inr (as_watchlist_projection st') \<and>
     as_runtime st' = reduce_runtime (as_runtime st) ev \<and>
     as_paper_runtime st' = reduce_paper_runtime (as_paper_runtime st) ev \<and>
     as_orders st' = reduce_orders (as_orders st) ev \<and>
     as_positions st' = reduce_positions (as_positions st) ev \<and>
     as_timeline st' = (if logged ev
       then last_n (nat limit) (as_timeline st @ [timeline_entry_of ev]) else as_timeline st) \<and>
     as_revision st' = as_revision st + 1 \<and> as_replay st' = as_replay st"
  unfolding reduce_state_def Let_def rbind_Inr_iff by (cases st') auto

lemma reduce_state_total:
  assumes "event_ok ev"
  shows "(\<exists>st'. reduce_state limit st ev = Inr st') \<longleftrightarrow> store_accepts ev"
proof (cases ev)
  case (OrdersUpdated b xs)
  with assms have "\<exists>ms. project_operational_orders xs = Inr ms"
    by (simp add: event_ok_def project_operational_orders_def traverse_ex list_all_iff
        project_order_total)
  with OrdersUpdated show ?thesis by (auto simp: reduce_state_def Let_def)
next
  case (PositionsUpdated b xs)
  with assms have "\<exists>ms. project_operational_positions xs = Inr ms"
    by (simp add: event_ok_def project_operational_positions_def traverse_ex list_all_iff
        project_position_total)
  with PositionsUpdated show ?thesis by (auto simp: reduce_state_def Let_def)
next
  case (WatchlistUpdated b w)
  with assms project_watchlist_ok [of b w] show ?thesis
    by (auto simp: event_ok_def reduce_state_def Let_def rbind_Inr_iff)
next
  case (HealthUpdated b h)
  with assms project_health_ok [of h] show ?thesis
    by (auto simp: event_ok_def reduce_state_def Let_def)
next
  case (PortfolioUpdated b p)
  with assms project_portfolio_ok [of b p] show ?thesis
    by (auto simp: event_ok_def reduce_state_def Let_def)
next
  case (DecisionsUpdated b xs)
  with assms project_decisions_ok [of xs] show ?thesis
    by (auto simp: event_ok_def reduce_state_def Let_def rbind_Inr_iff list_all_iff)
next
  case (TimelineUpdated b xs)
  with assms project_timeline_ok [of xs] show ?thesis
    by (auto simp: event_ok_def reduce_state_def Let_def rbind_Inr_iff list_all_iff)
qed (simp_all add: reduce_state_def Let_def)

subsection \<open>Runs of events\<close>

lemma last_n_snoc: "last_n n (last_n n xs @ [x]) = last_n n (xs @ [x])"
proof (cases "length xs \<le> n")
  case False
  then have "length xs - n + (Suc n - n) = Suc (length xs) - n" by simp
  with False show ?thesis by (simp add: last_n_def)
qed (simp add: last_n_def)

lemma last_n_rev: "last_n n xs = rev (take n (rev xs))"
  by (simp add: last_n_def rev_take)

lemma length_last_n: "length (last_n n xs) \<le> n"
  by (simp add: last_n_def)

text \<open>One event as the bus delivers it: the exception, if any, goes to the publisher.\<close>

definition delivered ::
  "('l \<Rightarrow> application_state \<Rightarrow> 'w \<Rightarrow> unit res \<times> 'w) \<Rightarrow> 'l state_store \<times> 'w \<Rightarrow> operations_event \<Rightarrow>
   'l state_store \<times> 'w" where
  "delivered call sw ev = snd (handle_event call ev sw)"

lemma delivered_store:
  "fst (delivered call (st, w) ev) =
     (case apply_event st ev of Inl _ \<Rightarrow> st | Inr st' \<Rightarrow> st')"
  by (simp add: delivered_def handle_event_def split: sum.split prod.split)

lemma delivered_cases:
  assumes "event_ok ev"
  obtains (skipped) "\<not> store_accepts ev" "fst (delivered call (st, w) ev) = st"
  | (reduced) st' where "store_accepts ev"
      "reduce_state (ss_timeline_limit st) (ss_state st) ev = Inr st'"
      "fst (delivered call (st, w) ev) = st\<lparr>ss_state := st'\<rparr>"
proof (cases "reduce_state (ss_timeline_limit st) (ss_state st) ev")
  case (Inl e)
  moreover have "\<not> store_accepts ev"
    using Inl reduce_state_total [OF assms, of "ss_timeline_limit st" "ss_state st"] by auto
  ultimately show thesis using skipped by (simp add: delivered_store apply_event_def)
next
  case (Inr st')
  moreover have "store_accepts ev"
    using Inr reduce_state_total [OF assms, of "ss_timeline_limit st" "ss_state st"] by auto
  ultimately show thesis using reduced by (simp add: delivered_store apply_event_def)
qed

text \<open>What the state says of the events handled so far.\<close>

definition describes :: "int \<Rightarrow> operations_event list \<Rightarrow> application_state \<Rightarrow> bool" where
  "describes limit handled s \<longleftrightarrow>
     as_revision s = int (length handled) \<and>
     as_timeline s = rev (take (nat limit) (rev (map timeline_entry_of (filter logged handled)))) \<and>
     as_runtime s = foldl reduce_runtime initial_runtime_state handled \<and>
     as_paper_runtime s = foldl reduce_paper_runtime None handled \<and>
     as_orders s = foldl reduce_orders [] handled \<and>
     as_positions s = foldl reduce_positions [] handled \<and>
     project_operational_orders (as_orders s) = Inr (as_order_projection s) \<and>
     project_operational_positions (as_positions s) = Inr (as_position_projection s) \<and>
     as_replay s = initial_replay_state"

lemma describes_initial: "describes limit [] initial_application_state"
  by (simp add: describes_def initial_application_state_def
      project_operational_orders_def project_operational_positions_def)

lemma projection_follows_orders:
  "project_operational_orders xs = Inr m \<Longrightarrow> reduce_order_projection m ev = Inr m' \<Longrightarrow>
   project_operational_orders (reduce_orders xs ev) = Inr m'"
  by (cases ev) auto

lemma projection_follows_positions:
  "project_operational_positions xs = Inr m \<Longrightarrow> reduce_position_projection m ev = Inr m' \<Longrightarrow>
   project_operational_positions (reduce_positions xs ev) = Inr m'"
  by (cases ev) auto

lemma describes_step:
  assumes d: "describes limit handled s" and "reduce_state limit s ev = Inr s'"
  shows "describes limit (handled @ [ev]) s'"
proof -
  note r = assms(2) [unfolded reduce_state_Inr]
  have "project_operational_orders (as_orders s') = Inr (as_order_projection s')"
    using d r unfolding describes_def by (metis projection_follows_orders)
  moreover have "project_operational_positions (as_positions s') = Inr (as_position_projection s')"
    using d r unfolding describes_def by (metis projection_follows_positions)
  moreover have "as_timeline s' = rev (take (nat limit) (rev (map timeline_entry_of (filter logged (handled @ [ev])))))"
    using r d unfolding describes_def last_n_rev [symmetric] by (simp add: last_n_snoc)
  ultimately show ?thesis
    using r d unfolding describes_def by simp
qed

lemma describes_run:
  assumes "describes (ss_timeline_limit st) handled (ss_state st)" and "\<forall>ev\<in>set evs. event_ok ev"
  shows "describes (ss_timeline_limit st) (handled @ filter store_accepts evs)
    (ss_state (fst (foldl (delivered call) (st, w) evs)))"
  using assms
proof (induction evs arbitrary: st w handled)
  case (Cons ev evs)
  obtain st1 w1 where d: "delivered call (st, w) ev = (st1, w1)" by fastforce
  have "event_ok ev" using Cons.prems by simp
  then show ?case
  proof (cases rule: delivered_cases [of ev call st w])
    case skipped
    with Cons d show ?thesis by simp
  next
    case (reduced st')
    then have "describes (ss_timeline_limit st) (handled @ [ev]) st'"
      using Cons.prems describes_step by blast
    with reduced d Cons.IH [of st1 "handled @ [ev]" w1] Cons.prems show ?thesis by simp
  qed
qed simp

lemma project_orders_read_model_consistent:
  assumes "project_operational_orders (as_orders s) = Inr (as_order_projection s)"
  shows "project_orders_read_model s = Inr (as_order_projection s)"
  using assms by (simp add: project_orders_read_model_def)

text \<open>The status fields that every phase brings with it.\<close>

definition runtime_consistent :: "runtime_state \<Rightarrow> bool" where
  "runtime_consistent r \<longleftrightarrow>
     (rn_phase r = PHASE_RUNNING \<longrightarrow> rn_broker_status r = ''Connected'' \<and>
        rn_market_feed_status r = ''Healthy'' \<and> rn_inference_status r = ''Healthy'') \<and>
     (rn_phase r \<in> {PHASE_STOPPED, PHASE_FAILED} \<longrightarrow> rn_broker_status r = ''Disconnected'') \<and>
     (rn_phase r \<in> {PHASE_STOPPED, PHASE_STARTING, PHASE_RUNNING} \<longrightarrow> rn_last_error r = None) \<and>
     (rn_phase r = PHASE_FAILED \<longrightarrow> rn_last_error r \<noteq> None) \<and>
     0 \<le> rn_cycles_completed r"

lemma runtime_consistent_initial [simp]: "runtime_consistent initial_runtime_state"
  by (simp add: runtime_consistent_def initial_runtime_state_def)

lemma runtime_consistent_step:
  "runtime_consistent r \<Longrightarrow> event_ok ev \<Longrightarrow> runtime_consistent (reduce_runtime r ev)"
  by (cases ev) (auto simp: runtime_consistent_def event_ok_def)

lemma runtime_consistent_run:
  "runtime_consistent r \<Longrightarrow> \<forall>ev\<in>set evs. event_ok ev \<Longrightarrow>
   runtime_consistent (foldl reduce_runtime r evs)"
  by (induction evs arbitrary: r) (simp_all add: runtime_consistent_step)

lemma value_errors_enum [raising]: "value_errors (enum_member val members cls v)"
  by (simp add: value_errors_def enum_member_def enum_error_def split: option.split)

lemma value_errors_optional [raising]: "value_errors (optional_read_text nv)"
  by (auto simp: optional_read_text_def intro: raising split: prod.split option.split)

lemmas projector_defs = project_operational_orders_def project_order_def order_read_model_post_init_def
  project_operational_positions_def project_position_def position_read_model_post_init_def
  project_operational_timeline_def project_timeline_entry_def timeline_read_entry_post_init_def
  timeline_snapshot_post_init_def timeline_category_of_def timeline_severity_of_def
  project_operational_decisions_def project_decision_def decision_read_record_post_init_def
  decision_outcome_of_def project_operational_portfolio_def portfolio_summary_post_init_def
  portfolio_highlight_post_init_def project_operational_health_def health_state_post_init_def
  project_operational_watchlist_def project_watchlist_entry_def watchlist_entry_post_init_def
  watchlist_state_post_init_def

lemma value_errors_highlight [raising]: "value_errors (project_highlight h)"
  by (cases h) (auto simp: Let_def portfolio_highlight_post_init_def intro!: raising)

lemma value_errors_projectors [raising]:
  "value_errors (project_operational_orders orders)"
  "value_errors (project_operational_positions positions)"
  "value_errors (project_operational_timeline entries)"
  "value_errors (project_operational_decisions decisions)"
  "value_errors (project_operational_portfolio summary)"
  "value_errors (project_operational_health health)"
  "value_errors (project_operational_watchlist watchlist)"
  unfolding projector_defs Let_def by (intro raising)+

lemma value_errors_reduce_state: "value_errors (reduce_state limit st ev)"
  unfolding reduce_state_def Let_def
  by (cases ev) (auto simp: value_errors_projectors intro!: raising)

subsection \<open>Properties\<close>

text \<open>
  C37: A valid event changes the store exactly if it satisfies the stricter demands of the
  read models; then the listeners are called in order with the new state.  Otherwise a
  \<open>ValueError\<close> reaches the publisher, the state stays as it was and no listener is called.
\<close>

theorem store_accepts_exactly:
  assumes "event_ok ev"
  shows "if store_accepts ev
    then \<exists>s'. reduce_state (ss_timeline_limit st) (ss_state st) ev = Inr s' \<and>
      (\<exists>r w'. call_handlers call (dict_values (ss_listeners st)) s' w = (r, w') \<and>
         handle_event call ev (st, w) = (r, st\<lparr>ss_state := s'\<rparr>, w'))
    else \<exists>msg. handle_event call ev (st, w) = (Inl (Raise ValueError msg), st, w)"
proof (cases "reduce_state (ss_timeline_limit st) (ss_state st) ev")
  case (Inl e)
  then have "\<not> store_accepts ev" using reduce_state_total [OF assms] by (metis sum.distinct(1))
  moreover have "exn_class e = ValueError"
    using value_errors_reduce_state Inl by (metis value_errors_def)
  ultimately show ?thesis
    using Inl by (cases e) (simp add: handle_event_def apply_event_def)
next
  case (Inr s')
  then have "store_accepts ev" using reduce_state_total [OF assms] by blast
  with Inr show ?thesis
    by (simp add: handle_event_def apply_event_def split: prod.split)
qed


subsection \<open>Witnesses\<close>

definition ex_base :: event_base where
  "ex_base = \<lparr>ev_occurred_at = Aware 0 0, ev_event_id = ''1'', ev_source = ''s''\<rparr>"

definition ex_watch_entry :: operations_watchlist_entry where
  "ex_watch_entry = \<lparr>oy_symbol = ''A'', oy_latest_price = None, oy_change = None,
     oy_change_percent = None, oy_bid = None, oy_ask = None, oy_volume = None,
     oy_market_status = None, oy_last_update = None, oy_stale = None, oy_metadata = []\<rparr>"

text \<open>An event that the events module constructs, with the same symbol twice.\<close>

definition ex_duplicate :: operations_event where
  "ex_duplicate = WatchlistUpdated ex_base \<lparr>ow_ordered_symbols = [''A'', ''A''],
     ow_entries = [ex_watch_entry, ex_watch_entry], ow_selected_symbol = None\<rparr>"

lemma strip_single [simp]: "\<not> is_space c \<Longrightarrow> strip [c] = [c]"
  by (simp add: strip_def lstrip_def)

lemma letters_not_space [simp]: "\<not> is_space CHR ''A''" "\<not> is_space CHR ''s''"
  by (simp_all add: is_space_def Let_def)

lemma ex_duplicate_ok: "event_ok ex_duplicate"
  by (simp add: ex_duplicate_def ex_base_def ex_watch_entry_def event_ok_def event_base_post_init_def
      operations_watchlist_state_post_init_def operations_watchlist_entry_post_init_def
      normalize_symbol_def upper_def upper_char_def Let_def)

lemma ex_started_ok: "event_ok (RuntimeStarted ex_base ''PAPER'' ''m'')"
  by (simp add: event_ok_def ex_base_def event_base_post_init_def)

lemma store_accepts_exactly_witness:
  "\<exists>msg. handle_event (\<lambda>l s w. (Inr (), w)) ex_duplicate
     (\<lparr>ss_timeline_limit = 5, ss_state = initial_application_state, ss_listeners = [(1, ())],
       ss_next_listener_id = 2, ss_subscription = \<lparr>sub_event_type = OperationsEventT, sub_id = 1\<rparr>\<rparr>, ()) =
     (Inl (Raise ValueError msg),
      \<lparr>ss_timeline_limit = 5, ss_state = initial_application_state, ss_listeners = [(1, ())],
       ss_next_listener_id = 2, ss_subscription = \<lparr>sub_event_type = OperationsEventT, sub_id = 1\<rparr>\<rparr>, ())"
  using store_accepts_exactly [OF ex_duplicate_ok]
  by (simp add: ex_duplicate_def)


end
