(* ===== verification/Broker_Protocol.thy ===== *)
theory Broker_Protocol
  imports Text_Checks
begin

text \<open>
  The broker-neutral records of app/broker\_protocol/models.py and their validation
  (validation.py).  The constructors of the records call the validators, so a constructed
  record is one its validator accepts.  Prices and quantities are unchecked Decimals here
  (type \<open>dec\<close>) because the validators test that they are finite.
\<close>

datatype broker_side = BROKER_BUY | BROKER_SELL

datatype broker_order_type = BROKER_MARKET | BROKER_LIMIT | BROKER_STOP | BROKER_STOP_LIMIT

datatype broker_time_in_force = TIF_DAY | TIF_GTC | TIF_IOC

datatype broker_session = SESSION_AUTO | SESSION_CORE | SESSION_EXTENDED | SESSION_OVERNIGHT

datatype broker_order_status =
  LIVE_NEW | LIVE_SUBMITTED | LIVE_ACKNOWLEDGED | LIVE_PARTIALLY_FILLED | LIVE_FILLED
| LIVE_CANCELLED | LIVE_REJECTED

fun broker_order_status_value :: "broker_order_status \<Rightarrow> string" where
  "broker_order_status_value LIVE_NEW = ''NEW''"
| "broker_order_status_value LIVE_SUBMITTED = ''SUBMITTED''"
| "broker_order_status_value LIVE_ACKNOWLEDGED = ''ACKNOWLEDGED''"
| "broker_order_status_value LIVE_PARTIALLY_FILLED = ''PARTIALLY_FILLED''"
| "broker_order_status_value LIVE_FILLED = ''FILLED''"
| "broker_order_status_value LIVE_CANCELLED = ''CANCELLED''"
| "broker_order_status_value LIVE_REJECTED = ''REJECTED''"

record broker_order_request =
  br_client_order_id :: string
  br_symbol :: string
  br_side :: broker_side
  br_order_type :: broker_order_type
  br_quantity :: dec
  br_limit_price :: "dec option"
  br_stop_price :: "dec option"
  br_time_in_force :: broker_time_in_force
  br_trading_session :: broker_session

record broker_order =
  bo_broker_order_id :: string
  bo_client_order_id :: string
  bo_symbol :: string
  bo_side :: broker_side
  bo_order_type :: broker_order_type
  bo_quantity :: dec
  bo_filled_quantity :: dec
  bo_limit_price :: "dec option"
  bo_stop_price :: "dec option"
  bo_time_in_force :: broker_time_in_force
  bo_status :: broker_order_status
  bo_updated_timestamp :: datetime

record broker_fill =
  bf_fill_id :: string
  bf_broker_order_id :: string
  bf_quantity :: dec
  bf_price :: dec
  bf_timestamp :: datetime

record broker_position =
  bp_symbol :: string
  bp_quantity :: dec
  bp_average_price :: dec
  bp_market_value :: "dec option"

record broker_cash =
  bc_settled_cash :: dec
  bc_unsettled_cash :: "dec option"
  bc_currency :: string

record broker_account =
  ba_account_id_redacted :: string
  ba_account_type :: string
  ba_status :: string

subsection \<open>Validation\<close>

definition positive :: "dec \<Rightarrow> string \<Rightarrow> unit res" where
  "positive v name = demand (dec_positive v) (name @ '' must be a finite positive Decimal'')"

definition finite_value :: "dec \<Rightarrow> string \<Rightarrow> unit res" where
  "finite_value v name = demand (is_finite v) (name @ '' must be a finite Decimal'')"

definition aware :: "datetime \<Rightarrow> unit res" where
  "aware t = demand (tz_aware t) ''timestamp must be timezone-aware''"

fun positive_option :: "dec option \<times> string \<Rightarrow> unit res" where
  "positive_option (None, name) = Inr ()"
| "positive_option (Some v, name) = positive v name"

definition validate_order_request :: "broker_order_request \<Rightarrow> unit res" where
  "validate_order_request r =
     rbind (demand (strip (br_client_order_id r) \<noteq> [] \<and> strip (br_symbol r) \<noteq> [])
       ''order identity is required'') (\<lambda>_.
     rbind (positive (br_quantity r) ''quantity'') (\<lambda>_.
     rbind (each positive_option
       [(br_limit_price r, ''limit_price''), (br_stop_price r, ''stop_price'')]) (\<lambda>_.
     rbind (demand (\<not> (br_order_type r = BROKER_MARKET \<and>
         (br_limit_price r \<noteq> None \<or> br_stop_price r \<noteq> None)))
       ''MARKET orders cannot contain prices'') (\<lambda>_.
     rbind (demand (\<not> (br_order_type r = BROKER_LIMIT \<and>
         (br_limit_price r = None \<or> br_stop_price r \<noteq> None)))
       ''LIMIT requires only limit_price'') (\<lambda>_.
     rbind (demand (\<not> (br_order_type r = BROKER_STOP \<and>
         (br_stop_price r = None \<or> br_limit_price r \<noteq> None)))
       ''STOP requires only stop_price'') (\<lambda>_.
     demand (\<not> (br_order_type r = BROKER_STOP_LIMIT \<and>
         (br_stop_price r = None \<or> br_limit_price r = None)))
       ''STOP_LIMIT requires both prices''))))))"

definition validate_fill :: "broker_fill \<Rightarrow> unit res" where
  "validate_fill f =
     rbind (demand (bf_fill_id f \<noteq> [] \<and> bf_broker_order_id f \<noteq> []) ''fill identity is required'') (\<lambda>_.
     rbind (positive (bf_quantity f) ''quantity'') (\<lambda>_.
     rbind (positive (bf_price f) ''price'') (\<lambda>_.
     aware (bf_timestamp f))))"

definition validate_broker_order :: "broker_order \<Rightarrow> unit res" where
  "validate_broker_order v =
     rbind (demand (bo_broker_order_id v \<noteq> [] \<and> bo_client_order_id v \<noteq> [] \<and> bo_symbol v \<noteq> [])
       ''broker order identity is required'') (\<lambda>_.
     rbind (positive (bo_quantity v) ''quantity'') (\<lambda>_.
     rbind (demand (is_finite (bo_filled_quantity v) \<and> 0 \<le> fin (bo_filled_quantity v) \<and>
         fin (bo_filled_quantity v) \<le> fin (bo_quantity v))
       ''filled quantity is invalid'') (\<lambda>_.
     rbind (each positive_option
       [(bo_limit_price v, ''limit_price''), (bo_stop_price v, ''stop_price'')]) (\<lambda>_.
     aware (bo_updated_timestamp v)))))"

definition validate_position :: "broker_position \<Rightarrow> unit res" where
  "validate_position p =
     rbind (demand (strip (bp_symbol p) \<noteq> []) ''position symbol is required'') (\<lambda>_.
     rbind (finite_value (bp_quantity p) ''quantity'') (\<lambda>_.
     rbind (finite_value (bp_average_price p) ''average_price'') (\<lambda>_.
     rbind (demand (0 \<le> fin (bp_average_price p)) ''average price must be nonnegative'') (\<lambda>_.
     case bp_market_value p of None \<Rightarrow> Inr () | Some v \<Rightarrow> finite_value v ''market_value''))))"

definition validate_cash :: "broker_cash \<Rightarrow> unit res" where
  "validate_cash c =
     rbind (finite_value (bc_settled_cash c) ''settled_cash'') (\<lambda>_.
     rbind (case bc_unsettled_cash c of None \<Rightarrow> Inr () | Some v \<Rightarrow> finite_value v ''unsettled_cash'') (\<lambda>_.
     demand (strip (bc_currency c) \<noteq> []) ''currency is required''))"

definition broker_account_post_init :: "broker_account \<Rightarrow> unit res" where
  "broker_account_post_init a =
     demand (ba_account_id_redacted a \<noteq> [] \<and> ba_account_type a \<noteq> [] \<and> ba_status a \<noteq> [])
       ''broker account fields are required''"

text \<open>\<open>BrokerOrderRequest(...)\<close>.\<close>

definition make_broker_order_request :: "broker_order_request \<Rightarrow> broker_order_request res" where
  "make_broker_order_request r = rbind (validate_order_request r) (\<lambda>_. Inr r)"

lemma aware_Inr [simp]: "aware t = Inr () \<longleftrightarrow> tz_aware t"
  by (simp add: aware_def)

lemma positive_Inr [simp]: "positive v name = Inr () \<longleftrightarrow> dec_positive v"
  by (simp add: positive_def)

lemma value_errors_broker [raising]:
  "value_errors (positive v name)" "value_errors (finite_value v name)" "value_errors (aware t)"
  by (simp_all add: positive_def finite_value_def aware_def raising)

lemma value_errors_positive_option [raising]: "value_errors (positive_option ov)"
  by (cases ov rule: positive_option.cases) (simp_all add: raising)

lemma value_errors_request [raising]: "value_errors (validate_order_request r)"
  unfolding validate_order_request_def by (intro raising)+

end
