(* ===== verification/Authorization.thy ===== *)
theory Authorization
  imports Broker_Protocol
begin

text \<open>
  Live execution authorizations (app/authorization): intents, approval evidence and
  authorizations (models.py), their validation (validation.py), the issuer (issuer.py) and
  the durable registry (registry.py).  The registry is an SQLite database whose statements
  run in transactions; it is modelled by the two tables as maps, one operation as one
  step.  A stored payload is the authorization it encodes; the registry compares it with
  Python's equality, in which two time stamps are equal when their instants are.  The
  SHA-256 digest of a canonical JSON document is the parameter \<open>digest\<close>.
\<close>

subsection \<open>Records\<close>

record execution_intent =
  in_intent_id :: string
  in_account_id :: string
  in_symbol :: string
  in_side :: broker_side
  in_order_type :: broker_order_type
  in_quantity :: dec
  in_limit_price :: "dec option"
  in_stop_price :: "dec option"
  in_time_in_force :: broker_time_in_force
  in_created_at :: datetime

text \<open>\<open>RiskApprovalEvidence\<close> and \<open>ComplianceApprovalEvidence\<close> have the same fields.\<close>

record approval_evidence =
  ae_approval_id :: string
  ae_intent_id :: string
  ae_intent_digest :: string
  ae_approved :: bool
  ae_account_id :: string
  ae_symbol :: string
  ae_side :: broker_side
  ae_order_type :: broker_order_type
  ae_quantity :: dec
  ae_limit_price :: "dec option"
  ae_stop_price :: "dec option"
  ae_time_in_force :: broker_time_in_force
  ae_issued_at :: datetime
  ae_expires_at :: datetime
  ae_revoked :: bool
  ae_superseded :: bool

record live_authorization =
  la_authorization_id :: string
  la_intent_id :: string
  la_intent_digest :: string
  la_risk_approval_id :: string
  la_risk_approval_digest :: string
  la_compliance_approval_id :: string
  la_compliance_approval_digest :: string
  la_account_id :: string
  la_symbol :: string
  la_side :: broker_side
  la_order_type :: broker_order_type
  la_quantity :: dec
  la_limit_price :: "dec option"
  la_stop_price :: "dec option"
  la_time_in_force :: broker_time_in_force
  la_issued_at :: datetime
  la_expires_at :: datetime
  la_single_use :: bool
  la_schema_version :: int

datatype signed_document = IntentDocument execution_intent | EvidenceDocument approval_evidence

type_synonym digest = "signed_document \<Rightarrow> string"

subsection \<open>Validation\<close>

definition auth_aware :: "datetime \<Rightarrow> unit res" where
  "auth_aware t = demand (tz_aware t) ''timestamps must be timezone-aware''"

definition intent_request :: "execution_intent \<Rightarrow> broker_order_request" where
  "intent_request i = \<lparr>br_client_order_id = in_intent_id i, br_symbol = upper (in_symbol i),
     br_side = in_side i, br_order_type = in_order_type i, br_quantity = in_quantity i,
     br_limit_price = in_limit_price i, br_stop_price = in_stop_price i,
     br_time_in_force = in_time_in_force i, br_trading_session = SESSION_AUTO\<rparr>"

definition validate_intent :: "execution_intent \<Rightarrow> unit res" where
  "validate_intent i =
     rbind (demand (strip (in_intent_id i) \<noteq> [] \<and> strip (in_account_id i) \<noteq> [])
       ''intent identity is required'') (\<lambda>_.
     rbind (auth_aware (in_created_at i)) (\<lambda>_.
     rbind (make_broker_order_request (intent_request i)) (\<lambda>r.
     rbind (validate_order_request r) (\<lambda>_.
     demand (in_symbol i = upper (in_symbol i)) ''intent symbol must be normalized''))))"

definition intent_digest :: "digest \<Rightarrow> execution_intent \<Rightarrow> string res" where
  "intent_digest digest i = rbind (validate_intent i) (\<lambda>_. Inr (digest (IntentDocument i)))"

text \<open>\<open>_match\<close>: the first field that differs is named in the exception.\<close>

definition mismatch :: "string \<times> bool \<Rightarrow> unit res" where
  "mismatch nb = (case nb of (name, same) \<Rightarrow>
     demand same (''approval or authorization '' @ name @ '' mismatch''))"

definition match_evidence :: "execution_intent \<Rightarrow> approval_evidence \<Rightarrow> unit res" where
  "match_evidence i e = each mismatch
     [(''account_id'', ae_account_id e = in_account_id i), (''symbol'', ae_symbol e = in_symbol i),
      (''side'', ae_side e = in_side i), (''order_type'', ae_order_type e = in_order_type i),
      (''quantity'', ae_quantity e = in_quantity i),
      (''limit_price'', ae_limit_price e = in_limit_price i),
      (''stop_price'', ae_stop_price e = in_stop_price i),
      (''time_in_force'', ae_time_in_force e = in_time_in_force i)]"

definition match_authorization :: "execution_intent \<Rightarrow> live_authorization \<Rightarrow> unit res" where
  "match_authorization i a = each mismatch
     [(''account_id'', la_account_id a = in_account_id i), (''symbol'', la_symbol a = in_symbol i),
      (''side'', la_side a = in_side i), (''order_type'', la_order_type a = in_order_type i),
      (''quantity'', la_quantity a = in_quantity i),
      (''limit_price'', la_limit_price a = in_limit_price i),
      (''stop_price'', la_stop_price a = in_stop_price i),
      (''time_in_force'', la_time_in_force a = in_time_in_force i)]"

definition validate_evidence ::
  "digest \<Rightarrow> execution_intent \<Rightarrow> approval_evidence \<Rightarrow> datetime \<Rightarrow> unit res" where
  "validate_evidence digest i e now =
     rbind (validate_intent i) (\<lambda>_.
     rbind (auth_aware now) (\<lambda>_.
     rbind (demand (ae_approved e) ''approval evidence is not approved'') (\<lambda>_.
     rbind (demand (\<not> (ae_revoked e \<or> ae_superseded e))
       ''approval evidence is revoked or superseded'') (\<lambda>_.
     rbind (auth_aware (ae_issued_at e)) (\<lambda>_.
     rbind (auth_aware (ae_expires_at e)) (\<lambda>_.
     rbind (demand (dt_le (ae_issued_at e) now \<and> dt_less now (ae_expires_at e))
       ''approval evidence is not currently valid'') (\<lambda>_.
     rbind (intent_digest digest i) (\<lambda>d.
     rbind (demand (ae_intent_id e = in_intent_id i \<and> ae_intent_digest e = d)
       ''approval intent identity mismatch'') (\<lambda>_.
     match_evidence i e)))))))))"

definition validate_authorization_binding ::
  "digest \<Rightarrow> execution_intent \<Rightarrow> live_authorization \<Rightarrow> unit res" where
  "validate_authorization_binding digest i a =
     rbind (validate_intent i) (\<lambda>_.
     rbind (intent_digest digest i) (\<lambda>d.
     rbind (demand (la_intent_id a = in_intent_id i \<and> la_intent_digest a = d)
       ''authorization intent mismatch'') (\<lambda>_.
     rbind (match_authorization i a) (\<lambda>_.
     rbind (auth_aware (la_issued_at a)) (\<lambda>_.
     auth_aware (la_expires_at a))))))"

definition validate_for_consumption ::
  "digest \<Rightarrow> execution_intent \<Rightarrow> live_authorization \<Rightarrow> datetime \<Rightarrow> unit res" where
  "validate_for_consumption digest i a now =
     rbind (validate_authorization_binding digest i a) (\<lambda>_.
     rbind (auth_aware now) (\<lambda>_.
     demand (dt_le (la_issued_at a) now \<and> dt_less now (la_expires_at a))
       ''authorization is expired or not active''))"

text \<open>\<open>ValidatedExecutionIntent\<close>: a pair whose construction validates the binding.\<close>

record validated_intent =
  vi_intent :: execution_intent
  vi_authorization :: live_authorization

definition make_validated_intent ::
  "digest \<Rightarrow> execution_intent \<Rightarrow> live_authorization \<Rightarrow> validated_intent res" where
  "make_validated_intent digest i a =
     rbind (validate_authorization_binding digest i a) (\<lambda>_.
       Inr \<lparr>vi_intent = i, vi_authorization = a\<rparr>)"

subsection \<open>The registry\<close>

record authorization_row =
  ar_payload :: live_authorization
  ar_issued_at :: datetime
  ar_consumed_at :: "datetime option"
  ar_revoked_at :: "datetime option"

record evidence_row =
  ev_revoked_at :: "datetime option"
  ev_superseded_at :: "datetime option"

record registry =
  rg_authorizations :: "string \<rightharpoonup> authorization_row"
  rg_evidence :: "string \<rightharpoonup> evidence_row"

definition empty_registry :: registry where
  "empty_registry = \<lparr>rg_authorizations = Map.empty, rg_evidence = Map.empty\<rparr>"

definition consumed_id :: "registry \<Rightarrow> string \<Rightarrow> bool" where
  "consumed_id reg aid = (case rg_authorizations reg aid of None \<Rightarrow> False
     | Some row \<Rightarrow> ar_consumed_at row \<noteq> None)"

definition known :: "registry \<Rightarrow> string \<Rightarrow> live_authorization res" where
  "known reg aid = (case rg_authorizations reg aid of
     None \<Rightarrow> Inl (Raise ValueError ''authorization identity is unknown'')
   | Some row \<Rightarrow> Inr (ar_payload row))"

definition registry_timestamp :: "datetime \<Rightarrow> datetime res" where
  "registry_timestamp t =
     rbind (demand (tz_aware t) ''timestamp must be timezone-aware'') (\<lambda>_. Inr t)"

text \<open>The dataclass equality of two authorizations.\<close>

definition same_authorization :: "live_authorization \<Rightarrow> live_authorization \<Rightarrow> bool" where
  "same_authorization a b \<longleftrightarrow>
     a\<lparr>la_issued_at := la_issued_at b, la_expires_at := la_expires_at b\<rparr> = b \<and>
     dt_eq (la_issued_at a) (la_issued_at b) \<and> dt_eq (la_expires_at a) (la_expires_at b)"

definition register_issued :: "registry \<Rightarrow> live_authorization \<Rightarrow> registry res" where
  "register_issued reg a =
     rbind (demand (rg_authorizations reg (la_authorization_id a) = None)
       ''authorization identity already exists'') (\<lambda>_.
     Inr (reg\<lparr>rg_authorizations := (rg_authorizations reg)(la_authorization_id a \<mapsto>
       \<lparr>ar_payload = a, ar_issued_at = la_issued_at a, ar_consumed_at = None,
        ar_revoked_at = None\<rparr>)\<rparr>))"

definition revoke :: "registry \<Rightarrow> string \<Rightarrow> datetime option \<Rightarrow> registry res" where
  "revoke reg aid ts =
     rbind (known reg aid) (\<lambda>a.
     rbind (registry_timestamp (case ts of None \<Rightarrow> la_issued_at a | Some t \<Rightarrow> t)) (\<lambda>t.
     Inr (reg\<lparr>rg_authorizations := (rg_authorizations reg)(aid :=
       map_option (\<lambda>row. row\<lparr>ar_revoked_at := Some t\<rparr>) (rg_authorizations reg aid))\<rparr>)))"

text \<open>
  \<open>_set_evidence\<close> with the column as the function that sets it; \<open>now\<close> is the clock.
\<close>

definition set_evidence ::
  "registry \<Rightarrow> string \<Rightarrow> (datetime \<Rightarrow> evidence_row \<Rightarrow> evidence_row) \<Rightarrow> datetime option \<Rightarrow> datetime \<Rightarrow>
   registry res" where
  "set_evidence reg aid set_column ts now =
     rbind (demand (strip aid \<noteq> []) ''approval identity is required'') (\<lambda>_.
     rbind (registry_timestamp (case ts of None \<Rightarrow> now | Some t \<Rightarrow> t)) (\<lambda>t.
     Inr (reg\<lparr>rg_evidence := (rg_evidence reg)(aid \<mapsto> set_column t
       (case rg_evidence reg aid of
          None \<Rightarrow> \<lparr>ev_revoked_at = None, ev_superseded_at = None\<rparr> | Some row \<Rightarrow> row))\<rparr>)))"

definition revoke_evidence :: "registry \<Rightarrow> string \<Rightarrow> datetime option \<Rightarrow> datetime \<Rightarrow> registry res" where
  "revoke_evidence reg aid ts now =
     set_evidence reg aid (\<lambda>t row. row\<lparr>ev_revoked_at := Some t\<rparr>) ts now"

definition supersede_evidence :: "registry \<Rightarrow> string \<Rightarrow> datetime option \<Rightarrow> datetime \<Rightarrow> registry res" where
  "supersede_evidence reg aid ts now =
     set_evidence reg aid (\<lambda>t row. row\<lparr>ev_superseded_at := Some t\<rparr>) ts now"

definition evidence_ok :: "registry \<Rightarrow> string \<Rightarrow> unit res" where
  "evidence_ok reg aid = (case rg_evidence reg aid of
     None \<Rightarrow> Inr ()
   | Some row \<Rightarrow>
       rbind (demand (ev_revoked_at row = None) ''authorization evidence is revoked'') (\<lambda>_.
       demand (ev_superseded_at row = None) ''authorization evidence is superseded''))"

definition validate_evidence_state :: "registry \<Rightarrow> live_authorization \<Rightarrow> unit res" where
  "validate_evidence_state reg a =
     each (evidence_ok reg) [la_risk_approval_id a, la_compliance_approval_id a]"

definition validate_known ::
  "digest \<Rightarrow> registry \<Rightarrow> execution_intent \<Rightarrow> live_authorization \<Rightarrow> datetime \<Rightarrow> unit res" where
  "validate_known digest reg i a now =
     (case rg_authorizations reg (la_authorization_id a) of
        None \<Rightarrow> Inl (Raise ValueError ''authorization identity is unknown'')
      | Some row \<Rightarrow>
          rbind (demand (same_authorization (ar_payload row) a)
            ''authorization identity substitution detected'') (\<lambda>_.
          rbind (demand (ar_revoked_at row = None) ''authorization is revoked'') (\<lambda>_.
          rbind (demand (\<not> (la_single_use a \<and> ar_consumed_at row \<noteq> None))
            ''authorization is already consumed'') (\<lambda>_.
          rbind (validate_evidence_state reg a) (\<lambda>_.
          validate_for_consumption digest i a now)))))"

text \<open>
  The single-use column is set by a conditional update whose row count is tested again.
\<close>

definition mark_consumed :: "registry \<Rightarrow> string \<Rightarrow> authorization_row \<Rightarrow> datetime \<Rightarrow> registry res" where
  "mark_consumed reg aid row now =
     rbind (registry_timestamp now) (\<lambda>t.
     rbind (demand (ar_consumed_at row = None \<and> ar_revoked_at row = None)
       ''authorization is already consumed or revoked'') (\<lambda>_.
     Inr (reg\<lparr>rg_authorizations :=
       (rg_authorizations reg)(aid \<mapsto> row\<lparr>ar_consumed_at := Some t\<rparr>)\<rparr>)))"

definition consume ::
  "digest \<Rightarrow> registry \<Rightarrow> execution_intent \<Rightarrow> live_authorization \<Rightarrow> datetime \<Rightarrow> registry res" where
  "consume digest reg i a now =
     rbind (validate_for_consumption digest i a now) (\<lambda>_.
     case rg_authorizations reg (la_authorization_id a) of
       None \<Rightarrow> Inl (Raise ValueError ''authorization identity is unknown'')
     | Some row \<Rightarrow>
         rbind (demand (same_authorization (ar_payload row) a)
           ''authorization identity substitution detected'') (\<lambda>_.
         rbind (validate_evidence_state reg a) (\<lambda>_.
         rbind (demand (ar_revoked_at row = None) ''authorization is revoked'') (\<lambda>_.
         rbind (demand (\<not> (la_single_use a \<and> ar_consumed_at row \<noteq> None))
           ''authorization is already consumed'') (\<lambda>_.
         if la_single_use a then mark_consumed reg (la_authorization_id a) row now
         else Inr reg)))))"

subsection \<open>The issuer\<close>

definition issue_authorization ::
  "digest \<Rightarrow> execution_intent \<Rightarrow> approval_evidence \<Rightarrow> approval_evidence \<Rightarrow> string \<Rightarrow>
   datetime \<Rightarrow> datetime \<Rightarrow> bool \<Rightarrow> registry \<Rightarrow> (live_authorization \<times> registry) res" where
  "issue_authorization digest i risk cmp aid issued_at expires_at single_use reg =
     rbind (validate_intent i) (\<lambda>_.
     rbind (demand (strip aid \<noteq> []) ''authorization_id is required'') (\<lambda>_.
     rbind (validate_evidence digest i risk issued_at) (\<lambda>_.
     rbind (validate_evidence digest i cmp issued_at) (\<lambda>_.
     rbind (demand (tz_aware expires_at \<and> tz_aware issued_at \<and> dt_less issued_at expires_at)
       ''authorization timestamps are invalid'') (\<lambda>_.
     rbind (demand (dt_le expires_at (ae_expires_at risk) \<and> dt_le expires_at (ae_expires_at cmp))
       ''authorization cannot outlive approval evidence'') (\<lambda>_.
     rbind (intent_digest digest i) (\<lambda>d.
     let a = \<lparr>la_authorization_id = aid, la_intent_id = in_intent_id i, la_intent_digest = d,
       la_risk_approval_id = ae_approval_id risk,
       la_risk_approval_digest = digest (EvidenceDocument risk),
       la_compliance_approval_id = ae_approval_id cmp,
       la_compliance_approval_digest = digest (EvidenceDocument cmp),
       la_account_id = in_account_id i, la_symbol = in_symbol i, la_side = in_side i,
       la_order_type = in_order_type i, la_quantity = in_quantity i,
       la_limit_price = in_limit_price i, la_stop_price = in_stop_price i,
       la_time_in_force = in_time_in_force i, la_issued_at = issued_at,
       la_expires_at = expires_at, la_single_use = single_use, la_schema_version = 2\<rparr> in
     rbind (register_issued reg a) (\<lambda>reg'. Inr (a, reg')))))))))"

subsection \<open>Histories\<close>

text \<open>
  The successful operations on a registry as events and the transitions they make.  A
  failing operation raises and leaves the registry as it was.
\<close>

datatype registry_event =
    Issued live_authorization approval_evidence approval_evidence
  | Consumed live_authorization execution_intent datetime
  | Revoked string
  | EvidenceRevoked string
  | EvidenceSuperseded string

inductive registry_step :: "digest \<Rightarrow> registry \<Rightarrow> registry_event \<Rightarrow> registry \<Rightarrow> bool" for digest where
  step_issue: "issue_authorization digest i risk cmp aid issued_at expires_at single_use reg = Inr (a, reg') \<Longrightarrow>
     registry_step digest reg (Issued a risk cmp) reg'"
| step_consume: "consume digest reg i a now = Inr reg' \<Longrightarrow> registry_step digest reg (Consumed a i now) reg'"
| step_revoke: "revoke reg aid ts = Inr reg' \<Longrightarrow> registry_step digest reg (Revoked aid) reg'"
| step_revoke_evidence: "revoke_evidence reg e ts now = Inr reg' \<Longrightarrow>
     registry_step digest reg (EvidenceRevoked e) reg'"
| step_supersede_evidence: "supersede_evidence reg e ts now = Inr reg' \<Longrightarrow>
     registry_step digest reg (EvidenceSuperseded e) reg'"

inductive_cases registry_stepE [elim!]:
  "registry_step digest reg (Issued a risk cmp) reg'"
  "registry_step digest reg (Consumed a i now) reg'"
  "registry_step digest reg (Revoked aid) reg'"
  "registry_step digest reg (EvidenceRevoked e) reg'"
  "registry_step digest reg (EvidenceSuperseded e) reg'"

inductive registry_history :: "digest \<Rightarrow> registry_event list \<Rightarrow> registry \<Rightarrow> bool" for digest where
  history_start: "registry_history digest [] empty_registry"
| history_step: "registry_history digest tr reg \<Longrightarrow> registry_step digest reg ev reg' \<Longrightarrow>
     registry_history digest (tr @ [ev]) reg'"

lemma history_snocE:
  assumes "registry_history digest (tr @ [ev]) reg'"
  obtains reg where "registry_history digest tr reg" and "registry_step digest reg ev reg'"
  using assms by (cases rule: registry_history.cases) auto

lemma history_prefix:
  "registry_history digest (xs @ ys) reg \<Longrightarrow> \<exists>reg'. registry_history digest xs reg'"
proof (induction ys arbitrary: reg rule: rev_induct)
  case (snoc y ys)
  then have "registry_history digest ((xs @ ys) @ [y]) reg" by simp
  then show ?case by (rule history_snocE) (rule snoc.IH)
qed auto

text \<open>What issuing an authorization establishes about its evidence.\<close>

definition evidence_supports :: "approval_evidence \<Rightarrow> live_authorization \<Rightarrow> bool" where
  "evidence_supports e a \<longleftrightarrow> ae_approved e \<and> \<not> ae_revoked e \<and> \<not> ae_superseded e \<and>
     ae_intent_id e = la_intent_id a \<and> ae_intent_digest e = la_intent_digest a \<and>
     ae_account_id e = la_account_id a \<and> ae_symbol e = la_symbol a \<and> ae_side e = la_side a \<and>
     ae_order_type e = la_order_type a \<and> ae_quantity e = la_quantity a \<and>
     ae_limit_price e = la_limit_price a \<and> ae_stop_price e = la_stop_price a \<and>
     ae_time_in_force e = la_time_in_force a \<and>
     dt_le (ae_issued_at e) (la_issued_at a) \<and> dt_le (la_expires_at a) (ae_expires_at e)"

text \<open>What consuming an authorization checks about the intent.\<close>

definition authorizes :: "digest \<Rightarrow> live_authorization \<Rightarrow> execution_intent \<Rightarrow> datetime \<Rightarrow> bool" where
  "authorizes digest a i now \<longleftrightarrow> validate_intent i = Inr () \<and>
     la_intent_id a = in_intent_id i \<and> la_intent_digest a = digest (IntentDocument i) \<and>
     la_account_id a = in_account_id i \<and> la_symbol a = in_symbol i \<and> la_side a = in_side i \<and>
     la_order_type a = in_order_type i \<and> la_quantity a = in_quantity i \<and>
     la_limit_price a = in_limit_price i \<and> la_stop_price a = in_stop_price i \<and>
     la_time_in_force a = in_time_in_force i \<and>
     dt_le (la_issued_at a) now \<and> dt_less now (la_expires_at a)"

lemma auth_aware_Inr [simp]: "auth_aware t = Inr () \<longleftrightarrow> tz_aware t"
  by (simp add: auth_aware_def)

lemma mismatch_Inr [simp]: "mismatch (name, same) = Inr () \<longleftrightarrow> same"
  by (simp add: mismatch_def)

lemma binding_authorizes:
  "validate_authorization_binding digest i a = Inr () \<longleftrightarrow>
     validate_intent i = Inr () \<and>
     la_intent_id a = in_intent_id i \<and> la_intent_digest a = digest (IntentDocument i) \<and>
     la_account_id a = in_account_id i \<and> la_symbol a = in_symbol i \<and> la_side a = in_side i \<and>
     la_order_type a = in_order_type i \<and> la_quantity a = in_quantity i \<and>
     la_limit_price a = in_limit_price i \<and> la_stop_price a = in_stop_price i \<and>
     la_time_in_force a = in_time_in_force i \<and> tz_aware (la_issued_at a) \<and> tz_aware (la_expires_at a)"
  by (auto simp: validate_authorization_binding_def match_authorization_def intent_digest_def res_simps)

lemma consumption_authorizes:
  "validate_for_consumption digest i a now = Inr () \<longleftrightarrow>
     authorizes digest a i now \<and> tz_aware (la_issued_at a) \<and> tz_aware (la_expires_at a) \<and> tz_aware now"
  by (auto simp: validate_for_consumption_def binding_authorizes authorizes_def)

lemma issue_supports:
  assumes "issue_authorization digest i risk cmp aid issued_at expires_at single_use reg = Inr (a, reg')"
  shows "evidence_supports risk a \<and> evidence_supports cmp a \<and> register_issued reg a = Inr reg' \<and>
    la_risk_approval_id a = ae_approval_id risk \<and> la_compliance_approval_id a = ae_approval_id cmp \<and>
    la_authorization_id a = aid"
  using assms
  by (auto simp: issue_authorization_def evidence_supports_def validate_evidence_def match_evidence_def
      intent_digest_def Let_def res_simps)

text \<open>What a successful consumption found in the registry, and what it leaves.\<close>

lemma consume_Inr:
  assumes "consume digest reg i a now = Inr reg'"
  obtains row where "rg_authorizations reg (la_authorization_id a) = Some row"
    and "same_authorization (ar_payload row) a" and "authorizes digest a i now"
    and "ar_revoked_at row = None" and "\<not> (la_single_use a \<and> ar_consumed_at row \<noteq> None)"
    and "evidence_ok reg (la_risk_approval_id a) = Inr ()"
    and "evidence_ok reg (la_compliance_approval_id a) = Inr ()"
    and "reg' = (if la_single_use a then reg\<lparr>rg_authorizations := (rg_authorizations reg)
        (la_authorization_id a \<mapsto> row\<lparr>ar_consumed_at := Some now\<rparr>)\<rparr> else reg)"
  using assms that
  by (auto simp: consume_def consumption_authorizes validate_evidence_state_def mark_consumed_def
      registry_timestamp_def res_simps split: option.splits if_splits)

lemma same_authorization_fields:
  assumes "same_authorization a b"
  shows "la_single_use a = la_single_use b" "la_authorization_id a = la_authorization_id b"
    "la_risk_approval_id a = la_risk_approval_id b"
    "la_compliance_approval_id a = la_compliance_approval_id b"
  using assms by (cases a; cases b; simp add: same_authorization_def)+

lemma same_authorization_supports:
  "same_authorization a b \<Longrightarrow> evidence_supports e a \<Longrightarrow> evidence_supports e b"
  by (cases a; cases b) (simp add: same_authorization_def evidence_supports_def dt_le_def dt_eq_def)

text \<open>The tables remember what has happened.\<close>

definition issued_properly :: "registry_event list \<Rightarrow> live_authorization \<Rightarrow> bool" where
  "issued_properly tr a \<longleftrightarrow> (\<exists>risk cmp. Issued a risk cmp \<in> set tr \<and>
     evidence_supports risk a \<and> evidence_supports cmp a \<and>
     la_risk_approval_id a = ae_approval_id risk \<and> la_compliance_approval_id a = ae_approval_id cmp)"

text \<open>An event leaves its mark, and marks are never removed.\<close>

fun recorded :: "registry \<Rightarrow> registry_event \<Rightarrow> bool" where
  "recorded reg (Issued a _ _) \<longleftrightarrow> rg_authorizations reg (la_authorization_id a) \<noteq> None"
| "recorded reg (Consumed a _ _) \<longleftrightarrow>
     (\<exists>row. rg_authorizations reg (la_authorization_id a) = Some row \<and>
        la_single_use (ar_payload row) = la_single_use a \<and>
        (la_single_use a \<longrightarrow> ar_consumed_at row \<noteq> None))"
| "recorded reg (Revoked aid) \<longleftrightarrow>
     (\<exists>row. rg_authorizations reg aid = Some row \<and> ar_revoked_at row \<noteq> None)"
| "recorded reg (EvidenceRevoked e) \<longleftrightarrow>
     (\<exists>row. rg_evidence reg e = Some row \<and> ev_revoked_at row \<noteq> None)"
| "recorded reg (EvidenceSuperseded e) \<longleftrightarrow>
     (\<exists>row. rg_evidence reg e = Some row \<and> ev_superseded_at row \<noteq> None)"

definition registry_grows :: "registry \<Rightarrow> registry \<Rightarrow> bool" where
  "registry_grows reg reg' \<longleftrightarrow>
     (\<forall>aid row. rg_authorizations reg aid = Some row \<longrightarrow>
        (\<exists>row'. rg_authorizations reg' aid = Some row' \<and> ar_payload row' = ar_payload row \<and>
           (ar_consumed_at row \<noteq> None \<longrightarrow> ar_consumed_at row' \<noteq> None) \<and>
           (ar_revoked_at row \<noteq> None \<longrightarrow> ar_revoked_at row' \<noteq> None))) \<and>
     (\<forall>e row. rg_evidence reg e = Some row \<longrightarrow>
        (\<exists>row'. rg_evidence reg' e = Some row' \<and>
           (ev_revoked_at row \<noteq> None \<longrightarrow> ev_revoked_at row' \<noteq> None) \<and>
           (ev_superseded_at row \<noteq> None \<longrightarrow> ev_superseded_at row' \<noteq> None)))"

lemma recorded_grows: "recorded reg ev \<Longrightarrow> registry_grows reg reg' \<Longrightarrow> recorded reg' ev"
  unfolding registry_grows_def by (cases ev) (simp; metis option.exhaust not_None_eq)+

definition registry_tracks :: "registry_event list \<Rightarrow> registry \<Rightarrow> bool" where
  "registry_tracks tr reg \<longleftrightarrow>
     (\<forall>aid row. rg_authorizations reg aid = Some row \<longrightarrow> issued_properly tr (ar_payload row)) \<and>
     (\<forall>ev\<in>set tr. recorded reg ev)"

lemma issued_properly_append: "issued_properly tr a \<Longrightarrow> issued_properly (tr @ [ev]) a"
  by (auto simp: issued_properly_def)

lemma registry_tracks_start: "registry_tracks [] empty_registry"
  by (simp add: registry_tracks_def empty_registry_def)

lemma register_issued_Inr:
  "register_issued reg a = Inr reg' \<longleftrightarrow> rg_authorizations reg (la_authorization_id a) = None \<and>
     reg' = reg\<lparr>rg_authorizations := (rg_authorizations reg)(la_authorization_id a \<mapsto>
       \<lparr>ar_payload = a, ar_issued_at = la_issued_at a, ar_consumed_at = None, ar_revoked_at = None\<rparr>)\<rparr>"
  by (auto simp: register_issued_def)

lemma revoke_Inr:
  "revoke reg aid ts = Inr reg' \<Longrightarrow> \<exists>row t. rg_authorizations reg aid = Some row \<and>
     reg' = reg\<lparr>rg_authorizations := (rg_authorizations reg)(aid \<mapsto> row\<lparr>ar_revoked_at := Some t\<rparr>)\<rparr>"
  by (auto simp: revoke_def known_def registry_timestamp_def res_simps split: option.splits)

lemma set_evidence_Inr:
  "set_evidence reg e f ts now = Inr reg' \<Longrightarrow> \<exists>t row.
     (row = \<lparr>ev_revoked_at = None, ev_superseded_at = None\<rparr> \<or> rg_evidence reg e = Some row) \<and>
     (rg_evidence reg e \<noteq> None \<longrightarrow> rg_evidence reg e = Some row) \<and>
     reg' = reg\<lparr>rg_evidence := (rg_evidence reg)(e \<mapsto> f t row)\<rparr>"
  by (auto simp: set_evidence_def registry_timestamp_def res_simps split: option.splits)

text \<open>Every step grows the registry and records its event.\<close>

lemma step_grows: "registry_step digest reg ev reg' \<Longrightarrow> registry_grows reg reg'"
proof (induction rule: registry_step.induct)
  case (step_issue i risk cmp aid issued_at expires_at single_use reg a reg')
  then have "register_issued reg a = Inr reg'" by (simp add: issue_supports)
  then show ?case by (auto simp: register_issued_Inr registry_grows_def)
next
  case (step_consume reg i a now reg')
  then show ?case by (rule consume_Inr) (auto simp: registry_grows_def)
next
  case (step_revoke reg aid ts reg')
  then show ?case by (auto simp: registry_grows_def dest!: revoke_Inr)
next
  case (step_revoke_evidence reg e ts now reg')
  then show ?case
    by (auto simp: registry_grows_def revoke_evidence_def dest!: set_evidence_Inr)
next
  case (step_supersede_evidence reg e ts now reg')
  then show ?case
    by (auto simp: registry_grows_def supersede_evidence_def dest!: set_evidence_Inr)
qed

lemma step_recorded: "registry_step digest reg ev reg' \<Longrightarrow> recorded reg' ev"
proof (induction rule: registry_step.induct)
  case (step_issue i risk cmp aid issued_at expires_at single_use reg a reg')
  then have "register_issued reg a = Inr reg'" by (simp add: issue_supports)
  then show ?case by (auto simp: register_issued_Inr)
next
  case (step_consume reg i a now reg')
  then show ?case by (rule consume_Inr) (auto simp: same_authorization_fields)
qed (auto simp: revoke_evidence_def supersede_evidence_def dest!: revoke_Inr set_evidence_Inr)

lemma step_rows:
  assumes "registry_step digest reg ev reg'" and "rg_authorizations reg' aid = Some row'"
  shows "(\<exists>row. rg_authorizations reg aid = Some row \<and> ar_payload row = ar_payload row') \<or>
    issued_properly (tr @ [ev]) (ar_payload row')"
  using assms
proof (induction rule: registry_step.induct)
  case (step_issue i risk cmp aid issued_at expires_at single_use reg a reg')
  note s = issue_supports [OF step_issue(1)]
  then have "issued_properly (tr @ [Issued a risk cmp]) a" by (auto simp: issued_properly_def)
  with s step_issue(2) show ?case by (auto simp: register_issued_Inr split: if_splits)
next
  case (step_consume reg i a now reg')
  from step_consume(1) show ?case
    by (rule consume_Inr) (use step_consume(2) in \<open>auto split: if_splits\<close>)
qed (auto simp: revoke_evidence_def supersede_evidence_def split: if_splits
    dest!: revoke_Inr set_evidence_Inr)

lemma tracks_step:
  assumes "registry_tracks tr reg" and "registry_step digest reg ev reg'"
  shows "registry_tracks (tr @ [ev]) reg'"
  unfolding registry_tracks_def
proof (intro conjI allI impI ballI)
  fix aid row' assume "rg_authorizations reg' aid = Some row'"
  then show "issued_properly (tr @ [ev]) (ar_payload row')"
    using step_rows [OF assms(2), of aid row' tr] assms(1) issued_properly_append
    unfolding registry_tracks_def by metis
next
  fix x assume "x \<in> set (tr @ [ev])"
  then show "recorded reg' x"
    using assms(1) recorded_grows [OF _ step_grows [OF assms(2)]] step_recorded [OF assms(2)]
    unfolding registry_tracks_def by auto
qed

lemma history_tracks: "registry_history digest tr reg \<Longrightarrow> registry_tracks tr reg"
  by (induction rule: registry_history.induct) (auto intro: registry_tracks_start tracks_step)

subsection \<open>Properties\<close>

text \<open>
  C12: Whatever operations a registry has seen, an authorization that is consumed was
  issued before, on a risk and a compliance approval for exactly the intent's account,
  symbol, side, type, quantity, prices and time in force; it is consumed before it and both
  approvals expire, neither it nor its approvals were revoked or superseded before, and a
  single-use one was never consumed before.
\<close>

theorem consumption_is_authorized:
  assumes "registry_history digest (before @ [Consumed a i now] @ after) reg"
  shows "\<exists>a0 risk cmp. Issued a0 risk cmp \<in> set before \<and> same_authorization a0 a \<and>
    evidence_supports risk a \<and> evidence_supports cmp a \<and> authorizes digest a i now \<and>
    dt_less now (ae_expires_at risk) \<and> dt_less now (ae_expires_at cmp) \<and>
    {Revoked (la_authorization_id a), EvidenceRevoked (ae_approval_id risk),
     EvidenceSuperseded (ae_approval_id risk), EvidenceRevoked (ae_approval_id cmp),
     EvidenceSuperseded (ae_approval_id cmp)} \<inter> set before = {} \<and>
    (la_single_use a \<longrightarrow> (\<forall>b j t. Consumed b j t \<in> set before \<longrightarrow>
       la_authorization_id b \<noteq> la_authorization_id a))"
proof -
  obtain reg1 where "registry_history digest (before @ [Consumed a i now]) reg1"
    using history_prefix [of digest "before @ [Consumed a i now]"] assms by auto
  then obtain reg0 where h: "registry_history digest before reg0"
    and c: "consume digest reg0 i a now = Inr reg1"
    by (rule history_snocE) blast
  from c obtain row where row: "rg_authorizations reg0 (la_authorization_id a) = Some row"
    and same: "same_authorization (ar_payload row) a" and auth: "authorizes digest a i now"
    and open_row: "ar_revoked_at row = None" "\<not> (la_single_use a \<and> ar_consumed_at row \<noteq> None)"
    and evidence: "evidence_ok reg0 (la_risk_approval_id a) = Inr ()"
      "evidence_ok reg0 (la_compliance_approval_id a) = Inr ()"
    by (rule consume_Inr)
  note tracks = history_tracks [OF h, unfolded registry_tracks_def]
  obtain risk cmp where issued: "Issued (ar_payload row) risk cmp \<in> set before"
    and supports: "evidence_supports risk (ar_payload row)" "evidence_supports cmp (ar_payload row)"
    and ids: "la_risk_approval_id (ar_payload row) = ae_approval_id risk"
      "la_compliance_approval_id (ar_payload row) = ae_approval_id cmp"
    using tracks row unfolding issued_properly_def by blast
  have marks: "recorded reg0 ev" if "ev \<in> set before" for ev using tracks that by blast
  have "Revoked (la_authorization_id a) \<notin> set before" using marks row open_row(1) by fastforce
  moreover have "EvidenceRevoked e \<notin> set before \<and> EvidenceSuperseded e \<notin> set before"
    if "evidence_ok reg0 e = Inr ()" for e
    using marks [of "EvidenceRevoked e"] marks [of "EvidenceSuperseded e"] that
    by (auto simp: evidence_ok_def)
  moreover have "la_authorization_id b \<noteq> la_authorization_id a"
    if "la_single_use a" and "Consumed b j t \<in> set before" for b j t
    using marks [OF that(2)] that(1) row open_row(2) same_authorization_fields(1) [OF same] by auto
  moreover have "dt_less now (ae_expires_at e)" if "evidence_supports e a" for e
    using auth that by (auto simp: authorizes_def evidence_supports_def dt_less_def dt_le_def)
  ultimately show ?thesis
    using issued supports ids same auth evidence same_authorization_fields [OF same]
      same_authorization_supports [OF same]
    by (intro exI [of _ "ar_payload row"] exI [of _ risk] exI [of _ cmp]) auto
qed

subsection \<open>Witness\<close>

definition ex_intent :: execution_intent where
  "ex_intent = \<lparr>in_intent_id = ''A'', in_account_id = ''A'', in_symbol = ''A'',
     in_side = BROKER_BUY, in_order_type = BROKER_MARKET, in_quantity = Fin 10,
     in_limit_price = None, in_stop_price = None, in_time_in_force = TIF_DAY,
     in_created_at = Aware 0 0\<rparr>"

definition ex_evidence :: "string \<Rightarrow> approval_evidence" where
  "ex_evidence aid = \<lparr>ae_approval_id = aid, ae_intent_id = ''A'', ae_intent_digest = ''d'',
     ae_approved = True, ae_account_id = ''A'', ae_symbol = ''A'', ae_side = BROKER_BUY,
     ae_order_type = BROKER_MARKET, ae_quantity = Fin 10, ae_limit_price = None,
     ae_stop_price = None, ae_time_in_force = TIF_DAY, ae_issued_at = Aware 0 0,
     ae_expires_at = Aware 100 0, ae_revoked = False, ae_superseded = False\<rparr>"

definition ex_authorization :: live_authorization where
  "ex_authorization = \<lparr>la_authorization_id = ''A'', la_intent_id = ''A'', la_intent_digest = ''d'',
     la_risk_approval_id = ''R'', la_risk_approval_digest = ''d'',
     la_compliance_approval_id = ''C'', la_compliance_approval_digest = ''d'',
     la_account_id = ''A'', la_symbol = ''A'', la_side = BROKER_BUY,
     la_order_type = BROKER_MARKET, la_quantity = Fin 10, la_limit_price = None,
     la_stop_price = None, la_time_in_force = TIF_DAY, la_issued_at = Aware 1 0,
     la_expires_at = Aware 50 0, la_single_use = True, la_schema_version = 2\<rparr>"

definition ex_digest :: digest where
  "ex_digest doc = ''d''"

definition ex_issued :: registry where
  "ex_issued = empty_registry\<lparr>rg_authorizations := [''A'' \<mapsto>
     \<lparr>ar_payload = ex_authorization, ar_issued_at = Aware 1 0, ar_consumed_at = None,
      ar_revoked_at = None\<rparr>]\<rparr>"

lemma strip_A [simp]: "strip ''A'' = ''A''" "upper ''A'' = ''A''"
  by (simp_all add: strip_def lstrip_def is_space_def upper_def upper_char_def Let_def)

lemma ex_intent_valid: "validate_intent ex_intent = Inr ()"
  by (auto simp: validate_intent_def ex_intent_def intent_request_def make_broker_order_request_def
      validate_order_request_def res_simps)

lemma ex_issue:
  "issue_authorization ex_digest ex_intent (ex_evidence ''R'') (ex_evidence ''C'') ''A''
     (Aware 1 0) (Aware 50 0) True empty_registry = Inr (ex_authorization, ex_issued)"
  using ex_intent_valid
  by (simp add: issue_authorization_def validate_evidence_def match_evidence_def intent_digest_def
      ex_digest_def ex_evidence_def ex_intent_def ex_authorization_def ex_issued_def mismatch_def
      register_issued_def empty_registry_def dt_le_def dt_less_def auth_aware_def Let_def)

lemma ex_authorization_consumable:
  "validate_for_consumption ex_digest ex_intent ex_authorization (Aware 2 0) = Inr ()"
  using ex_intent_valid
  by (simp add: consumption_authorizes authorizes_def ex_digest_def ex_intent_def ex_authorization_def
      dt_le_def dt_less_def)

lemma ex_consume:
  "consume ex_digest ex_issued ex_intent ex_authorization (Aware 2 0) =
     Inr (ex_issued\<lparr>rg_authorizations := (rg_authorizations ex_issued)(''A'' \<mapsto>
       \<lparr>ar_payload = ex_authorization, ar_issued_at = Aware 1 0, ar_consumed_at = Some (Aware 2 0),
        ar_revoked_at = None\<rparr>)\<rparr>)"
  using ex_authorization_consumable
  by (simp add: consume_def ex_issued_def empty_registry_def same_authorization_def
      validate_evidence_state_def evidence_ok_def mark_consumed_def registry_timestamp_def
      ex_authorization_def)

lemma consumption_is_authorized_witness:
  "\<exists>reg. registry_history ex_digest [Issued ex_authorization (ex_evidence ''R'') (ex_evidence ''C''),
       Consumed ex_authorization ex_intent (Aware 2 0)] reg \<and>
     (\<exists>risk. evidence_supports risk ex_authorization)"
proof -
  have "registry_history ex_digest ([] @ [Issued ex_authorization (ex_evidence ''R'') (ex_evidence ''C'')])
      ex_issued"
    by (rule history_step [OF history_start step_issue [OF ex_issue]])
  from history_step [OF this step_consume [OF ex_consume]]
  obtain reg where h: "registry_history ex_digest
      ([Issued ex_authorization (ex_evidence ''R'') (ex_evidence ''C'')] @
       [Consumed ex_authorization ex_intent (Aware 2 0)] @ []) reg" by auto
  show ?thesis using consumption_is_authorized [OF h] h by auto
qed

end
