(* ===== verification/Live_Orders.thy ===== *)
theory Live_Orders
  imports Authorization "HOL-Library.List_Lexorder" "HOL-Library.Char_ord"
begin

text \<open>
  The local view of live orders (app/live\_execution): the records of models.py, the event elog
  of events.py, the order state machine of portfolio\_state.py, the translation of an
  authorized intent into a broker request (order\_translation.py) and the reconciliation of
  fills (order\_manager.py).
\<close>

subsection \<open>Records\<close>

record local_order =
  lo_request :: broker_order_request
  lo_broker_order_id :: "string option"
  lo_status :: broker_order_status
  lo_filled_quantity :: rat
  lo_fills :: "broker_fill list"
  lo_updated_timestamp :: datetime
  lo_intent :: "execution_intent option"

record local_portfolio_state =
  lp_orders :: "local_order list"
  lp_positions :: "broker_position list"
  lp_cash :: "broker_cash option"

record replacement_request =
  rr_client_order_id :: string
  rr_quantity :: dec
  rr_limit_price :: "dec option"
  rr_stop_price :: "dec option"
  rr_validated_intent :: validated_intent

datatype execution_event_type =
  EVENT_SUBMITTED | EVENT_ACKNOWLEDGED | EVENT_PARTIAL_FILL | EVENT_FILL | EVENT_CANCELLED
| EVENT_REJECTED | EVENT_REPLACED | EVENT_SYNCHRONIZATION_MISMATCH

text \<open>A detail is a text, or the text \<open>str(v)\<close> of a Decimal.\<close>

datatype event_detail = Detail_Text string | Detail_Decimal dec

record execution_event =
  ee_sequence :: int
  ee_event_type :: execution_event_type
  ee_request_id :: string
  ee_timestamp :: datetime
  ee_details :: "(string \<times> event_detail) list"

text \<open>\<open>append_event\<close>; the keys of the details differ, so sorting them sorts the pairs.\<close>

definition append_execution_event ::
  "execution_event list \<Rightarrow> execution_event_type \<Rightarrow> string \<Rightarrow> datetime \<Rightarrow>
   (string \<times> event_detail) list \<Rightarrow> execution_event list res" where
  "append_execution_event elog ty rid ts details =
     rbind (demand (tz_aware ts) ''event timestamp must be timezone-aware'') (\<lambda>_.
     Inr (elog @ [\<lparr>ee_sequence = int (length elog) + 1, ee_event_type = ty, ee_request_id = rid,
                  ee_timestamp = ts, ee_details = sort_key fst details\<rparr>]))"

subsection \<open>Order of fills\<close>

text \<open>The sort key \<open>(item.timestamp, item.fill_id)\<close> of fills.\<close>

datatype fill_key = Fill_Key (key_instant: int) (key_id: string)

instantiation fill_key :: linorder
begin

definition less_eq_fill_key :: "fill_key \<Rightarrow> fill_key \<Rightarrow> bool" where
  "less_eq_fill_key a b \<longleftrightarrow> key_instant a < key_instant b \<or>
     key_instant a = key_instant b \<and> key_id a \<le> key_id b"

definition less_fill_key :: "fill_key \<Rightarrow> fill_key \<Rightarrow> bool" where
  "less_fill_key a b \<longleftrightarrow> key_instant a < key_instant b \<or>
     key_instant a = key_instant b \<and> key_id a < key_id b"

instance
  by standard (auto simp: less_eq_fill_key_def less_fill_key_def fill_key.expand)

end

definition fill_key :: "broker_fill \<Rightarrow> fill_key" where
  "fill_key f = Fill_Key (instant (bf_timestamp f)) (bf_fill_id f)"

subsection \<open>The order state machine\<close>

fun transitions :: "broker_order_status \<Rightarrow> broker_order_status list" where
  "transitions LIVE_NEW = [LIVE_SUBMITTED, LIVE_REJECTED]"
| "transitions LIVE_SUBMITTED =
     [LIVE_ACKNOWLEDGED, LIVE_PARTIALLY_FILLED, LIVE_FILLED, LIVE_REJECTED, LIVE_CANCELLED]"
| "transitions LIVE_ACKNOWLEDGED =
     [LIVE_PARTIALLY_FILLED, LIVE_FILLED, LIVE_REJECTED, LIVE_CANCELLED]"
| "transitions LIVE_PARTIALLY_FILLED =
     [LIVE_PARTIALLY_FILLED, LIVE_FILLED, LIVE_CANCELLED, LIVE_REJECTED]"
| "transitions LIVE_FILLED = []"
| "transitions LIVE_CANCELLED = []"
| "transitions LIVE_REJECTED = []"

definition fill_total :: "broker_fill list \<Rightarrow> rat" where
  "fill_total fills = dsum (map (\<lambda>f. fin (bf_quantity f)) fills)"

definition transition_order ::
  "local_order \<Rightarrow> broker_order_status \<Rightarrow> datetime \<Rightarrow> broker_fill list option \<Rightarrow> local_order res" where
  "transition_order order status ts fills =
     (if status = lo_status order then Inr order
      else if status \<notin> set (transitions (lo_status order))
      then Inl (Raise ValueError (''illegal order transition: '' @
             broker_order_status_value (lo_status order) @ '' -> '' @ broker_order_status_value status))
      else let updated_fills = (case fills of None \<Rightarrow> lo_fills order | Some fs \<Rightarrow> sort_key fill_key fs);
               quantity = fill_total updated_fills;
               requested = fin (br_quantity (lo_request order)) in
        rbind (demand (quantity \<le> requested) ''filled quantity exceeds order quantity'') (\<lambda>_.
        rbind (demand (\<not> (status = LIVE_FILLED \<and> quantity \<noteq> requested))
          ''FILLED requires the full quantity'') (\<lambda>_.
        rbind (demand (\<not> (status = LIVE_PARTIALLY_FILLED \<and> \<not> (0 < quantity \<and> quantity < requested)))
          ''PARTIALLY_FILLED quantity is invalid'') (\<lambda>_.
        Inr (order\<lparr>lo_status := status, lo_filled_quantity := quantity, lo_fills := updated_fills,
                   lo_updated_timestamp := ts\<rparr>)))))"

definition upsert_order :: "local_portfolio_state \<Rightarrow> local_order \<Rightarrow> local_portfolio_state" where
  "upsert_order st order =
     (let cid = br_client_order_id (lo_request order);
          others = filter (\<lambda>item. br_client_order_id (lo_request item) \<noteq> cid) (lp_orders st) in
      st\<lparr>lp_orders := sort_key (\<lambda>item. br_client_order_id (lo_request item)) (others @ [order])\<rparr>)"

subsection \<open>Translation\<close>

definition translate_order :: "digest \<Rightarrow> validated_intent \<Rightarrow> datetime \<Rightarrow> broker_order_request res" where
  "translate_order digest v now =
     (let a = vi_authorization v; i = vi_intent v in
      rbind (demand (tz_aware now) ''current timestamp must be timezone-aware'') (\<lambda>_.
      rbind (validate_authorization_binding digest i a) (\<lambda>_.
      rbind (demand (dt_le (la_issued_at a) now \<and> dt_less now (la_expires_at a))
        ''live authorization is not currently valid'') (\<lambda>_.
      rbind (demand (tz_aware (in_created_at i) \<and> dt_le (in_created_at i) now)
        ''intent timestamp is invalid'') (\<lambda>_.
      rbind (make_broker_order_request (intent_request i)) (\<lambda>request.
      rbind (validate_order_request request) (\<lambda>_. Inr request)))))))"

subsection \<open>Fills\<close>

definition find_order :: "string \<Rightarrow> local_portfolio_state \<Rightarrow> local_order res" where
  "find_order cid st = (case find (\<lambda>item. br_client_order_id (lo_request item) = cid) (lp_orders st) of
     None \<Rightarrow> Inl (Raise ValueError ''local order was not found'') | Some item \<Rightarrow> Inr item)"

text \<open>The body of the loop of \<open>reconcile_fills\<close> for one fill.\<close>

definition reconcile_fill ::
  "local_portfolio_state \<times> execution_event list \<Rightarrow> broker_fill \<Rightarrow>
   (local_portfolio_state \<times> execution_event list) res" where
  "reconcile_fill sl f = (case sl of (st, elog) \<Rightarrow>
     (case find (\<lambda>item. lo_broker_order_id item = Some (bf_broker_order_id f)) (lp_orders st) of
        None \<Rightarrow> Inr (st, elog)
      | Some local_order \<Rightarrow>
          if \<exists>item\<in>set (lo_fills local_order). bf_fill_id item = bf_fill_id f then Inr (st, elog)
          else let combined = lo_fills local_order @ [f];
                   total = fill_total combined;
                   status = (if total = fin (br_quantity (lo_request local_order))
                             then LIVE_FILLED else LIVE_PARTIALLY_FILLED) in
            rbind (transition_order local_order status (bf_timestamp f) (Some combined)) (\<lambda>updated.
            rbind (append_execution_event elog
              (if status = LIVE_FILLED then EVENT_FILL else EVENT_PARTIAL_FILL)
              (br_client_order_id (lo_request local_order)) (bf_timestamp f)
              [(''fill_id'', Detail_Text (bf_fill_id f)), (''quantity'', Detail_Decimal (bf_quantity f)),
               (''price'', Detail_Decimal (bf_price f))]) (\<lambda>elog'.
            Inr (upsert_order st updated, elog')))))"

definition reconcile_fills ::
  "local_portfolio_state \<Rightarrow> broker_fill list \<Rightarrow> execution_event list \<Rightarrow>
   (local_portfolio_state \<times> execution_event list) res" where
  "reconcile_fills st fills elog = run reconcile_fill (st, elog) (sort_key fill_key fills)"

definition apply_broker_order :: "local_order \<Rightarrow> broker_order \<Rightarrow> datetime \<Rightarrow> local_order res" where
  "apply_broker_order order response ts =
     rbind (demand (bo_client_order_id response = br_client_order_id (lo_request order))
       ''broker client order ID mismatch'') (\<lambda>_.
     transition_order (order\<lparr>lo_broker_order_id := Some (bo_broker_order_id response)\<rparr>)
       (bo_status response) ts None)"

fun event_for_status :: "broker_order_status \<Rightarrow> execution_event_type" where
  "event_for_status LIVE_ACKNOWLEDGED = EVENT_ACKNOWLEDGED"
| "event_for_status LIVE_REJECTED = EVENT_REJECTED"
| "event_for_status LIVE_CANCELLED = EVENT_CANCELLED"
| "event_for_status LIVE_PARTIALLY_FILLED = EVENT_PARTIAL_FILL"
| "event_for_status LIVE_FILLED = EVENT_FILL"
| "event_for_status _ = EVENT_SUBMITTED"

end
