(* ===== verification/Iso_Time.thy ===== *)
theory Iso_Time
  imports Decimal_Text
begin

text \<open>
  The text \<open>datetime.isoformat()\<close> of a time stamp, which the databases of the program store
  and order by: the calendar of the standard library (days before a year and a month, the
  400-year cycle) and the fixed-width fields.
\<close>

definition days_before_month :: "int \<Rightarrow> int" where
  "days_before_month m = [0, 0, 31, 59, 90, 120, 151, 181, 212, 243, 273, 304, 334] ! nat m"

definition days_in_month :: "int \<Rightarrow> int" where
  "days_in_month m = [0, 31, 28, 31, 30, 31, 30, 31, 31, 30, 31, 30, 31] ! nat m"

text \<open>Year, month and day of a proleptic ordinal, day 1 being 0001-01-01.\<close>

definition ymd_of_ordinal :: "int \<Rightarrow> int \<times> int \<times> int" where
  "ymd_of_ordinal ordinal =
     (let n = ordinal - 1;
          n400 = n div 146097; n = n mod 146097;
          n100 = n div 36524; n = n mod 36524;
          n4 = n div 1461; n = n mod 1461;
          n1 = n div 365; n = n mod 365;
          year = n400 * 400 + 1 + n100 * 100 + n4 * 4 + n1 in
      if n1 = 4 \<or> n100 = 4 then (year - 1, 12, 31)
      else let leap = (n1 = 3 \<and> (n4 \<noteq> 24 \<or> n100 = 3));
               month = (n + 50) div 32;
               preceding = days_before_month month + of_bool (month > 2 \<and> leap) in
        if preceding > n
        then let month' = month - 1;
                 preceding' = preceding - (days_in_month month' + of_bool (month' = 2 \<and> leap)) in
             (year, month', n - preceding' + 1)
        else (year, month, n - preceding + 1))"

definition field :: "nat \<Rightarrow> int \<Rightarrow> string" where
  "field width n = padded width (nat n)"

definition fraction_text :: "int \<Rightarrow> string" where
  "fraction_text us = (if us = 0 then [] else ''.'' @ field 6 us)"

definition clock_text :: "int \<Rightarrow> string" where
  "clock_text us =
     (let s = us div 1000000 in
      field 2 (s div 3600) @ '':'' @ field 2 (s div 60 mod 60) @ '':'' @ field 2 (s mod 60) @
      fraction_text (us mod 1000000))"

definition offset_text :: "int \<Rightarrow> string" where
  "offset_text z =
     (let a = \<bar>z\<bar>; s = a div 1000000 in
      (if z < 0 then ''-'' else ''+'') @ field 2 (s div 3600) @ '':'' @ field 2 (s div 60 mod 60) @
      (if a mod 60000000 = 0 then [] else '':'' @ field 2 (s mod 60) @ fraction_text (a mod 1000000)))"

definition isoformat :: "datetime \<Rightarrow> string" where
  "isoformat t =
     (let (y, m, d) = ymd_of_ordinal (local_us t div us_per_day) in
      field 4 y @ ''-'' @ field 2 m @ ''-'' @ field 2 d @ ''T'' @
      clock_text (local_us t mod us_per_day) @
      (case t of Naive _ \<Rightarrow> [] | Aware _ z \<Rightarrow> offset_text z))"

end
