(* ===== verification/Execution_Journal.thy ===== *)
theory Execution_Journal
  imports Broker_Protocol Iso_Time "HOL-Library.List_Lexorder" "HOL-Library.Char_ord"
    "HOL-Library.Product_Lexorder"
begin

text \<open>
  \<open>DurableExecutionJournal\<close> (app/live\_execution/recovery.py): the durable record of every
  mutation sent to the broker.  The table is a dictionary from mutation identifiers to rows;
  a statement with its transaction is one step.  The stored request is the JSON object of
  the code, which has no field for the trading session, so a request comes back with the
  default session.
\<close>

datatype mutation_state = PREPARED | AUTHORIZED | DISPATCHING | ACKNOWLEDGED | UNRESOLVED

record mutation_record =
  mr_mutation_id :: string
  mr_operation :: string
  mr_client_order_id :: string
  mr_authorization_id :: string
  mr_request :: "broker_order_request option"
  mr_state :: mutation_state
  mr_created_at :: datetime
  mr_updated_at :: datetime
  mr_broker_order_id :: "string option"

type_synonym journal = "(string, mutation_record) pydict"

definition request_json :: "broker_order_request option \<Rightarrow> broker_order_request option" where
  "request_json r = map_option (\<lambda>r. r\<lparr>br_trading_session := SESSION_AUTO\<rparr>) r"

fun request_of :: "broker_order_request option \<Rightarrow> broker_order_request option res" where
  "request_of None = Inr None"
| "request_of (Some r) = rbind (make_broker_order_request r) (\<lambda>r. Inr (Some r))"

definition journal_get :: "journal \<Rightarrow> string \<Rightarrow> mutation_record res" where
  "journal_get j mid = (case dict_get j mid of
     None \<Rightarrow> Inl (Raise ValueError ''execution mutation is unknown'')
   | Some row \<Rightarrow> rbind (request_of (mr_request row)) (\<lambda>_. Inr row))"

text \<open>A transaction that writes one row, or raises, and the read that follows it.\<close>

definition committed :: "journal \<Rightarrow> string \<Rightarrow> mutation_record res \<Rightarrow> mutation_record res \<times> journal" where
  "committed j mid written = (case written of
     Inl e \<Rightarrow> (Inl e, j)
   | Inr row \<Rightarrow> let j' = dict_set mid row j in (journal_get j' mid, j'))"

definition new_mutation ::
  "journal \<Rightarrow> string \<Rightarrow> string \<Rightarrow> string \<Rightarrow> string \<Rightarrow> broker_order_request option \<Rightarrow> datetime \<Rightarrow>
   mutation_record res" where
  "new_mutation j mid operation cid aid request ts =
     rbind (aware ts) (\<lambda>_.
     rbind (demand (operation \<in> set [''SUBMIT'', ''CANCEL'', ''REPLACE''])
       ''unsupported mutation operation'') (\<lambda>_.
     rbind (demand (dict_get j mid = None \<and>
         (\<forall>row\<in>set (dict_values j). (mr_operation row, mr_client_order_id row) \<noteq> (operation, cid)))
       ''duplicate execution mutation'') (\<lambda>_.
     Inr \<lparr>mr_mutation_id = mid, mr_operation = operation, mr_client_order_id = cid,
       mr_authorization_id = aid, mr_request = request_json request, mr_state = PREPARED,
       mr_created_at = ts, mr_updated_at = ts, mr_broker_order_id = None\<rparr>)))"

definition prepare ::
  "journal \<Rightarrow> string \<Rightarrow> string \<Rightarrow> string \<Rightarrow> string \<Rightarrow> broker_order_request option \<Rightarrow> datetime \<Rightarrow>
   mutation_record res \<times> journal" where
  "prepare j mid operation cid aid request ts =
     committed j mid (new_mutation j mid operation cid aid request ts)"

text \<open>\<open>transition\<close>: the update is conditional on the expected state.\<close>

definition moved_mutation ::
  "journal \<Rightarrow> string \<Rightarrow> mutation_state \<Rightarrow> mutation_state \<Rightarrow> datetime \<Rightarrow> string option \<Rightarrow>
   mutation_record res" where
  "moved_mutation j mid expected target ts broker_order_id =
     rbind (aware ts) (\<lambda>_.
     case dict_get j mid of
       None \<Rightarrow> Inl (Raise ValueError ''execution mutation state conflict'')
     | Some row \<Rightarrow>
         rbind (demand (mr_state row = expected) ''execution mutation state conflict'') (\<lambda>_.
         Inr (row\<lparr>mr_state := target, mr_updated_at := ts, mr_broker_order_id :=
               (case broker_order_id of None \<Rightarrow> mr_broker_order_id row | Some b \<Rightarrow> Some b)\<rparr>)))"

definition advance ::
  "journal \<Rightarrow> string \<Rightarrow> mutation_state \<Rightarrow> mutation_state \<Rightarrow> datetime \<Rightarrow> string option \<Rightarrow>
   mutation_record res \<times> journal" where
  "advance j mid expected target ts broker_order_id =
     committed j mid (moved_mutation j mid expected target ts broker_order_id)"

text \<open>The rows that are not acknowledged, by creation text and identifier.\<close>

definition pending :: "journal \<Rightarrow> mutation_record list res" where
  "pending j = traverse (\<lambda>row. journal_get j (mr_mutation_id row))
     (sort_key (\<lambda>row. (isoformat (mr_created_at row), mr_mutation_id row))
       (filter (\<lambda>row. mr_state row \<noteq> ACKNOWLEDGED) (dict_values j)))"

subsection \<open>Lemmas\<close>

lemma journal_get_Inr: "journal_get j mid = Inr row \<Longrightarrow> dict_get j mid = Some row"
  by (auto simp: journal_get_def res_simps split: option.splits)

lemma committed_cases:
  assumes "committed j mid written = (r, j')"
  obtains (refused) e where "written = Inl e" "r = Inl e" "j' = j"
  | (stored) row where "written = Inr row" "j' = dict_set mid row j"
      "\<And>row'. r = Inr row' \<Longrightarrow> row' = row"
proof (cases written)
  case (Inr row)
  moreover have "row' = row" if "r = Inr row'" for row'
    using that assms Inr by (auto simp: committed_def Let_def dest: journal_get_Inr)
  ultimately show thesis using stored assms by (simp add: committed_def Let_def)
qed (use refused assms in \<open>simp add: committed_def\<close>)

lemma new_mutation_Inr:
  "new_mutation j mid op cid aid request ts = Inr row \<Longrightarrow>
   dict_get j mid = None \<and> op \<in> {''SUBMIT'', ''CANCEL'', ''REPLACE''} \<and> mr_state row = PREPARED \<and>
   mr_mutation_id row = mid \<and> mr_operation row = op \<and> mr_client_order_id row = cid \<and>
   mr_authorization_id row = aid \<and> mr_request row = request_json request"
  unfolding new_mutation_def rbind_unit demand_Inr by auto

lemma moved_mutation_Inr:
  "moved_mutation j mid expected target ts bid = Inr row' \<Longrightarrow>
   \<exists>row. dict_get j mid = Some row \<and> mr_state row = expected \<and> mr_state row' = target \<and>
     mr_mutation_id row' = mr_mutation_id row \<and> mr_operation row' = mr_operation row \<and>
     mr_client_order_id row' = mr_client_order_id row \<and>
     mr_authorization_id row' = mr_authorization_id row \<and> mr_request row' = mr_request row"
  by (auto simp: moved_mutation_def split: option.splits)

lemma pending_stored: "pending j = Inr rows \<Longrightarrow> row \<in> set rows \<Longrightarrow> \<exists>mid. dict_get j mid = Some row"
proof -
  assume p: "pending j = Inr rows" and row: "row \<in> set rows"
  from p have "map (\<lambda>r. journal_get j (mr_mutation_id r))
      (sort_key (\<lambda>r. (isoformat (mr_created_at r), mr_mutation_id r))
        (filter (\<lambda>r. mr_state r \<noteq> ACKNOWLEDGED) (dict_values j))) = map Inr rows"
    by (simp add: pending_def traverse_Inr_iff)
  then have "(Inr row :: mutation_record res) \<in> set (map (\<lambda>r. journal_get j (mr_mutation_id r))
      (sort_key (\<lambda>r. (isoformat (mr_created_at r), mr_mutation_id r))
        (filter (\<lambda>r. mr_state r \<noteq> ACKNOWLEDGED) (dict_values j))))"
    using row by simp
  then show ?thesis by (auto dest!: sym [of "Inr row"] dest: journal_get_Inr)
qed

end
