(* ===== verification/Order_Manager.thy ===== *)
theory Order_Manager
  imports Live_Orders Execution_Journal
begin

text \<open>
  The order manager (app/live\_execution/order\_manager.py) and the recovery at startup
  (recovery.py).  A procedure runs on a world: the registry, the journal and the broker, a
  state of its own behind the functions of the record \<open>broker\<close>, which stands for the network
  transport.  The world keeps the calls made to the broker, which no code reads, and a
  number of steps after which the process stops: every access to a database or to the
  broker takes one, so a statement for all worlds covers a crash between any two of them.
  What a stopped process had in memory is lost; registry, journal and broker stay.
\<close>

subsection \<open>Procedures on a world\<close>

datatype broker_call =
    Call_Submit broker_order_request
  | Call_Cancel string
  | Call_Replace string broker_order_request

record 'b world =
  w_registry :: registry
  w_journal :: journal
  w_broker :: 'b
  w_calls :: "broker_call list"
  w_steps :: nat

type_synonym ('b, 'a) proc = "'b world \<Rightarrow> 'a res \<times> 'b world"

definition ret :: "'a \<Rightarrow> ('b, 'a) proc" where
  "ret x w = (Inr x, w)"

definition pure :: "'a res \<Rightarrow> ('b, 'a) proc" where
  "pure r w = (r, w)"

definition bindp :: "('b, 'a) proc \<Rightarrow> ('a \<Rightarrow> ('b, 'c) proc) \<Rightarrow> ('b, 'c) proc" where
  "bindp m f w = (case m w of (Inl e, w') \<Rightarrow> (Inl e, w') | (Inr x, w') \<Rightarrow> f x w')"

definition durable :: "('b, 'a) proc \<Rightarrow> ('b, 'a) proc" where
  "durable m w = (case w_steps w of
     0 \<Rightarrow> (Inl (Raise ProcessStopped []), w)
   | Suc n \<Rightarrow> m (w\<lparr>w_steps := n\<rparr>))"

definition if_journal :: "bool \<Rightarrow> ('b, 'a) proc \<Rightarrow> ('b, unit) proc" where
  "if_journal c m = (if c then bindp m (\<lambda>_. ret ()) else ret ())"

subsection \<open>The databases and the broker\<close>

definition prepare_mutation ::
  "string \<Rightarrow> string \<Rightarrow> string \<Rightarrow> string \<Rightarrow> broker_order_request option \<Rightarrow> datetime \<Rightarrow>
   ('b, mutation_record) proc" where
  "prepare_mutation mid operation cid aid request ts = durable (\<lambda>w.
     case prepare (w_journal w) mid operation cid aid request ts of
       (r, j) \<Rightarrow> (r, w\<lparr>w_journal := j\<rparr>))"

definition advance_mutation ::
  "string \<Rightarrow> mutation_state \<Rightarrow> mutation_state \<Rightarrow> datetime \<Rightarrow> string option \<Rightarrow>
   ('b, mutation_record) proc" where
  "advance_mutation mid expected target ts bid = durable (\<lambda>w.
     case advance (w_journal w) mid expected target ts bid of
       (r, j) \<Rightarrow> (r, w\<lparr>w_journal := j\<rparr>))"

definition consume_authorization ::
  "digest \<Rightarrow> execution_intent \<Rightarrow> live_authorization \<Rightarrow> datetime \<Rightarrow> ('b, unit) proc" where
  "consume_authorization digest i a now = durable (\<lambda>w.
     case consume digest (w_registry w) i a now of
       Inl e \<Rightarrow> (Inl e, w)
     | Inr reg \<Rightarrow> (Inr (), w\<lparr>w_registry := reg\<rparr>))"

record 'b broker =
  bk_requires_journal :: bool
  bk_submit :: "broker_order_request \<Rightarrow> 'b \<Rightarrow> broker_order res \<times> 'b"
  bk_cancel :: "string \<Rightarrow> 'b \<Rightarrow> broker_order res \<times> 'b"
  bk_replace :: "string \<Rightarrow> broker_order_request \<Rightarrow> 'b \<Rightarrow> broker_order res \<times> 'b"
  bk_orders :: "'b \<Rightarrow> broker_order list res \<times> 'b"

text \<open>A mutation call; it is counted when it is made, whatever the broker answers.\<close>

definition dispatch ::
  "broker_call \<Rightarrow> ('b \<Rightarrow> broker_order res \<times> 'b) \<Rightarrow> ('b, broker_order) proc" where
  "dispatch call f = durable (\<lambda>w.
     case f (w_broker w) of
       (r, b) \<Rightarrow> (r, w\<lparr>w_broker := b, w_calls := w_calls w @ [call]\<rparr>))"

definition submit_order :: "'b broker \<Rightarrow> broker_order_request \<Rightarrow> ('b, broker_order) proc" where
  "submit_order br request = dispatch (Call_Submit request) (bk_submit br request)"

definition cancel_live_order :: "'b broker \<Rightarrow> string \<Rightarrow> ('b, broker_order) proc" where
  "cancel_live_order br cid = dispatch (Call_Cancel cid) (bk_cancel br cid)"

definition replace_live_order :: "'b broker \<Rightarrow> string \<Rightarrow> broker_order_request \<Rightarrow> ('b, broker_order) proc" where
  "replace_live_order br cid request = dispatch (Call_Replace cid request) (bk_replace br cid request)"

definition get_orders :: "'b broker \<Rightarrow> ('b, broker_order list) proc" where
  "get_orders br = durable (\<lambda>w.
     case bk_orders br (w_broker w) of (r, b) \<Rightarrow> (r, w\<lparr>w_broker := b\<rparr>))"

subsection \<open>The order manager\<close>

text \<open>\<open>operational_controls.validate\<close>, an injected object, if there is one.\<close>

type_synonym controls = "(string \<Rightarrow> broker_order_request \<Rightarrow> datetime \<Rightarrow> unit res) option"

definition validate_controls ::
  "controls \<Rightarrow> string \<Rightarrow> broker_order_request \<Rightarrow> datetime \<Rightarrow> unit res" where
  "validate_controls controls operation request ts =
     (case controls of None \<Rightarrow> Inr () | Some validate \<Rightarrow> validate operation request ts)"

definition require_live_controls :: "'b broker \<Rightarrow> bool \<Rightarrow> controls \<Rightarrow> unit res" where
  "require_live_controls br has_journal controls =
     rbind (demand (\<not> (bk_requires_journal br \<and> \<not> has_journal))
       ''capability-bound live execution requires a durable execution journal'') (\<lambda>_.
     demand (\<not> (bk_requires_journal br \<and> controls = None))
       ''capability-bound live execution requires operational controls'')"

text \<open>The steps between authorization and dispatch, and the acknowledgement after it.\<close>

definition authorize_mutation ::
  "digest \<Rightarrow> bool \<Rightarrow> string \<Rightarrow> execution_intent \<Rightarrow> live_authorization \<Rightarrow> datetime \<Rightarrow> ('b, unit) proc" where
  "authorize_mutation digest has_journal mid i a ts =
     bindp (consume_authorization digest i a ts) (\<lambda>_.
     bindp (if_journal has_journal (advance_mutation mid PREPARED AUTHORIZED ts None)) (\<lambda>_.
     if_journal has_journal (advance_mutation mid AUTHORIZED DISPATCHING ts None)))"

definition acknowledge_mutation ::
  "bool \<Rightarrow> string \<Rightarrow> broker_order \<Rightarrow> datetime \<Rightarrow> ('b, unit) proc" where
  "acknowledge_mutation has_journal mid response ts =
     if_journal has_journal
       (advance_mutation mid DISPATCHING ACKNOWLEDGED ts (Some (bo_broker_order_id response)))"

definition submit ::
  "digest \<Rightarrow> validated_intent \<Rightarrow> 'b broker \<Rightarrow> local_portfolio_state \<Rightarrow> execution_event list \<Rightarrow>
   datetime \<Rightarrow> bool \<Rightarrow> controls \<Rightarrow> ('b, local_portfolio_state \<times> execution_event list) proc" where
  "submit digest v br st elog ts has_journal controls =
     bindp (pure (require_live_controls br has_journal controls)) (\<lambda>_.
     bindp (pure (translate_order digest v ts)) (\<lambda>request.
     let cid = br_client_order_id request; mid = ''SUBMIT:'' @ cid in
     bindp (pure (validate_controls controls ''SUBMIT'' request ts)) (\<lambda>_.
     bindp (pure (demand (\<forall>item\<in>set (lp_orders st). br_client_order_id (lo_request item) \<noteq> cid)
       ''duplicate client order ID'')) (\<lambda>_.
     bindp (pure (transition_order \<lparr>lo_request = request, lo_broker_order_id = None,
       lo_status = LIVE_NEW, lo_filled_quantity = 0, lo_fills = [], lo_updated_timestamp = ts,
       lo_intent = Some (vi_intent v)\<rparr> LIVE_SUBMITTED ts None)) (\<lambda>local_order.
     bindp (pure (append_execution_event elog EVENT_SUBMITTED cid ts [])) (\<lambda>elog.
     bindp (if_journal has_journal (prepare_mutation mid ''SUBMIT'' cid
       (la_authorization_id (vi_authorization v)) (Some request) ts)) (\<lambda>_.
     bindp (authorize_mutation digest has_journal mid (vi_intent v) (vi_authorization v) ts) (\<lambda>_.
     bindp (submit_order br request) (\<lambda>response.
     bindp (acknowledge_mutation has_journal mid response ts) (\<lambda>_.
     bindp (pure (apply_broker_order local_order response ts)) (\<lambda>local_order.
     bindp (pure (append_execution_event elog (event_for_status (lo_status local_order)) cid ts
       [(''broker_order_id'', Detail_Text (bo_broker_order_id response))])) (\<lambda>elog.
     ret (upsert_order st local_order, elog)))))))))))))"

text \<open>The dataclass equality of two intents.\<close>

definition same_intent :: "execution_intent \<Rightarrow> execution_intent \<Rightarrow> bool" where
  "same_intent a b \<longleftrightarrow> a\<lparr>in_created_at := in_created_at b\<rparr> = b \<and> dt_eq (in_created_at a) (in_created_at b)"

definition cancel ::
  "digest \<Rightarrow> string \<Rightarrow> validated_intent \<Rightarrow> 'b broker \<Rightarrow> local_portfolio_state \<Rightarrow>
   execution_event list \<Rightarrow> datetime \<Rightarrow> bool \<Rightarrow> controls \<Rightarrow>
   ('b, local_portfolio_state \<times> execution_event list) proc" where
  "cancel digest cid v br st elog ts has_journal controls =
     bindp (pure (require_live_controls br has_journal controls)) (\<lambda>_.
     bindp (pure (find_order cid st)) (\<lambda>local_order.
     bindp (pure (demand (case lo_intent local_order of None \<Rightarrow> False
         | Some i \<Rightarrow> same_intent i (vi_intent v))
       ''cancellation authorization intent mismatch'')) (\<lambda>_.
     bindp (pure (validate_controls controls ''CANCEL'' (lo_request local_order) ts)) (\<lambda>_.
     let mid = ''CANCEL:'' @ cid in
     bindp (if_journal has_journal (prepare_mutation mid ''CANCEL'' cid
       (la_authorization_id (vi_authorization v)) None ts)) (\<lambda>_.
     bindp (authorize_mutation digest has_journal mid (vi_intent v) (vi_authorization v) ts) (\<lambda>_.
     bindp (cancel_live_order br cid) (\<lambda>response.
     bindp (acknowledge_mutation has_journal mid response ts) (\<lambda>_.
     bindp (pure (apply_broker_order local_order response ts)) (\<lambda>updated.
     bindp (pure (demand (lo_status updated = LIVE_CANCELLED)
       ''broker did not confirm cancellation'')) (\<lambda>_.
     bindp (pure (append_execution_event elog EVENT_CANCELLED cid ts [])) (\<lambda>elog.
     ret (upsert_order st updated, elog))))))))))))"

definition replacement_details_match :: "execution_intent \<Rightarrow> broker_order_request \<Rightarrow> bool" where
  "replacement_details_match i r \<longleftrightarrow>
     in_symbol i = br_symbol r \<and> in_side i = br_side r \<and> in_order_type i = br_order_type r \<and>
     in_quantity i = br_quantity r \<and> in_limit_price i = br_limit_price r \<and>
     in_stop_price i = br_stop_price r \<and> in_time_in_force i = br_time_in_force r"

definition replace_order ::
  "digest \<Rightarrow> replacement_request \<Rightarrow> 'b broker \<Rightarrow> local_portfolio_state \<Rightarrow>
   execution_event list \<Rightarrow> datetime \<Rightarrow> bool \<Rightarrow> controls \<Rightarrow>
   ('b, local_portfolio_state \<times> execution_event list) proc" where
  "replace_order digest repl br st elog ts has_journal controls =
     (let cid = rr_client_order_id repl; v = rr_validated_intent repl; expected = vi_intent v;
          mid = ''REPLACE:'' @ cid in
     bindp (pure (require_live_controls br has_journal controls)) (\<lambda>_.
     bindp (pure (find_order cid st)) (\<lambda>local_order.
     bindp (pure (demand (lo_status local_order \<in>
         set [LIVE_SUBMITTED, LIVE_ACKNOWLEDGED, LIVE_PARTIALLY_FILLED])
       ''order cannot be replaced in its current state'')) (\<lambda>_.
     bindp (pure (make_broker_order_request (lo_request local_order\<lparr>br_quantity := rr_quantity repl,
       br_limit_price := rr_limit_price repl, br_stop_price := rr_stop_price repl\<rparr>))) (\<lambda>request.
     bindp (pure (demand (in_intent_id expected = cid) ''replacement intent identity mismatch'')) (\<lambda>_.
     bindp (pure (demand (replacement_details_match expected request)
       ''replacement authorization details mismatch'')) (\<lambda>_.
     bindp (pure (validate_order_request request)) (\<lambda>_.
     bindp (pure (validate_controls controls ''REPLACE'' request ts)) (\<lambda>_.
     bindp (pure (demand (lo_filled_quantity local_order \<le> fin (br_quantity request))
       ''replacement quantity cannot be below the already filled quantity'')) (\<lambda>_.
     bindp (if_journal has_journal (prepare_mutation mid ''REPLACE'' cid
       (la_authorization_id (vi_authorization v)) (Some request) ts)) (\<lambda>_.
     bindp (authorize_mutation digest has_journal mid expected (vi_authorization v) ts) (\<lambda>_.
     bindp (replace_live_order br cid request) (\<lambda>response.
     bindp (acknowledge_mutation has_journal mid response ts) (\<lambda>_.
     bindp (pure (apply_broker_order (local_order\<lparr>lo_request := request\<rparr>) response ts)) (\<lambda>updated.
     bindp (pure (append_execution_event elog EVENT_REPLACED cid ts [])) (\<lambda>elog.
     ret (upsert_order st updated, elog)))))))))))))))))"

subsection \<open>Recovery at startup\<close>

definition dispatch_recovery :: "'b broker \<Rightarrow> mutation_record \<Rightarrow> ('b, broker_order) proc" where
  "dispatch_recovery br row =
     (if mr_operation row = ''SUBMIT'' \<and> mr_request row \<noteq> None
      then submit_order br (the (mr_request row))
      else if mr_operation row = ''CANCEL'' then cancel_live_order br (mr_client_order_id row)
      else if mr_operation row = ''REPLACE'' \<and> mr_request row \<noteq> None
      then replace_live_order br (mr_client_order_id row) (the (mr_request row))
      else pure (Inl (Raise ValueError ''durable mutation cannot be recovered'')))"

text \<open>A mutation whose order the broker knows: it is advanced up to the acknowledgement.\<close>

definition advance_if ::
  "mutation_state list \<Rightarrow> mutation_state \<Rightarrow> datetime \<Rightarrow> string option \<Rightarrow> mutation_record \<Rightarrow>
   ('b, mutation_record) proc" where
  "advance_if states target ts bid row =
     (if mr_state row \<in> set states
      then advance_mutation (mr_mutation_id row) (mr_state row) target ts bid else ret row)"

definition recover_known ::
  "broker_order \<Rightarrow> datetime \<Rightarrow> mutation_record \<Rightarrow> ('b, mutation_record) proc" where
  "recover_known order ts row =
     bindp (advance_if [PREPARED] AUTHORIZED ts None row) (\<lambda>row.
     bindp (advance_if [AUTHORIZED] DISPATCHING ts None row) (\<lambda>row.
     advance_if [DISPATCHING, UNRESOLVED] ACKNOWLEDGED ts (Some (bo_broker_order_id order)) row))"

definition consumed_ids :: "string \<Rightarrow> ('b, bool) proc" where
  "consumed_ids aid = durable (\<lambda>w. (Inr (consumed_id (w_registry w) aid), w))"

definition recover_unknown ::
  "'b broker \<Rightarrow> datetime \<Rightarrow> mutation_record \<Rightarrow> ('b, mutation_record) proc" where
  "recover_unknown br ts row =
     bindp (if mr_state row = PREPARED then consumed_ids (mr_authorization_id row) else ret False) (\<lambda>consumed.
     bindp (if consumed then advance_mutation (mr_mutation_id row) PREPARED AUTHORIZED ts None
            else ret row) (\<lambda>row.
     if mr_state row = AUTHORIZED then
       bindp (advance_mutation (mr_mutation_id row) AUTHORIZED DISPATCHING ts None) (\<lambda>dispatching.
       bindp (dispatch_recovery br dispatching) (\<lambda>response.
       advance_mutation (mr_mutation_id dispatching) DISPATCHING ACKNOWLEDGED ts
         (Some (bo_broker_order_id response))))
     else if mr_state row = DISPATCHING then
       advance_mutation (mr_mutation_id row) DISPATCHING UNRESOLVED ts None
     else ret row))"

fun recover_all ::
  "'b broker \<Rightarrow> (string \<Rightarrow> broker_order option) \<Rightarrow> datetime \<Rightarrow> mutation_record list \<Rightarrow>
   ('b, mutation_record list) proc" where
  "recover_all br known_orders ts [] = ret []"
| "recover_all br known_orders ts (row # rows) =
     bindp (case known_orders (mr_client_order_id row) of
              Some order \<Rightarrow> recover_known order ts row
            | None \<Rightarrow> recover_unknown br ts row) (\<lambda>result.
     bindp (recover_all br known_orders ts rows) (\<lambda>results. ret (result # results)))"

definition pending_mutations :: "('b, mutation_record list) proc" where
  "pending_mutations = durable (\<lambda>w. (pending (w_journal w), w))"

definition reconcile_startup :: "'b broker \<Rightarrow> datetime \<Rightarrow> ('b, mutation_record list) proc" where
  "reconcile_startup br ts =
     bindp (pure (aware ts)) (\<lambda>_.
     bindp (get_orders br) (\<lambda>orders.
     bindp pending_mutations (\<lambda>rows.
     recover_all br (map_of (rev (map (\<lambda>item. (bo_client_order_id item, item)) orders))) ts rows)))"

subsection \<open>Reasoning about procedures\<close>

text \<open>
  \<open>triple P m Q R\<close>: run from a world with \<open>P\<close>, the procedure returns in one with \<open>Q\<close> or raises,
  or stops, in one with \<open>R\<close>.
\<close>

definition triple ::
  "('b world \<Rightarrow> bool) \<Rightarrow> ('b, 'a) proc \<Rightarrow> ('a \<Rightarrow> 'b world \<Rightarrow> bool) \<Rightarrow> ('b world \<Rightarrow> bool) \<Rightarrow> bool" where
  "triple P m Q R \<longleftrightarrow> (\<forall>w. P w \<longrightarrow> (case m w of (Inl e, w') \<Rightarrow> R w' | (Inr x, w') \<Rightarrow> Q x w'))"

named_theorems triples "rules for procedures"

lemma triple_bind [triples]:
  "triple P m Q R \<Longrightarrow> (\<And>x. triple (Q x) (f x) S R) \<Longrightarrow> triple P (bindp m f) S R"
  unfolding triple_def bindp_def by (fastforce split: prod.splits sum.splits)

lemma triple_ret [triples]: "triple (Q x) (ret x) Q R"
  by (simp add: triple_def ret_def)

lemma triple_pure: "triple I (pure r) (\<lambda>x w. r = Inr x \<and> I w) I"
  by (auto simp: triple_def pure_def split: sum.splits)

lemma triple_pre: "triple P m Q R \<Longrightarrow> (\<And>w. P' w \<Longrightarrow> P w) \<Longrightarrow> triple P' m Q R"
  by (auto simp: triple_def)

lemma triple_post: "triple P m Q R \<Longrightarrow> (\<And>x w. Q x w \<Longrightarrow> Q' x w) \<Longrightarrow> triple P m Q' R"
  unfolding triple_def by (fastforce split: prod.splits sum.splits)

lemma triple_const_pre: "(C \<Longrightarrow> triple P m Q R) \<Longrightarrow> triple (\<lambda>w. C \<and> P w) m Q R"
  by (auto simp: triple_def)

lemma triple_durable:
  "(\<And>w. P w \<Longrightarrow> R w) \<Longrightarrow> (\<And>w n. P w \<Longrightarrow> P (w\<lparr>w_steps := n\<rparr>)) \<Longrightarrow> triple P m Q R \<Longrightarrow>
   triple P (durable m) Q R"
  unfolding triple_def durable_def by (auto split: nat.split)

lemma triple_if_journal:
  "(c \<Longrightarrow> triple P m (\<lambda>_. Q) R) \<Longrightarrow> (\<not> c \<Longrightarrow> triple P (ret ()) (\<lambda>_. Q) R) \<Longrightarrow>
   triple P (if_journal c m) (\<lambda>_. Q) R"
  unfolding if_journal_def by (auto intro!: triple_bind triple_ret)

lemma triple_if [triples]:
  "(c \<Longrightarrow> triple P m Q R) \<Longrightarrow> (\<not> c \<Longrightarrow> triple P m' Q R) \<Longrightarrow> triple P (if c then m else m') Q R"
  by simp

text \<open>A pure step in the middle: it may raise, and what it returned is known afterwards.\<close>

lemma triple_pure_bind:
  "(\<And>x. r = Inr x \<Longrightarrow> triple I (f x) S I) \<Longrightarrow> triple I (bindp (pure r) f) S I"
  by (rule triple_bind [OF triple_pure]) (rule triple_const_pre)

subsection \<open>Every mutation is dispatched at most once\<close>

fun call_key :: "broker_call \<Rightarrow> string" where
  "call_key (Call_Submit r) = ''SUBMIT:'' @ br_client_order_id r"
| "call_key (Call_Cancel cid) = ''CANCEL:'' @ cid"
| "call_key (Call_Replace cid _) = ''REPLACE:'' @ cid"

definition sent_state :: "mutation_state \<Rightarrow> bool" where
  "sent_state s \<longleftrightarrow> s = DISPATCHING \<or> s = ACKNOWLEDGED \<or> s = UNRESOLVED"

definition sent :: "journal \<Rightarrow> string \<Rightarrow> bool" where
  "sent j mid \<longleftrightarrow> (\<exists>row. dict_get j mid = Some row \<and> sent_state (mr_state row))"

definition row_ok :: "string \<Rightarrow> mutation_record \<Rightarrow> bool" where
  "row_ok mid row \<longleftrightarrow> mr_mutation_id row = mid \<and>
     mr_operation row \<in> {''SUBMIT'', ''CANCEL'', ''REPLACE''} \<and>
     mid = mr_operation row @ '':'' @ mr_client_order_id row \<and>
     (\<forall>r. mr_operation row = ''SUBMIT'' \<longrightarrow> mr_request row = Some r \<longrightarrow>
        br_client_order_id r = mr_client_order_id row)"

definition dispatch_inv :: "'b world \<Rightarrow> bool" where
  "dispatch_inv w \<longleftrightarrow> (\<forall>mid row. dict_get (w_journal w) mid = Some row \<longrightarrow> row_ok mid row) \<and>
     distinct (map call_key (w_calls w)) \<and>
     (\<forall>c\<in>set (w_calls w). sent (w_journal w) (call_key c))"

text \<open>The world in which a mutation has just been moved to \<open>DISPATCHING\<close>.\<close>

definition ready :: "string \<Rightarrow> 'b world \<Rightarrow> bool" where
  "ready mid w \<longleftrightarrow> dispatch_inv w \<and> sent (w_journal w) mid \<and> mid \<notin> call_key ` set (w_calls w)"

lemma dispatch_inv_steps [simp]: "dispatch_inv (w\<lparr>w_steps := n\<rparr>) = dispatch_inv w"
  by (simp add: dispatch_inv_def)

lemma ready_steps [simp]: "ready mid (w\<lparr>w_steps := n\<rparr>) = ready mid w"
  by (simp add: ready_def)

lemma ready_inv: "ready mid w \<Longrightarrow> dispatch_inv w"
  by (simp add: ready_def)

lemma sent_set_other: "sent j mid \<Longrightarrow> mid \<noteq> mid' \<Longrightarrow> sent (dict_set mid' row j) mid"
  by (simp add: sent_def)

lemma sent_set_row: "sent j mid \<Longrightarrow> sent_state (mr_state row) \<Longrightarrow> sent (dict_set mid' row j) mid"
  by (simp add: sent_def)

lemma triple_journal:
  assumes "\<And>w r j. P w \<Longrightarrow> f (w_journal w) = (r, j) \<Longrightarrow>
      (case r of Inl e \<Rightarrow> R (w\<lparr>w_journal := j\<rparr>) | Inr x \<Rightarrow> Q x (w\<lparr>w_journal := j\<rparr>))"
    and "\<And>w. P w \<Longrightarrow> R w" and "\<And>w n. P w \<Longrightarrow> P (w\<lparr>w_steps := n\<rparr>)"
  shows "triple P (durable (\<lambda>w. case f (w_journal w) of (r, j) \<Rightarrow> (r, w\<lparr>w_journal := j\<rparr>))) Q R"
proof (rule triple_durable)
  show "triple P (\<lambda>w. case f (w_journal w) of (r, j) \<Rightarrow> (r, w\<lparr>w_journal := j\<rparr>)) Q R"
    unfolding triple_def using assms(1) by (fastforce split: prod.splits sum.splits)
qed (use assms(2,3) in auto)

lemma dispatch_inv_prepare:
  assumes mid: "mid = operation @ '':'' @ cid"
    and req: "\<And>r. operation = ''SUBMIT'' \<Longrightarrow> request = Some r \<Longrightarrow> br_client_order_id r = cid"
    and w: "dispatch_inv w" and p: "prepare (w_journal w) mid operation cid aid request ts = (r, j)"
  shows "dispatch_inv (w\<lparr>w_journal := j\<rparr>)"
  using p unfolding prepare_def
proof (cases rule: committed_cases)
  case (stored row)
  note n = new_mutation_Inr [OF stored(1)]
  then have "row_ok mid row"
    using mid req by (auto simp: row_ok_def request_json_def)
  moreover have "call_key c \<noteq> mid" if "c \<in> set (w_calls w)" for c
    using w that n by (auto simp: dispatch_inv_def sent_def)
  ultimately show ?thesis
    using w stored(2) by (auto simp: dispatch_inv_def sent_set_other)
qed (use w in simp)

lemma triple_prepare:
  assumes "mid = operation @ '':'' @ cid"
    and "\<And>r. operation = ''SUBMIT'' \<Longrightarrow> request = Some r \<Longrightarrow> br_client_order_id r = cid"
  shows "triple dispatch_inv (prepare_mutation mid operation cid aid request ts)
    (\<lambda>_. dispatch_inv) dispatch_inv"
  unfolding prepare_mutation_def
  by (rule triple_journal) (auto split: sum.split intro: dispatch_inv_prepare [OF assms])

text \<open>A move forward keeps the invariant; the move to \<open>DISPATCHING\<close> makes the mutation ready.\<close>

lemma dispatch_inv_advance:
  assumes w: "dispatch_inv w" and a: "advance (w_journal w) mid expected target ts bid = (r, j)"
    and "sent_state expected \<Longrightarrow> sent_state target"
  shows "dispatch_inv (w\<lparr>w_journal := j\<rparr>)"
  using a unfolding advance_def
proof (cases rule: committed_cases)
  case (stored row')
  from moved_mutation_Inr [OF stored(1)] obtain row where row: "dict_get (w_journal w) mid = Some row"
      and m: "mr_state row = expected" "mr_state row' = target" "mr_mutation_id row' = mr_mutation_id row"
        "mr_operation row' = mr_operation row" "mr_client_order_id row' = mr_client_order_id row"
        "mr_request row' = mr_request row" by blast
  have "row_ok mid row" using w row by (simp add: dispatch_inv_def)
  then have "row_ok mid row'" using m by (simp add: row_ok_def)
  moreover have "sent j k" if "sent (w_journal w) k" for k
    using that row m assms(3) stored(2) by (cases "k = mid") (auto simp: sent_def)
  ultimately show ?thesis
    using w stored(2) by (auto simp: dispatch_inv_def)
qed (use w in simp)

lemma triple_advance:
  assumes "sent_state expected \<Longrightarrow> sent_state target"
  shows "triple dispatch_inv (advance_mutation mid expected target ts bid)
    (\<lambda>row w. dispatch_inv w \<and> mr_state row = target \<and> dict_get (w_journal w) mid = Some row) dispatch_inv"
  unfolding advance_mutation_def
proof (rule triple_journal)
  fix w :: "'b world" and r j
  assume w: "dispatch_inv w" and a: "advance (w_journal w) mid expected target ts bid = (r, j)"
  have "dispatch_inv (w\<lparr>w_journal := j\<rparr>)" using w a assms by (rule dispatch_inv_advance)
  moreover have "mr_state x = target \<and> dict_get j mid = Some x" if "r = Inr x" for x
    using a that unfolding advance_def
    by (cases rule: committed_cases) (auto dest!: moved_mutation_Inr)
  ultimately show "case r of Inl e \<Rightarrow> dispatch_inv (w\<lparr>w_journal := j\<rparr>)
    | Inr x \<Rightarrow> dispatch_inv (w\<lparr>w_journal := j\<rparr>) \<and> mr_state x = target \<and>
        dict_get (w_journal (w\<lparr>w_journal := j\<rparr>)) mid = Some x"
    by (cases r) simp_all
qed simp_all

lemma triple_advance_dispatching:
  "triple dispatch_inv (advance_mutation mid AUTHORIZED DISPATCHING ts bid)
    (\<lambda>row w. ready mid w \<and> dict_get (w_journal w) mid = Some row) dispatch_inv"
  unfolding advance_mutation_def
proof (rule triple_journal)
  fix w :: "'b world" and r j
  assume w: "dispatch_inv w" and a: "advance (w_journal w) mid AUTHORIZED DISPATCHING ts bid = (r, j)"
  have inv: "dispatch_inv (w\<lparr>w_journal := j\<rparr>)"
    using w a by (rule dispatch_inv_advance) (simp add: sent_state_def)
  moreover have "ready mid (w\<lparr>w_journal := j\<rparr>) \<and> dict_get j mid = Some x" if "r = Inr x" for x
    using a that unfolding advance_def
  proof (cases rule: committed_cases)
    case (stored row')
    from moved_mutation_Inr [OF stored(1)] obtain row
      where row: "dict_get (w_journal w) mid = Some row" "mr_state row = AUTHORIZED"
        and row': "mr_state row' = DISPATCHING" by blast
    have "mid \<noteq> call_key c" if "c \<in> set (w_calls w)" for c
      using w that row by (auto simp: dispatch_inv_def sent_def sent_state_def)
    then show ?thesis
      using inv stored that row' by (auto simp: ready_def sent_def sent_state_def)
  qed simp
  ultimately show "case r of Inl e \<Rightarrow> dispatch_inv (w\<lparr>w_journal := j\<rparr>)
    | Inr x \<Rightarrow> ready mid (w\<lparr>w_journal := j\<rparr>) \<and> dict_get (w_journal (w\<lparr>w_journal := j\<rparr>)) mid = Some x"
    by (cases r) simp_all
qed simp_all

lemma triple_consume:
  "triple dispatch_inv (consume_authorization digest i a now) (\<lambda>_. dispatch_inv) dispatch_inv"
  unfolding consume_authorization_def
  by (rule triple_durable) (auto simp: triple_def dispatch_inv_def split: sum.splits)

lemma triple_dispatch:
  assumes "call_key call = mid"
  shows "triple (ready mid) (dispatch call f) (\<lambda>_. dispatch_inv) dispatch_inv"
  unfolding dispatch_def
proof (rule triple_durable)
  show "triple (ready mid) (\<lambda>w. case f (w_broker w) of
      (r, b) \<Rightarrow> (r, w\<lparr>w_broker := b, w_calls := w_calls w @ [call]\<rparr>)) (\<lambda>_. dispatch_inv) dispatch_inv"
    using assms by (auto simp: triple_def ready_def dispatch_inv_def split: prod.splits sum.splits)
qed (auto intro: ready_inv)

lemma triple_authorize:
  "triple dispatch_inv (authorize_mutation digest True mid i a ts) (\<lambda>_. ready mid) dispatch_inv"
  unfolding authorize_mutation_def if_journal_def if_True
proof (intro triple_bind [OF triple_consume] triple_bind)
  show "triple dispatch_inv (advance_mutation mid PREPARED AUTHORIZED ts None) (\<lambda>_. dispatch_inv) dispatch_inv"
    by (rule triple_post [OF triple_advance]) (auto simp: sent_state_def)
  show "triple dispatch_inv (ret ()) (\<lambda>_. dispatch_inv) dispatch_inv" for x :: mutation_record
    by (rule triple_ret)
  show "triple dispatch_inv (advance_mutation mid AUTHORIZED DISPATCHING ts None) (\<lambda>_. ready mid) dispatch_inv"
    by (rule triple_post [OF triple_advance_dispatching]) simp
  show "triple (ready mid) (ret ()) (\<lambda>_. ready mid) dispatch_inv" for x :: mutation_record
    by (rule triple_ret)
qed

lemma triple_acknowledge:
  "triple dispatch_inv (acknowledge_mutation True mid response ts) (\<lambda>_. dispatch_inv) dispatch_inv"
  unfolding acknowledge_mutation_def if_journal_def if_True
proof (rule triple_bind)
  show "triple dispatch_inv (advance_mutation mid DISPATCHING ACKNOWLEDGED ts
      (Some (bo_broker_order_id response))) (\<lambda>_. dispatch_inv) dispatch_inv"
    by (rule triple_post [OF triple_advance]) (auto simp: sent_state_def)
qed (rule triple_ret)

lemma triple_prepare_journal:
  assumes "mid = operation @ '':'' @ cid"
    and "\<And>r. operation = ''SUBMIT'' \<Longrightarrow> request = Some r \<Longrightarrow> br_client_order_id r = cid"
  shows "triple dispatch_inv (if_journal True (prepare_mutation mid operation cid aid request ts))
    (\<lambda>_. dispatch_inv) dispatch_inv"
  unfolding if_journal_def if_True
  by (rule triple_bind [OF triple_prepare [OF assms]]) (assumption+, rule triple_ret)

lemma triple_dispatch_ready:
  "mid = ''SUBMIT:'' @ br_client_order_id request \<Longrightarrow>
   triple (ready mid) (submit_order br request) (\<lambda>_. dispatch_inv) dispatch_inv"
  "mid = ''CANCEL:'' @ cid \<Longrightarrow>
   triple (ready mid) (cancel_live_order br cid) (\<lambda>_. dispatch_inv) dispatch_inv"
  "mid = ''REPLACE:'' @ cid \<Longrightarrow>
   triple (ready mid) (replace_live_order br cid request) (\<lambda>_. dispatch_inv) dispatch_inv"
  unfolding submit_order_def cancel_live_order_def replace_live_order_def
  by (rule triple_dispatch; simp)+

lemma triple_submit:
  "triple dispatch_inv (submit digest v br st elog ts True controls) (\<lambda>_. dispatch_inv) dispatch_inv"
  unfolding submit_def Let_def
  by (intro triple_pure_bind triple_bind [OF triple_prepare_journal] triple_bind [OF triple_authorize]
      triple_bind [OF triple_dispatch_ready(1)] triple_bind [OF triple_acknowledge] triple_ret) simp_all

lemma triple_cancel:
  "triple dispatch_inv (cancel digest cid v br st elog ts True controls) (\<lambda>_. dispatch_inv) dispatch_inv"
  unfolding cancel_def Let_def
  by (intro triple_pure_bind triple_bind [OF triple_prepare_journal] triple_bind [OF triple_authorize]
      triple_bind [OF triple_dispatch_ready(2)] triple_bind [OF triple_acknowledge] triple_ret) simp_all

lemma triple_replace:
  "triple dispatch_inv (replace_order digest repl br st elog ts True controls) (\<lambda>_. dispatch_inv) dispatch_inv"
  unfolding replace_order_def Let_def
  by (intro triple_pure_bind triple_bind [OF triple_prepare_journal] triple_bind [OF triple_authorize]
      triple_bind [OF triple_dispatch_ready(3)] triple_bind [OF triple_acknowledge] triple_ret) simp_all

text \<open>Recovery.\<close>

lemma triple_durable_read:
  fixes m :: "('b, 'a) proc"
  assumes m: "\<And>w. dispatch_inv w \<Longrightarrow> dispatch_inv (snd (m w))"
  shows "triple dispatch_inv (durable m) (\<lambda>_. dispatch_inv) dispatch_inv"
proof (rule triple_durable)
  show "triple dispatch_inv m (\<lambda>_. dispatch_inv) dispatch_inv"
    unfolding triple_def
  proof (intro allI impI)
    fix w :: "'b world"
    assume "dispatch_inv w"
    then have "dispatch_inv (snd (m w))" by (rule m)
    then show "case m w of (Inl e, w') \<Rightarrow> dispatch_inv w' | (Inr x, w') \<Rightarrow> dispatch_inv w'"
      by (cases "m w"; cases "fst (m w)") simp_all
  qed
qed simp_all

lemma triple_get_orders: "triple dispatch_inv (get_orders br) (\<lambda>_. dispatch_inv) dispatch_inv"
  unfolding get_orders_def by (rule triple_durable_read) (simp add: dispatch_inv_def split: prod.split)

lemma triple_pending: "triple dispatch_inv pending_mutations (\<lambda>_. dispatch_inv) dispatch_inv"
  unfolding pending_mutations_def by (rule triple_durable_read) simp

lemma triple_consumed_ids: "triple dispatch_inv (consumed_ids aid) (\<lambda>_. dispatch_inv) dispatch_inv"
  unfolding consumed_ids_def by (rule triple_durable_read) simp

lemma triple_advance_if:
  assumes "\<And>s. s \<in> set states \<Longrightarrow> sent_state s \<Longrightarrow> sent_state target"
  shows "triple dispatch_inv (advance_if states target ts bid row) (\<lambda>_. dispatch_inv) dispatch_inv"
  unfolding advance_if_def
  by (rule triple_if) (auto intro!: triple_ret triple_post [OF triple_advance] dest: assms)

lemma triple_recover_known:
  "triple dispatch_inv (recover_known order ts row) (\<lambda>_. dispatch_inv) dispatch_inv"
  unfolding recover_known_def
  by (intro triple_bind [OF triple_advance_if] triple_advance_if) (auto simp: sent_state_def)

lemma triple_dispatch_recovery:
  "triple (\<lambda>w. ready (mr_mutation_id row) w \<and> dict_get (w_journal w) mid = Some row)
     (dispatch_recovery br row) (\<lambda>_. dispatch_inv) dispatch_inv"
proof (cases "row_ok mid row")
  case True
  note id = True [unfolded row_ok_def]
  let ?R = "ready (mr_mutation_id row)"
  have "triple ?R (dispatch_recovery br row) (\<lambda>_. dispatch_inv) dispatch_inv"
    unfolding dispatch_recovery_def
  proof (intro triple_if)
    assume "mr_operation row = ''SUBMIT'' \<and> mr_request row \<noteq> None"
    with id show "triple ?R (submit_order br (the (mr_request row))) (\<lambda>_. dispatch_inv) dispatch_inv"
      by (intro triple_dispatch_ready) auto
  next
    assume "mr_operation row = ''CANCEL''"
    with id show "triple ?R (cancel_live_order br (mr_client_order_id row)) (\<lambda>_. dispatch_inv) dispatch_inv"
      by (intro triple_dispatch_ready) simp
  next
    assume "mr_operation row = ''REPLACE'' \<and> mr_request row \<noteq> None"
    with id show "triple ?R (replace_live_order br (mr_client_order_id row) (the (mr_request row)))
        (\<lambda>_. dispatch_inv) dispatch_inv"
      by (intro triple_dispatch_ready) simp
  qed (auto simp: triple_def pure_def intro: ready_inv)
  then show ?thesis by (rule triple_pre) simp
next
  case False
  then have "\<not> (ready (mr_mutation_id row) w \<and> dict_get (w_journal w) mid = Some row)" for w :: "'a world"
    by (auto simp: ready_def dispatch_inv_def)
  then show ?thesis unfolding triple_def by blast
qed

lemma triple_recover_unknown:
  "triple dispatch_inv (recover_unknown br ts row) (\<lambda>_. dispatch_inv) dispatch_inv"
  unfolding recover_unknown_def
proof (intro triple_bind triple_if)
  show "triple dispatch_inv (consumed_ids (mr_authorization_id row)) (\<lambda>_. dispatch_inv) dispatch_inv"
    by (rule triple_consumed_ids)
  show "triple dispatch_inv (ret False) (\<lambda>_. dispatch_inv) dispatch_inv" by (rule triple_ret)
  show "triple dispatch_inv (advance_mutation (mr_mutation_id row) PREPARED AUTHORIZED ts None)
      (\<lambda>_. dispatch_inv) dispatch_inv"
    by (rule triple_post [OF triple_advance]) (auto simp: sent_state_def)
  show "triple dispatch_inv (ret row) (\<lambda>_. dispatch_inv) dispatch_inv" by (rule triple_ret)
next
  fix row' :: mutation_record
  show "triple dispatch_inv (advance_mutation (mr_mutation_id row') AUTHORIZED DISPATCHING ts None)
      (\<lambda>d w. ready (mr_mutation_id d) w \<and> dict_get (w_journal w) (mr_mutation_id row') = Some d) dispatch_inv"
    by (rule triple_post [OF triple_advance_dispatching])
      (auto simp: ready_def dispatch_inv_def row_ok_def)
  show "triple (\<lambda>w. ready (mr_mutation_id d) w \<and> dict_get (w_journal w) (mr_mutation_id row') = Some d)
      (dispatch_recovery br d) (\<lambda>_. dispatch_inv) dispatch_inv" for d
    by (rule triple_dispatch_recovery)
  show "triple dispatch_inv (advance_mutation (mr_mutation_id d) DISPATCHING ACKNOWLEDGED ts bid)
      (\<lambda>_. dispatch_inv) dispatch_inv" for d :: mutation_record and bid
    by (rule triple_post [OF triple_advance]) (auto simp: sent_state_def)
  show "triple dispatch_inv (advance_mutation (mr_mutation_id row') DISPATCHING UNRESOLVED ts None)
      (\<lambda>_. dispatch_inv) dispatch_inv"
    by (rule triple_post [OF triple_advance]) (auto simp: sent_state_def)
  show "triple dispatch_inv (ret row') (\<lambda>_. dispatch_inv) dispatch_inv" by (rule triple_ret)
qed

lemma triple_recover_all:
  "triple dispatch_inv (recover_all br known_orders ts rows) (\<lambda>_. dispatch_inv) dispatch_inv"
proof (induction rows)
  case Nil
  then show ?case unfolding recover_all.simps by (rule triple_ret)
next
  case (Cons row rows)
  have "triple dispatch_inv (case known_orders (mr_client_order_id row) of
      Some order \<Rightarrow> recover_known order ts row | None \<Rightarrow> recover_unknown br ts row)
      (\<lambda>_. dispatch_inv) dispatch_inv"
    by (cases "known_orders (mr_client_order_id row)") (auto intro: triple_recover_known triple_recover_unknown)
  then show ?case
    unfolding recover_all.simps by (intro triple_bind [OF _ triple_bind [OF Cons.IH triple_ret]])
qed

lemma triple_reconcile:
  "triple dispatch_inv (reconcile_startup br ts) (\<lambda>_. dispatch_inv) dispatch_inv"
  unfolding reconcile_startup_def
  by (intro triple_pure_bind triple_bind [OF triple_get_orders] triple_bind [OF triple_pending]
      triple_recover_all)

end
