(* ===== verification/Live_Safety.thy ===== *)
theory Live_Safety
  imports Order_Manager
begin

text \<open>
  What the order manager, the journal and the recovery guarantee together: every mutation
  reaches the broker at most once however often the process stops and restarts, a call of
  the manager needs a consumed authorization, and three runs in which the code does not do
  what its documentation says (recovery, later fills and immediate fills).
\<close>

subsection \<open>Attempts\<close>

text \<open>
  The calls of the four procedures, each with the local state the caller has at that moment.
  Between two calls the registry and the broker may change in any way, and every call may be
  stopped after any number of steps; only the journal is the one the last call left.
\<close>

datatype manager_call =
    Submit_Order validated_intent local_portfolio_state "execution_event list" datetime bool
  | Cancel_Order string validated_intent local_portfolio_state "execution_event list" datetime bool
  | Replace_Order replacement_request local_portfolio_state "execution_event list" datetime bool
  | Startup datetime

fun perform :: "digest \<Rightarrow> 'b broker \<Rightarrow> controls \<Rightarrow> manager_call \<Rightarrow> 'b world \<Rightarrow> 'b world" where
  "perform digest br controls (Submit_Order v st elog ts hj) w =
     snd (submit digest v br st elog ts hj controls w)"
| "perform digest br controls (Cancel_Order cid v st elog ts hj) w =
     snd (cancel digest cid v br st elog ts hj controls w)"
| "perform digest br controls (Replace_Order repl st elog ts hj) w =
     snd (replace_order digest repl br st elog ts hj controls w)"
| "perform digest br controls (Startup ts) w = snd (reconcile_startup br ts w)"

record 'b attempt =
  at_call :: manager_call
  at_steps :: nat
  at_registry :: registry
  at_broker :: 'b

definition attempt :: "digest \<Rightarrow> 'b broker \<Rightarrow> controls \<Rightarrow> 'b attempt \<Rightarrow> 'b world \<Rightarrow> 'b world" where
  "attempt digest br controls a w = perform digest br controls (at_call a)
     (w\<lparr>w_registry := at_registry a, w_broker := at_broker a, w_steps := at_steps a\<rparr>)"

definition attempts :: "digest \<Rightarrow> 'b broker \<Rightarrow> controls \<Rightarrow> 'b attempt list \<Rightarrow> 'b world \<Rightarrow> 'b world" where
  "attempts digest br controls as w = fold (attempt digest br controls) as w"

text \<open>Without a journal the procedures refuse a broker that requires one before any effect.\<close>

lemma requires_journal:
  assumes "bk_requires_journal br"
  shows "\<exists>e. require_live_controls br False controls = Inl e"
  using assms by (simp add: require_live_controls_def demand_def check_def)

lemma no_journal_unchanged:
  assumes "bk_requires_journal br"
  shows "snd (submit digest v br st elog ts False controls w) = w"
    and "snd (cancel digest cid v br st elog ts False controls w) = w"
    and "snd (replace_order digest repl br st elog ts False controls w) = w"
  using requires_journal [OF assms, of controls]
  by (auto simp: submit_def cancel_def replace_order_def Let_def bindp_def pure_def)

lemma triple_snd: "triple P m (\<lambda>_. P) P \<Longrightarrow> P w \<Longrightarrow> P (snd (m w))"
  unfolding triple_def by (cases "m w"; cases "fst (m w)") fastforce+

lemma perform_dispatch_inv:
  assumes br: "bk_requires_journal br" and w: "dispatch_inv w"
  shows "dispatch_inv (perform digest br controls call w)"
proof (cases call)
  case (Submit_Order v st elog ts hj)
  then show ?thesis
    using w no_journal_unchanged(1) [OF br] triple_snd [OF triple_submit w] by (cases hj) simp_all
next
  case (Cancel_Order cid v st elog ts hj)
  then show ?thesis
    using w no_journal_unchanged(2) [OF br] triple_snd [OF triple_cancel w] by (cases hj) simp_all
next
  case (Replace_Order repl st elog ts hj)
  then show ?thesis
    using w no_journal_unchanged(3) [OF br] triple_snd [OF triple_replace w] by (cases hj) simp_all
next
  case (Startup ts)
  then show ?thesis using triple_snd [OF triple_reconcile w] by simp
qed

lemma attempts_dispatch_inv:
  assumes br: "bk_requires_journal br"
  shows "dispatch_inv w \<Longrightarrow> dispatch_inv (attempts digest br controls as w)"
  unfolding attempts_def
proof (induction as arbitrary: w)
  case (Cons a as)
  have "dispatch_inv (attempt digest br controls a w)"
    unfolding attempt_def using Cons.prems
    by (intro perform_dispatch_inv [OF br]) (simp add: dispatch_inv_def)
  then show ?case by (simp add: Cons.IH)
qed simp

text \<open>
  C13: Against a broker that requires a journal, over any sequence of submissions,
  cancellations, replacements and recoveries, each of them stopped after any number of
  steps and with any changes of registry and broker in between, no mutation of an order is
  sent to the broker twice, and every mutation sent has a journal row that says it may have
  been sent.
\<close>

theorem dispatched_at_most_once:
  assumes "bk_requires_journal br" and "w_journal w = []" and "w_calls w = []"
    and w': "w' = attempts digest br controls as w"
  shows "distinct (map call_key (w_calls w')) \<and>
    (\<forall>c\<in>set (w_calls w'). sent (w_journal w') (call_key c))"
proof -
  have "dispatch_inv w" using assms by (simp add: dispatch_inv_def)
  then have "dispatch_inv w'" unfolding w' by (rule attempts_dispatch_inv [OF assms(1)])
  then show ?thesis by (simp add: dispatch_inv_def)
qed

subsection \<open>A call needs a consumed authorization\<close>

lemma triple_raise: "triple P m Q R \<Longrightarrow> (\<And>w. R w \<Longrightarrow> R' w) \<Longrightarrow> triple P m Q R'"
  unfolding triple_def by (fastforce split: prod.splits sum.splits)

lemma triple_bind_weak:
  "triple P m Q P \<Longrightarrow> (\<And>w. P w \<Longrightarrow> R w) \<Longrightarrow> (\<And>x. triple (Q x) (f x) S R) \<Longrightarrow>
   triple P (bindp m f) S R"
  by (rule triple_bind [OF triple_raise])

text \<open>The calls so far and the registry; the journal does not change them.\<close>

definition calls_at :: "broker_call list \<Rightarrow> registry \<Rightarrow> 'b world \<Rightarrow> bool" where
  "calls_at cs reg w \<longleftrightarrow> w_calls w = cs \<and> w_registry w = reg"

lemma calls_at_steps [simp]: "calls_at cs reg (w\<lparr>w_steps := n\<rparr>) = calls_at cs reg w"
  by (simp add: calls_at_def)

lemma calls_at_journal [simp]: "calls_at cs reg (w\<lparr>w_journal := j\<rparr>) = calls_at cs reg w"
  by (simp add: calls_at_def)

lemma triple_calls_journal:
  "triple (calls_at cs reg) (prepare_mutation mid operation cid aid request ts)
     (\<lambda>_. calls_at cs reg) (calls_at cs reg)"
  "triple (calls_at cs reg) (advance_mutation mid expected target ts bid)
     (\<lambda>_. calls_at cs reg) (calls_at cs reg)"
  unfolding prepare_mutation_def advance_mutation_def
  by (rule triple_journal; simp split: sum.split)+

lemma triple_calls_if_journal:
  "triple (calls_at cs reg) m (\<lambda>_. calls_at cs reg) (calls_at cs reg) \<Longrightarrow>
   triple (calls_at cs reg) (if_journal c m) (\<lambda>_. calls_at cs reg) (calls_at cs reg)"
  by (rule triple_if_journal) (auto intro: triple_ret)

text \<open>What a call of the manager with authorization \<open>a\<close> for intent \<open>i\<close> may have done.\<close>

definition authorized_outcome ::
  "digest \<Rightarrow> execution_intent \<Rightarrow> live_authorization \<Rightarrow> datetime \<Rightarrow> (broker_call \<Rightarrow> bool) \<Rightarrow>
   broker_call list \<Rightarrow> registry \<Rightarrow> broker_call list \<Rightarrow> registry \<Rightarrow> bool" where
  "authorized_outcome digest i a ts permitted cs reg cs' reg' \<longleftrightarrow>
     cs' = cs \<and> (reg' = reg \<or> consume digest reg i a ts = Inr reg') \<or>
     (\<exists>call. permitted call \<and> cs' = cs @ [call]) \<and> consume digest reg i a ts = Inr reg'"

abbreviation outcome_at where
  "outcome_at digest i a ts permitted cs reg \<equiv>
     (\<lambda>w. authorized_outcome digest i a ts permitted cs reg (w_calls w) (w_registry w))"

lemma outcome_unchanged: "calls_at cs reg w \<Longrightarrow> outcome_at digest i a ts permitted cs reg w"
  by (simp add: calls_at_def authorized_outcome_def)

lemma outcome_consumed:
  "consume digest reg i a ts = Inr reg' \<Longrightarrow> calls_at cs reg' w \<Longrightarrow>
   outcome_at digest i a ts permitted cs reg w"
  by (simp add: calls_at_def authorized_outcome_def)

lemma outcome_called:
  "consume digest reg i a ts = Inr reg' \<Longrightarrow> permitted call \<Longrightarrow> calls_at (cs @ [call]) reg' w \<Longrightarrow>
   outcome_at digest i a ts permitted cs reg w"
  by (auto simp: calls_at_def authorized_outcome_def)

text \<open>The common second half: authorization, dispatch, acknowledgement and local steps.\<close>

definition consumed_at where
  "consumed_at digest i a ts cs reg w \<longleftrightarrow>
     (\<exists>reg'. consume digest reg i a ts = Inr reg' \<and> calls_at cs reg' w)"

lemma triple_calls_consume:
  "triple (calls_at cs reg) (consume_authorization digest i a ts)
     (\<lambda>_. consumed_at digest i a ts cs reg) (calls_at cs reg)"
  unfolding consume_authorization_def
  by (rule triple_durable) (auto simp: triple_def calls_at_def consumed_at_def split: sum.splits)

lemma triple_exists: "(\<And>x. C x \<Longrightarrow> triple (P x) m Q R) \<Longrightarrow> triple (\<lambda>w. \<exists>x. C x \<and> P x w) m Q R"
  unfolding triple_def by (intro allI impI, elim exE conjE) (drule meta_spec, drule meta_mp, assumption, drule spec, erule mp)

lemma triple_dispatched:
  assumes "permitted call"
  shows "triple (consumed_at digest i a ts cs reg) (dispatch call f)
    (\<lambda>_ w. \<exists>reg'. consume digest reg i a ts = Inr reg' \<and> calls_at (cs @ [call]) reg' w)
    (outcome_at digest i a ts permitted cs reg)"
  unfolding dispatch_def consumed_at_def
proof (rule triple_exists, rule triple_durable)
  fix reg' assume c: "consume digest reg i a ts = Inr reg'"
  show "triple (calls_at cs reg') (\<lambda>w. case f (w_broker w) of
      (r, b) \<Rightarrow> (r, w\<lparr>w_broker := b, w_calls := w_calls w @ [call]\<rparr>))
    (\<lambda>_ w. \<exists>reg'. consume digest reg i a ts = Inr reg' \<and> calls_at (cs @ [call]) reg' w)
    (outcome_at digest i a ts permitted cs reg)"
    using assms c by (auto simp: triple_def calls_at_def authorized_outcome_def split: prod.splits sum.splits)
qed (auto intro: outcome_consumed)

lemma triple_authorized_call:
  assumes allowed: "permitted call"
    and rest: "\<And>x cs reg. triple (calls_at cs reg) (k x) (\<lambda>_. calls_at cs reg) (calls_at cs reg)"
  shows "triple (calls_at cs reg)
    (bindp (authorize_mutation digest hj mid i a ts) (\<lambda>_. bindp (dispatch call f) k))
    (\<lambda>_. outcome_at digest i a ts permitted cs reg) (outcome_at digest i a ts permitted cs reg)"
proof (rule triple_bind)
  let ?R = "outcome_at digest i a ts permitted cs reg"
  show "triple (calls_at cs reg) (authorize_mutation digest hj mid i a ts)
      (\<lambda>_. consumed_at digest i a ts cs reg) ?R"
    unfolding authorize_mutation_def
  proof (rule triple_bind_weak [OF triple_calls_consume outcome_unchanged])
    show "triple (consumed_at digest i a ts cs reg)
        (bindp (if_journal hj (advance_mutation mid PREPARED AUTHORIZED ts None))
          (\<lambda>_. if_journal hj (advance_mutation mid AUTHORIZED DISPATCHING ts None)))
        (\<lambda>_. consumed_at digest i a ts cs reg) ?R"
      unfolding consumed_at_def
    proof (rule triple_exists)
      fix reg' assume c: "consume digest reg i a ts = Inr reg'"
      have adv: "triple (calls_at cs reg')
          (bindp (if_journal hj (advance_mutation mid PREPARED AUTHORIZED ts None))
            (\<lambda>_. if_journal hj (advance_mutation mid AUTHORIZED DISPATCHING ts None)))
          (\<lambda>_. calls_at cs reg') (calls_at cs reg')"
        by (intro triple_bind [OF triple_calls_if_journal] triple_calls_if_journal triple_calls_journal)
      show "triple (calls_at cs reg')
          (bindp (if_journal hj (advance_mutation mid PREPARED AUTHORIZED ts None))
            (\<lambda>_. if_journal hj (advance_mutation mid AUTHORIZED DISPATCHING ts None)))
          (\<lambda>_ w. \<exists>reg'. consume digest reg i a ts = Inr reg' \<and> calls_at cs reg' w) ?R"
        using c by (intro triple_raise [OF triple_post [OF adv]]) (auto intro: outcome_consumed)
    qed
  qed
next
  let ?R = "outcome_at digest i a ts permitted cs reg"
  show "triple (consumed_at digest i a ts cs reg) (bindp (dispatch call f) k) (\<lambda>_. ?R) ?R"
  proof (rule triple_bind [OF triple_dispatched [where permitted = permitted, OF allowed]], rule triple_exists)
    fix x reg' assume c: "consume digest reg i a ts = Inr reg'"
    show "triple (calls_at (cs @ [call]) reg') (k x) (\<lambda>_. ?R) ?R"
      using c allowed
      by (intro triple_raise [OF triple_post [OF rest]]) (auto intro: outcome_called)
  qed
qed

lemma triple_calls_rest:
  "(\<And>x. triple (calls_at cs reg) (f x) (\<lambda>_. calls_at cs reg) (calls_at cs reg)) \<Longrightarrow>
   triple (calls_at cs reg) (bindp (acknowledge_mutation hj mid response ts) f)
     (\<lambda>_. calls_at cs reg) (calls_at cs reg)"
  unfolding acknowledge_mutation_def
  by (rule triple_bind [OF triple_calls_if_journal [OF triple_calls_journal(2)]])

text \<open>The steps before: they may raise with nothing changed, or go on.\<close>

lemma triple_calls_pure:
  "(\<And>x. r = Inr x \<Longrightarrow> triple (calls_at cs reg) (f x) (\<lambda>_. outcome_at digest i a ts p cs reg)
      (outcome_at digest i a ts p cs reg)) \<Longrightarrow>
   triple (calls_at cs reg) (bindp (pure r) f) (\<lambda>_. outcome_at digest i a ts p cs reg)
      (outcome_at digest i a ts p cs reg)"
  by (rule triple_bind_weak [OF triple_pure outcome_unchanged]) (auto intro: triple_const_pre)

lemma triple_calls_prepare:
  "triple (calls_at cs reg) m (\<lambda>_. outcome_at digest i a ts p cs reg) (outcome_at digest i a ts p cs reg) \<Longrightarrow>
   triple (calls_at cs reg) (bindp (if_journal hj (prepare_mutation mid operation cid aid request t)) (\<lambda>_. m))
      (\<lambda>_. outcome_at digest i a ts p cs reg) (outcome_at digest i a ts p cs reg)"
  by (rule triple_bind_weak [OF triple_calls_if_journal [OF triple_calls_journal(1)] outcome_unchanged])

lemma triple_calls_local:
  "(\<And>x. triple (calls_at cs reg) (f x) (\<lambda>_. calls_at cs reg) (calls_at cs reg)) \<Longrightarrow>
   triple (calls_at cs reg) (bindp (pure r) f) (\<lambda>_. calls_at cs reg) (calls_at cs reg)"
  by (rule triple_pure_bind)

lemmas calls_rules = triple_calls_pure triple_calls_prepare triple_authorized_call
  triple_calls_rest triple_calls_local triple_ret

lemma translate_order_Inr:
  "translate_order digest v now = Inr r \<Longrightarrow>
   r = intent_request (vi_intent v) \<and> validate_order_request r = Inr ()"
  by (auto simp: translate_order_def make_broker_order_request_def Let_def res_simps)

lemma triple_calls_submit:
  "triple (calls_at cs reg) (submit digest v br st elog ts hj controls)
     (\<lambda>_. outcome_at digest (vi_intent v) (vi_authorization v) ts
       (\<lambda>c. c = Call_Submit (intent_request (vi_intent v))) cs reg)
     (outcome_at digest (vi_intent v) (vi_authorization v) ts
       (\<lambda>c. c = Call_Submit (intent_request (vi_intent v))) cs reg)"
  unfolding submit_def submit_order_def Let_def
  by (intro calls_rules) (auto dest: translate_order_Inr)

lemma triple_calls_cancel:
  "triple (calls_at cs reg) (cancel digest cid v br st elog ts hj controls)
     (\<lambda>_. outcome_at digest (vi_intent v) (vi_authorization v) ts (\<lambda>c. c = Call_Cancel cid) cs reg)
     (outcome_at digest (vi_intent v) (vi_authorization v) ts (\<lambda>c. c = Call_Cancel cid) cs reg)"
  unfolding cancel_def cancel_live_order_def Let_def by (intro calls_rules) simp

lemma triple_calls_replace:
  "triple (calls_at cs reg) (replace_order digest repl br st elog ts hj controls)
     (\<lambda>_. outcome_at digest (vi_intent (rr_validated_intent repl))
       (vi_authorization (rr_validated_intent repl)) ts
       (\<lambda>c. \<exists>r. c = Call_Replace (rr_client_order_id repl) r \<and>
          replacement_details_match (vi_intent (rr_validated_intent repl)) r) cs reg)
     (outcome_at digest (vi_intent (rr_validated_intent repl))
       (vi_authorization (rr_validated_intent repl)) ts
       (\<lambda>c. \<exists>r. c = Call_Replace (rr_client_order_id repl) r \<and>
          replacement_details_match (vi_intent (rr_validated_intent repl)) r) cs reg)"
  unfolding replace_order_def replace_live_order_def Let_def by (intro calls_rules) simp


subsection \<open>Later fills\<close>

text \<open>
  A fill that does not complete an order that is already partially filled is lost: the
  order keeps the fills and the filled quantity it had, because the transition returns early
  when the status is the same, while the event elog reports the fill; reported again, the same
  fill is logged again.
\<close>

theorem later_partial_fill_is_lost:
  assumes found: "find (\<lambda>item. lo_broker_order_id item = Some (bf_broker_order_id f)) (lp_orders st) = Some lo"
    and status: "lo_status lo = LIVE_PARTIALLY_FILLED"
    and new: "\<forall>item\<in>set (lo_fills lo). bf_fill_id item \<noteq> bf_fill_id f"
    and partial: "fill_total (lo_fills lo @ [f]) \<noteq> fin (br_quantity (lo_request lo))"
    and aware: "tz_aware (bf_timestamp f)"
  shows "\<exists>event. ee_event_type event = EVENT_PARTIAL_FILL \<and>
    reconcile_fill (st, elog) f = Inr (upsert_order st lo, elog @ [event])"
  using assms by (auto simp: reconcile_fill_def transition_order_def append_execution_event_def Let_def)

definition ex_request :: broker_order_request where
  "ex_request = \<lparr>br_client_order_id = ''A'', br_symbol = ''A'', br_side = BROKER_BUY,
     br_order_type = BROKER_MARKET, br_quantity = Fin 10, br_limit_price = None,
     br_stop_price = None, br_time_in_force = TIF_DAY, br_trading_session = SESSION_AUTO\<rparr>"

definition ex_fill :: "string \<Rightarrow> rat \<Rightarrow> broker_fill" where
  "ex_fill fid q = \<lparr>bf_fill_id = fid, bf_broker_order_id = ''B'', bf_quantity = Fin q,
     bf_price = Fin 1, bf_timestamp = Aware 3 0\<rparr>"

definition ex_partial :: local_order where
  "ex_partial = \<lparr>lo_request = ex_request, lo_broker_order_id = Some ''B'',
     lo_status = LIVE_PARTIALLY_FILLED, lo_filled_quantity = 3, lo_fills = [ex_fill ''1'' 3],
     lo_updated_timestamp = Aware 3 0, lo_intent = None\<rparr>"

definition ex_portfolio :: local_portfolio_state where
  "ex_portfolio = \<lparr>lp_orders = [ex_partial], lp_positions = [], lp_cash = None\<rparr>"

text \<open>Of an order for 10, filled by 3, 3 and 4, only the first three shares are recorded.\<close>

lemma later_partial_fill_is_lost_witness:
  "\<exists>event. ee_event_type event = EVENT_PARTIAL_FILL \<and>
     reconcile_fill (ex_portfolio, []) (ex_fill ''2'' 3) = Inr (ex_portfolio, [event])"
proof -
  have "upsert_order ex_portfolio ex_partial = ex_portfolio" by code_simp
  moreover have "lp_orders ex_portfolio = [ex_partial]" "bf_broker_order_id (ex_fill ''2'' 3) = ''B''"
    "lo_broker_order_id ex_partial = Some ''B''" "lo_status ex_partial = LIVE_PARTIALLY_FILLED"
    "lo_fills ex_partial = [ex_fill ''1'' 3]"
    by (simp_all add: ex_portfolio_def ex_partial_def ex_fill_def)
  moreover have "fill_total ([ex_fill ''1'' 3] @ [ex_fill ''2'' 3]) \<noteq> fin (br_quantity (lo_request ex_partial))"
    by code_simp
  ultimately show ?thesis
    using later_partial_fill_is_lost [of "ex_fill ''2'' 3" ex_portfolio ex_partial "[]"]
    by (simp add: ex_fill_def)
qed

subsection \<open>Immediate fills\<close>

lemma fill_total_Nil [simp]: "fill_total [] = 0"
  by (simp add: fill_total_def)

text \<open>A fresh order has no fills, and \<open>apply_broker_order\<close> is given none.\<close>

lemma immediate_fill_raises:
  assumes "lo_status lo = LIVE_SUBMITTED" and "lo_fills lo = []"
    and "dec_positive (br_quantity (lo_request lo))"
    and "bo_status response \<in> {LIVE_FILLED, LIVE_PARTIALLY_FILLED}"
  shows "\<exists>e. apply_broker_order lo response ts = Inl e"
proof -
  have "0 < fin (br_quantity (lo_request lo))" using assms(3) by (cases "br_quantity (lo_request lo)") auto
  then show ?thesis
    using assms by (auto simp: apply_broker_order_def transition_order_def Let_def demand_def check_def)
qed

lemma triple_true: "triple (\<lambda>_. True) m (\<lambda>_ _. True) (\<lambda>_. True)"
  unfolding triple_def by (auto split: prod.split sum.split)

lemma fresh_order_submitted:
  "transition_order lo LIVE_SUBMITTED ts None = Inr lo' \<Longrightarrow> lo_status lo = LIVE_NEW \<Longrightarrow>
   lo_status lo' = LIVE_SUBMITTED \<and> lo_fills lo' = lo_fills lo \<and> lo_request lo' = lo_request lo"
  by (auto simp: transition_order_def Let_def)

lemma validated_quantity: "validate_order_request r = Inr () \<Longrightarrow> dec_positive (br_quantity r)"
  by (auto simp: validate_order_request_def)

lemma triple_immediate_fill:
  assumes filled: "\<And>r b resp b'. bk_submit br r b = (Inr resp, b') \<Longrightarrow>
      bo_status resp \<in> {LIVE_FILLED, LIVE_PARTIALLY_FILLED}"
  shows "triple (\<lambda>_. True) (submit digest v br st elog ts hj controls) (\<lambda>_ _. False) (\<lambda>_. True)"
  unfolding submit_def Let_def
proof ((rule triple_pure_bind)+, (rule triple_bind [OF triple_true], rule triple_bind [OF triple_true]))
  fix request lo
  assume request: "translate_order digest v ts = Inr request"
    and lo: "transition_order \<lparr>lo_request = request, lo_broker_order_id = None,
      lo_status = LIVE_NEW, lo_filled_quantity = 0, lo_fills = [], lo_updated_timestamp = ts,
      lo_intent = Some (vi_intent v)\<rparr> LIVE_SUBMITTED ts None = Inr lo"
  let ?filled = "\<lambda>resp _. bo_status resp \<in> {LIVE_FILLED, LIVE_PARTIALLY_FILLED}"
  fix elog' :: "execution_event list"
  show "triple (\<lambda>_. True)
      (bindp (submit_order br request) (\<lambda>response.
       bindp (acknowledge_mutation hj (''SUBMIT:'' @ br_client_order_id request) response ts) (\<lambda>_.
       bindp (pure (apply_broker_order lo response ts)) (\<lambda>local_order.
       bindp (pure (append_execution_event elog' (event_for_status (lo_status local_order))
         (br_client_order_id request) ts
         [(''broker_order_id'', Detail_Text (bo_broker_order_id response))])) (\<lambda>elog.
       ret (upsert_order st local_order, elog)))))) (\<lambda>_ _. False) (\<lambda>_. True)"
  proof (rule triple_bind)
    show "triple (\<lambda>_. True) (submit_order br request) ?filled (\<lambda>_. True)"
      unfolding submit_order_def dispatch_def
      by (rule triple_durable) (auto simp: triple_def dest: filled split: prod.split sum.split)
  next
    fix resp
    have "\<exists>e. apply_broker_order lo resp ts = Inl e"
      if "bo_status resp \<in> {LIVE_FILLED, LIVE_PARTIALLY_FILLED}"
      using immediate_fill_raises [OF _ _ _ that, of lo] fresh_order_submitted [OF lo]
        translate_order_Inr [OF request] validated_quantity by auto
    then show "triple (?filled resp)
        (bindp (acknowledge_mutation hj (''SUBMIT:'' @ br_client_order_id request) resp ts) (\<lambda>_.
         bindp (pure (apply_broker_order lo resp ts)) (\<lambda>local_order.
         bindp (pure (append_execution_event elog' (event_for_status (lo_status local_order))
           (br_client_order_id request) ts
           [(''broker_order_id'', Detail_Text (bo_broker_order_id resp))])) (\<lambda>elog.
         ret (upsert_order st local_order, elog))))) (\<lambda>_ _. False) (\<lambda>_. True)"
      by (auto simp: triple_def bindp_def pure_def split: prod.splits sum.splits)
  qed
qed


subsection \<open>Runs\<close>

definition ex_broker_order :: "broker_order_status \<Rightarrow> broker_order" where
  "ex_broker_order s = \<lparr>bo_broker_order_id = ''B'', bo_client_order_id = ''A'', bo_symbol = ''A'',
     bo_side = BROKER_BUY, bo_order_type = BROKER_MARKET, bo_quantity = Fin 10,
     bo_filled_quantity = Fin 0, bo_limit_price = None, bo_stop_price = None,
     bo_time_in_force = TIF_DAY, bo_status = s, bo_updated_timestamp = Aware 2 0\<rparr>"

text \<open>A broker whose state is the list of its orders and that answers with a given status.\<close>

definition ex_broker :: "broker_order_status \<Rightarrow> broker_order list broker" where
  "ex_broker answer = \<lparr>bk_requires_journal = True,
     bk_submit = (\<lambda>r b. (Inr (ex_broker_order answer), b @ [ex_broker_order answer])),
     bk_cancel = (\<lambda>cid b. (Inr (ex_broker_order LIVE_CANCELLED), [])),
     bk_replace = (\<lambda>cid r b. (Inr (ex_broker_order answer), b)),
     bk_orders = (\<lambda>b. (Inr b, b))\<rparr>"

definition ex_world :: "nat \<Rightarrow> broker_order list world" where
  "ex_world n = \<lparr>w_registry = ex_issued, w_journal = [], w_broker = [], w_calls = [], w_steps = n\<rparr>"

definition ex_validated :: validated_intent where
  "ex_validated = \<lparr>vi_intent = ex_intent, vi_authorization = ex_authorization\<rparr>"

definition ex_empty :: local_portfolio_state where
  "ex_empty = \<lparr>lp_orders = [], lp_positions = [], lp_cash = None\<rparr>"

definition ex_controls :: controls where
  "ex_controls = Some (\<lambda>_ _ _. Inr ())"


text \<open>
  A submission stopped after its call to the broker, a recovery while the broker does not list
  the order, a second submission and a recovery with the order listed: one call.
\<close>

definition ex_attempt :: "manager_call \<Rightarrow> nat \<Rightarrow> broker_order list \<Rightarrow> broker_order list attempt" where
  "ex_attempt call n b = \<lparr>at_call = call, at_steps = n, at_registry = ex_issued, at_broker = b\<rparr>"

definition ex_submission :: manager_call where
  "ex_submission = Submit_Order ex_validated ex_empty [] (Aware 2 0) True"

definition ex_attempts :: "broker_order list attempt list" where
  "ex_attempts = [ex_attempt ex_submission 5 [], ex_attempt (Startup (Aware 3 0)) 9 [],
     ex_attempt ex_submission 9 [], ex_attempt (Startup (Aware 4 0)) 9 [ex_broker_order LIVE_ACKNOWLEDGED]]"

lemma dispatched_at_most_once_witness:
  "distinct (map call_key (w_calls (attempts ex_digest (ex_broker LIVE_ACKNOWLEDGED) ex_controls
     ex_attempts (ex_world 0)))) \<and>
   w_calls (attempts ex_digest (ex_broker LIVE_ACKNOWLEDGED) ex_controls
     ex_attempts (ex_world 0)) = [Call_Submit ex_request]"
proof
  show "distinct (map call_key (w_calls (attempts ex_digest (ex_broker LIVE_ACKNOWLEDGED) ex_controls
     ex_attempts (ex_world 0))))"
    using dispatched_at_most_once [OF _ _ _ refl, of "ex_broker LIVE_ACKNOWLEDGED" "ex_world 0"
        ex_digest ex_controls ex_attempts]
    by (simp add: ex_broker_def ex_world_def)
  show "w_calls (attempts ex_digest (ex_broker LIVE_ACKNOWLEDGED) ex_controls
     ex_attempts (ex_world 0)) = [Call_Submit ex_request]"
    by code_simp
qed

text \<open>A cancellation of an acknowledged order with the authorization its submission has used.\<close>

definition ex_acknowledged :: local_portfolio_state where
  "ex_acknowledged = ex_empty\<lparr>lp_orders := [\<lparr>lo_request = ex_request, lo_broker_order_id = Some ''B'',
     lo_status = LIVE_ACKNOWLEDGED, lo_filled_quantity = 0, lo_fills = [],
     lo_updated_timestamp = Aware 2 0, lo_intent = Some ex_intent\<rparr>]\<rparr>"

definition ex_submitted :: "broker_order list world" where
  "ex_submitted = snd (submit ex_digest ex_validated (ex_broker LIVE_ACKNOWLEDGED) ex_empty []
     (Aware 2 0) True ex_controls (ex_world 9))"

definition ex_cancel :: "(local_portfolio_state \<times> execution_event list) res \<times> broker_order list world" where
  "ex_cancel = cancel ex_digest ''A'' ex_validated (ex_broker LIVE_ACKNOWLEDGED) ex_acknowledged []
     (Aware 3 0) True ex_controls (ex_submitted\<lparr>w_steps := 9\<rparr>)"

definition ex_restart :: "broker_order list \<Rightarrow> broker_order list world" where
  "ex_restart b = snd (reconcile_startup (ex_broker LIVE_ACKNOWLEDGED) (Aware 4 0)
     ((snd ex_cancel)\<lparr>w_broker := b, w_steps := 9\<rparr>))"


end
