(* ===== verification/Risk_Evaluation.thy ===== *)
theory Risk_Evaluation
  imports Compliance Text_Checks
begin

text \<open>
  The advisory risk validator (app/risk/validator.py) with its limits (limits.py) and sizing
  (sizing.py), over the advisory response of app/ai/response\_models.py and the market
  snapshot of app/indicators/market\_snapshot.py.  The limits are finite Decimals; the values
  of responses and snapshots may be anything.  A message that contains a Decimal keeps the
  text around it.
\<close>

subsection \<open>Inputs\<close>

datatype response_action = RESPONSE_BUY | RESPONSE_SELL | RESPONSE_HOLD

record ai_response =
  rs_action :: response_action
  rs_confidence :: int
  rs_reason :: string
  rs_stop_loss :: "dec option"
  rs_take_profit :: "dec option"

record market_snapshot =
  sn_symbol :: string
  sn_close :: dec
  sn_ema_12 :: dec
  sn_ema_26 :: dec
  sn_rsi_14 :: "dec option"
  sn_macd :: dec
  sn_macd_signal :: dec
  sn_macd_histogram :: dec
  sn_atr_14 :: "dec option"
  sn_bollinger_upper :: "dec option"
  sn_bollinger_middle :: "dec option"
  sn_bollinger_lower :: "dec option"
  sn_vwap :: "dec option"

record risk_limits =
  rl_minimum_confidence :: int
  rl_minimum_reward_risk_ratio :: rat
  rl_maximum_position_percent :: rat
  rl_missing_atr_position_percent :: rat

definition default_risk_limits :: risk_limits where
  "default_risk_limits = \<lparr>rl_minimum_confidence = 70, rl_minimum_reward_risk_ratio = 2,
     rl_maximum_position_percent = 5, rl_missing_atr_position_percent = 5/2\<rparr>"

subsection \<open>Sizing\<close>

text \<open>A usable average true range: there, finite and not negative.\<close>

definition usable_atr :: "dec option \<Rightarrow> bool" where
  "usable_atr atr = (case atr of None \<Rightarrow> False | Some a \<Rightarrow> dec_nonnegative a)"

definition calculate_risk_score :: "int \<Rightarrow> rat \<Rightarrow> dec option \<Rightarrow> int" where
  "calculate_risk_score confidence current_price atr =
     (let confidence_risk = dmul (of_int (100 - confidence)) (3/5);
          volatility_risk = (if \<not> usable_atr atr \<or> current_price \<le> 0 then 25
            else min 40 (dmul (dmul (ddiv (fin (the atr)) current_price) 100) 8)) in
      max 0 (min 100 (half_even (dadd confidence_risk volatility_risk))))"

definition calculate_max_position_percent ::
  "bool \<Rightarrow> int \<Rightarrow> rat \<Rightarrow> dec option \<Rightarrow> risk_limits \<Rightarrow> rat res" where
  "calculate_max_position_percent approved confidence current_price atr limits =
     (if \<not> approved then Inr 0
      else let confidence_factor = max 0 (min 1 (ddiv (of_int confidence) 100)) in
      if \<not> usable_atr atr
      then quantize2 (min (rl_missing_atr_position_percent limits)
             (dmul (rl_maximum_position_percent limits) confidence_factor))
      else let atr_percent = dmul (ddiv (fin (the atr)) current_price) 100;
               volatility_factor = max (1/5) (min 1 (ddiv 3 (max atr_percent (1/100)))) in
        quantize2 (min (rl_maximum_position_percent limits)
          (dmul (dmul (rl_maximum_position_percent limits) confidence_factor) volatility_factor)))"

subsection \<open>The validator\<close>

definition rejected_risk :: "string \<Rightarrow> int \<Rightarrow> string list \<Rightarrow> risk_decision res" where
  "rejected_risk reason risk_score warnings = risk_decision_post_init
     \<lparr>rd_approved = False, rd_approval_reason = reason, rd_risk_score = risk_score,
      rd_max_position_percent = 0, rd_stop_loss_valid = False, rd_take_profit_valid = False,
      rd_warnings = warnings\<rparr>"

text \<open>Whether a price is there, is one, and lies on the right side of the current price.\<close>

definition price_warnings :: "string \<Rightarrow> dec option \<Rightarrow> string list" where
  "price_warnings title price = (case price of
     None \<Rightarrow> [title @ '' is required.'']
   | Some p \<Rightarrow> if dec_positive p then [] else [title @ '' must be finite and positive.''])"

definition valid_side :: "bool \<Rightarrow> dec option \<Rightarrow> rat \<Rightarrow> bool" where
  "valid_side below price current = (case price of None \<Rightarrow> False
     | Some p \<Rightarrow> dec_positive p \<and> (if below then fin p < current else current < fin p))"

definition side_warnings :: "string \<Rightarrow> bool \<Rightarrow> dec option \<Rightarrow> rat \<Rightarrow> string list" where
  "side_warnings title below price current =
     (if (case price of None \<Rightarrow> False | Some p \<Rightarrow> dec_positive p) \<and> \<not> valid_side below price current
      then [title @ '' must be '' @ (if below then ''below'' else ''above'') @ '' current price.'']
      else [])"

definition ratio_warnings :: "bool \<Rightarrow> rat \<Rightarrow> dec option \<Rightarrow> dec option \<Rightarrow> rat \<Rightarrow> string list" where
  "ratio_warnings both_valid current stop target minimum =
     (if both_valid then
        let risk = dabs (dsub current (fin (the stop)));
            reward = dabs (dsub (fin (the target)) current) in
        (if risk \<le> 0 \<or> ddiv reward risk < minimum
         then [''Reward:risk ratio must be at least :1.''] else [])
      else [])"

definition risk_warnings :: "ai_response \<Rightarrow> rat \<Rightarrow> risk_limits \<Rightarrow> string list" where
  "risk_warnings response current limits =
     (let buy = (rs_action response = RESPONSE_BUY); stop = rs_stop_loss response;
          target = rs_take_profit response; name = (if buy then ''BUY'' else ''SELL'') in
      (if rs_confidence response < rl_minimum_confidence limits
       then [''Confidence is below the '' @ int_text (rl_minimum_confidence limits) @ ''% minimum.'']
       else []) @
      price_warnings ''Stop-loss'' stop @ price_warnings ''Take-profit'' target @
      side_warnings (name @ '' stop-loss'') buy stop current @
      side_warnings (name @ '' take-profit'') (\<not> buy) target current @
      ratio_warnings (valid_side buy stop current \<and> valid_side (\<not> buy) target current)
        current stop target (rl_minimum_reward_risk_ratio limits))"

definition evaluate_risk :: "ai_response \<Rightarrow> market_snapshot \<Rightarrow> risk_limits \<Rightarrow> risk_decision res" where
  "evaluate_risk response snapshot limits =
     (if rs_action response = RESPONSE_HOLD then
        risk_decision_post_init \<lparr>rd_approved = True,
          rd_approval_reason = ''HOLD requires no market exposure.'', rd_risk_score = 0,
          rd_max_position_percent = 0, rd_stop_loss_valid = True, rd_take_profit_valid = True,
          rd_warnings = (if dec_positive (sn_close snapshot) then []
            else [''Current price is malformed or unavailable.''])\<rparr>
      else if \<not> (0 \<le> rs_confidence response \<and> rs_confidence response \<le> 100)
      then rejected_risk ''Malformed confidence.'' 100 [''Confidence must be between 0 and 100.'']
      else if \<not> dec_positive (sn_close snapshot)
      then rejected_risk ''Invalid current price.'' 100 [''Current price must be finite and positive.'']
      else let current = fin (sn_close snapshot); atr = sn_atr_14 snapshot;
               buy = (rs_action response = RESPONSE_BUY);
               warnings = risk_warnings response current limits; approved = (warnings = []) in
        rbind (calculate_max_position_percent approved (rs_confidence response) current atr limits)
          (\<lambda>max_position.
        risk_decision_post_init \<lparr>rd_approved = approved,
          rd_approval_reason = (if approved
            then ''Approved: confidence and price levels pass the :1 reward:risk minimum.''
            else ''Rejected: one or more deterministic risk limits failed.''),
          rd_risk_score = calculate_risk_score (rs_confidence response) current atr,
          rd_max_position_percent = max_position,
          rd_stop_loss_valid = valid_side buy (rs_stop_loss response) current,
          rd_take_profit_valid = valid_side (\<not> buy) (rs_take_profit response) current,
          rd_warnings = warnings @ (if atr = None
            then [''ATR is unavailable; conservative sizing applies.''] else [])\<rparr>))"

subsection \<open>What an approval means\<close>

text \<open>The conditions of an approval, stated without the order of the checks.\<close>

definition risk_permitted :: "ai_response \<Rightarrow> market_snapshot \<Rightarrow> risk_limits \<Rightarrow> bool" where
  "risk_permitted response snapshot limits \<longleftrightarrow> rs_action response = RESPONSE_HOLD \<or>
     (\<exists>current stop target. sn_close snapshot = Fin current \<and> rs_stop_loss response = Some (Fin stop) \<and>
        rs_take_profit response = Some (Fin target) \<and> 0 < current \<and> 0 < stop \<and> 0 < target \<and>
        0 \<le> rs_confidence response \<and> rs_confidence response \<le> 100 \<and>
        rl_minimum_confidence limits \<le> rs_confidence response \<and>
        (if rs_action response = RESPONSE_BUY then stop < current \<and> current < target
         else target < current \<and> current < stop) \<and>
        rl_minimum_reward_risk_ratio limits
          \<le> ddiv (dabs (dsub target current)) (dabs (dsub current stop)))"

lemma price_warnings_Nil: "price_warnings title price = [] \<longleftrightarrow> (\<exists>x. price = Some (Fin x) \<and> 0 < x)"
  using dec_positiveD by (cases price) (auto simp: price_warnings_def)

lemma side_warnings_Nil:
  "side_warnings title below (Some (Fin x)) current = [] \<longleftrightarrow>
     (0 < x \<longrightarrow> (if below then x < current else current < x))"
  by (auto simp: side_warnings_def valid_side_def)

lemma dabs_dsub_pos: "x \<noteq> y \<Longrightarrow> 0 < dabs (dsub x y)"
  by (simp add: dabs_def dsub_def dec28.r_zero_iff)

lemma risk_warnings_Nil:
  "risk_warnings response current limits = [] \<longleftrightarrow>
     rl_minimum_confidence limits \<le> rs_confidence response \<and>
     (\<exists>stop target. rs_stop_loss response = Some (Fin stop) \<and> 0 < stop \<and>
        rs_take_profit response = Some (Fin target) \<and> 0 < target \<and>
        (if rs_action response = RESPONSE_BUY then stop < current \<and> current < target
         else target < current \<and> current < stop) \<and>
        rl_minimum_reward_risk_ratio limits
          \<le> ddiv (dabs (dsub target current)) (dabs (dsub current stop)))"
proof -
  let ?buy = "rs_action response = RESPONSE_BUY"
  have ratio: "ratio_warnings (valid_side ?buy (Some (Fin stop)) current \<and>
        valid_side (\<not> ?buy) (Some (Fin target)) current) current (Some (Fin stop)) (Some (Fin target)) m = [] \<longleftrightarrow>
      m \<le> ddiv (dabs (dsub target current)) (dabs (dsub current stop))"
    if "0 < stop" "0 < target"
      "if ?buy then stop < current \<and> current < target else target < current \<and> current < stop"
    for stop target m
    using that dabs_dsub_pos [of current stop]
    by (cases ?buy) (auto simp: ratio_warnings_def valid_side_def Let_def not_le)
  show ?thesis
    unfolding risk_warnings_def Let_def append_is_Nil_conv price_warnings_Nil
    using ratio by (auto simp: side_warnings_Nil split: if_splits)
qed

lemma risk_score_bounds:
  "0 \<le> calculate_risk_score c p atr" "calculate_risk_score c p atr \<le> 100"
  by (simp_all add: calculate_risk_score_def Let_def)

text \<open>The allocation stays between zero and the rounded limit.\<close>

definition sane_limits :: "risk_limits \<Rightarrow> bool" where
  "sane_limits limits \<longleftrightarrow> 0 \<le> rl_maximum_position_percent limits \<and>
     rl_maximum_position_percent limits \<le> 100 \<and> 0 \<le> rl_missing_atr_position_percent limits \<and>
     rnd (rl_maximum_position_percent limits) = rl_maximum_position_percent limits"

lemma quantize2_within:
  assumes "0 \<le> x" and "x \<le> y" and "y \<le> 100"
  shows "\<exists>a b. quantize2 x = Inr a \<and> quantize2 y = Inr b \<and> 0 \<le> a \<and> a \<le> b \<and> b \<le> 100"
proof -
  have h: "0 \<le> half_even (x * 100)" "half_even (x * 100) \<le> half_even (y * 100)" "half_even (y * 100) \<le> 10000"
    using assms by (auto intro: half_even_ge half_even_le half_even_mono)
  then have "quantize2 x = Inr (of_int (half_even (x * 100)) / 100)"
    "quantize2 y = Inr (of_int (half_even (y * 100)) / 100)"
    by (simp_all add: quantize2_def Let_def)
  moreover have "0 \<le> (of_int (half_even (x * 100)) / 100 :: rat)"
    "(of_int (half_even (x * 100)) / 100 :: rat) \<le> of_int (half_even (y * 100)) / 100"
    "(of_int (half_even (y * 100)) / 100 :: rat) \<le> 100"
    using h by (simp_all add: divide_le_eq)
  ultimately show ?thesis by blast
qed

lemma max_position_within:
  assumes "sane_limits limits"
  shows "\<exists>m q. calculate_max_position_percent approved confidence price atr limits = Inr m \<and>
    quantize2 (rl_maximum_position_percent limits) = Inr q \<and> 0 \<le> m \<and> m \<le> q \<and> q \<le> 100"
proof -
  let ?M = "rl_maximum_position_percent limits"
  define cf where "cf = max 0 (min 1 (ddiv (of_int confidence) 100))"
  have M: "0 \<le> ?M" "?M \<le> 100" "rnd ?M = ?M" "0 \<le> rl_missing_atr_position_percent limits"
    using assms by (auto simp: sane_limits_def)
  have cf: "0 \<le> cf" "cf \<le> 1" by (auto simp: cf_def)
  have "0 \<le> dmul ?M cf" using M cf by (simp add: dmul_def dec28.r_nonneg_iff)
  moreover have "dmul ?M cf \<le> ?M"
    using M cf by (auto simp: dmul_def intro!: dec28.r_le_fixed mult_left_le)
  moreover have "0 \<le> dmul (dmul ?M cf) vf" if "0 \<le> vf" for vf
    using that calculation(1) by (simp add: dmul_def dec28.r_nonneg_iff)
  ultimately have "\<exists>x. calculate_max_position_percent approved confidence price atr limits = quantize2 x \<and>
      0 \<le> x \<and> x \<le> ?M" if "approved"
    using that M cf
    by (cases "usable_atr atr")
      (auto simp: calculate_max_position_percent_def Let_def cf_def min.coboundedI2 le_max_iff_disj)
  then show ?thesis
    using quantize2_within [of _ ?M] quantize2_within [of ?M ?M] M
    by (cases approved) (fastforce simp: calculate_max_position_percent_def)+
qed

text \<open>
  C20: On limits of a sensible size the risk validator always answers.  It approves exactly a
  HOLD and the responses whose prices are there, positive and on the right sides of the
  current price, whose confidence reaches the minimum and whose reward-to-risk ratio reaches
  the minimum; a rejection allocates nothing, and an approval never more than the limit,
  rounded to two places.
\<close>

theorem risk_approval_iff_permitted:
  assumes "sane_limits limits"
  shows "\<exists>d q. evaluate_risk response snapshot limits = Inr d \<and>
    quantize2 (rl_maximum_position_percent limits) = Inr q \<and>
    (rd_approved d \<longleftrightarrow> risk_permitted response snapshot limits) \<and>
    (\<not> rd_approved d \<longrightarrow> rd_max_position_percent d = 0 \<and> rd_warnings d \<noteq> []) \<and>
    0 \<le> rd_max_position_percent d \<and> rd_max_position_percent d \<le> q \<and>
    0 \<le> rd_risk_score d \<and> rd_risk_score d \<le> 100"
proof -
  obtain q where q: "quantize2 (rl_maximum_position_percent limits) = Inr q" "0 \<le> q" "q \<le> 100"
    using max_position_within [OF assms, of False] by (auto simp: calculate_max_position_percent_def)
  have names: "strip ''HOLD requires no market exposure.'' \<noteq> []" "strip ''Malformed confidence.'' \<noteq> []"
    "strip ''Invalid current price.'' \<noteq> []"
    "strip ''Approved: confidence and price levels pass the :1 reward:risk minimum.'' \<noteq> []"
    "strip ''Rejected: one or more deterministic risk limits failed.'' \<noteq> []"
    by code_simp+
  have ex: "(\<exists>x. d = Fin x \<and> 0 < x) \<longleftrightarrow> dec_positive d" for d using dec_positiveD by auto
  consider "rs_action response = RESPONSE_HOLD"
    | "rs_action response \<noteq> RESPONSE_HOLD"
      "\<not> (0 \<le> rs_confidence response \<and> rs_confidence response \<le> 100) \<or> \<not> dec_positive (sn_close snapshot)"
    | current where "rs_action response \<noteq> RESPONSE_HOLD" "0 \<le> rs_confidence response"
      "rs_confidence response \<le> 100" "sn_close snapshot = Fin current" "0 < current"
    using ex [of "sn_close snapshot"] by blast
  then show ?thesis
  proof cases
    case 1
    then show ?thesis
      using q names by (simp add: evaluate_risk_def risk_decision_post_init_def risk_permitted_def)
  next
    case 2
    then have "\<not> risk_permitted response snapshot limits" by (auto simp: risk_permitted_def)
    with 2 show ?thesis
      using q names by (auto simp: evaluate_risk_def rejected_risk_def risk_decision_post_init_def)
  next
    case 3
    have permitted: "risk_warnings response current limits = [] \<longleftrightarrow> risk_permitted response snapshot limits"
      using 3 by (auto simp: risk_warnings_Nil risk_permitted_def)
    obtain m where m: "calculate_max_position_percent (risk_warnings response current limits = [])
        (rs_confidence response) current (sn_atr_14 snapshot) limits = Inr m" "0 \<le> m" "m \<le> q"
      using max_position_within [OF assms] q by fastforce
    have zero: "m = 0" if "risk_warnings response current limits \<noteq> []"
      using m(1) that by (simp add: calculate_max_position_percent_def)
    show ?thesis
      using 3 q m zero permitted names risk_score_bounds
      by (simp add: evaluate_risk_def Let_def risk_decision_post_init_def)
  qed
qed

definition ex_response :: ai_response where
  "ex_response = \<lparr>rs_action = RESPONSE_BUY, rs_confidence = 80, rs_reason = ''trend'',
     rs_stop_loss = Some (Fin 95), rs_take_profit = Some (Fin 110)\<rparr>"

definition ex_snapshot :: market_snapshot where
  "ex_snapshot = \<lparr>sn_symbol = ''A'', sn_close = Fin 100, sn_ema_12 = Fin 99, sn_ema_26 = Fin 98,
     sn_rsi_14 = None, sn_macd = Fin 1, sn_macd_signal = Fin 0, sn_macd_histogram = Fin 1,
     sn_atr_14 = Some (Fin 2), sn_bollinger_upper = None, sn_bollinger_middle = None,
     sn_bollinger_lower = None, sn_vwap = None\<rparr>"

lemma default_limits_sane: "sane_limits default_risk_limits"
  by (simp add: sane_limits_def default_risk_limits_def)

lemma ex_response_permitted: "risk_permitted ex_response ex_snapshot default_risk_limits"
  by (simp add: risk_permitted_def ex_response_def ex_snapshot_def default_risk_limits_def dec_defs)

lemma risk_approval_iff_permitted_witness:
  "\<exists>d. evaluate_risk ex_response ex_snapshot default_risk_limits = Inr d \<and> rd_approved d \<and>
     rd_max_position_percent d \<le> 5"
proof -
  have "quantize2 (rl_maximum_position_percent default_risk_limits) = Inr 5"
    by (simp add: default_risk_limits_def quantize2_def)
  then show ?thesis
    using risk_approval_iff_permitted [OF default_limits_sane, of ex_response ex_snapshot] ex_response_permitted
    by auto
qed

end
