(* ===== verification/Strategy_Engine.thy ===== *)
theory Strategy_Engine
  imports Risk_Evaluation Text_Checks
begin

text \<open>
  The strategy engine (app/strategy\_engine): decisions from scores, positions and a cooldown
  (models.py, engine.py) and the order intents made from them (intents.py).  The engine keeps
  the time of the last executable decision of every symbol.  The scorer, which the engine is
  given, is a parameter; a score is the part of \<open>StrategyScore\<close> that the engine reads.
\<close>

subsection \<open>Models\<close>

datatype strategy_action = SCORE_BUY | SCORE_SELL | SCORE_HOLD

fun strategy_action_value :: "strategy_action \<Rightarrow> string" where
  "strategy_action_value SCORE_BUY = ''BUY''"
| "strategy_action_value SCORE_SELL = ''SELL''"
| "strategy_action_value SCORE_HOLD = ''HOLD''"

record strategy_score =
  sc_action :: strategy_action
  sc_confidence :: int
  sc_score :: dec
  sc_reasons :: "string list"

datatype decision_action = ENTER_LONG | ENTER_SHORT | EXIT_LONG | EXIT_SHORT | HOLD | IGNORE

fun decision_action_value :: "decision_action \<Rightarrow> string" where
  "decision_action_value ENTER_LONG = ''ENTER_LONG''"
| "decision_action_value ENTER_SHORT = ''ENTER_SHORT''"
| "decision_action_value EXIT_LONG = ''EXIT_LONG''"
| "decision_action_value EXIT_SHORT = ''EXIT_SHORT''"
| "decision_action_value HOLD = ''HOLD''"
| "decision_action_value IGNORE = ''IGNORE''"

record strategy_position =
  sp_symbol :: string
  sp_quantity :: rat

definition make_strategy_position :: "string \<Rightarrow> rat \<Rightarrow> strategy_position res" where
  "make_strategy_position symbol quantity =
     (if normalize_symbol symbol = [] then Inl (Raise ValueError ''position symbol is required'')
      else Inr \<lparr>sp_symbol = normalize_symbol symbol, sp_quantity = quantity\<rparr>)"

definition is_flat :: "strategy_position \<Rightarrow> bool" where
  "is_flat p \<longleftrightarrow> sp_quantity p = 0"

definition is_long :: "strategy_position \<Rightarrow> bool" where
  "is_long p \<longleftrightarrow> 0 < sp_quantity p"

definition is_short :: "strategy_position \<Rightarrow> bool" where
  "is_short p \<longleftrightarrow> sp_quantity p < 0"

record engine_config =
  ec_entry_confidence :: int
  ec_exit_confidence :: int
  ec_allow_short_entries :: bool
  ec_reverse_positions :: bool
  ec_cooldown_seconds :: int

definition engine_config_post_init :: "engine_config \<Rightarrow> engine_config res" where
  "engine_config_post_init c =
     (if \<not> (0 \<le> ec_entry_confidence c \<and> ec_entry_confidence c \<le> 100)
      then Inl (Raise ValueError ''entry_confidence must be between 0 and 100'')
      else if \<not> (0 \<le> ec_exit_confidence c \<and> ec_exit_confidence c \<le> 100)
      then Inl (Raise ValueError ''exit_confidence must be between 0 and 100'')
      else if ec_cooldown_seconds c < 0
      then Inl (Raise ValueError ''cooldown_seconds cannot be negative'')
      else Inr c)"

record strategy_decision =
  de_symbol :: string
  de_action :: decision_action
  de_confidence :: int
  de_score :: dec
  de_timestamp :: datetime
  de_reasons :: "string list"
  de_source_action :: string
  de_position_quantity :: rat
  de_strategy_version :: string

definition strategy_decision_post_init :: "strategy_decision \<Rightarrow> strategy_decision res" where
  "strategy_decision_post_init d =
     (if normalize_symbol (de_symbol d) = []
      then Inl (Raise ValueError ''decision symbol is required'')
      else if \<not> (0 \<le> de_confidence d \<and> de_confidence d \<le> 100)
      then Inl (Raise ValueError ''confidence must be between 0 and 100'')
      else if \<not> tz_aware (de_timestamp d)
      then Inl (Raise ValueError ''timestamp must be timezone-aware'')
      else if strip (de_source_action d) = []
      then Inl (Raise ValueError ''source_action is required'')
      else if strip (de_strategy_version d) = []
      then Inl (Raise ValueError ''strategy_version is required'')
      else Inr (d\<lparr>de_symbol := normalize_symbol (de_symbol d)\<rparr>))"

definition executable :: "decision_action \<Rightarrow> bool" where
  "executable a \<longleftrightarrow> a \<in> {ENTER_LONG, ENTER_SHORT, EXIT_LONG, EXIT_SHORT}"

definition creates_order_intent :: "strategy_decision \<Rightarrow> bool" where
  "creates_order_intent d = executable (de_action d)"

subsection \<open>The engine\<close>

record strategy_engine =
  en_config :: engine_config
  en_strategy_version :: string
  en_last_action_at :: "string \<rightharpoonup> datetime"

definition engine_init :: "engine_config \<Rightarrow> string \<Rightarrow> strategy_engine res" where
  "engine_init config version =
     (if strip version = [] then Inl (Raise ValueError ''strategy_version is required'')
      else Inr \<lparr>en_config = config, en_strategy_version = strip version,
             en_last_action_at = Map.empty\<rparr>)"

definition cooldown_active :: "strategy_engine \<Rightarrow> string \<Rightarrow> datetime \<Rightarrow> bool res" where
  "cooldown_active en symbol ts =
     (if ec_cooldown_seconds (en_config en) = 0 then Inr False
      else case en_last_action_at en symbol of
        None \<Rightarrow> Inr False
      | Some previous \<Rightarrow>
          if dt_less ts previous
          then Inl (Raise ValueError ''timestamp cannot precede the previous action'')
          else Inr (instant ts - instant previous <
                    ec_cooldown_seconds (en_config en) * us_per_second))"

definition flat_action :: "engine_config \<Rightarrow> strategy_score \<Rightarrow> decision_action" where
  "flat_action c score =
     (if sc_confidence score < ec_entry_confidence c then IGNORE
      else if sc_action score = SCORE_BUY then ENTER_LONG
      else if sc_action score = SCORE_SELL \<and> ec_allow_short_entries c then ENTER_SHORT
      else if sc_action score = SCORE_HOLD then HOLD else IGNORE)"

definition long_action :: "engine_config \<Rightarrow> strategy_score \<Rightarrow> decision_action" where
  "long_action c score =
     (if sc_action score = SCORE_SELL \<and> ec_exit_confidence c \<le> sc_confidence score
      then EXIT_LONG else HOLD)"

definition short_action :: "engine_config \<Rightarrow> strategy_score \<Rightarrow> decision_action" where
  "short_action c score =
     (if sc_action score = SCORE_BUY \<and> ec_exit_confidence c \<le> sc_confidence score
      then EXIT_SHORT else HOLD)"

definition choose_action ::
  "strategy_engine \<Rightarrow> string \<Rightarrow> strategy_score \<Rightarrow> strategy_position \<Rightarrow> datetime \<Rightarrow> decision_action res" where
  "choose_action en symbol score position ts =
     rbind (cooldown_active en symbol ts) (\<lambda>active.
       Inr (if active then IGNORE
            else if is_flat position then flat_action (en_config en) score
            else if is_long position then long_action (en_config en) score
            else short_action (en_config en) score))"

text \<open>\<open>evaluate\<close>: the raw symbol of the snapshot and the score the scorer gives it.\<close>

definition evaluate ::
  "strategy_engine \<Rightarrow> string \<Rightarrow> strategy_score res \<Rightarrow> strategy_position \<Rightarrow> datetime \<Rightarrow>
   (strategy_decision \<times> strategy_engine) res" where
  "evaluate en raw_symbol scored position ts =
     (let symbol = normalize_symbol raw_symbol in
      if symbol = [] then Inl (Raise ValueError ''snapshot symbol is required'')
      else if sp_symbol position \<noteq> symbol
      then Inl (Raise ValueError ''snapshot and position symbols must match'')
      else if \<not> tz_aware ts then Inl (Raise ValueError ''timestamp must be timezone-aware'')
      else rbind scored (\<lambda>score.
        rbind (choose_action en symbol score position ts) (\<lambda>action.
        rbind (strategy_decision_post_init \<lparr>de_symbol = symbol, de_action = action,
          de_confidence = sc_confidence score, de_score = sc_score score, de_timestamp = ts,
          de_reasons = sc_reasons score, de_source_action = strategy_action_value (sc_action score),
          de_position_quantity = sp_quantity position,
          de_strategy_version = en_strategy_version en\<rparr>) (\<lambda>decision.
        Inr (decision, if creates_order_intent decision
          then en\<lparr>en_last_action_at := (en_last_action_at en)(symbol \<mapsto> ts)\<rparr> else en)))))"

text \<open>
  \<open>evaluate_many\<close>: the snapshots with their scores in order; it raises in the middle, with
  the cooldowns of the decisions before.
\<close>

fun evaluate_many ::
  "strategy_engine \<Rightarrow> (string \<times> strategy_score res) list \<Rightarrow> (string \<rightharpoonup> strategy_position) \<Rightarrow> datetime \<Rightarrow>
   strategy_decision list res \<times> strategy_engine" where
  "evaluate_many en [] positions ts =
     (if tz_aware ts then Inr [] else Inl (Raise ValueError ''timestamp must be timezone-aware''), en)"
| "evaluate_many en ((raw, scored) # rest) positions ts =
     (if \<not> tz_aware ts then (Inl (Raise ValueError ''timestamp must be timezone-aware''), en)
      else case rbind (make_strategy_position (normalize_symbol raw) 0) (\<lambda>flat.
             evaluate en raw scored
               (case positions (normalize_symbol raw) of None \<Rightarrow> flat | Some p \<Rightarrow> p) ts) of
        Inl e \<Rightarrow> (Inl e, en)
      | Inr (decision, en') \<Rightarrow>
          (case evaluate_many en' rest positions ts of
             (r, en'') \<Rightarrow> (rbind r (\<lambda>decisions. Inr (decision # decisions)), en'')))"

definition reset_cooldown :: "strategy_engine \<Rightarrow> string option \<Rightarrow> strategy_engine res" where
  "reset_cooldown en symbol = (case symbol of
     None \<Rightarrow> Inr (en\<lparr>en_last_action_at := Map.empty\<rparr>)
   | Some s \<Rightarrow> if normalize_symbol s = [] then Inl (Raise ValueError ''symbol is required'')
       else Inr (en\<lparr>en_last_action_at := (en_last_action_at en)(normalize_symbol s := None)\<rparr>))"

subsection \<open>Order intents\<close>

record order_intent =
  oi_timestamp :: datetime
  oi_request_id :: string
  oi_symbol :: string
  oi_side :: proposal_side
  oi_quantity :: dec
  oi_order_type :: proposal_type
  oi_requested_session :: trading_session
  oi_limit_price :: "dec option"
  oi_stop_price :: "dec option"

definition order_intent_post_init :: "order_intent \<Rightarrow> order_intent res" where
  "order_intent_post_init i =
     rbind (demand (normalize_symbol (oi_symbol i) \<noteq> []) ''symbol is required'') (\<lambda>_.
     rbind (demand (strip (oi_request_id i) \<noteq> []) ''request_id is required'') (\<lambda>_.
     rbind (dec_le (oi_quantity i) (Fin 0)) (\<lambda>nonpositive.
     rbind (demand (\<not> nonpositive) ''quantity must be positive'') (\<lambda>_.
     rbind (demand (tz_aware (oi_timestamp i)) ''timestamp must be timezone-aware'') (\<lambda>_.
     rbind (demand (\<not> (oi_order_type i = LIMIT \<and> oi_limit_price i = None))
       ''limit orders require limit_price'') (\<lambda>_.
     rbind (demand (\<not> (oi_order_type i = STOP \<and> oi_stop_price i = None))
       ''stop orders require stop_price'') (\<lambda>_.
     Inr (i\<lparr>oi_symbol := normalize_symbol (oi_symbol i),
            oi_request_id := strip (oi_request_id i)\<rparr>))))))))"

definition side_for :: "decision_action \<Rightarrow> proposal_side res" where
  "side_for a =
     (if a \<in> {ENTER_LONG, EXIT_SHORT} then Inr BUY
      else if a \<in> {ENTER_SHORT, EXIT_LONG} then Inr SELL
      else Inl (Raise ValueError (''unsupported executable action: '' @ decision_action_value a)))"

definition create_order_intent ::
  "strategy_decision \<Rightarrow> dec \<Rightarrow> string \<Rightarrow> proposal_type \<Rightarrow> trading_session \<Rightarrow> dec option \<Rightarrow> dec option \<Rightarrow>
   order_intent res" where
  "create_order_intent d quantity request_id order_type session limit_price stop_price =
     (if \<not> creates_order_intent d
      then Inl (Raise ValueError ''decision does not create an order intent'')
      else rbind (side_for (de_action d)) (\<lambda>side.
        order_intent_post_init \<lparr>oi_timestamp = de_timestamp d, oi_request_id = request_id,
          oi_symbol = de_symbol d, oi_side = side, oi_quantity = quantity,
          oi_order_type = order_type, oi_requested_session = session,
          oi_limit_price = limit_price, oi_stop_price = stop_price\<rparr>))"

subsection \<open>Runs of the engine\<close>

text \<open>
  Successive calls of \<open>evaluate\<close> with their decisions.  A call that raises leaves the engine
  as it was, so the successful ones are all that matters for the cooldown.
\<close>

fun decide_all ::
  "strategy_engine \<Rightarrow> (string \<times> strategy_score res \<times> strategy_position \<times> datetime) list \<Rightarrow>
   (strategy_decision list \<times> strategy_engine) res" where
  "decide_all en [] = Inr ([], en)"
| "decide_all en ((raw, scored, position, ts) # calls) =
     rbind (evaluate en raw scored position ts) (\<lambda>(decision, en').
     rbind (decide_all en' calls) (\<lambda>(decisions, en'').
     Inr (decision # decisions, en'')))"

text \<open>What position and score a decision needs.\<close>

definition justified :: "engine_config \<Rightarrow> strategy_decision \<Rightarrow> bool" where
  "justified c d \<longleftrightarrow> (case de_action d of
     ENTER_LONG \<Rightarrow> de_position_quantity d = 0 \<and> de_source_action d = ''BUY'' \<and>
       ec_entry_confidence c \<le> de_confidence d
   | ENTER_SHORT \<Rightarrow> de_position_quantity d = 0 \<and> de_source_action d = ''SELL'' \<and>
       ec_entry_confidence c \<le> de_confidence d \<and> ec_allow_short_entries c
   | EXIT_LONG \<Rightarrow> 0 < de_position_quantity d \<and> de_source_action d = ''SELL'' \<and>
       ec_exit_confidence c \<le> de_confidence d
   | EXIT_SHORT \<Rightarrow> de_position_quantity d < 0 \<and> de_source_action d = ''BUY'' \<and>
       ec_exit_confidence c \<le> de_confidence d
   | _ \<Rightarrow> True)"

lemma evaluate_Inr:
  assumes "evaluate en raw scored position ts = Inr (d, en')"
  obtains active where "cooldown_active en (de_symbol d) ts = Inr active"
    and "active \<Longrightarrow> de_action d = IGNORE" and "justified (en_config en) d"
    and "de_timestamp d = ts"
    and "en' = (if creates_order_intent d
      then en\<lparr>en_last_action_at := (en_last_action_at en)(de_symbol d \<mapsto> ts)\<rparr> else en)"
proof -
  from assms obtain score active where a: "cooldown_active en (normalize_symbol raw) ts = Inr active"
    and d: "d = \<lparr>de_symbol = normalize_symbol raw,
        de_action = (if active then IGNORE
            else if is_flat position then flat_action (en_config en) score
            else if is_long position then long_action (en_config en) score
            else short_action (en_config en) score),
        de_confidence = sc_confidence score, de_score = sc_score score, de_timestamp = ts,
        de_reasons = sc_reasons score, de_source_action = strategy_action_value (sc_action score),
        de_position_quantity = sp_quantity position, de_strategy_version = en_strategy_version en\<rparr>"
    and en': "en' = (if creates_order_intent d
        then en\<lparr>en_last_action_at := (en_last_action_at en)(normalize_symbol raw \<mapsto> ts)\<rparr> else en)"
    by (auto simp: evaluate_def choose_action_def strategy_decision_post_init_def Let_def res_simps)
  have "justified (en_config en) d"
    unfolding d
    by (auto simp: justified_def flat_action_def long_action_def short_action_def is_flat_def is_long_def)
  with a d en' show thesis by (intro that [of active]) auto
qed

text \<open>The last executable decision of a symbol is not later than the clock of the engine.\<close>

definition spaced :: "int \<Rightarrow> strategy_decision list \<Rightarrow> bool" where
  "spaced us ds \<longleftrightarrow> (\<forall>i j. i < j \<and> j < length ds \<and> de_symbol (ds ! i) = de_symbol (ds ! j) \<and>
     creates_order_intent (ds ! i) \<and> creates_order_intent (ds ! j) \<longrightarrow>
     us \<le> instant (de_timestamp (ds ! j)) - instant (de_timestamp (ds ! i)))"

text \<open>The engine after some decisions remembers for every symbol the last executable one.\<close>

definition remembers :: "strategy_engine \<Rightarrow> strategy_decision list \<Rightarrow> bool" where
  "remembers en ds \<longleftrightarrow> (\<forall>d\<in>set ds. creates_order_intent d \<longrightarrow>
     (\<exists>t. en_last_action_at en (de_symbol d) = Some t \<and> instant (de_timestamp d) \<le> instant t))"

lemma cooldown_inactive:
  assumes "cooldown_active en s ts = Inr False" and "en_last_action_at en s = Some t"
    and "0 < ec_cooldown_seconds (en_config en)"
  shows "ec_cooldown_seconds (en_config en) * us_per_second \<le> instant ts - instant t"
  using assms by (auto simp: cooldown_active_def split: if_splits)

lemma evaluate_remembers:
  assumes ev: "evaluate en raw scored position ts = Inr (d, en')" and r: "remembers en ds"
    and c: "0 < ec_cooldown_seconds (en_config en)"
  shows "remembers en' (ds @ [d]) \<and> en_config en' = en_config en \<and> justified (en_config en) d \<and>
    (creates_order_intent d \<longrightarrow> (\<forall>b\<in>set ds. creates_order_intent b \<longrightarrow> de_symbol b = de_symbol d \<longrightarrow>
      ec_cooldown_seconds (en_config en) * us_per_second
        \<le> instant (de_timestamp d) - instant (de_timestamp b)))"
proof -
  from ev obtain active where a: "cooldown_active en (de_symbol d) ts = Inr active"
      "active \<Longrightarrow> de_action d = IGNORE" and j: "justified (en_config en) d" "de_timestamp d = ts"
    and en': "en' = (if creates_order_intent d
        then en\<lparr>en_last_action_at := (en_last_action_at en)(de_symbol d \<mapsto> ts)\<rparr> else en)"
    by (rule evaluate_Inr) blast
  have gap: "ec_cooldown_seconds (en_config en) * us_per_second \<le> instant ts - instant (de_timestamp b)"
    if d: "creates_order_intent d" and b: "b \<in> set ds" "creates_order_intent b" "de_symbol b = de_symbol d" for b
  proof -
    have "\<not> active" using a(2) d by (auto simp: creates_order_intent_def executable_def)
    with a(1) have "cooldown_active en (de_symbol d) ts = Inr False" by simp
    moreover obtain t where t: "en_last_action_at en (de_symbol d) = Some t"
        "instant (de_timestamp b) \<le> instant t"
      using r [unfolded remembers_def, rule_format, OF b(1,2)] b(3) by auto
    ultimately show ?thesis using cooldown_inactive [OF _ t(1) c] t(2) by fastforce
  qed
  have pos: "0 \<le> ec_cooldown_seconds (en_config en) * us_per_second"
    using c by (simp add: us_per_second_def)
  have "remembers en' (ds @ [d])"
    using r gap pos j(2) unfolding remembers_def en' by fastforce
  with j gap show ?thesis by (simp add: en')
qed

lemma decide_all_spaced:
  assumes "decide_all en calls = Inr (ds, en')" and "remembers en before"
    and "0 < ec_cooldown_seconds (en_config en)"
    and "spaced (ec_cooldown_seconds (en_config en) * us_per_second) before"
  shows "spaced (ec_cooldown_seconds (en_config en) * us_per_second) (before @ ds) \<and>
    (\<forall>d\<in>set ds. justified (en_config en) d)"
  using assms
proof (induction calls arbitrary: en ds before)
  case (Cons call calls)
  obtain raw scored position ts where call: "call = (raw, scored, position, ts)" by (cases call)
  from Cons.prems(1) obtain d en1 ds' where ev: "evaluate en raw scored position ts = Inr (d, en1)"
    and rest: "decide_all en1 calls = Inr (ds', en')" and ds: "ds = d # ds'"
    by (auto simp: call res_simps)
  note step = evaluate_remembers [OF ev Cons.prems(2,3)]
  have "spaced (ec_cooldown_seconds (en_config en) * us_per_second) (before @ [d])"
    using Cons.prems(4) step unfolding spaced_def
    by (auto simp: nth_append less_Suc_eq)
  then show ?case
    using Cons.IH [OF rest, of "before @ [d]"] step Cons.prems(3) ds by simp
qed simp

lemma decide_all_justified:
  "decide_all en calls = Inr (ds, en') \<Longrightarrow> d \<in> set ds \<Longrightarrow> justified (en_config en) d"
proof (induction calls arbitrary: en ds)
  case (Cons call calls)
  obtain raw scored position ts where call: "call = (raw, scored, position, ts)" by (cases call)
  from Cons.prems(1) obtain d1 en1 ds' where ev: "evaluate en raw scored position ts = Inr (d1, en1)"
    and rest: "decide_all en1 calls = Inr (ds', en')" and ds: "ds = d1 # ds'"
    by (auto simp: call res_simps)
  from ev have "justified (en_config en) d1" "en_config en1 = en_config en"
    by (rule evaluate_Inr, auto)+
  with Cons.IH [OF rest] Cons.prems(2) ds show ?case by auto
qed simp

text \<open>
  C21: Over any sequence of evaluations by a fresh engine every decision to enter or leave a
  position fits the position and the score (an entry only from a flat position, an exit only
  from the matching one, each with its minimum confidence, short entries only if they are
  allowed), and with a cooldown two executable decisions of one symbol are never closer
  together than it.
\<close>

theorem decisions_justified_and_spaced:
  assumes "engine_init config version = Inr en" and "decide_all en calls = Inr (ds, en')"
  shows "(\<forall>d\<in>set ds. justified config d) \<and>
    (0 < ec_cooldown_seconds config \<longrightarrow> spaced (ec_cooldown_seconds config * us_per_second) ds)"
proof -
  have en: "en_config en = config" using assms(1) by (auto simp: engine_init_def split: if_splits)
  show ?thesis
    using decide_all_justified [OF assms(2)] decide_all_spaced [OF assms(2), of "[]"]
    by (simp add: en remembers_def spaced_def)
qed

definition ex_config :: engine_config where
  "ex_config = \<lparr>ec_entry_confidence = 60, ec_exit_confidence = 50, ec_allow_short_entries = False,
     ec_reverse_positions = False, ec_cooldown_seconds = 60\<rparr>"

definition ex_score :: strategy_score where
  "ex_score = \<lparr>sc_action = SCORE_BUY, sc_confidence = 80, sc_score = Fin 1, sc_reasons = []\<rparr>"

text \<open>Three evaluations at 0, 30 and 60 seconds: the second one is ignored.\<close>

definition ex_calls :: "(string \<times> strategy_score res \<times> strategy_position \<times> datetime) list" where
  "ex_calls = map (\<lambda>s. (''a'', Inr ex_score, \<lparr>sp_symbol = ''A'', sp_quantity = 0\<rparr>,
     Aware (s * us_per_second) 0)) [0, 30, 60]"

definition ex_engine :: strategy_engine where
  "ex_engine = \<lparr>en_config = ex_config, en_strategy_version = ''1'', en_last_action_at = Map.empty\<rparr>"

lemma decisions_justified_and_spaced_witness:
  "\<exists>ds en'. decide_all ex_engine ex_calls = Inr (ds, en') \<and>
     map de_action ds = [ENTER_LONG, IGNORE, ENTER_LONG] \<and> spaced 60000000 ds"
proof -
  have "map_sum id (map de_action \<circ> fst) (decide_all ex_engine ex_calls) =
      Inr [ENTER_LONG, IGNORE, ENTER_LONG]" by code_simp
  then obtain ds en' where ds: "decide_all ex_engine ex_calls = Inr (ds, en')"
      "map de_action ds = [ENTER_LONG, IGNORE, ENTER_LONG]"
    by (cases "decide_all ex_engine ex_calls") auto
  have "strip ''1'' = ''1''" by code_simp
  then have "engine_init ex_config ''1'' = Inr ex_engine" by (simp add: engine_init_def ex_engine_def)
  from decisions_justified_and_spaced [OF this ds(1)] ds show ?thesis
    by (auto simp: ex_config_def us_per_second_def)
qed

end
