(* ===== verification/Coordinator.thy ===== *)
theory Coordinator
  imports Strategy_Engine Paper_Simulator
begin

text \<open>
  The execution coordinator (app/execution\_coordinator: coordinator.py, models.py,
  contexts.py, adapters.py, proposal\_factory.py), which leads a strategy decision and its
  order intent through risk, compliance and paper execution, and the composition of it that
  the program runs (app/composition/execution\_pipeline.py).  The collaborators are the
  fields of a record, as in the code; the readers of approvals and messages are its defaults.
\<close>

subsection \<open>Models\<close>

datatype coordination_stage =
  STAGE_STRATEGY | STAGE_INTENT | STAGE_RISK | STAGE_COMPLIANCE | STAGE_EXECUTION | STAGE_COMPLETE

fun coordination_stage_value :: "coordination_stage \<Rightarrow> string" where
  "coordination_stage_value STAGE_STRATEGY = ''STRATEGY''"
| "coordination_stage_value STAGE_INTENT = ''INTENT''"
| "coordination_stage_value STAGE_RISK = ''RISK''"
| "coordination_stage_value STAGE_COMPLIANCE = ''COMPLIANCE''"
| "coordination_stage_value STAGE_EXECUTION = ''EXECUTION''"
| "coordination_stage_value STAGE_COMPLETE = ''COMPLETE''"

datatype coordination_status = COORD_SKIPPED | COORD_REJECTED | COORD_EXECUTED

fun coordination_status_value :: "coordination_status \<Rightarrow> string" where
  "coordination_status_value COORD_SKIPPED = ''SKIPPED''"
| "coordination_status_value COORD_REJECTED = ''REJECTED''"
| "coordination_status_value COORD_EXECUTED = ''EXECUTED''"

record coordination_trace =
  ct_stage :: coordination_stage
  ct_approved :: bool
  ct_message :: string

definition make_trace :: "coordination_stage \<Rightarrow> bool \<Rightarrow> string \<Rightarrow> coordination_trace res" where
  "make_trace stage approved message =
     rbind (demand (strip message \<noteq> []) ''trace message is required'') (\<lambda>_.
     Inr \<lparr>ct_stage = stage, ct_approved = approved, ct_message = message\<rparr>)"

record coordination_result =
  co_status :: coordination_status
  co_final_stage :: coordination_stage
  co_strategy_decision :: strategy_decision
  co_order_intent :: "order_intent option"
  co_proposal :: "proposed_order option"
  co_risk_decision :: "risk_decision option"
  co_compliance_decision :: "compliance_decision option"
  co_execution_result :: "simulation_result option"
  co_trace :: "coordination_trace list"

text \<open>\<open>CoordinationRequest\<close>; the execution configuration is its maximum quote age.\<close>

record coordination_request =
  cq_order_intent :: order_intent
  cq_advisory_response :: ai_response
  cq_snapshot :: market_snapshot
  cq_risk_limits :: risk_limits
  cq_account_state :: account_state
  cq_market_state :: market_state
  cq_gfv_decision :: "sell_decision option"
  cq_compliance_limits :: compliance_limits
  cq_kill_switch :: "kill_switch_state option"
  cq_portfolio :: paper_portfolio
  cq_market_quote :: paper_quote
  cq_maximum_quote_age :: int
  cq_journal :: paper_journal
  cq_equity_curve :: "equity_point list"

record coordinator =
  cd_proposal_factory :: "order_intent \<Rightarrow> proposed_order res"
  cd_risk_evaluator :: "ai_response \<Rightarrow> market_snapshot \<Rightarrow> risk_limits \<Rightarrow> risk_decision res"
  cd_compliance_evaluator :: "proposed_order \<Rightarrow> account_state \<Rightarrow> market_state \<Rightarrow> risk_decision \<Rightarrow>
    sell_decision option \<Rightarrow> compliance_limits \<Rightarrow> kill_switch_state option \<Rightarrow> compliance_decision res"
  cd_paper_executor :: "paper_portfolio \<Rightarrow> proposed_order \<Rightarrow> compliance_decision \<Rightarrow> paper_quote \<Rightarrow> int \<Rightarrow>
    paper_journal \<Rightarrow> equity_point list \<Rightarrow> simulation_result res"

subsection \<open>The coordinator\<close>

definition expected_side :: "decision_action \<Rightarrow> string res" where
  "expected_side a =
     (if a \<in> {ENTER_LONG, EXIT_SHORT} then Inr ''BUY''
      else if a \<in> {ENTER_SHORT, EXIT_LONG} then Inr ''SELL''
      else Inl (Raise ValueError (decision_action_value a @ '' does not support an order intent'')))"

definition coord_validate_intent :: "strategy_decision \<Rightarrow> order_intent \<Rightarrow> unit res" where
  "coord_validate_intent d i =
     rbind (demand (oi_symbol i = de_symbol d)
       ''strategy decision and order intent symbols must match'') (\<lambda>_.
     rbind (expected_side (de_action d)) (\<lambda>side.
     rbind (demand (side_value (oi_side i) = side)
       ''order intent side does not match the strategy decision'') (\<lambda>_.
     demand (dt_eq (oi_timestamp i) (de_timestamp d))
       ''strategy decision and order intent timestamps must match'')))"

text \<open>\<open>_default_message\<close>: the reason of a decision, or the name of its class.\<close>

definition default_message :: "string \<Rightarrow> string \<Rightarrow> string" where
  "default_message reason class_name = (if strip reason \<noteq> [] then strip reason else class_name)"

definition risk_message :: "risk_decision \<Rightarrow> string" where
  "risk_message d = default_message (rd_approval_reason d) ''LegacyRiskDecision''"

definition compliance_message :: "compliance_decision \<Rightarrow> string" where
  "compliance_message d = default_message (cd_approval_reason d) ''OrderComplianceDecision''"

definition simulation_message :: "simulation_result \<Rightarrow> string" where
  "simulation_message r = default_message (xr_reason (sr_execution r)) ''SimulationResult''"

definition execution_success :: "simulation_result \<Rightarrow> bool" where
  "execution_success r \<longleftrightarrow> xr_status (sr_execution r) = FILLED"

text \<open>The last part: paper execution of an approved proposal.\<close>

definition coordinate_execution ::
  "coordinator \<Rightarrow> coordination_request \<Rightarrow> proposed_order \<Rightarrow> compliance_decision \<Rightarrow> coordination_result \<Rightarrow>
   coordination_result res" where
  "coordinate_execution co req proposal compliance so_far =
     rbind (cd_paper_executor co (cq_portfolio req) proposal compliance (cq_market_quote req)
       (cq_maximum_quote_age req) (cq_journal req) (cq_equity_curve req)) (\<lambda>execution.
     let succeeded = execution_success execution in
     rbind (make_trace STAGE_EXECUTION succeeded (simulation_message execution)) (\<lambda>t.
     if \<not> succeeded
     then Inr (so_far\<lparr>co_status := COORD_REJECTED, co_final_stage := STAGE_EXECUTION,
       co_execution_result := Some execution, co_trace := co_trace so_far @ [t]\<rparr>)
     else rbind (make_trace STAGE_COMPLETE True ''Paper execution pipeline completed.'') (\<lambda>t'.
       Inr (so_far\<lparr>co_status := COORD_EXECUTED, co_final_stage := STAGE_COMPLETE,
         co_execution_result := Some execution, co_trace := co_trace so_far @ [t, t']\<rparr>))))"

definition coordinate_compliance ::
  "coordinator \<Rightarrow> coordination_request \<Rightarrow> proposed_order \<Rightarrow> risk_decision \<Rightarrow> coordination_result \<Rightarrow>
   coordination_result res" where
  "coordinate_compliance co req proposal risk so_far =
     rbind (cd_compliance_evaluator co proposal (cq_account_state req) (cq_market_state req) risk
       (cq_gfv_decision req) (cq_compliance_limits req) (cq_kill_switch req)) (\<lambda>compliance.
     rbind (make_trace STAGE_COMPLIANCE (cd_approved compliance) (compliance_message compliance)) (\<lambda>t.
     let result = so_far\<lparr>co_status := COORD_REJECTED, co_final_stage := STAGE_COMPLIANCE,
       co_compliance_decision := Some compliance, co_trace := co_trace so_far @ [t]\<rparr> in
     if \<not> cd_approved compliance then Inr result
     else coordinate_execution co req proposal compliance result))"

definition coordinate_request ::
  "coordinator \<Rightarrow> strategy_decision \<Rightarrow> coordination_request \<Rightarrow> coordination_result \<Rightarrow>
   coordination_result res" where
  "coordinate_request co d req so_far =
     rbind (coord_validate_intent d (cq_order_intent req)) (\<lambda>_.
     rbind (make_trace STAGE_INTENT True ''Explicit caller-supplied order intent accepted.'') (\<lambda>t.
     rbind (cd_proposal_factory co (cq_order_intent req)) (\<lambda>proposal.
     rbind (cd_risk_evaluator co (cq_advisory_response req) (cq_snapshot req) (cq_risk_limits req)) (\<lambda>risk.
     rbind (make_trace STAGE_RISK (rd_approved risk) (risk_message risk)) (\<lambda>t'.
     let result = so_far\<lparr>co_status := COORD_REJECTED, co_final_stage := STAGE_RISK,
       co_order_intent := Some (cq_order_intent req), co_proposal := Some proposal,
       co_risk_decision := Some risk, co_trace := co_trace so_far @ [t, t']\<rparr> in
     if \<not> rd_approved risk then Inr result
     else coordinate_compliance co req proposal risk result)))))"

definition coordinate ::
  "coordinator \<Rightarrow> strategy_decision \<Rightarrow> coordination_request option \<Rightarrow> coordination_result res" where
  "coordinate co d request =
     rbind (make_trace STAGE_STRATEGY (creates_order_intent d)
       (''Strategy produced '' @ decision_action_value (de_action d) @ ''.'')) (\<lambda>t.
     let skipped = \<lparr>co_status = COORD_SKIPPED, co_final_stage = STAGE_STRATEGY,
       co_strategy_decision = d, co_order_intent = None, co_proposal = None,
       co_risk_decision = None, co_compliance_decision = None, co_execution_result = None,
       co_trace = [t]\<rparr> in
     if \<not> creates_order_intent d then Inr skipped
     else case request of
       None \<Rightarrow> Inl (Raise ValueError
         ''an executable strategy decision requires a coordination request'')
     | Some req \<Rightarrow> coordinate_request co d req skipped)"

subsection \<open>The composition of the program\<close>

definition create_proposed_order :: "order_intent \<Rightarrow> datetime option \<Rightarrow> proposed_order res" where
  "create_proposed_order i created_timestamp =
     Inr \<lparr>pr_request_id = oi_request_id i, pr_symbol = oi_symbol i, pr_side = oi_side i,
       pr_order_type = oi_order_type i, pr_quantity = oi_quantity i,
       pr_limit_price = oi_limit_price i, pr_stop_price = oi_stop_price i,
       pr_requested_session = oi_requested_session i,
       pr_created_timestamp = (case created_timestamp of None \<Rightarrow> oi_timestamp i | Some t \<Rightarrow> t)\<rparr>"

text \<open>\<open>_evaluate_order_compliance\<close>, the adapter to the argument order of the validator.\<close>

definition pipeline_compliance ::
  "proposed_order \<Rightarrow> account_state \<Rightarrow> market_state \<Rightarrow> risk_decision \<Rightarrow> sell_decision option \<Rightarrow>
   compliance_limits \<Rightarrow> kill_switch_state option \<Rightarrow> compliance_decision res" where
  "pipeline_compliance proposal account market risk gfv limits kill =
     evaluate_order_compliance proposal account market limits kill gfv (Some risk)"

definition paper_pipeline :: coordinator where
  "paper_pipeline = \<lparr>cd_proposal_factory = (\<lambda>i. create_proposed_order i None),
     cd_risk_evaluator = evaluate_risk, cd_compliance_evaluator = pipeline_compliance,
     cd_paper_executor = simulate_proposal\<rparr>"

subsection \<open>What a coordination can be\<close>

lemma make_trace_Inr: "make_trace stage approved message = Inr t \<Longrightarrow>
  t = \<lparr>ct_stage = stage, ct_approved = approved, ct_message = message\<rparr> \<and> strip message \<noteq> []"
  by (auto simp: make_trace_def res_simps)

text \<open>Every result carries a trace whose last entry has a message.\<close>

definition traced :: "coordination_result \<Rightarrow> bool" where
  "traced r \<longleftrightarrow> co_trace r \<noteq> [] \<and> strip (ct_message (last (co_trace r))) \<noteq> []"

text \<open>The three parts, each with the result it passes on.\<close>

lemma coordinate_request_Inr:
  "coordinate_request co d req so_far = Inr r \<Longrightarrow> \<exists>proposal risk base.
     (if \<not> rd_approved risk then Inr base else coordinate_compliance co req proposal risk base) = Inr r \<and>
     coord_validate_intent d (cq_order_intent req) = Inr () \<and>
     cd_proposal_factory co (cq_order_intent req) = Inr proposal \<and>
     cd_risk_evaluator co (cq_advisory_response req) (cq_snapshot req) (cq_risk_limits req) = Inr risk \<and>
     co_status base = COORD_REJECTED \<and> co_execution_result base = co_execution_result so_far \<and>
     co_risk_decision base = Some risk \<and> traced base"
  unfolding coordinate_request_def Let_def rbind_Inr_iff
  by (elim exE conjE, intro exI conjI, assumption+) (auto simp: traced_def dest!: make_trace_Inr split del: if_split)

lemma coordinate_compliance_Inr:
  "coordinate_compliance co req proposal risk so_far = Inr r \<Longrightarrow> \<exists>compliance base.
     (if \<not> cd_approved compliance then Inr base
      else coordinate_execution co req proposal compliance base) = Inr r \<and>
     cd_compliance_evaluator co proposal (cq_account_state req) (cq_market_state req) risk
       (cq_gfv_decision req) (cq_compliance_limits req) (cq_kill_switch req) = Inr compliance \<and>
     co_status base = COORD_REJECTED \<and> co_execution_result base = co_execution_result so_far \<and>
     co_risk_decision base = co_risk_decision so_far \<and>
     co_compliance_decision base = Some compliance \<and> traced base"
  unfolding coordinate_compliance_def Let_def rbind_Inr_iff
  by (elim exE conjE, intro exI conjI, assumption+) (auto simp: traced_def dest!: make_trace_Inr split del: if_split)

lemma coordinate_execution_Inr:
  "coordinate_execution co req proposal compliance so_far = Inr r \<Longrightarrow> \<exists>sim.
     cd_paper_executor co (cq_portfolio req) proposal compliance (cq_market_quote req)
       (cq_maximum_quote_age req) (cq_journal req) (cq_equity_curve req) = Inr sim \<and>
     co_execution_result r = Some sim \<and> traced r \<and>
     co_status r = (if execution_success sim then COORD_EXECUTED else COORD_REJECTED)"
  unfolding coordinate_execution_def Let_def rbind_Inr_iff
  by (elim exE conjE) (auto simp: res_simps traced_def dest!: make_trace_Inr split: if_splits)

text \<open>Every request that gets to its end has taken one of four ways.\<close>

lemma coordinate_cases:
  assumes "coordinate co d request = Inr r"
  obtains
    (skipped) "\<not> creates_order_intent d" "co_status r = COORD_SKIPPED" "co_execution_result r = None"
      "co_risk_decision r = None" "traced r"
  | (risk) req proposal risk where "request = Some req" "creates_order_intent d"
      "co_status r = COORD_REJECTED" "co_execution_result r = None" "co_risk_decision r = Some risk"
      "\<not> rd_approved risk" "traced r"
      "cd_risk_evaluator co (cq_advisory_response req) (cq_snapshot req) (cq_risk_limits req) = Inr risk"
  | (compliance) req proposal risk compliance where "request = Some req" "creates_order_intent d"
      "co_status r = COORD_REJECTED" "co_execution_result r = None" "co_risk_decision r = Some risk"
      "rd_approved risk" "co_compliance_decision r = Some compliance" "\<not> cd_approved compliance"
      "traced r"
  | (executed) req proposal risk compliance sim where "request = Some req" "creates_order_intent d"
      "coord_validate_intent d (cq_order_intent req) = Inr ()"
      "cd_proposal_factory co (cq_order_intent req) = Inr proposal"
      "cd_risk_evaluator co (cq_advisory_response req) (cq_snapshot req) (cq_risk_limits req) = Inr risk"
      "rd_approved risk"
      "cd_compliance_evaluator co proposal (cq_account_state req) (cq_market_state req) risk
         (cq_gfv_decision req) (cq_compliance_limits req) (cq_kill_switch req) = Inr compliance"
      "cd_approved compliance"
      "cd_paper_executor co (cq_portfolio req) proposal compliance (cq_market_quote req)
         (cq_maximum_quote_age req) (cq_journal req) (cq_equity_curve req) = Inr sim"
      "co_execution_result r = Some sim"
      "co_status r = (if execution_success sim then COORD_EXECUTED else COORD_REJECTED)"
      "traced r"
proof (cases "creates_order_intent d")
  case False
  with assms show thesis
    by (intro skipped) (auto simp: coordinate_def Let_def res_simps traced_def dest!: make_trace_Inr)
next
  case True
  from assms True obtain t req where req: "request = Some req"
    and c: "coordinate_request co d req \<lparr>co_status = COORD_SKIPPED, co_final_stage = STAGE_STRATEGY,
       co_strategy_decision = d, co_order_intent = None, co_proposal = None,
       co_risk_decision = None, co_compliance_decision = None, co_execution_result = None,
       co_trace = [t]\<rparr> = Inr r"
    by (auto simp: coordinate_def Let_def res_simps split: option.splits)
  from coordinate_request_Inr [OF c] obtain proposal risk base
    where r: "(if \<not> rd_approved risk then Inr base else coordinate_compliance co req proposal risk base) = Inr r"
    and v: "coord_validate_intent d (cq_order_intent req) = Inr ()"
      "cd_proposal_factory co (cq_order_intent req) = Inr proposal"
      "cd_risk_evaluator co (cq_advisory_response req) (cq_snapshot req) (cq_risk_limits req) = Inr risk"
    and base: "co_status base = COORD_REJECTED" "co_execution_result base = None"
      "co_risk_decision base = Some risk" "traced base"
    by auto
  show thesis
  proof (cases "rd_approved risk")
    case False
    with r req True v base show thesis by (auto intro: risk)
  next
    case ra: True
    with r have "coordinate_compliance co req proposal risk base = Inr r" by simp
    from coordinate_compliance_Inr [OF this] obtain compliance base'
      where r': "(if \<not> cd_approved compliance then Inr base'
        else coordinate_execution co req proposal compliance base') = Inr r"
      and comp: "cd_compliance_evaluator co proposal (cq_account_state req) (cq_market_state req) risk
        (cq_gfv_decision req) (cq_compliance_limits req) (cq_kill_switch req) = Inr compliance"
      and base': "co_status base' = COORD_REJECTED" "co_execution_result base' = None"
        "co_risk_decision base' = Some risk" "co_compliance_decision base' = Some compliance"
        "traced base'"
      using base by auto
    show thesis
    proof (cases "cd_approved compliance")
      case False
      with r' req True ra base' show thesis by (auto intro: compliance)
    next
      case ca: True
      with r' have "coordinate_execution co req proposal compliance base' = Inr r" by simp
      from coordinate_execution_Inr [OF this] show thesis
        using req True v ra comp ca by (elim exE conjE) (rule executed)
    qed
  qed
qed

text \<open>A request whose four stages all succeed is executed.\<close>

lemma default_message_ok: "strip n \<noteq> [] \<Longrightarrow> strip (default_message m n) \<noteq> []"
  by (simp add: default_message_def)

lemma class_names_ok:
  "strip ''LegacyRiskDecision'' \<noteq> []" "strip ''OrderComplianceDecision'' \<noteq> []"
  "strip ''SimulationResult'' \<noteq> []" "strip ''Explicit caller-supplied order intent accepted.'' \<noteq> []"
  "strip ''Paper execution pipeline completed.'' \<noteq> []"
  by code_simp+

lemma make_trace_ok: "strip m \<noteq> [] \<Longrightarrow> \<exists>t. make_trace stage ok m = Inr t"
  by (simp add: make_trace_def)

lemma strategy_message_ok: "strip (''Strategy produced '' @ decision_action_value a @ ''.'') \<noteq> []"
  by (induction a; code_simp)

lemma coordinate_executes:
  assumes "creates_order_intent d" and "coord_validate_intent d (cq_order_intent req) = Inr ()"
    and "cd_proposal_factory co (cq_order_intent req) = Inr proposal"
    and "cd_risk_evaluator co (cq_advisory_response req) (cq_snapshot req) (cq_risk_limits req) = Inr risk"
    and "rd_approved risk"
    and "cd_compliance_evaluator co proposal (cq_account_state req) (cq_market_state req) risk
         (cq_gfv_decision req) (cq_compliance_limits req) (cq_kill_switch req) = Inr compliance"
    and "cd_approved compliance"
    and "cd_paper_executor co (cq_portfolio req) proposal compliance (cq_market_quote req)
         (cq_maximum_quote_age req) (cq_journal req) (cq_equity_curve req) = Inr sim"
  shows "\<exists>r. coordinate co d (Some req) = Inr r \<and> co_execution_result r = Some sim"
proof -
  obtain t1 where t1: "make_trace STAGE_STRATEGY True
      (''Strategy produced '' @ decision_action_value (de_action d) @ ''.'') = Inr t1"
    using make_trace_ok [OF strategy_message_ok] by blast
  obtain t2 where t2: "make_trace STAGE_INTENT True ''Explicit caller-supplied order intent accepted.'' = Inr t2"
    using make_trace_ok [OF class_names_ok(4)] by blast
  obtain t3 where t3: "make_trace STAGE_RISK True (risk_message risk) = Inr t3"
    using make_trace_ok [OF default_message_ok [OF class_names_ok(1)]] unfolding risk_message_def by blast
  obtain t4 where t4: "make_trace STAGE_COMPLIANCE True (compliance_message compliance) = Inr t4"
    using make_trace_ok [OF default_message_ok [OF class_names_ok(2)]] unfolding compliance_message_def by blast
  obtain t5 where t5: "make_trace STAGE_EXECUTION (execution_success sim) (simulation_message sim) = Inr t5"
    using make_trace_ok [OF default_message_ok [OF class_names_ok(3)]] unfolding simulation_message_def by blast
  obtain t6 where t6: "make_trace STAGE_COMPLETE True ''Paper execution pipeline completed.'' = Inr t6"
    using make_trace_ok [OF class_names_ok(5)] by blast
  show ?thesis
    using assms
    by (simp add: coordinate_def coordinate_request_def coordinate_compliance_def coordinate_execution_def
        t1 [simplified] t2 t3 t4 t5 t6 Let_def)
qed

end
