(* ===== verification/Paper_Session.thy ===== *)
theory Paper_Session
  imports Coordinator
begin

text \<open>
  Paper trading sessions (app/paper\_session: models.py, session.py, statistics.py): a session
  gives its own portfolio, journal and equity curve to every coordination, takes over what
  the simulation returns, and keeps statistics, events and the identifiers of the requests it
  has processed.
\<close>

subsection \<open>Models\<close>

datatype session_status = SESSION_ACTIVE | SESSION_CLOSED

record session_statistics =
  st_decisions_processed :: int
  st_orders_attempted :: int
  st_orders_filled :: int
  st_orders_rejected :: int
  st_orders_not_filled :: int
  st_decisions_skipped :: int
  st_winning_fills :: int
  st_losing_fills :: int
  st_breakeven_fills :: int
  st_realized_pnl :: rat
  st_unrealized_pnl :: rat
  st_current_equity :: rat
  st_peak_equity :: rat
  st_current_drawdown :: rat

definition make_statistics :: "session_statistics \<Rightarrow> session_statistics res" where
  "make_statistics s =
     rbind (demand (\<forall>v\<in>set [st_decisions_processed s, st_orders_attempted s, st_orders_filled s,
         st_orders_rejected s, st_orders_not_filled s, st_decisions_skipped s, st_winning_fills s,
         st_losing_fills s, st_breakeven_fills s]. 0 \<le> v)
       ''session statistic counts must be nonnegative integers'') (\<lambda>_.
     rbind (demand (0 \<le> st_current_equity s) ''current equity cannot be negative'') (\<lambda>_.
     rbind (demand (st_current_equity s \<le> st_peak_equity s)
       ''peak equity cannot be below current equity'') (\<lambda>_.
     rbind (demand (0 \<le> st_current_drawdown s) ''drawdown cannot be negative'') (\<lambda>_. Inr s))))"

record session_event =
  se_sequence :: int
  se_timestamp :: datetime
  se_request_id :: "string option"
  se_status :: string
  se_final_stage :: string
  se_message :: string

definition make_session_event :: "session_event \<Rightarrow> session_event res" where
  "make_session_event e =
     rbind (demand (1 \<le> se_sequence e) ''session event sequence must be positive'') (\<lambda>_.
     rbind (demand (tz_aware (se_timestamp e)) ''session event timestamp must be timezone-aware'') (\<lambda>_.
     rbind (demand (case se_request_id e of None \<Rightarrow> True | Some i \<Rightarrow> strip i \<noteq> [])
       ''request ID cannot be blank'') (\<lambda>_.
     rbind (demand (strip (se_status e) \<noteq> []) ''event status is required'') (\<lambda>_.
     rbind (demand (strip (se_final_stage e) \<noteq> []) ''event final stage is required'') (\<lambda>_.
     rbind (demand (strip (se_message e) \<noteq> []) ''event message is required'') (\<lambda>_.
     Inr (e\<lparr>se_request_id := map_option strip (se_request_id e)\<rparr>)))))))"

record paper_session =
  ps_schema_version :: string
  ps_session_id :: string
  ps_status :: session_status
  ps_started_at :: datetime
  ps_ended_at :: "datetime option"
  ps_portfolio :: paper_portfolio
  ps_journal :: paper_journal
  ps_equity_curve :: "equity_point list"
  ps_metrics :: performance_metrics
  ps_statistics :: session_statistics
  ps_processed_request_ids :: "string list"
  ps_events :: "session_event list"
  ps_last_coordination_result :: "coordination_result option"

definition make_session :: "paper_session \<Rightarrow> paper_session res" where
  "make_session s =
     rbind (demand (strip (ps_schema_version s) \<noteq> []) ''schema version is required'') (\<lambda>_.
     rbind (demand (strip (ps_session_id s) \<noteq> []) ''session ID is required'') (\<lambda>_.
     rbind (demand (tz_aware (ps_started_at s)) ''session start must be timezone-aware'') (\<lambda>_.
     rbind (demand (case ps_ended_at s of None \<Rightarrow> True | Some t \<Rightarrow> tz_aware t)
       ''session end must be timezone-aware'') (\<lambda>_.
     rbind (demand (case ps_ended_at s of None \<Rightarrow> True | Some t \<Rightarrow> dt_le (ps_started_at s) t)
       ''session cannot end before it starts'') (\<lambda>_.
     rbind (demand (\<not> (ps_status s = SESSION_ACTIVE \<and> ps_ended_at s \<noteq> None))
       ''active session cannot have an end time'') (\<lambda>_.
     rbind (demand (\<not> (ps_status s = SESSION_CLOSED \<and> ps_ended_at s = None))
       ''closed session requires an end time'') (\<lambda>_.
     rbind (demand (ps_equity_curve s \<noteq> []) ''session equity curve cannot be empty'') (\<lambda>_.
     rbind (demand (ep_equity (last (ps_equity_curve s)) = pf_equity (ps_portfolio s))
       ''equity curve must end at portfolio equity'') (\<lambda>_.
     rbind (demand (\<forall>i\<in>set (ps_processed_request_ids s). strip i \<noteq> [])
       ''processed request IDs cannot be blank'') (\<lambda>_.
     rbind (demand (distinct (map strip (ps_processed_request_ids s)))
       ''processed request IDs must be unique'') (\<lambda>_.
     Inr (s\<lparr>ps_session_id := strip (ps_session_id s),
            ps_processed_request_ids := map strip (ps_processed_request_ids s)\<rparr>))))))))))))"

subsection \<open>Statistics\<close>

definition initial_statistics :: "paper_portfolio \<Rightarrow> session_statistics res" where
  "initial_statistics pf = make_statistics
     \<lparr>st_decisions_processed = 0, st_orders_attempted = 0, st_orders_filled = 0,
      st_orders_rejected = 0, st_orders_not_filled = 0, st_decisions_skipped = 0,
      st_winning_fills = 0, st_losing_fills = 0, st_breakeven_fills = 0,
      st_realized_pnl = pf_realized_pnl pf, st_unrealized_pnl = pf_unrealized_pnl pf,
      st_current_equity = pf_equity pf, st_peak_equity = pf_equity pf, st_current_drawdown = 0\<rparr>"

definition one_if :: "bool \<Rightarrow> int" where
  "one_if b = (if b then 1 else 0)"

text \<open>The profit of the fill of a coordination, if there is one.\<close>

definition coordination_status_of :: "coordination_result \<Rightarrow> execution_status option" where
  "coordination_status_of c = map_option (\<lambda>r. xr_status (sr_execution r)) (co_execution_result c)"

definition coordination_pnl :: "coordination_result \<Rightarrow> rat option" where
  "coordination_pnl c = (case co_execution_result c of
     None \<Rightarrow> None
   | Some r \<Rightarrow> if xr_status (sr_execution r) = FILLED
       then map_option sf_realized_pnl (xr_fill (sr_execution r)) else None)"

definition advance_statistics ::
  "session_statistics \<Rightarrow> coordination_result \<Rightarrow> paper_portfolio \<Rightarrow> session_statistics res" where
  "advance_statistics previous c pf =
     (let skipped = (co_status c = COORD_SKIPPED); status = coordination_status_of c;
          pnl = coordination_pnl c; peak = max (st_peak_equity previous) (pf_equity pf) in
      make_statistics
       \<lparr>st_decisions_processed = st_decisions_processed previous + 1,
        st_orders_attempted = st_orders_attempted previous + one_if (\<not> skipped),
        st_orders_filled = st_orders_filled previous + one_if (status = Some FILLED),
        st_orders_rejected = st_orders_rejected previous +
          one_if (status = Some REJECTED \<or> status = None \<and> co_status c = COORD_REJECTED),
        st_orders_not_filled = st_orders_not_filled previous + one_if (status = Some NOT_FILLED),
        st_decisions_skipped = st_decisions_skipped previous + one_if skipped,
        st_winning_fills = st_winning_fills previous + one_if (case pnl of None \<Rightarrow> False | Some x \<Rightarrow> 0 < x),
        st_losing_fills = st_losing_fills previous + one_if (case pnl of None \<Rightarrow> False | Some x \<Rightarrow> x < 0),
        st_breakeven_fills = st_breakeven_fills previous + one_if (pnl = Some 0),
        st_realized_pnl = pf_realized_pnl pf, st_unrealized_pnl = pf_unrealized_pnl pf,
        st_current_equity = pf_equity pf, st_peak_equity = peak,
        st_current_drawdown = dsub peak (pf_equity pf)\<rparr>)"

subsection \<open>Sessions\<close>

definition create_paper_session :: "string \<Rightarrow> dec \<Rightarrow> datetime \<Rightarrow> paper_session res" where
  "create_paper_session session_id initial_cash started_at =
     rbind (demand (tz_aware started_at) ''session start must be timezone-aware'') (\<lambda>_.
     rbind (create_portfolio initial_cash started_at) (\<lambda>pf.
     let curve = [\<lparr>ep_timestamp = started_at, ep_equity = pf_equity pf\<rparr>] in
     rbind (calculate_metrics [] curve) (\<lambda>metrics.
     rbind (initial_statistics pf) (\<lambda>statistics.
     make_session \<lparr>ps_schema_version = ''1'', ps_session_id = session_id,
       ps_status = SESSION_ACTIVE, ps_started_at = started_at, ps_ended_at = None,
       ps_portfolio = pf, ps_journal = [], ps_equity_curve = curve, ps_metrics = metrics,
       ps_statistics = statistics, ps_processed_request_ids = [], ps_events = [],
       ps_last_coordination_result = None\<rparr>))))"

definition request_id_of :: "coordination_request option \<Rightarrow> string option res" where
  "request_id_of request = (case request of
     None \<Rightarrow> Inr None
   | Some req \<Rightarrow> let value = strip (oi_request_id (cq_order_intent req)) in
       rbind (demand (value \<noteq> []) ''request ID is required'') (\<lambda>_. Inr (Some value)))"

definition authoritative_request ::
  "paper_session \<Rightarrow> coordination_request option \<Rightarrow> coordination_request option" where
  "authoritative_request s request = map_option (\<lambda>req. req\<lparr>cq_portfolio := ps_portfolio s,
     cq_journal := ps_journal s, cq_equity_curve := ps_equity_curve s\<rparr>) request"

definition coordination_message :: "coordination_result \<Rightarrow> string" where
  "coordination_message c = (if co_trace c \<noteq> [] then ct_message (last (co_trace c))
     else ''Coordination ended at '' @ coordination_stage_value (co_final_stage c) @ ''.'')"

text \<open>The part of \<open>process_decision\<close> after the coordination.\<close>

definition absorb_coordination ::
  "paper_session \<Rightarrow> strategy_decision \<Rightarrow> string option \<Rightarrow> coordination_result \<Rightarrow> paper_session res" where
  "absorb_coordination s d request_id c =
     (let s' = (case co_execution_result c of None \<Rightarrow> s
        | Some r \<Rightarrow> s\<lparr>ps_portfolio := sr_portfolio r, ps_journal := sr_journal r,
            ps_equity_curve := sr_equity_curve r, ps_metrics := sr_metrics r\<rparr>) in
      rbind (advance_statistics (ps_statistics s) c (ps_portfolio s')) (\<lambda>statistics.
      rbind (make_session_event \<lparr>se_sequence = int (length (ps_events s)) + 1,
        se_timestamp = de_timestamp d, se_request_id = request_id,
        se_status = coordination_status_value (co_status c),
        se_final_stage = coordination_stage_value (co_final_stage c),
        se_message = coordination_message c\<rparr>) (\<lambda>event.
      make_session (s'\<lparr>ps_statistics := statistics,
        ps_processed_request_ids := ps_processed_request_ids s @
          (case request_id of None \<Rightarrow> [] | Some i \<Rightarrow> [i]),
        ps_events := ps_events s @ [event], ps_last_coordination_result := Some c\<rparr>))))"

definition process_decision ::
  "paper_session \<Rightarrow> coordinator \<Rightarrow> strategy_decision \<Rightarrow> coordination_request option \<Rightarrow> paper_session res" where
  "process_decision s co d request =
     (if ps_status s \<noteq> SESSION_ACTIVE
      then Inl (Raise RuntimeError ''cannot process a closed paper session'')
      else rbind (demand (\<not> dt_less (de_timestamp d) (ps_started_at s))
        ''strategy decision predates the session'') (\<lambda>_.
      rbind (request_id_of request) (\<lambda>request_id.
      rbind (demand (case request_id of None \<Rightarrow> True | Some i \<Rightarrow> i \<notin> set (ps_processed_request_ids s))
        (''duplicate request ID: '' @ (case request_id of None \<Rightarrow> [] | Some i \<Rightarrow> i))) (\<lambda>_.
      rbind (coordinate co d (authoritative_request s request)) (\<lambda>c.
      absorb_coordination s d request_id c)))))"

definition close_paper_session :: "paper_session \<Rightarrow> datetime \<Rightarrow> paper_session res" where
  "close_paper_session s ended_at =
     (if ps_status s = SESSION_CLOSED
      then Inl (Raise RuntimeError ''paper session is already closed'')
      else rbind (demand (tz_aware ended_at) ''session end must be timezone-aware'') (\<lambda>_.
      rbind (demand (\<forall>t\<in>set (ps_started_at s # pf_timestamp (ps_portfolio s) #
            ep_timestamp (last (ps_equity_curve s)) # map se_timestamp (ps_events s)).
          \<not> dt_less ended_at t)
        ''session end cannot precede session activity'') (\<lambda>_.
      make_session (s\<lparr>ps_status := SESSION_CLOSED, ps_ended_at := Some ended_at\<rparr>))))"

subsection \<open>The session invariant\<close>

definition fill_count :: "paper_journal \<Rightarrow> nat" where
  "fill_count j = length (filter (\<lambda>e. je_event_type e = FILL_EVENT) j)"

definition sim_view :: "paper_session \<Rightarrow> sim_state" where
  "sim_view s = \<lparr>ss_portfolio = ps_portfolio s, ss_journal = ps_journal s, ss_curve = ps_equity_curve s\<rparr>"

definition counts_add_up :: "paper_session \<Rightarrow> bool" where
  "counts_add_up s \<longleftrightarrow> (let t = ps_statistics s in
     st_decisions_processed t = int (length (ps_events s)) \<and>
     st_orders_attempted t + st_decisions_skipped t = st_decisions_processed t \<and>
     st_orders_filled t + st_orders_rejected t + st_orders_not_filled t = st_orders_attempted t \<and>
     st_winning_fills t + st_losing_fills t + st_breakeven_fills t = st_orders_filled t \<and>
     st_orders_filled t = int (fill_count (ps_journal s)))"

definition figures_match :: "paper_session \<Rightarrow> bool" where
  "figures_match s \<longleftrightarrow> (let t = ps_statistics s; pf = ps_portfolio s in
     st_realized_pnl t = pf_realized_pnl pf \<and> st_unrealized_pnl t = pf_unrealized_pnl pf \<and>
     st_current_equity t = pf_equity pf \<and>
     st_peak_equity t = Max (set (map ep_equity (ps_equity_curve s))) \<and>
     st_current_drawdown t = dsub (st_peak_equity t) (pf_equity pf))"

definition requests_recorded :: "paper_session \<Rightarrow> bool" where
  "requests_recorded s \<longleftrightarrow>
     map se_sequence (ps_events s) = map int [1..<length (ps_events s) + 1] \<and>
     distinct (ps_processed_request_ids s) \<and>
     (\<forall>i\<in>set (ps_processed_request_ids s). strip i = i) \<and>
     ps_processed_request_ids s = List.map_filter se_request_id (ps_events s)"

definition session_inv :: "paper_session \<Rightarrow> bool" where
  "session_inv s \<longleftrightarrow> sim_inv (sim_view s) \<and> counts_add_up s \<and> figures_match s \<and> requests_recorded s"

lemma make_statistics_Inr: "make_statistics s = Inr t \<Longrightarrow> t = s"
  by (auto simp: make_statistics_def res_simps)

lemma make_session_Inr:
  "make_session s = Inr t \<Longrightarrow> t = s\<lparr>ps_session_id := strip (ps_session_id s),
     ps_processed_request_ids := map strip (ps_processed_request_ids s)\<rparr> \<and>
   distinct (map strip (ps_processed_request_ids s))"
  unfolding make_session_def rbind_Inr_iff by auto

lemma make_session_event_Inr:
  "make_session_event e = Inr t \<Longrightarrow> t = e\<lparr>se_request_id := map_option strip (se_request_id e)\<rparr>"
  unfolding make_session_event_def rbind_Inr_iff by auto

text \<open>What a simulation does to the figures the statistics are about.\<close>

lemma simulation_figures:
  assumes "simulate_proposal pf ord dec q age j curve = Inr r" and "sequenced j" and "curve \<noteq> []"
  shows "int (fill_count (sr_journal r)) = int (fill_count j) + one_if (xr_status (sr_execution r) = FILLED) \<and>
    (xr_status (sr_execution r) = FILLED \<longleftrightarrow> (\<exists>f. xr_fill (sr_execution r) = Some f)) \<and>
    (ep_equity (last curve) = pf_equity pf \<longrightarrow>
       Max (set (map ep_equity (sr_equity_curve r))) = max (Max (set (map ep_equity curve))) (pf_equity (sr_portfolio r)))"
  using assms(1,2)
proof (cases rule: simulate_cases)
  case (unchanged ev1 ev2)
  have "Max (set (map ep_equity curve)) = max (Max (set (map ep_equity curve))) (ep_equity (last curve))"
    using assms(3) by (intro sym [OF max_absorb1] Max_ge) auto
  with unchanged show ?thesis by (auto simp: fill_count_def one_if_def)
next
  case (filled p f realized e1 e2 e3)
  have "Max (insert x A) = max (Max A) x" if "finite A" "A \<noteq> {}" for x :: rat and A
    using that by (simp add: max.commute)
  with filled assms(3) show ?thesis by (auto simp: fill_count_def one_if_def)
qed

text \<open>A coordination that a session absorbs: without execution, or with a simulation of its own state.\<close>

definition coordination_ok :: "paper_session \<Rightarrow> coordination_result \<Rightarrow> bool" where
  "coordination_ok s c \<longleftrightarrow>
     (co_execution_result c = None \<and> co_status c \<noteq> COORD_EXECUTED) \<or>
     (\<exists>sim ord dec q age. co_execution_result c = Some sim \<and> co_status c \<noteq> COORD_SKIPPED \<and>
        simulate_proposal (ps_portfolio s) ord dec q age (ps_journal s) (ps_equity_curve s) = Inr sim)"

text \<open>The session that \<open>absorb_coordination\<close> builds.\<close>

definition absorbed ::
  "paper_session \<Rightarrow> coordination_result \<Rightarrow> paper_session" where
  "absorbed s c = (case co_execution_result c of None \<Rightarrow> s
     | Some r \<Rightarrow> s\<lparr>ps_portfolio := sr_portfolio r, ps_journal := sr_journal r,
         ps_equity_curve := sr_equity_curve r, ps_metrics := sr_metrics r\<rparr>)"

lemma absorbed_other [simp]:
  "ps_events (absorbed s c) = ps_events s"
  "ps_processed_request_ids (absorbed s c) = ps_processed_request_ids s"
  "ps_session_id (absorbed s c) = ps_session_id s"
  "ps_statistics (absorbed s c) = ps_statistics s"
  "ps_started_at (absorbed s c) = ps_started_at s" "ps_status (absorbed s c) = ps_status s"
  by (simp_all add: absorbed_def split: option.split)

lemma absorb_Inr:
  assumes "absorb_coordination s d rid c = Inr s'"
  obtains t where "advance_statistics (ps_statistics s) c (ps_portfolio (absorbed s c)) = Inr t"
    and "s' = (absorbed s c)\<lparr>ps_session_id := strip (ps_session_id s), ps_statistics := t,
      ps_processed_request_ids := map strip (ps_processed_request_ids s @ (case rid of None \<Rightarrow> [] | Some i \<Rightarrow> [i])),
      ps_events := ps_events s @ [\<lparr>se_sequence = int (length (ps_events s)) + 1,
        se_timestamp = de_timestamp d, se_request_id = map_option strip rid,
        se_status = coordination_status_value (co_status c),
        se_final_stage = coordination_stage_value (co_final_stage c),
        se_message = coordination_message c\<rparr>],
      ps_last_coordination_result := Some c\<rparr>"
    and "distinct (map strip (ps_processed_request_ids s @ (case rid of None \<Rightarrow> [] | Some i \<Rightarrow> [i])))"
  using assms unfolding absorb_coordination_def Let_def rbind_Inr_iff
  by (fold absorbed_def) (auto dest!: make_session_Inr make_session_event_Inr)

lemma sim_view_absorbed:
  "coordination_ok s c \<Longrightarrow> sim_inv (sim_view s) \<Longrightarrow> sim_inv (sim_view (absorbed s c)) \<and>
     sim_extends (sim_view s) (sim_view (absorbed s c))"
proof (cases "co_execution_result c")
  case None
  assume "sim_inv (sim_view s)"
  with None show ?thesis by (simp add: absorbed_def sim_extends_def)
next
  case (Some sim)
  assume ok: "coordination_ok s c" and inv: "sim_inv (sim_view s)"
  then obtain ord dec q age
    where "simulate_proposal (ps_portfolio s) ord dec q age (ps_journal s) (ps_equity_curve s) = Inr sim"
    using Some by (auto simp: coordination_ok_def)
  then have "sim_step (sim_view s) (ord, dec, q, age) = Inr (sim_view (absorbed s c))"
    using Some by (simp add: sim_step_def sim_view_def absorbed_def)
  then show ?thesis using inv simulator.step_good simulator.step_rel by blast
qed

lemma absorb_counts:
  assumes ok: "coordination_ok s c" and inv: "session_inv s"
    and t: "advance_statistics (ps_statistics s) c (ps_portfolio (absorbed s c)) = Inr t"
  shows "st_decisions_processed t = int (length (ps_events s)) + 1 \<and>
     st_orders_attempted t + st_decisions_skipped t = st_decisions_processed t \<and>
     st_orders_filled t + st_orders_rejected t + st_orders_not_filled t = st_orders_attempted t \<and>
     st_winning_fills t + st_losing_fills t + st_breakeven_fills t = st_orders_filled t \<and>
     st_orders_filled t = int (fill_count (ps_journal (absorbed s c)))"
proof -
  note old = inv [unfolded session_inv_def counts_add_up_def Let_def]
  note new = make_statistics_Inr [OF t [unfolded advance_statistics_def Let_def]]
  have seq: "sequenced (ps_journal s)" "ps_equity_curve s \<noteq> []"
    using old by (auto simp: sim_inv_def sim_view_def)
  show ?thesis
  proof (cases "co_execution_result c")
    case None
    with ok have "co_status c \<noteq> COORD_EXECUTED" by (auto simp: coordination_ok_def)
    then show ?thesis
      using None old unfolding new
      by (cases "co_status c")
        (auto simp: one_if_def coordination_status_of_def coordination_pnl_def absorbed_def)
  next
    case (Some sim)
    with ok obtain ord dec q age where st: "co_status c \<noteq> COORD_SKIPPED"
      and sim: "simulate_proposal (ps_portfolio s) ord dec q age (ps_journal s) (ps_equity_curve s) = Inr sim"
      by (auto simp: coordination_ok_def)
    note fig = simulation_figures [OF sim seq]
    show ?thesis
    proof (cases "xr_status (sr_execution sim)")
      case FILLED
      with fig obtain f where "xr_fill (sr_execution sim) = Some f" by auto
      with Some st fig old FILLED show ?thesis
        unfolding new
        by (auto simp: one_if_def coordination_status_of_def coordination_pnl_def absorbed_def)
    qed (use Some st fig old in \<open>auto simp: new one_if_def coordination_status_of_def
        coordination_pnl_def absorbed_def\<close>)
  qed
qed

lemma absorb_figures:
  assumes ok: "coordination_ok s c" and inv: "session_inv s"
    and t: "advance_statistics (ps_statistics s) c (ps_portfolio (absorbed s c)) = Inr t"
  shows "st_realized_pnl t = pf_realized_pnl (ps_portfolio (absorbed s c)) \<and>
     st_unrealized_pnl t = pf_unrealized_pnl (ps_portfolio (absorbed s c)) \<and>
     st_current_equity t = pf_equity (ps_portfolio (absorbed s c)) \<and>
     st_peak_equity t = Max (set (map ep_equity (ps_equity_curve (absorbed s c)))) \<and>
     st_current_drawdown t = dsub (st_peak_equity t) (pf_equity (ps_portfolio (absorbed s c)))"
proof -
  note new = make_statistics_Inr [OF t [unfolded advance_statistics_def Let_def]]
  have seq: "sequenced (ps_journal s)" "ps_equity_curve s \<noteq> []"
    and last: "ep_equity (last (ps_equity_curve s)) = pf_equity (ps_portfolio s)"
    and peak: "st_peak_equity (ps_statistics s) = Max (set (map ep_equity (ps_equity_curve s)))"
    using inv by (auto simp: session_inv_def sim_inv_def sim_view_def figures_match_def Let_def)
  have "max (Max (set (map ep_equity (ps_equity_curve s)))) (pf_equity (ps_portfolio (absorbed s c))) =
      Max (set (map ep_equity (ps_equity_curve (absorbed s c))))"
  proof (cases "co_execution_result c")
    case None
    have "pf_equity (ps_portfolio s) \<le> Max (set (map ep_equity (ps_equity_curve s)))"
      using seq(2) unfolding last [symmetric] by (intro Max_ge) auto
    with None show ?thesis by (simp add: absorbed_def max_absorb1)
  next
    case (Some sim)
    with ok obtain ord dec q age
      where "simulate_proposal (ps_portfolio s) ord dec q age (ps_journal s) (ps_equity_curve s) = Inr sim"
      by (auto simp: coordination_ok_def)
    from simulation_figures [OF this seq] last Some show ?thesis by (simp add: absorbed_def)
  qed
  then show ?thesis unfolding new by (simp add: peak)
qed

lemma map_filter_snoc:
  "List.map_filter f (xs @ [x]) = List.map_filter f xs @ (case f x of None \<Rightarrow> [] | Some y \<Rightarrow> [y])"
  by (auto simp: List.map_filter_def split: option.split)

lemma absorb_inv:
  assumes ok: "coordination_ok s c" and inv: "session_inv s"
    and a: "absorb_coordination s d rid c = Inr s'"
  shows "session_inv s'"
proof -
  from a obtain t where t: "advance_statistics (ps_statistics s) c (ps_portfolio (absorbed s c)) = Inr t"
    and s': "s' = (absorbed s c)\<lparr>ps_session_id := strip (ps_session_id s), ps_statistics := t,
      ps_processed_request_ids := map strip (ps_processed_request_ids s @ (case rid of None \<Rightarrow> [] | Some i \<Rightarrow> [i])),
      ps_events := ps_events s @ [\<lparr>se_sequence = int (length (ps_events s)) + 1,
        se_timestamp = de_timestamp d, se_request_id = map_option strip rid,
        se_status = coordination_status_value (co_status c),
        se_final_stage = coordination_stage_value (co_final_stage c),
        se_message = coordination_message c\<rparr>],
      ps_last_coordination_result := Some c\<rparr>"
    and dist: "distinct (map strip (ps_processed_request_ids s @ (case rid of None \<Rightarrow> [] | Some i \<Rightarrow> [i])))"
    by (rule absorb_Inr)
  have "sim_inv (sim_view s')"
    using sim_view_absorbed [OF ok] inv by (simp add: session_inv_def sim_view_def s')
  moreover have "counts_add_up s'"
    using absorb_counts [OF ok inv t] by (simp add: counts_add_up_def Let_def s')
  moreover have "figures_match s'"
    using absorb_figures [OF ok inv t] by (simp add: figures_match_def Let_def s')
  moreover have "requests_recorded s'"
  proof -
    have r: "requests_recorded s" using inv by (simp add: session_inv_def)
    have same: "map strip (ps_processed_request_ids s) = ps_processed_request_ids s"
      using r by (intro map_idI) (simp add: requests_recorded_def)
    show ?thesis
      using r dist same
      by (cases rid) (auto simp: requests_recorded_def s' map_filter_snoc)
  qed
  ultimately show ?thesis by (simp add: session_inv_def)
qed

subsection \<open>Runs of a session\<close>

lemma process_decision_Inr:
  assumes "process_decision s co d request = Inr s'"
  obtains rid c where "request_id_of request = Inr rid"
    and "coordinate co d (authoritative_request s request) = Inr c"
    and "absorb_coordination s d rid c = Inr s'"
    and "ps_status s = SESSION_ACTIVE"
  using assms unfolding process_decision_def by (auto simp: res_simps split: if_splits)

lemma coordination_is_ok:
  assumes "coordinate co d (authoritative_request s request) = Inr c"
    and "cd_paper_executor co = simulate_proposal"
  shows "coordination_ok s c"
  using assms(1)
proof (cases rule: coordinate_cases)
  case (executed req proposal risk compliance sim)
  then have "simulate_proposal (ps_portfolio s) proposal compliance (cq_market_quote req)
      (cq_maximum_quote_age req) (ps_journal s) (ps_equity_curve s) = Inr sim"
    using assms(2) by (auto simp: authoritative_request_def)
  with executed show ?thesis by (auto simp: coordination_ok_def)
qed (simp_all add: coordination_ok_def)

lemma process_decision_inv:
  "process_decision s co d request = Inr s' \<Longrightarrow> cd_paper_executor co = simulate_proposal \<Longrightarrow>
   session_inv s \<Longrightarrow> session_inv s'"
  by (erule process_decision_Inr) (blast intro: absorb_inv coordination_is_ok)

lemma close_session_Inr:
  "close_paper_session s t = Inr s' \<Longrightarrow> ps_status s = SESSION_ACTIVE \<and>
   s' = s\<lparr>ps_status := SESSION_CLOSED, ps_ended_at := Some t, ps_session_id := strip (ps_session_id s),
     ps_processed_request_ids := map strip (ps_processed_request_ids s)\<rparr>"
  by (cases "ps_status s") (auto simp: close_paper_session_def res_simps dest!: make_session_Inr split: if_splits)

datatype session_call =
    Decide strategy_decision "coordination_request option"
  | Close datetime

fun session_step :: "paper_session \<Rightarrow> session_call \<Rightarrow> paper_session res" where
  "session_step s (Decide d request) = process_decision s paper_pipeline d request"
| "session_step s (Close t) = close_paper_session s t"

definition session_extends :: "paper_session \<Rightarrow> paper_session \<Rightarrow> bool" where
  "session_extends s s' \<longleftrightarrow> sim_extends (sim_view s) (sim_view s') \<and>
     (\<exists>evs. ps_events s' = ps_events s @ evs) \<and> ps_started_at s' = ps_started_at s \<and>
     (ps_status s = SESSION_CLOSED \<longrightarrow> s' = s)"

lemma session_inv_ids: "session_inv s \<Longrightarrow> map strip (ps_processed_request_ids s) = ps_processed_request_ids s"
  by (intro map_idI) (simp add: session_inv_def requests_recorded_def)

lemma session_inv_closing:
  "session_inv (s\<lparr>ps_status := st, ps_ended_at := e, ps_session_id := i\<rparr>) = session_inv s"
  by (simp add: session_inv_def sim_view_def counts_add_up_def figures_match_def requests_recorded_def Let_def)

interpretation session: monotone_stepping session_step session_inv session_extends
proof unfold_locales
  fix s call s' assume inv: "session_inv s" and step: "session_step s call = Inr s'"
  show "session_inv s'"
  proof (cases call)
    case (Decide d request)
    with step inv show ?thesis by (auto intro: process_decision_inv simp: paper_pipeline_def)
  next
    case (Close t)
    with step have s': "s' = s\<lparr>ps_status := SESSION_CLOSED, ps_ended_at := Some t,
        ps_session_id := strip (ps_session_id s), ps_processed_request_ids := map strip (ps_processed_request_ids s)\<rparr>"
      by (simp add: close_session_Inr)
    show ?thesis
      using inv unfolding s' session_inv_ids [OF inv] by (simp add: session_inv_closing)
  qed
  show "session_extends s s'"
  proof (cases call)
    case (Decide d request)
    with step obtain rid c where c: "coordinate paper_pipeline d (authoritative_request s request) = Inr c"
      and a: "absorb_coordination s d rid c = Inr s'" and st: "ps_status s = SESSION_ACTIVE"
      by (auto elim: process_decision_Inr)
    have ok: "coordination_ok s c" using c by (rule coordination_is_ok) (simp add: paper_pipeline_def)
    have "sim_extends (sim_view s) (sim_view (absorbed s c))"
      using sim_view_absorbed [OF ok] inv by (simp add: session_inv_def)
    with a st show ?thesis
      by (elim absorb_Inr) (simp add: session_extends_def sim_view_def)
  next
    case (Close t)
    with step close_session_Inr [of s t s'] show ?thesis
      by (auto simp: session_extends_def sim_extends_def sim_view_def)
  qed
next
  show "session_extends s s" for s by (simp add: session_extends_def simulator.rel_refl)
  show "session_extends s u" if "session_extends s t" "session_extends t u" for s t u
    using that simulator.rel_trans by (auto simp: session_extends_def)
qed

lemma created_session_inv:
  assumes "create_paper_session sid cash t = Inr s" and "rnd (fin cash) = fin cash"
  shows "session_inv s \<and> ps_started_at s = t \<and> ps_events s = [] \<and>
    (\<exists>pf. create_portfolio cash t = Inr pf \<and> ps_portfolio s = pf \<and>
       ps_equity_curve s = [\<lparr>ep_timestamp = t, ep_equity = pf_equity pf\<rparr>])"
proof -
  from assms(1) obtain pf metrics stats where pf: "create_portfolio cash t = Inr pf"
    and stats: "initial_statistics pf = Inr stats"
    and s: "make_session \<lparr>ps_schema_version = ''1'', ps_session_id = sid,
       ps_status = SESSION_ACTIVE, ps_started_at = t, ps_ended_at = None,
       ps_portfolio = pf, ps_journal = [],
       ps_equity_curve = [\<lparr>ep_timestamp = t, ep_equity = pf_equity pf\<rparr>], ps_metrics = metrics,
       ps_statistics = stats, ps_processed_request_ids = [], ps_events = [],
       ps_last_coordination_result = None\<rparr> = Inr s"
    unfolding create_paper_session_def by (auto simp: Let_def res_simps)
  have inv: "portfolio_inv pf" and eq: "pf_equity pf = fin cash" "pf_realized_pnl pf = 0" "pf_unrealized_pnl pf = 0"
    using pf assms(2) dec_nonnegativeD [of cash]
    by (auto simp: create_portfolio_def portfolio_inv_def dadd_def split: if_splits)
  have "dsub (pf_equity pf) (pf_equity pf) = 0" by (simp add: dsub_def)
  with inv make_session_Inr [OF s] make_statistics_Inr [OF stats [unfolded initial_statistics_def]] pf
  show ?thesis
    by (simp add: session_inv_def sim_inv_def sim_view_def sequenced_def counts_add_up_def
        figures_match_def requests_recorded_def fill_count_def Let_def map_filter_simps)
qed

subsection \<open>When a decision is processed\<close>

lemma make_session_ok:
  "make_session s = Inr s \<longleftrightarrow> strip (ps_schema_version s) \<noteq> [] \<and> strip (ps_session_id s) \<noteq> [] \<and>
     strip (ps_session_id s) = ps_session_id s \<and> tz_aware (ps_started_at s) \<and>
     (case ps_ended_at s of None \<Rightarrow> ps_status s = SESSION_ACTIVE
      | Some t \<Rightarrow> ps_status s = SESSION_CLOSED \<and> tz_aware t \<and> dt_le (ps_started_at s) t) \<and>
     ps_equity_curve s \<noteq> [] \<and> ep_equity (last (ps_equity_curve s)) = pf_equity (ps_portfolio s) \<and>
     (\<forall>i\<in>set (ps_processed_request_ids s). strip i \<noteq> [] \<and> strip i = i) \<and>
     distinct (ps_processed_request_ids s)"
proof -
  have upd: "s\<lparr>ps_session_id := i, ps_processed_request_ids := xs\<rparr> = s \<longleftrightarrow>
      i = ps_session_id s \<and> xs = ps_processed_request_ids s" for i xs
    by (cases s) auto
  have ids: "map strip xs = xs \<longleftrightarrow> (\<forall>i\<in>set xs. strip i = i)" for xs
    by (induction xs) auto
  have dist: "distinct (map strip xs) = distinct xs" if "\<forall>i\<in>set xs. strip i = i" for xs
    using that ids by metis
  show ?thesis
    unfolding make_session_def rbind_Inr_iff
    by (cases "ps_ended_at s"; cases "ps_status s") (auto simp: upd ids dist)
qed

definition session_wf :: "paper_session \<Rightarrow> bool" where
  "session_wf s \<longleftrightarrow> make_session s = Inr s \<and> make_statistics (ps_statistics s) = Inr (ps_statistics s)"

lemma portfolio_equity_nonneg: "portfolio_inv pf \<Longrightarrow> 0 \<le> pf_equity pf"
proof -
  assume inv: "portfolio_inv pf"
  have "0 \<le> pp_market_value p" if "p \<in> set (pf_positions pf)" for p
  proof -
    have "position_ok p" using inv that by (simp add: portfolio_inv_def)
    then have "0 < pp_quantity p" "0 < pp_current_mark p"
      "pp_market_value p = dmul (pp_quantity p) (pp_current_mark p)"
      by (auto simp: position_ok_def make_position_def) (metis paper_position.select_convs(5))
    then show ?thesis by (simp add: dmul_def dec28.r_nonneg_iff)
  qed
  then have "0 \<le> dsum (map pp_market_value (pf_positions pf))" by (intro dsum_nonneg) auto
  with inv show ?thesis by (simp add: portfolio_inv_def dadd_def dec28.r_nonneg_iff)
qed

lemma advance_succeeds:
  assumes ok: "coordination_ok s c" and inv: "session_inv s" and wf: "session_wf s"
  shows "\<exists>t. advance_statistics (ps_statistics s) c (ps_portfolio (absorbed s c)) = Inr t \<and>
    make_statistics t = Inr t"
proof -
  have "0 \<le> pf_equity (ps_portfolio (absorbed s c))"
    using sim_view_absorbed [OF ok] inv
    by (intro portfolio_equity_nonneg) (simp add: session_inv_def sim_inv_def sim_view_def)
  moreover have "0 \<le> one_if b" for b by (simp add: one_if_def)
  ultimately show ?thesis
    using wf
    by (simp add: session_wf_def advance_statistics_def Let_def make_statistics_def dsub_def
        dec28.r_sub_nonneg)
qed

lemma names_not_blank:
  "strip (coordination_status_value x) \<noteq> []" "strip (coordination_stage_value y) \<noteq> []"
  by (induction x; code_simp) (induction y; code_simp)

text \<open>Absorbing a coordination of the session succeeds if the identifier is new.\<close>

lemma absorb_succeeds:
  assumes ok: "coordination_ok s c" and inv: "session_inv s" and wf: "session_wf s"
    and active: "ps_status s = SESSION_ACTIVE" and ts: "tz_aware (de_timestamp d)"
    and rid: "\<forall>i. rid = Some i \<longrightarrow> strip i = i \<and> i \<noteq> [] \<and> i \<notin> set (ps_processed_request_ids s)"
    and msg: "strip (coordination_message c) \<noteq> []"
  shows "\<exists>s'. absorb_coordination s d rid c = Inr s' \<and> session_wf s' \<and> ps_status s' = SESSION_ACTIVE"
proof -
  obtain t where t: "advance_statistics (ps_statistics s) c (ps_portfolio (absorbed s c)) = Inr t"
      "make_statistics t = Inr t"
    using advance_succeeds [OF ok inv wf] by blast
  let ?e = "\<lparr>se_sequence = int (length (ps_events s)) + 1, se_timestamp = de_timestamp d,
    se_request_id = rid, se_status = coordination_status_value (co_status c),
    se_final_stage = coordination_stage_value (co_final_stage c), se_message = coordination_message c\<rparr>"
  let ?s = "(absorbed s c)\<lparr>ps_statistics := t,
    ps_processed_request_ids := ps_processed_request_ids s @ (case rid of None \<Rightarrow> [] | Some i \<Rightarrow> [i]),
    ps_events := ps_events s @ [?e], ps_last_coordination_result := Some c\<rparr>"
  have e: "make_session_event ?e = Inr ?e"
    using ts msg rid by (cases rid) (auto simp: make_session_event_def names_not_blank)
  have curve: "ps_equity_curve (absorbed s c) \<noteq> []"
      "ep_equity (last (ps_equity_curve (absorbed s c))) = pf_equity (ps_portfolio (absorbed s c))"
    using sim_view_absorbed [OF ok] inv by (auto simp: session_inv_def sim_inv_def sim_view_def)
  have frame: "ps_schema_version (absorbed s c) = ps_schema_version s"
      "ps_ended_at (absorbed s c) = ps_ended_at s"
      "ps_status (absorbed s c) = ps_status s" "ps_session_id (absorbed s c) = ps_session_id s"
      "ps_started_at (absorbed s c) = ps_started_at s"
      "ps_processed_request_ids (absorbed s c) = ps_processed_request_ids s"
    by (simp_all add: absorbed_def split: option.split)
  have "ps_ended_at s = None"
    using wf active by (cases "ps_ended_at s") (simp_all add: session_wf_def make_session_ok)
  then have m: "make_session ?s = Inr ?s"
    unfolding make_session_ok
    using wf [unfolded session_wf_def make_session_ok] curve rid active
    by (cases rid) (auto simp: frame)
  have "absorb_coordination s d rid c = Inr ?s"
    unfolding absorb_coordination_def Let_def absorbed_def [symmetric]
    using t e m by simp
  with m t active show ?thesis by (simp add: session_wf_def)
qed

lemma coordination_message_ok:
  assumes "coordinate co d request = Inr c"
  shows "strip (coordination_message c) \<noteq> []"
  using assms by (cases rule: coordinate_cases) (simp_all add: coordination_message_def traced_def)

text \<open>The constructors accept what they have built, so every session of a run is well formed.\<close>

lemma make_session_again: "make_session s = Inr t \<Longrightarrow> make_session t = Inr t"
proof -
  assume m: "make_session s = Inr t"
  note t = make_session_Inr [OF m, THEN conjunct1]
  from m show ?thesis
    unfolding make_session_ok unfolding t
    by (cases "ps_ended_at s"; cases "ps_status s") (auto simp: make_session_def res_simps)
qed

lemma make_statistics_again: "make_statistics s = Inr t \<Longrightarrow> make_statistics t = Inr t"
  using make_statistics_Inr by blast

lemma advance_again: "advance_statistics u c pf = Inr t \<Longrightarrow> make_statistics t = Inr t"
  unfolding advance_statistics_def Let_def by (rule make_statistics_again)

lemma make_session_statistics: "make_session u = Inr s \<Longrightarrow> ps_statistics s = ps_statistics u"
  by (auto dest!: make_session_Inr)

lemma absorb_wf:
  assumes "absorb_coordination s d rid c = Inr s'"
  shows "session_wf s'"
proof -
  from assms obtain t e u where t: "advance_statistics (ps_statistics s) c (ps_portfolio (absorbed s c)) = Inr t"
    and u: "make_session u = Inr s'" "ps_statistics u = t"
    unfolding absorb_coordination_def Let_def absorbed_def [symmetric] by (auto simp: res_simps)
  show ?thesis
    using make_session_again [OF u(1)] advance_again [OF t] make_session_statistics [OF u(1)] u(2)
    by (simp add: session_wf_def)
qed

interpretation well_formed: stepping session_step session_wf
proof unfold_locales
  fix s call s' assume wf: "session_wf s" and step: "session_step s call = Inr s'"
  show "session_wf s'"
  proof (cases call)
    case (Decide d request)
    with step show ?thesis by (auto elim!: process_decision_Inr intro: absorb_wf)
  next
    case (Close t)
    with step obtain u where u: "make_session u = Inr s'" "ps_statistics u = ps_statistics s"
      by (cases "ps_status s") (auto simp: close_paper_session_def res_simps)
    show ?thesis
      using wf make_session_again [OF u(1)] make_session_statistics [OF u(1)] u(2)
      by (simp add: session_wf_def)
  qed
qed

lemma created_session_wf:
  assumes "create_paper_session sid cash t = Inr s"
  shows "session_wf s"
proof -
  from assms obtain pf stats u where i: "initial_statistics pf = Inr stats"
    and u: "make_session u = Inr s" "ps_statistics u = stats"
    unfolding create_paper_session_def Let_def by (auto simp: res_simps)
  have "make_statistics stats = Inr stats"
    using i unfolding initial_statistics_def by (rule make_statistics_again)
  then show ?thesis
    using make_session_again [OF u(1)] make_session_statistics [OF u(1)] u(2) by (simp add: session_wf_def)
qed

subsection \<open>Properties\<close>

text \<open>
  C18: Bookkeeping of a session over any calls: statistics count the events, the orders, the
  fills of the journal and their outcomes; they repeat the portfolio's figures, the peak of
  the equity curve and the distance to it; events are numbered, they name exactly the
  processed requests, each once; the portfolio stays consistent.
\<close>

theorem session_bookkeeping:
  assumes "create_paper_session sid cash t = Inr s0" and "rnd (fin cash) = fin cash"
    and "run session_step s0 calls = Inr s"
  shows "st_decisions_processed (ps_statistics s) = int (length (ps_events s)) \<and>
    st_orders_filled (ps_statistics s) = int (fill_count (ps_journal s)) \<and>
    st_orders_filled (ps_statistics s) + st_orders_rejected (ps_statistics s) +
      st_orders_not_filled (ps_statistics s) + st_decisions_skipped (ps_statistics s) =
      int (length (ps_events s)) \<and>
    st_winning_fills (ps_statistics s) + st_losing_fills (ps_statistics s) +
      st_breakeven_fills (ps_statistics s) = st_orders_filled (ps_statistics s) \<and>
    st_current_equity (ps_statistics s) = pf_equity (ps_portfolio s) \<and>
    st_peak_equity (ps_statistics s) = Max (set (map ep_equity (ps_equity_curve s))) \<and>
    st_current_drawdown (ps_statistics s) = dsub (st_peak_equity (ps_statistics s)) (pf_equity (ps_portfolio s)) \<and>
    map se_sequence (ps_events s) = map int [1..<length (ps_events s) + 1] \<and>
    ps_processed_request_ids s = List.map_filter se_request_id (ps_events s) \<and>
    distinct (ps_processed_request_ids s) \<and> portfolio_inv (ps_portfolio s)"
proof -
  have "session_inv s"
    using session.run_good [OF _ assms(3)] created_session_inv [OF assms(1,2)] by blast
  then show ?thesis
    unfolding session_inv_def counts_add_up_def figures_match_def requests_recorded_def
      sim_inv_def sim_view_def Let_def by auto
qed

text \<open>
  C17: A decision changes the portfolio of a session only through a fill that passed every
  gate: the decision asks for an order of the same symbol, side and time, the request is new,
  the risk and the compliance decision computed in this very call approve it, and the fill
  trades the whole quantity of the intent.
\<close>

theorem session_trades_are_approved:
  assumes "process_decision s paper_pipeline d request = Inr s'" and "session_inv s"
    and "ps_portfolio s' \<noteq> ps_portfolio s"
  shows "\<exists>req proposal risk compliance price realized. request = Some req \<and> creates_order_intent d \<and>
    coord_validate_intent d (cq_order_intent req) = Inr () \<and>
    strip (oi_request_id (cq_order_intent req)) \<notin> set (ps_processed_request_ids s) \<and>
    create_proposed_order (cq_order_intent req) None = Inr proposal \<and>
    evaluate_risk (cq_advisory_response req) (cq_snapshot req) (cq_risk_limits req) = Inr risk \<and>
    rd_approved risk \<and>
    evaluate_order_compliance proposal (cq_account_state req) (cq_market_state req)
      (cq_compliance_limits req) (cq_kill_switch req) (cq_gfv_decision req) (Some risk) = Inr compliance \<and>
    cd_approved compliance \<and>
    apply_fill (ps_portfolio s) (oi_symbol (cq_order_intent req)) (oi_side (cq_order_intent req))
      (oi_quantity (cq_order_intent req)) (Fin price) (the (qu_last_price (cq_market_quote req)))
      (qu_timestamp (cq_market_quote req)) = Inr (ps_portfolio s', realized)"
proof -
  from assms(1) obtain rid c where rid: "request_id_of request = Inr rid"
    and c: "coordinate paper_pipeline d (authoritative_request s request) = Inr c"
    and a: "absorb_coordination s d rid c = Inr s'"
    and new: "\<forall>i. rid = Some i \<longrightarrow> i \<notin> set (ps_processed_request_ids s)"
    unfolding process_decision_def by (auto simp: res_simps split: if_splits option.splits)
  have pf: "ps_portfolio s' = ps_portfolio (absorbed s c)" using a by (elim absorb_Inr) simp
  have seq: "sequenced (ps_journal s)" using assms(2) by (simp add: session_inv_def sim_inv_def sim_view_def)
  from c show ?thesis
  proof (cases rule: coordinate_cases)
    case (executed req proposal risk compliance sim)
    then obtain req' where req: "request = Some req'" and
      req': "req = req'\<lparr>cq_portfolio := ps_portfolio s, cq_journal := ps_journal s,
        cq_equity_curve := ps_equity_curve s\<rparr>"
      by (auto simp: authoritative_request_def)
    from executed req' have sim: "simulate_proposal (ps_portfolio s) proposal compliance
        (cq_market_quote req') (cq_maximum_quote_age req') (ps_journal s) (ps_equity_curve s) = Inr sim"
      by (simp add: paper_pipeline_def)
    have "sr_portfolio sim \<noteq> ps_portfolio s"
      using assms(3) pf executed(10) by (simp add: absorbed_def)
    with sim seq obtain p f realized where "apply_fill (ps_portfolio s) (pr_symbol proposal)
        (pr_side proposal) (pr_quantity proposal) (Fin p) (the (qu_last_price (cq_market_quote req')))
        (qu_timestamp (cq_market_quote req')) = Inr (sr_portfolio sim, realized)"
      by (cases rule: simulate_cases) auto
    then show ?thesis
      using executed req req' new rid pf
      by (intro exI [of _ req'] exI [of _ proposal] exI [of _ risk] exI [of _ compliance] exI [of _ p] exI [of _ realized])
        (auto simp: paper_pipeline_def pipeline_compliance_def create_proposed_order_def absorbed_def
          request_id_of_def Let_def res_simps)
  qed (use pf assms(3) in \<open>simp_all add: absorbed_def\<close>)
qed

text \<open>
  C19: In any session that calls have built, a decision with an aware time is taken over exactly
  if the session is active, the decision is not older than the session, its request (if any) has
  a new identifier that is not blank, and the coordination itself returns a result; a closed
  session takes nothing over.
\<close>

theorem decision_processed_iff:
  assumes "create_paper_session sid cash t = Inr s0" and "rnd (fin cash) = fin cash"
    and "run session_step s0 calls = Inr s" and "tz_aware (de_timestamp d)"
  shows "(\<exists>s'. process_decision s paper_pipeline d request = Inr s') \<longleftrightarrow>
    ps_status s = SESSION_ACTIVE \<and> \<not> dt_less (de_timestamp d) (ps_started_at s) \<and>
    (case request of None \<Rightarrow> True
     | Some req \<Rightarrow> strip (oi_request_id (cq_order_intent req)) \<notin> {[]} \<union> set (ps_processed_request_ids s)) \<and>
    (\<exists>c. coordinate paper_pipeline d (authoritative_request s request) = Inr c)"
    (is "?l \<longleftrightarrow> ?r")
proof
  assume ?l
  then show ?r
    unfolding process_decision_def
    by (auto simp: res_simps request_id_of_def Let_def split: if_splits option.splits)
next
  assume r: ?r
  then obtain c where c: "coordinate paper_pipeline d (authoritative_request s request) = Inr c" by blast
  have inv: "session_inv s"
    using session.run_good [OF _ assms(3)] created_session_inv [OF assms(1,2)] by blast
  have wf: "session_wf s"
    using well_formed.run_good [OF _ assms(3)] created_session_wf [OF assms(1)] by blast
  have ok: "coordination_ok s c" using c by (rule coordination_is_ok) (simp add: paper_pipeline_def)
  let ?rid = "map_option (\<lambda>req. strip (oi_request_id (cq_order_intent req))) request"
  have "\<exists>s'. absorb_coordination s d ?rid c = Inr s'"
    using absorb_succeeds [OF ok inv wf _ assms(4) _ coordination_message_ok [OF c], of ?rid] r
    by (auto split: option.splits)
  moreover have "request_id_of request = Inr ?rid"
    using r by (auto simp: request_id_of_def Let_def split: option.splits)
  ultimately show ?l
    using r c unfolding process_decision_def by (cases request) auto
qed

subsection \<open>A session in which a bought position follows an approved decision\<close>

definition ex_decision :: strategy_decision where
  "ex_decision = \<lparr>de_symbol = ''ABC'', de_action = ENTER_LONG, de_confidence = 80, de_score = Fin 1,
     de_timestamp = Aware 0 0, de_reasons = [], de_source_action = ''BUY'',
     de_position_quantity = 0, de_strategy_version = ''1''\<rparr>"

definition ex_order_intent :: order_intent where
  "ex_order_intent = \<lparr>oi_timestamp = Aware 0 0, oi_request_id = ''R'', oi_symbol = ''ABC'',
     oi_side = BUY, oi_quantity = Fin 2, oi_order_type = LIMIT, oi_requested_session = REGULAR,
     oi_limit_price = Some (Fin 10), oi_stop_price = None\<rparr>"

definition ex_switch :: kill_switch_state where
  "ex_switch = \<lparr>ks_enabled = False, ks_reason = [], ks_activated_timestamp = None, ks_activated_by = []\<rparr>"

definition ex_request :: coordination_request where
  "ex_request = \<lparr>cq_order_intent = ex_order_intent, cq_advisory_response = ex_response,
     cq_snapshot = ex_snapshot, cq_risk_limits = default_risk_limits,
     cq_account_state = ex_account (Fin 0), cq_market_state = ex_market, cq_gfv_decision = None,
     cq_compliance_limits = ex_limits, cq_kill_switch = Some ex_switch, cq_portfolio = ex_portfolio,
     cq_market_quote = ex_sim_quote, cq_maximum_quote_age = 30, cq_journal = [], cq_equity_curve = []\<rparr>"

definition ex_risk :: risk_decision where
  "ex_risk = \<lparr>rd_approved = True,
     rd_approval_reason = ''Approved: confidence and price levels pass the :1 reward:risk minimum.'',
     rd_risk_score = 28, rd_max_position_percent = 4, rd_stop_loss_valid = True,
     rd_take_profit_valid = True, rd_warnings = []\<rparr>"

lemma ex_risk_gate: "evaluate_risk ex_response ex_snapshot default_risk_limits = Inr ex_risk"
  by code_simp

lemma ex_compliance_gate:
  obtains c where "evaluate_order_compliance ex_proposal (ex_account (Fin 0)) ex_market ex_limits
      (Some ex_switch) None (Some ex_risk) = Inr c" "cd_approved c" "cd_request_id c = ''R''"
proof -
  let ?st = "ex_account (Fin 0)"
  have "exposure_checks ex_proposal ?st ex_limits (proposal_price ex_proposal ex_market) = Inr (True, True)"
    by code_simp
  moreover have "valid_order ex_proposal" "valid_account ?st" "valid_limits ex_limits" by code_simp+
  moreover have "kill_switch_failure (Some ex_switch) = None" "rd_approved ex_risk" by code_simp+
  moreover have "\<not> pr_side ex_proposal = SELL" by code_simp
  moreover have "fin (pr_quantity ex_proposal)
      \<le> maximum_quantity ex_proposal ?st (Some ex_risk) None (proposal_price ex_proposal ex_market)"
    by (simp add: maximum_quantity_def proposal_price_def positive_value_def ex_proposal_def ex_account_def ex_market_def ex_risk_def dec_defs)
  moreover have "fresh_order_state ex_proposal ?st ex_limits" by code_simp
  moreover have "validate_market_and_session ex_proposal ex_market ex_limits (ac_current_timestamp ?st) = []" by code_simp
  moreover have "normalize_symbol (pr_symbol ex_proposal) = normalize_symbol (ms_symbol ex_market)" by code_simp
  moreover have "pv_failures (validate_prices ex_proposal (ms_price_tick_size ex_market)) = []" by code_simp
  moreover have "ac_open_order_request_ids ?st = []" "ac_open_order_fingerprints ?st = []" by code_simp+
  moreover have "ac_trades_executed_today ?st < cl_maximum_trades_per_day ex_limits" by code_simp
  moreover have "daily_loss_ok ?st ex_limits" by code_simp
  ultimately obtain c where c: "evaluate_order_compliance ex_proposal ?st ex_market ex_limits
      (Some ex_switch) None (Some ex_risk) = Inr c" "cd_approved c"
    using approved_iff_checks [of ex_proposal ?st ex_market ex_limits "Some ex_switch" None "Some ex_risk"] by auto
  moreover have "cd_request_id c = pr_request_id ex_proposal"
    using c(1) by (auto simp: compliance_defs)
  moreover have "pr_request_id ex_proposal = ''R''" by code_simp
  ultimately show thesis using that by simp
qed

lemma ex_session_intent:
  "coord_validate_intent ex_decision ex_order_intent = Inr ()" "creates_order_intent ex_decision"
  "create_proposed_order ex_order_intent None = Inr ex_proposal"
  by code_simp+

text \<open>The session after its creation.\<close>

lemma ex_session_created:
  obtains s where "create_paper_session ''S'' (Fin 100) (Aware 0 0) = Inr s" "ps_portfolio s = ex_portfolio"
    "ps_journal s = []" "ps_equity_curve s = [\<lparr>ep_timestamp = Aware 0 0, ep_equity = 100\<rparr>]"
    "ps_status s = SESSION_ACTIVE" "ps_started_at s = Aware 0 0" "ps_processed_request_ids s = []"
proof -
  have "case create_paper_session ''S'' (Fin 100) (Aware 0 0) of Inl _ \<Rightarrow> False
    | Inr s \<Rightarrow> ps_portfolio s = ex_portfolio \<and> ps_journal s = [] \<and>
       ps_equity_curve s = [\<lparr>ep_timestamp = Aware 0 0, ep_equity = 100\<rparr>] \<and>
       ps_status s = SESSION_ACTIVE \<and> ps_started_at s = Aware 0 0 \<and> ps_processed_request_ids s = []"
    by code_simp
  then show thesis using that by (auto split: sum.splits)
qed

text \<open>The decision is taken over, and the session owns the shares afterwards.\<close>

lemma ex_session_run:
  obtains s s' c where "create_paper_session ''S'' (Fin 100) (Aware 0 0) = Inr s"
    "process_decision s paper_pipeline ex_decision (Some ex_request) = Inr s'"
    "ps_portfolio s = ex_portfolio" "ps_portfolio s' = ex_bought"
    "coordinate paper_pipeline ex_decision (authoritative_request s (Some ex_request)) = Inr c"
    "ps_status s = SESSION_ACTIVE" "ps_started_at s = Aware 0 0" "ps_processed_request_ids s = []"
proof -
  obtain s where s: "create_paper_session ''S'' (Fin 100) (Aware 0 0) = Inr s" "ps_portfolio s = ex_portfolio"
      "ps_journal s = []" "ps_equity_curve s = [\<lparr>ep_timestamp = Aware 0 0, ep_equity = 100\<rparr>]"
      "ps_status s = SESSION_ACTIVE" "ps_started_at s = Aware 0 0" "ps_processed_request_ids s = []"
    by (rule ex_session_created)
  obtain comp where comp: "evaluate_order_compliance ex_proposal (ex_account (Fin 0)) ex_market ex_limits
      (Some ex_switch) None (Some ex_risk) = Inr comp" "cd_approved comp" "cd_request_id comp = ''R''"
    by (rule ex_compliance_gate)
  obtain sim where sim: "simulate_proposal ex_portfolio ex_proposal comp ex_sim_quote 30 []
      [\<lparr>ep_timestamp = Aware 0 0, ep_equity = 100\<rparr>] = Inr sim" "sr_portfolio sim = ex_bought"
    using ex_simulated [OF comp(2,3)] by blast
  have "rd_approved ex_risk" by (simp add: ex_risk_def)
  then obtain c where c: "coordinate paper_pipeline ex_decision (authoritative_request s (Some ex_request)) = Inr c"
      "co_execution_result c = Some sim"
    using coordinate_executes [of ex_decision "the (authoritative_request s (Some ex_request))" paper_pipeline
        ex_proposal ex_risk comp sim] ex_session_intent ex_risk_gate comp sim s
    by (auto simp: authoritative_request_def ex_request_def paper_pipeline_def pipeline_compliance_def)
  have inv: "session_inv s" using created_session_inv [OF s(1)] by simp
  have ok: "coordination_ok s c" using c(1) by (rule coordination_is_ok) (simp add: paper_pipeline_def)
  have R: "strip ''R'' = ''R''" by code_simp
  obtain s' where a: "absorb_coordination s ex_decision (Some ''R'') c = Inr s'"
    using absorb_succeeds [OF ok inv created_session_wf [OF s(1)] s(5) _ _ coordination_message_ok [OF c(1)],
      of ex_decision "Some ''R''"] s R
    by (auto simp: ex_decision_def)
  have "process_decision s paper_pipeline ex_decision (Some ex_request) = Inr s'"
    using s(5,6,7) c(1) a R
    by (simp add: process_decision_def request_id_of_def ex_request_def ex_order_intent_def
        ex_decision_def Let_def)
  moreover have "ps_portfolio s' = ex_bought"
    using a c(2) sim(2) by (elim absorb_Inr) (simp add: absorbed_def)
  ultimately show thesis using that s c(1) by blast
qed

lemma session_bookkeeping_witness:
  "\<exists>s s'. create_paper_session ''S'' (Fin 100) (Aware 0 0) = Inr s \<and>
     run session_step s [Decide ex_decision (Some ex_request)] = Inr s' \<and>
     pf_cash (ps_portfolio s') = 80 \<and> st_current_equity (ps_statistics s') = 100 \<and>
     portfolio_inv (ps_portfolio s')"
proof -
  obtain s s' where s: "create_paper_session ''S'' (Fin 100) (Aware 0 0) = Inr s"
      "process_decision s paper_pipeline ex_decision (Some ex_request) = Inr s'" "ps_portfolio s' = ex_bought"
    using ex_session_run by metis
  then have r: "run session_step s [Decide ex_decision (Some ex_request)] = Inr s'" by simp
  from session_bookkeeping [OF s(1) _ r] s r show ?thesis by (auto simp: ex_bought_def)
qed

lemma session_trades_are_approved_witness:
  "\<exists>s s'. process_decision s paper_pipeline ex_decision (Some ex_request) = Inr s' \<and>
     ps_portfolio s' \<noteq> ps_portfolio s \<and> creates_order_intent ex_decision \<and>
     (\<exists>price realized. apply_fill (ps_portfolio s) ''ABC'' BUY (Fin 2) (Fin price) (Fin 10) (Aware 0 0) =
        Inr (ps_portfolio s', realized))"
proof -
  obtain s s' where s: "create_paper_session ''S'' (Fin 100) (Aware 0 0) = Inr s"
      "process_decision s paper_pipeline ex_decision (Some ex_request) = Inr s'"
      "ps_portfolio s' = ex_bought" "ps_portfolio s = ex_portfolio"
    using ex_session_run by metis
  have "ps_portfolio s' \<noteq> ps_portfolio s" unfolding s by (simp add: ex_bought_def ex_portfolio_def)
  moreover have "session_inv s" using created_session_inv [OF s(1)] by simp
  ultimately show ?thesis
    using session_trades_are_approved [OF s(2)] s(2)
    by (auto simp: ex_request_def ex_order_intent_def ex_sim_quote_def)
qed

lemma decision_processed_iff_witness:
  "\<exists>s s'. create_paper_session ''S'' (Fin 100) (Aware 0 0) = Inr s \<and>
     process_decision s paper_pipeline ex_decision (Some ex_request) = Inr s'"
proof -
  obtain s c where s: "create_paper_session ''S'' (Fin 100) (Aware 0 0) = Inr s"
      "coordinate paper_pipeline ex_decision (authoritative_request s (Some ex_request)) = Inr c"
      "ps_status s = SESSION_ACTIVE" "ps_started_at s = Aware 0 0" "ps_processed_request_ids s = []"
    using ex_session_run by metis
  have R: "strip ''R'' = ''R''" by code_simp
  have r: "run session_step s [] = Inr s" by simp
  from decision_processed_iff [OF s(1) _ r, of ex_decision "Some ex_request"] s R
  show ?thesis by (auto simp: ex_decision_def ex_request_def ex_order_intent_def)
qed

end
