(* ===== verification/Runtime_Values.thy ===== *)
theory Runtime_Values
  imports Text_Checks
begin

text \<open>
  Values that the deterministic runtimes (strategy, risk, execution planner, paper trading,
  orchestrator) share: JSON metadata with the check \<open>freeze_json_mapping\<close> of
  app/committee/models.py, the field checks of their constructors, the answers of an injected
  dependency, and \<open>Decimal(text)\<close>.
\<close>

subsection \<open>JSON metadata\<close>

text \<open>
  A mapping is an association list without duplicate keys; lists and tuples are one value.
  \<open>JDecimalText x\<close> is a text \<open>str(d)\<close> of a Decimal with the value x: which of the texts of that
  value it is depends on the exponent and is not modelled.
\<close>

datatype json =
    JNull | JBool bool | JInt int | JFloat dec | JText string | JDecimalText rat
  | JList "json list" | JMap "(string \<times> json) list"

type_synonym metadata = "(string \<times> json) list"

function (sequential)
  freeze_value :: "string \<Rightarrow> json \<Rightarrow> unit res" and
  freeze_items :: "string \<Rightarrow> nat \<Rightarrow> json list \<Rightarrow> unit res" and
  freeze_entries :: "string \<Rightarrow> metadata \<Rightarrow> unit res" where
  "freeze_value path (JFloat d) = demand (is_finite d) (path @ '' must contain only finite numbers'')"
| "freeze_value path (JList xs) = freeze_items path 0 xs"
| "freeze_value path (JMap m) = freeze_entries path m"
| "freeze_value path _ = Inr ()"
| "freeze_items path i [] = Inr ()"
| "freeze_items path i (x # xs) =
     rbind (freeze_value (path @ ''['' @ digits i @ '']'') x) (\<lambda>_. freeze_items path (Suc i) xs)"
| "freeze_entries name [] = Inr ()"
| "freeze_entries name (kx # m) =
     rbind (demand (strip (fst kx) \<noteq> []) (name @ '' keys must be nonempty strings'')) (\<lambda>_.
     rbind (freeze_value (name @ ''.'' @ fst kx) (snd kx)) (\<lambda>_. freeze_entries name m))"
  by pat_completeness auto

text \<open>Every call is on a smaller part of the value, whatever the path has grown to.\<close>

termination
  by (relation "measure (\<lambda>x. case x of Inl (_, v) \<Rightarrow> size v
      | Inr (Inl (_, _, vs)) \<Rightarrow> size_list size vs
      | Inr (Inr (_, m)) \<Rightarrow> size_list (\<lambda>kx. Suc (size (snd kx))) m)")
    (auto simp: size_prod_simp case_prod_unfold comp_def)

definition freeze_json_mapping :: "string \<Rightarrow> metadata \<Rightarrow> metadata res" where
  "freeze_json_mapping name m = rbind (freeze_entries name m) (\<lambda>_. Inr m)"

text \<open>What the check demands, without the paths of its messages.\<close>

fun frozen :: "json \<Rightarrow> bool" where
  "frozen (JFloat d) = is_finite d"
| "frozen (JList xs) = (\<forall>x\<in>set xs. frozen x)"
| "frozen (JMap m) = (\<forall>kx\<in>set m. strip (fst kx) \<noteq> [] \<and> frozen (snd kx))"
| "frozen _ = True"

abbreviation frozen_mapping :: "metadata \<Rightarrow> bool" where
  "frozen_mapping m \<equiv> frozen (JMap m)"

lemma freeze_checks:
  "freeze_value path v = Inr u \<longleftrightarrow> frozen v"
  "freeze_items path i vs = Inr u \<longleftrightarrow> (\<forall>v\<in>set vs. frozen v)"
  "freeze_entries name m = Inr u \<longleftrightarrow> frozen_mapping m"
  by (induction path v and path i vs and name m arbitrary: u and u and u
      rule: freeze_value_freeze_items_freeze_entries.induct) (auto simp: res_simps)

lemma freeze_json_mapping_Inr [simp]:
  "freeze_json_mapping name m = Inr m' \<longleftrightarrow> frozen_mapping m \<and> m' = m"
  by (auto simp: freeze_json_mapping_def res_simps freeze_checks simp del: frozen.simps)

lemma freeze_empty [simp]: "freeze_json_mapping name [] = Inr []"
  by (simp add: freeze_json_mapping_def)

subsection \<open>Field checks\<close>

text \<open>\<open>_text\<close> and \<open>_decimal\<close>, which every package defines with an exception of its own.\<close>

definition text_field :: "exn_class \<Rightarrow> string \<Rightarrow> string \<Rightarrow> unit res" where
  "text_field cls name v = check (nonempty_stripped v)
     (Raise cls (name @ '' must be a non-empty stripped string''))"

definition finite_field :: "exn_class \<Rightarrow> string \<Rightarrow> dec \<Rightarrow> rat res" where
  "finite_field cls name d =
     (if is_finite d then Inr (fin d) else Inl (Raise cls (name @ '' must be finite'')))"

definition positive_field :: "exn_class \<Rightarrow> string \<Rightarrow> dec \<Rightarrow> rat res" where
  "positive_field cls name d =
     (if dec_positive d then Inr (fin d)
      else Inl (Raise cls (name @ '' must be positive and finite'')))"

definition nonnegative_field :: "exn_class \<Rightarrow> string \<Rightarrow> dec \<Rightarrow> rat res" where
  "nonnegative_field cls name d =
     (if dec_nonnegative d then Inr (fin d)
      else Inl (Raise cls (name @ '' must be non-negative and finite'')))"

lemma field_checks [simp]:
  "text_field cls name v = Inr u \<longleftrightarrow> nonempty_stripped v"
  "finite_field cls name d = Inr x \<longleftrightarrow> d = Fin x"
  "positive_field cls name d = Inr x \<longleftrightarrow> d = Fin x \<and> 0 < x"
  "nonnegative_field cls name d = Inr x \<longleftrightarrow> d = Fin x \<and> 0 \<le> x"
  by (cases d; auto simp: text_field_def finite_field_def positive_field_def nonnegative_field_def
      check_Inr split: if_splits)+

subsection \<open>Answers of a dependency\<close>

text \<open>
  What a call of an injected object can be: any exception (the callers catch \<open>Exception\<close>), an
  object of another type (the callers test \<open>isinstance\<close>), or a value.
\<close>

datatype 'a answer = Raised | Foreign | Answer 'a

definition answer_of :: "'a res \<Rightarrow> 'a answer" where
  "answer_of r = (case r of Inl _ \<Rightarrow> Raised | Inr x \<Rightarrow> Answer x)"

text \<open>\<open>try: f() except Exception: raise e\<close>, then \<open>if not isinstance: raise e'\<close>.\<close>

definition called :: "exn \<Rightarrow> exn \<Rightarrow> 'a answer \<Rightarrow> 'a res" where
  "called e e' a = (case a of Raised \<Rightarrow> Inl e | Foreign \<Rightarrow> Inl e' | Answer x \<Rightarrow> Inr x)"

lemma called_Inr [simp]: "called e e' a = Inr x \<longleftrightarrow> a = Answer x"
  by (cases a) (auto simp: called_def)

lemma answer_of_Answer [simp]: "answer_of r = Answer x \<longleftrightarrow> r = Inr x"
  by (cases r) (auto simp: answer_of_def)

subsection \<open>Decimals from text\<close>

text \<open>
  \<open>Decimal(text)\<close> for ASCII text: white space around it and underscores are ignored, then a
  sign, then an infinity, a NaN with an optional payload, or digits with at most one point and
  an exponent.  The value is exact.  \<open>None\<close> is \<open>InvalidOperation\<close>.
\<close>

definition split_sign :: "string \<Rightarrow> bool \<times> string" where
  "split_sign s = (case s of [] \<Rightarrow> (False, [])
     | c # r \<Rightarrow> if c = CHR ''-'' then (True, r) else if c = CHR ''+'' then (False, r) else (False, s))"

definition all_digits :: "string \<Rightarrow> bool" where
  "all_digits s \<longleftrightarrow> list_all is_digit s"

definition parse_exponent :: "string \<Rightarrow> int option" where
  "parse_exponent s = (case split_sign s of (negative, r) \<Rightarrow>
     if r \<noteq> [] \<and> all_digits r
     then Some (if negative then - int (digits_value r) else int (digits_value r)) else None)"

definition parse_unsigned :: "string \<Rightarrow> rat option" where
  "parse_unsigned s =
     (let mantissa = takeWhile (\<lambda>c. c \<noteq> CHR ''E'') s; tail = dropWhile (\<lambda>c. c \<noteq> CHR ''E'') s;
          whole = takeWhile (\<lambda>c. c \<noteq> CHR ''.'') mantissa;
          fraction = drop 1 (dropWhile (\<lambda>c. c \<noteq> CHR ''.'') mantissa) in
      if whole @ fraction = [] \<or> \<not> all_digits (whole @ fraction) then None
      else case (if tail = [] then Some 0 else parse_exponent (drop 1 tail)) of
        None \<Rightarrow> None
      | Some e \<Rightarrow> Some (of_int (int (digits_value (whole @ fraction))) * 10 powi (e - int (length fraction))))"

definition parse_decimal :: "string \<Rightarrow> dec option" where
  "parse_decimal text =
     (case split_sign (upper (filter (\<lambda>c. c \<noteq> CHR ''_'') (strip text))) of (negative, s) \<Rightarrow>
        if s = ''INF'' \<or> s = ''INFINITY'' then Some (if negative then NInf else PInf)
        else if (starts_with ''NAN'' s \<and> all_digits (drop 3 s)) \<or>
            (starts_with ''SNAN'' s \<and> all_digits (drop 4 s)) then Some NaN
        else map_option (\<lambda>x. Fin (if negative then - x else x)) (parse_unsigned s))"

subsection \<open>Texts built from checked texts\<close>

lemma nonempty_stripped_iff:
  "nonempty_stripped v \<longleftrightarrow> v \<noteq> [] \<and> \<not> is_space (hd v) \<and> \<not> is_space (last v)"
proof
  assume v: "nonempty_stripped v"
  then have ne: "v \<noteq> []" by (auto simp: nonempty_stripped_def strip_def lstrip_def)
  have s: "strip v = v" using v by (simp add: nonempty_stripped_def)
  have "length (strip v) \<le> length (lstrip v)"
    using length_dropWhile_le [of is_space "rev (lstrip v)"] by (simp add: strip_def lstrip_def)
  moreover have "length (lstrip v) \<le> length v" by (simp add: lstrip_def length_dropWhile_le)
  ultimately have l: "length (lstrip v) = length v" using s by simp
  have "lstrip v = v"
    using l takeWhile_dropWhile_id [of is_space v] by (metis append_eq_append_conv append_self_conv2 lstrip_def)
  moreover from this s have "lstrip (rev v) = rev v" by (metis rev_rev_ident strip_def)
  ultimately show "v \<noteq> [] \<and> \<not> is_space (hd v) \<and> \<not> is_space (last v)"
    using ne hd_dropWhile [of is_space v] hd_dropWhile [of is_space "rev v"]
    by (metis hd_rev lstrip_def dropWhile_eq_Nil_conv rev_is_Nil_conv)
next
  assume v: "v \<noteq> [] \<and> \<not> is_space (hd v) \<and> \<not> is_space (last v)"
  then have "lstrip v = v" by (cases v) (auto simp: lstrip_def)
  moreover have "lstrip (rev v) = rev v"
    using v by (cases v rule: rev_cases) (auto simp: lstrip_def)
  ultimately show "nonempty_stripped v" using v by (simp add: nonempty_stripped_def strip_def)
qed

lemma nonempty_stripped_append [simp]:
  "nonempty_stripped v \<Longrightarrow> w \<noteq> [] \<Longrightarrow> \<not> is_space (last w) \<Longrightarrow> nonempty_stripped (v @ w)"
  by (simp add: nonempty_stripped_iff)

lemma nonempty_stripped_upper [simp]: "nonempty_stripped (upper v) = nonempty_stripped v"
  by (cases "v = []") (simp_all add: nonempty_stripped_iff upper_def hd_map last_map)

text \<open>The metadata every result of the runtimes carries.\<close>

lemma freeze_deterministic [simp]:
  "freeze_json_mapping name [(''deterministic'', JBool True)] = Inr [(''deterministic'', JBool True)]"
proof -
  have "strip ''deterministic'' \<noteq> []" by code_simp
  then show ?thesis by (simp add: freeze_json_mapping_def)
qed

lemma strip_Cons_nonblank: "\<not> is_space a \<Longrightarrow> strip (a # v) \<noteq> []"
  by (metis lstrip_def strip_def dropWhile.simps(2) append_is_Nil_conv dropWhile_append3
      list.distinct(1) rev.simps(2) rev_is_Nil_conv lstrip_rev_lstrip dropWhile_eq_Nil_conv
      list.set_intros(1) set_rev)

end
