(* ===== verification/Strategy_Runtime.thy ===== *)
theory Strategy_Runtime
  imports Runtime_Values
begin

text \<open>
  The portfolio snapshot (app/portfolio/models.py) and the strategy runtime (app/strategy:
  models.py, policies.py, runtime.py).  Records are parametrised by the type of their numbers:
  a constructor takes a record of unchecked Decimals and returns one of rationals.
\<close>

subsection \<open>Portfolio snapshots\<close>

record 'n held_position =
  hp_symbol :: string
  hp_quantity :: 'n
  hp_market_value :: 'n
  hp_cost_basis :: 'n
  hp_unrealized_pl :: 'n
  hp_weight :: 'n
  hp_metadata :: metadata

definition make_held_position :: "dec held_position \<Rightarrow> rat held_position res" where
  "make_held_position p =
     (let finite = finite_field PortfolioValidationError in
      rbind (text_field PortfolioValidationError ''symbol'' (hp_symbol p)) (\<lambda>_.
      rbind (finite ''quantity'' (hp_quantity p)) (\<lambda>quantity.
      rbind (finite ''market_value'' (hp_market_value p)) (\<lambda>market_value.
      rbind (finite ''cost_basis'' (hp_cost_basis p)) (\<lambda>cost_basis.
      rbind (finite ''unrealized_pl'' (hp_unrealized_pl p)) (\<lambda>unrealized.
      rbind (finite ''weight'' (hp_weight p)) (\<lambda>weight.
      rbind (check (quantity \<noteq> 0) (Raise PortfolioValidationError ''quantity must be non-zero'')) (\<lambda>_.
      rbind (freeze_json_mapping ''metadata'' (hp_metadata p)) (\<lambda>m.
      Inr \<lparr>hp_symbol = upper (hp_symbol p), hp_quantity = quantity, hp_market_value = market_value,
        hp_cost_basis = cost_basis, hp_unrealized_pl = unrealized, hp_weight = weight,
        hp_metadata = m\<rparr>)))))))))"

record 'n portfolio_snapshot =
  pn_account_id :: string
  pn_cash :: 'n
  pn_buying_power :: 'n
  pn_equity :: 'n
  pn_market_value :: 'n
  pn_total_value :: 'n
  pn_positions :: "rat held_position list"
  pn_metadata :: metadata

definition make_portfolio_snapshot :: "dec portfolio_snapshot \<Rightarrow> rat portfolio_snapshot res" where
  "make_portfolio_snapshot p =
     (let finite = finite_field PortfolioValidationError in
      rbind (text_field PortfolioValidationError ''account_id'' (pn_account_id p)) (\<lambda>_.
      rbind (finite ''cash'' (pn_cash p)) (\<lambda>cash.
      rbind (finite ''buying_power'' (pn_buying_power p)) (\<lambda>buying_power.
      rbind (finite ''equity'' (pn_equity p)) (\<lambda>equity.
      rbind (finite ''market_value'' (pn_market_value p)) (\<lambda>market_value.
      rbind (finite ''total_value'' (pn_total_value p)) (\<lambda>total_value.
      rbind (check (market_value = dsum (map hp_market_value (pn_positions p)))
        (Raise PortfolioValidationError ''market_value must equal summed position market value'')) (\<lambda>_.
      rbind (check (total_value = dadd cash market_value)
        (Raise PortfolioValidationError ''total_value must equal cash plus market_value'')) (\<lambda>_.
      rbind (freeze_json_mapping ''metadata'' (pn_metadata p)) (\<lambda>m.
      Inr \<lparr>pn_account_id = pn_account_id p, pn_cash = cash, pn_buying_power = buying_power,
        pn_equity = equity, pn_market_value = market_value, pn_total_value = total_value,
        pn_positions = pn_positions p, pn_metadata = m\<rparr>))))))))))"

text \<open>\<open>next((p for p in positions if p.symbol == symbol), None)\<close>.\<close>

definition position_of :: "string \<Rightarrow> rat held_position list \<Rightarrow> rat held_position option" where
  "position_of symbol ps = find (\<lambda>p. hp_symbol p = symbol) ps"

subsection \<open>Strategy models\<close>

datatype strategy_signal = SIGNAL_BUY | SIGNAL_SELL | SIGNAL_HOLD | SIGNAL_EXIT

record strategy_context =
  sx_context_id :: string
  sx_portfolio :: "rat portfolio_snapshot"
  sx_configuration :: metadata
  sx_metadata :: metadata

definition make_strategy_context :: "strategy_context \<Rightarrow> strategy_context res" where
  "make_strategy_context c =
     rbind (text_field StrategyValidationError ''context_id'' (sx_context_id c)) (\<lambda>_.
     rbind (freeze_json_mapping ''configuration'' (sx_configuration c)) (\<lambda>_.
     rbind (freeze_json_mapping ''metadata'' (sx_metadata c)) (\<lambda>_. Inr c)))"

record 'n signal_decision =
  sd_symbol :: string
  sd_signal :: strategy_signal
  sd_confidence :: 'n
  sd_reasons :: "string list"
  sd_metadata :: metadata

definition make_signal_decision :: "dec signal_decision \<Rightarrow> rat signal_decision res" where
  "make_signal_decision d =
     rbind (text_field StrategyValidationError ''symbol'' (sd_symbol d)) (\<lambda>_.
     rbind (finite_field StrategyValidationError ''confidence'' (sd_confidence d)) (\<lambda>confidence.
     rbind (check (0 \<le> confidence \<and> confidence \<le> 1)
       (Raise StrategyValidationError ''confidence must be between zero and one'')) (\<lambda>_.
     rbind (check (sd_reasons d \<noteq> [] \<and> list_all nonempty_stripped (sd_reasons d))
       (Raise StrategyValidationError ''reasons must be a non-empty immutable string tuple'')) (\<lambda>_.
     rbind (freeze_json_mapping ''metadata'' (sd_metadata d)) (\<lambda>m.
     Inr \<lparr>sd_symbol = upper (sd_symbol d), sd_signal = sd_signal d, sd_confidence = confidence,
       sd_reasons = sd_reasons d, sd_metadata = m\<rparr>)))))"

record strategy_result =
  sr_context_id :: string
  sr_evaluated :: bool
  sr_decisions :: "rat signal_decision list"
  sr_policy_version :: string
  sr_metadata :: metadata

definition make_strategy_result :: "strategy_result \<Rightarrow> strategy_result res" where
  "make_strategy_result r =
     rbind (text_field StrategyValidationError ''context_id'' (sr_context_id r)) (\<lambda>_.
     rbind (text_field StrategyValidationError ''policy_version'' (sr_policy_version r)) (\<lambda>_.
     rbind (check (sr_evaluated r \<or> sr_decisions r = [])
       (Raise StrategyValidationError ''unevaluated result cannot contain decisions'')) (\<lambda>_.
     rbind (check (distinct (map sd_symbol (sr_decisions r)))
       (Raise StrategyValidationError ''strategy decisions must have unique symbols'')) (\<lambda>_.
     rbind (freeze_json_mapping ''metadata'' (sr_metadata r)) (\<lambda>_. Inr r)))))"

record strategy_policy =
  sp_version :: string
  sp_enabled :: bool
  sp_strict_validation :: bool
  sp_metadata :: metadata

definition make_strategy_policy :: "strategy_policy \<Rightarrow> strategy_policy res" where
  "make_strategy_policy p =
     rbind (text_field StrategyValidationError ''version'' (sp_version p)) (\<lambda>_.
     rbind (freeze_json_mapping ''metadata'' (sp_metadata p)) (\<lambda>_. Inr p))"

subsection \<open>The strategy runtime\<close>

definition strategy_evaluate ::
  "strategy_policy \<Rightarrow> (strategy_context \<Rightarrow> rat signal_decision list answer) \<Rightarrow> strategy_context \<Rightarrow>
   strategy_result res" where
  "strategy_evaluate policy evaluator context =
     (if \<not> sp_enabled policy
      then make_strategy_result \<lparr>sr_context_id = sx_context_id context, sr_evaluated = False,
        sr_decisions = [], sr_policy_version = sp_version policy,
        sr_metadata = [(''deterministic'', JBool True), (''reason'', JText ''DISABLED'')]\<rparr>
      else rbind (called (Raise StrategyEvaluationError ''strategy evaluator failed'')
          (Raise StrategyDependencyError ''strategy evaluator returned invalid decisions'')
          (evaluator context)) (\<lambda>decisions.
        make_strategy_result \<lparr>sr_context_id = sx_context_id context, sr_evaluated = True,
          sr_decisions = decisions, sr_policy_version = sp_version policy,
          sr_metadata = [(''deterministic'', JBool True)]\<rparr>))"

lemma strategy_evaluate_Inr:
  "strategy_evaluate policy evaluator context = Inr r \<Longrightarrow> sr_context_id r = sx_context_id context \<and>
     (sr_decisions r \<noteq> [] \<longrightarrow> sp_enabled policy \<and> sr_evaluated r \<and>
        evaluator context = Answer (sr_decisions r))"
  by (auto simp: strategy_evaluate_def make_strategy_result_def res_simps split: if_splits)

end
