(* ===== verification/Risk_Runtime.thy ===== *)
theory Risk_Runtime
  imports Strategy_Runtime
begin

text \<open>
  The risk runtime (app/risk: RiskContext, RiskCriteriaResult and RiskResult of models.py,
  policies.py, runtime.py): it approves, reduces or rejects the quantity a strategy decision
  asks for.
\<close>

subsection \<open>Models\<close>

datatype risk_outcome = RISK_APPROVED | RISK_MODIFIED | RISK_REJECTED

record 'n risk_context =
  rx_context_id :: string
  rx_strategy_context :: strategy_context
  rx_strategy_decision :: "rat signal_decision"
  rx_requested_quantity :: 'n
  rx_reference_price :: 'n
  rx_metadata :: metadata

text \<open>\<open>_decimal\<close> of this module raises \<open>ValueError\<close>, the other checks an exception of the runtime.\<close>

definition make_risk_context :: "dec risk_context \<Rightarrow> rat risk_context res" where
  "make_risk_context c =
     (let invalid = (\<lambda>ok msg. check ok (Raise RiskRuntimeValidationError msg));
          hold = (sd_signal (rx_strategy_decision c) = SIGNAL_HOLD) in
      rbind (text_field RiskRuntimeValidationError ''context_id'' (rx_context_id c)) (\<lambda>_.
      rbind (finite_field ValueError ''requested_quantity'' (rx_requested_quantity c)) (\<lambda>quantity.
      rbind (finite_field ValueError ''reference_price'' (rx_reference_price c)) (\<lambda>price.
      rbind (invalid (0 \<le> quantity \<and> 0 < price) ''quantity must be nonnegative and price positive'') (\<lambda>_.
      rbind (invalid (hold \<longrightarrow> quantity = 0) ''HOLD requires zero quantity'') (\<lambda>_.
      rbind (invalid (\<not> hold \<longrightarrow> 0 < quantity) ''directional signals require positive quantity'') (\<lambda>_.
      rbind (freeze_json_mapping ''metadata'' (rx_metadata c)) (\<lambda>m.
      Inr \<lparr>rx_context_id = rx_context_id c, rx_strategy_context = rx_strategy_context c,
        rx_strategy_decision = rx_strategy_decision c, rx_requested_quantity = quantity,
        rx_reference_price = price, rx_metadata = m\<rparr>))))))))"

record risk_criterion =
  rk_name :: string
  rk_passed :: bool
  rk_observed :: rat
  rk_limit :: "rat option"
  rk_detail :: string

definition make_risk_criterion :: "risk_criterion \<Rightarrow> risk_criterion res" where
  "make_risk_criterion c =
     rbind (check (strip (rk_name c) \<noteq> [] \<and> strip (rk_detail c) \<noteq> [])
       (Raise RiskRuntimeValidationError ''criteria text is required'')) (\<lambda>_. Inr c)"

record risk_result =
  rr_context_id :: string
  rr_strategy_decision :: "rat signal_decision"
  rr_outcome :: risk_outcome
  rr_requested_quantity :: rat
  rr_approved_quantity :: rat
  rr_criteria :: "risk_criterion list"
  rr_policy_version :: string
  rr_metadata :: metadata

definition make_risk_result :: "risk_result \<Rightarrow> risk_result res" where
  "make_risk_result r =
     (let invalid = (\<lambda>ok msg. check ok (Raise RiskRuntimeValidationError msg));
          requested = rr_requested_quantity r; approved = rr_approved_quantity r in
      rbind (invalid (strip (rr_context_id r) \<noteq> []) ''result identity is invalid'') (\<lambda>_.
      rbind (invalid (0 \<le> requested \<and> 0 \<le> approved \<and> approved \<le> requested)
        ''result quantities are invalid'') (\<lambda>_.
      rbind (invalid (rr_outcome r = RISK_APPROVED \<longrightarrow> approved = requested)
        ''approved outcome requires full quantity'') (\<lambda>_.
      rbind (invalid (rr_outcome r = RISK_MODIFIED \<longrightarrow> 0 < approved \<and> approved < requested)
        ''modified outcome requires reduced positive quantity'') (\<lambda>_.
      rbind (invalid (rr_outcome r = RISK_REJECTED \<longrightarrow> approved = 0)
        ''rejected outcome requires zero quantity'') (\<lambda>_.
      rbind (invalid (rr_criteria r \<noteq> []) ''criteria_results must be non-empty immutable tuple'') (\<lambda>_.
      rbind (invalid (strip (rr_policy_version r) \<noteq> []) ''policy_version is required'') (\<lambda>_.
      rbind (freeze_json_mapping ''metadata'' (rr_metadata r)) (\<lambda>_. Inr r)))))))))"

record 'n risk_policy =
  rp_version :: string
  rp_maximum_symbol_exposure_fraction :: 'n
  rp_maximum_gross_exposure_fraction :: 'n
  rp_maximum_daily_loss_fraction :: 'n
  rp_maximum_drawdown_fraction :: 'n
  rp_maximum_requested_risk_fraction :: 'n
  rp_minimum_committee_confidence :: 'n
  rp_minimum_committee_consensus :: 'n
  rp_maximum_open_positions :: int
  rp_maximum_open_orders :: int
  rp_allow_modification :: bool
  rp_enabled :: bool
  rp_strict_validation :: bool
  rp_max_position_value :: 'n
  rp_max_portfolio_exposure :: 'n
  rp_max_order_quantity :: 'n
  rp_minimum_cash_reserve :: 'n
  rp_metadata :: metadata

text \<open>A fraction between 0 and 1, an amount that is not negative.\<close>

definition fraction_field :: "string \<times> dec \<Rightarrow> rat res" where
  "fraction_field nd = (case nd of (name, d) \<Rightarrow>
     rbind (finite_field ValueError name d) (\<lambda>x.
     rbind (demand (0 \<le> x \<and> x \<le> 1) (name @ '' must be between 0 and 1'')) (\<lambda>_. Inr x)))"

definition amount_field :: "string \<times> dec \<Rightarrow> rat res" where
  "amount_field nd = (case nd of (name, d) \<Rightarrow>
     rbind (finite_field ValueError name d) (\<lambda>x.
     rbind (demand (0 \<le> x) (name @ '' must be nonnegative'')) (\<lambda>_. Inr x)))"

definition make_risk_policy :: "dec risk_policy \<Rightarrow> rat risk_policy res" where
  "make_risk_policy p =
     rbind (demand (strip (rp_version p) \<noteq> []) ''version must be nonempty'') (\<lambda>_.
     rbind (fraction_field (''maximum_symbol_exposure_fraction'', rp_maximum_symbol_exposure_fraction p)) (\<lambda>symbol_exposure.
     rbind (fraction_field (''maximum_gross_exposure_fraction'', rp_maximum_gross_exposure_fraction p)) (\<lambda>gross_exposure.
     rbind (fraction_field (''maximum_daily_loss_fraction'', rp_maximum_daily_loss_fraction p)) (\<lambda>daily_loss.
     rbind (fraction_field (''maximum_drawdown_fraction'', rp_maximum_drawdown_fraction p)) (\<lambda>drawdown.
     rbind (fraction_field (''maximum_requested_risk_fraction'', rp_maximum_requested_risk_fraction p)) (\<lambda>requested_risk.
     rbind (fraction_field (''minimum_committee_confidence'', rp_minimum_committee_confidence p)) (\<lambda>confidence.
     rbind (fraction_field (''minimum_committee_consensus'', rp_minimum_committee_consensus p)) (\<lambda>consensus.
     rbind (demand (0 \<le> rp_maximum_open_positions p) ''maximum_open_positions must be a nonnegative integer'') (\<lambda>_.
     rbind (demand (0 \<le> rp_maximum_open_orders p) ''maximum_open_orders must be a nonnegative integer'') (\<lambda>_.
     rbind (amount_field (''max_position_value'', rp_max_position_value p)) (\<lambda>position_value.
     rbind (amount_field (''max_portfolio_exposure'', rp_max_portfolio_exposure p)) (\<lambda>portfolio_exposure.
     rbind (amount_field (''max_order_quantity'', rp_max_order_quantity p)) (\<lambda>order_quantity.
     rbind (amount_field (''minimum_cash_reserve'', rp_minimum_cash_reserve p)) (\<lambda>cash_reserve.
     rbind (freeze_json_mapping ''metadata'' (rp_metadata p)) (\<lambda>m.
     Inr \<lparr>rp_version = strip (rp_version p), rp_maximum_symbol_exposure_fraction = symbol_exposure,
       rp_maximum_gross_exposure_fraction = gross_exposure, rp_maximum_daily_loss_fraction = daily_loss,
       rp_maximum_drawdown_fraction = drawdown, rp_maximum_requested_risk_fraction = requested_risk,
       rp_minimum_committee_confidence = confidence, rp_minimum_committee_consensus = consensus,
       rp_maximum_open_positions = rp_maximum_open_positions p, rp_maximum_open_orders = rp_maximum_open_orders p,
       rp_allow_modification = rp_allow_modification p, rp_enabled = rp_enabled p,
       rp_strict_validation = rp_strict_validation p, rp_max_position_value = position_value,
       rp_max_portfolio_exposure = portfolio_exposure, rp_max_order_quantity = order_quantity,
       rp_minimum_cash_reserve = cash_reserve, rp_metadata = m\<rparr>)))))))))))))))"

subsection \<open>The deterministic evaluator\<close>

text \<open>The largest quantity each limit allows; an opening order may use all of the room left.\<close>

definition capacities :: "rat risk_policy \<Rightarrow> rat risk_context \<Rightarrow> rat list" where
  "capacities policy c =
     (let d = rx_strategy_decision c; pn = sx_portfolio (rx_strategy_context c); price = rx_reference_price c;
          position = position_of (sd_symbol d) (pn_positions pn);
          current_position = (case position of None \<Rightarrow> 0 | Some p \<Rightarrow> dabs (hp_market_value p));
          gross = dsum (map (\<lambda>p. dabs (hp_market_value p)) (pn_positions pn)) in
      if sd_signal d \<in> {SIGNAL_SELL, SIGNAL_EXIT}
      then [rp_max_order_quantity policy, (case position of None \<Rightarrow> 0 | Some p \<Rightarrow> dabs (hp_quantity p))]
      else [rp_max_order_quantity policy,
        max 0 (ddiv (dsub (rp_max_position_value policy) current_position) price),
        max 0 (ddiv (dsub (rp_max_portfolio_exposure policy) gross) price),
        max 0 (ddiv (dsub (pn_cash pn) (rp_minimum_cash_reserve policy)) price)])"

text \<open>Quantity and outcome, before a policy without modification turns a reduction into a rejection.\<close>

definition risk_quantity :: "rat risk_policy \<Rightarrow> rat risk_context \<Rightarrow> rat \<times> risk_outcome" where
  "risk_quantity policy c =
     (if sd_signal (rx_strategy_decision c) = SIGNAL_HOLD then (0, RISK_APPROVED)
      else let requested = rx_requested_quantity c; approved = foldl min requested (capacities policy c);
               outcome = (if approved \<le> 0 then RISK_REJECTED
                 else if approved < requested then RISK_MODIFIED else RISK_APPROVED) in
        if outcome = RISK_MODIFIED \<and> \<not> rp_allow_modification policy then (0, RISK_REJECTED)
        else (approved, outcome))"

definition risk_criteria :: "rat risk_policy \<Rightarrow> rat risk_context \<Rightarrow> risk_criterion list" where
  "risk_criteria policy c =
     (let d = rx_strategy_decision c; pn = sx_portfolio (rx_strategy_context c); price = rx_reference_price c;
          position = position_of (sd_symbol d) (pn_positions pn);
          current_position = (case position of None \<Rightarrow> 0 | Some p \<Rightarrow> dabs (hp_market_value p));
          gross = dsum (map (\<lambda>p. dabs (hp_market_value p)) (pn_positions pn));
          requested = rx_requested_quantity c; buy = (sd_signal d = SIGNAL_BUY);
          after_position = dadd current_position (dmul requested price);
          after_gross = dadd gross (dmul requested price);
          after_cash = dsub (pn_cash pn) (dmul requested price) in
      map (\<lambda>(name, passed, observed, bound). \<lparr>rk_name = name, rk_passed = passed, rk_observed = observed,
          rk_limit = Some bound, rk_detail = name @ '' policy check''\<rparr>)
        [(''order_quantity'', requested \<le> rp_max_order_quantity policy, requested, rp_max_order_quantity policy),
         (''position_value'', \<not> buy \<or> after_position \<le> rp_max_position_value policy, after_position,
          rp_max_position_value policy),
         (''portfolio_exposure'', \<not> buy \<or> after_gross \<le> rp_max_portfolio_exposure policy, after_gross,
          rp_max_portfolio_exposure policy),
         (''cash_reserve'', \<not> buy \<or> rp_minimum_cash_reserve policy \<le> after_cash, after_cash,
          rp_minimum_cash_reserve policy)])"

definition deterministic_risk :: "rat risk_context \<Rightarrow> rat risk_policy \<Rightarrow> risk_result res" where
  "deterministic_risk c policy =
     (case risk_quantity policy c of (approved, outcome) \<Rightarrow>
      rbind (traverse make_risk_criterion (risk_criteria policy c)) (\<lambda>criteria.
      make_risk_result \<lparr>rr_context_id = rx_context_id c, rr_strategy_decision = rx_strategy_decision c,
        rr_outcome = outcome, rr_requested_quantity = rx_requested_quantity c,
        rr_approved_quantity = approved, rr_criteria = criteria, rr_policy_version = rp_version policy,
        rr_metadata = [(''deterministic'', JBool True)]\<rparr>))"

subsection \<open>The risk runtime\<close>

definition risk_runtime ::
  "rat risk_policy \<Rightarrow> (rat risk_context \<Rightarrow> rat risk_policy \<Rightarrow> risk_result answer) \<Rightarrow> rat risk_context \<Rightarrow>
   risk_result res" where
  "risk_runtime policy evaluator c =
     (if \<not> rp_enabled policy
      then rbind (make_risk_criterion \<lparr>rk_name = ''policy_enabled'', rk_passed = False, rk_observed = 0,
             rk_limit = None, rk_detail = ''risk runtime disabled''\<rparr>) (\<lambda>criterion.
        make_risk_result \<lparr>rr_context_id = rx_context_id c, rr_strategy_decision = rx_strategy_decision c,
          rr_outcome = RISK_REJECTED, rr_requested_quantity = rx_requested_quantity c,
          rr_approved_quantity = 0, rr_criteria = [criterion], rr_policy_version = rp_version policy,
          rr_metadata = [(''deterministic'', JBool True)]\<rparr>)
      else let invalid = Raise RiskRuntimeDependencyError ''risk evaluator returned invalid result'' in
        rbind (called (Raise RiskRuntimeEvaluationError ''risk evaluator failed'') invalid
          (evaluator c policy)) (\<lambda>result.
        rbind (check (rr_context_id result = rx_context_id c \<and>
            rr_strategy_decision result = rx_strategy_decision c) invalid) (\<lambda>_.
        Inr result)))"

subsection \<open>Sound contexts and policies\<close>

definition risk_context_ok :: "rat risk_context \<Rightarrow> bool" where
  "risk_context_ok c \<longleftrightarrow> nonempty_stripped (rx_context_id c) \<and> 0 \<le> rx_requested_quantity c \<and>
     0 < rx_reference_price c \<and>
     (sd_signal (rx_strategy_decision c) = SIGNAL_HOLD \<longleftrightarrow> rx_requested_quantity c = 0)"

definition risk_policy_ok :: "rat risk_policy \<Rightarrow> bool" where
  "risk_policy_ok p \<longleftrightarrow> strip (rp_version p) \<noteq> [] \<and> 0 \<le> rp_max_order_quantity p"

lemma fraction_amount_Inr [simp]:
  "fraction_field (name, d) = Inr x \<longleftrightarrow> d = Fin x \<and> 0 \<le> x \<and> x \<le> 1"
  "amount_field (name, d) = Inr x \<longleftrightarrow> d = Fin x \<and> 0 \<le> x"
  by (auto simp: fraction_field_def amount_field_def demand_def res_simps)

lemma make_risk_policy_ok: "make_risk_policy p = Inr p' \<Longrightarrow> risk_policy_ok p'"
  unfolding make_risk_policy_def
  by (auto simp: risk_policy_ok_def demand_def res_simps simp del: frozen.simps)

lemma make_risk_context_Inr:
  "make_risk_context c = Inr c' \<Longrightarrow> risk_context_ok c' \<and> rx_context_id c' = rx_context_id c \<and>
     rx_strategy_context c' = rx_strategy_context c \<and> rx_strategy_decision c' = rx_strategy_decision c \<and>
     rx_requested_quantity c = Fin (rx_requested_quantity c') \<and>
     rx_reference_price c = Fin (rx_reference_price c')"
  unfolding make_risk_context_def Let_def
  by (auto simp: risk_context_ok_def res_simps simp del: frozen.simps)

lemma nonblank: "nonempty_stripped v \<Longrightarrow> strip v \<noteq> []"
  by (auto simp: nonempty_stripped_def)

subsection \<open>The quantity the evaluator approves\<close>

lemma foldl_min: "foldl min (x :: 'a :: linorder) ys = Min (set (x # ys))"
proof (induction ys arbitrary: x)
  case (Cons y ys)
  have "Min (insert (min x y) (set ys)) = Min (insert x (insert y (set ys)))"
    by (cases "ys = []") (simp_all add: min.assoc)
  with Cons show ?case by simp
qed simp

lemma foldl_min_le: "y \<in> set (x # ys) \<Longrightarrow> foldl min x ys \<le> (y :: rat)"
  by (subst foldl_min) (rule Min_le, auto)

lemma capacities_nonneg: "risk_policy_ok p \<Longrightarrow> y \<in> set (capacities p c) \<Longrightarrow> 0 \<le> y"
  by (auto simp: capacities_def Let_def risk_policy_ok_def dabs_def dec28.r_nonneg split: if_splits option.splits)

lemma foldl_min_nonneg: "0 \<le> (x :: rat) \<Longrightarrow> \<forall>y\<in>set ys. 0 \<le> y \<Longrightarrow> 0 \<le> foldl min x ys"
  by (subst foldl_min) (subst Min_ge_iff, auto)

lemma risk_quantity_bounds:
  assumes "risk_context_ok c" and "risk_policy_ok p" and "risk_quantity p c = (approved, outcome)"
  shows "0 \<le> approved \<and> approved \<le> rx_requested_quantity c \<and>
    (outcome = RISK_APPROVED \<longrightarrow> approved = rx_requested_quantity c) \<and>
    (outcome = RISK_MODIFIED \<longrightarrow> 0 < approved \<and> approved < rx_requested_quantity c) \<and>
    (outcome = RISK_REJECTED \<longrightarrow> approved = 0) \<and>
    (0 < approved \<longrightarrow> (\<forall>y\<in>set (capacities p c). approved \<le> y))"
proof -
  let ?m = "foldl min (rx_requested_quantity c) (capacities p c)"
  have m: "0 \<le> ?m" "?m \<le> rx_requested_quantity c"
    using assms(1) capacities_nonneg [OF assms(2)]
    by (auto simp: risk_context_ok_def intro!: foldl_min_nonneg foldl_min_le)
  have "\<forall>y\<in>set (capacities p c). ?m \<le> y" by (auto intro: foldl_min_le)
  then show ?thesis
    using assms m by (auto simp: risk_quantity_def Let_def risk_context_ok_def split: if_splits)
qed

subsection \<open>Results\<close>

lemma risk_criteria_ok: "\<exists>cs. traverse make_risk_criterion (risk_criteria p c) = Inr cs \<and> cs \<noteq> []"
proof -
  have "\<forall>x\<in>set (risk_criteria p c). \<exists>y. make_risk_criterion x = Inr y"
    by (auto simp: risk_criteria_def Let_def make_risk_criterion_def check_def strip_Cons_nonblank is_space_def)
  then obtain cs where "traverse make_risk_criterion (risk_criteria p c) = Inr cs"
    using traverse_ex [of make_risk_criterion "risk_criteria p c"] by blast
  moreover from this have "length cs = length (risk_criteria p c)" by (rule traverse_length)
  ultimately show ?thesis by (auto simp: risk_criteria_def Let_def)
qed

lemma deterministic_risk_total:
  assumes c: "risk_context_ok c" and p: "risk_policy_ok p"
  shows "\<exists>r. deterministic_risk c p = Inr r \<and> rr_context_id r = rx_context_id c \<and>
    rr_strategy_decision r = rx_strategy_decision c \<and>
    rr_requested_quantity r = rx_requested_quantity c \<and>
    (rr_approved_quantity r, rr_outcome r) = risk_quantity p c"
proof -
  obtain approved outcome where ao: "risk_quantity p c = (approved, outcome)" by fastforce
  obtain cs where cs: "traverse make_risk_criterion (risk_criteria p c) = Inr cs" "cs \<noteq> []"
    using risk_criteria_ok by blast
  note b = risk_quantity_bounds [OF c p ao]
  let ?r = "\<lparr>rr_context_id = rx_context_id c, rr_strategy_decision = rx_strategy_decision c,
        rr_outcome = outcome, rr_requested_quantity = rx_requested_quantity c,
        rr_approved_quantity = approved, rr_criteria = cs, rr_policy_version = rp_version p,
        rr_metadata = [(''deterministic'', JBool True)]\<rparr>"
  have "make_risk_result ?r = Inr ?r"
    unfolding make_risk_result_def Let_def rbind_Inr_iff
    using b c p cs(2) nonblank by (auto simp: check_Inr risk_context_ok_def risk_policy_ok_def)
  then have "deterministic_risk c p = Inr ?r" by (simp add: deterministic_risk_def ao cs(1))
  then show ?thesis by (simp add: ao)
qed

text \<open>What the runtime returns of an evaluator's result.\<close>

lemma risk_runtime_Inr:
  assumes "risk_runtime policy evaluator c = Inr r" and "rr_outcome r \<noteq> RISK_REJECTED"
  shows "rp_enabled policy \<and> evaluator c policy = Answer r"
  using assms by (auto simp: risk_runtime_def make_risk_result_def Let_def res_simps split: if_splits)


text \<open>A sale of two shares where one is held.\<close>

definition ex_snapshot :: "rat portfolio_snapshot" where
  "ex_snapshot = \<lparr>pn_account_id = ''acct'', pn_cash = 0, pn_buying_power = 0, pn_equity = 1,
     pn_market_value = 1, pn_total_value = 1,
     pn_positions = [\<lparr>hp_symbol = ''ABC'', hp_quantity = 1, hp_market_value = 1, hp_cost_basis = 1,
       hp_unrealized_pl = 0, hp_weight = 1, hp_metadata = []\<rparr>], pn_metadata = []\<rparr>"

definition ex_sell_decision :: "rat signal_decision" where
  "ex_sell_decision = \<lparr>sd_symbol = ''ABC'', sd_signal = SIGNAL_SELL, sd_confidence = 1, sd_reasons = [''R''],
     sd_metadata = []\<rparr>"

definition ex_risk_context :: "'n \<Rightarrow> 'n \<Rightarrow> 'n risk_context" where
  "ex_risk_context quantity price = \<lparr>rx_context_id = ''R'',
     rx_strategy_context = \<lparr>sx_context_id = ''R'', sx_portfolio = ex_snapshot, sx_configuration = [], sx_metadata = []\<rparr>,
     rx_strategy_decision = ex_sell_decision, rx_requested_quantity = quantity, rx_reference_price = price,
     rx_metadata = []\<rparr>"

definition ex_risk_policy :: "'n \<Rightarrow> 'n \<Rightarrow> 'n risk_policy" where
  "ex_risk_policy one limit = \<lparr>rp_version = ''1'', rp_maximum_symbol_exposure_fraction = one,
     rp_maximum_gross_exposure_fraction = one, rp_maximum_daily_loss_fraction = one,
     rp_maximum_drawdown_fraction = one, rp_maximum_requested_risk_fraction = one,
     rp_minimum_committee_confidence = one, rp_minimum_committee_consensus = one,
     rp_maximum_open_positions = 5, rp_maximum_open_orders = 5, rp_allow_modification = True,
     rp_enabled = True, rp_strict_validation = True, rp_max_position_value = limit,
     rp_max_portfolio_exposure = limit, rp_max_order_quantity = limit, rp_minimum_cash_reserve = limit,
     rp_metadata = []\<rparr>"

lemma ex_texts: "nonempty_stripped ''acct''" "nonempty_stripped ''ABC''" "nonempty_stripped ''R''"
  "nonempty_stripped ''1''" "upper ''ABC'' = ''ABC''" "strip ''1'' = ''1''"
  by (simp_all add: nonempty_stripped_iff is_space_def upper_def upper_char_def strip_def lstrip_def)

lemma ex_risk_made:
  "make_risk_context (ex_risk_context (Fin 2) (Fin 1)) = Inr (ex_risk_context 2 1)"
  "make_risk_policy (ex_risk_policy (Fin 1) (Fin 9)) = Inr (ex_risk_policy 1 9)"
  unfolding make_risk_context_def make_risk_policy_def Let_def rbind_Inr_iff
  by (auto simp: ex_risk_context_def ex_risk_policy_def ex_sell_decision_def ex_texts check_Inr demand_def)


end
