(* ===== verification/Execution_Planner.thy ===== *)
theory Execution_Planner
  imports Risk_Runtime
begin

text \<open>
  The execution planner (app/execution\_planner: models.py, policies.py, runtime.py) with the
  order enums of app/order\_placement/models.py: one broker-neutral instruction for a decision
  that the risk runtime approved.
\<close>

subsection \<open>Models\<close>

datatype placement_side = SIDE_BUY | SIDE_SELL
datatype placement_type = TYPE_MARKET | TYPE_LIMIT | TYPE_STOP | TYPE_STOP_LIMIT
datatype placement_tif = TIF_DAY | TIF_GTC

fun placement_type_value :: "placement_type \<Rightarrow> string" where
  "placement_type_value TYPE_MARKET = ''MARKET''"
| "placement_type_value TYPE_LIMIT = ''LIMIT''"
| "placement_type_value TYPE_STOP = ''STOP''"
| "placement_type_value TYPE_STOP_LIMIT = ''STOP_LIMIT''"

fun placement_tif_value :: "placement_tif \<Rightarrow> string" where
  "placement_tif_value TIF_DAY = ''DAY''"
| "placement_tif_value TIF_GTC = ''GTC''"

record 'n instruction =
  in_account_id :: string
  in_symbol :: string
  in_side :: placement_side
  in_quantity :: 'n
  in_order_type :: placement_type
  in_time_in_force :: placement_tif
  in_limit_price :: "'n option"
  in_stop_price :: "'n option"
  in_metadata :: metadata

definition optional_positive :: "exn_class \<Rightarrow> string \<Rightarrow> dec option \<Rightarrow> rat option res" where
  "optional_positive cls name d = (case d of None \<Rightarrow> Inr None
     | Some x \<Rightarrow> rbind (positive_field cls name x) (\<lambda>y. Inr (Some y)))"

definition make_instruction :: "dec instruction \<Rightarrow> rat instruction res" where
  "make_instruction i =
     (let cls = ExecutionPlannerValidationError; t = in_order_type i;
          invalid = (\<lambda>ok msg. check ok (Raise cls msg)) in
      rbind (text_field cls ''account_id'' (in_account_id i)) (\<lambda>_.
      rbind (text_field cls ''symbol'' (in_symbol i)) (\<lambda>_.
      rbind (positive_field cls ''quantity'' (in_quantity i)) (\<lambda>quantity.
      rbind (optional_positive cls ''limit_price'' (in_limit_price i)) (\<lambda>limit_price.
      rbind (optional_positive cls ''stop_price'' (in_stop_price i)) (\<lambda>stop_price.
      rbind (invalid (t \<in> {TYPE_LIMIT, TYPE_STOP_LIMIT} \<longrightarrow> limit_price \<noteq> None)
        ''limit order requires limit_price'') (\<lambda>_.
      rbind (invalid (t \<in> {TYPE_STOP, TYPE_STOP_LIMIT} \<longrightarrow> stop_price \<noteq> None)
        ''stop order requires stop_price'') (\<lambda>_.
      rbind (invalid (t = TYPE_MARKET \<longrightarrow> limit_price = None \<and> stop_price = None)
        ''market order cannot contain prices'') (\<lambda>_.
      rbind (freeze_json_mapping ''metadata'' (in_metadata i)) (\<lambda>m.
      Inr \<lparr>in_account_id = in_account_id i, in_symbol = upper (in_symbol i), in_side = in_side i,
        in_quantity = quantity, in_order_type = t, in_time_in_force = in_time_in_force i,
        in_limit_price = limit_price, in_stop_price = stop_price, in_metadata = m\<rparr>))))))))))"

text \<open>A plan holds exactly one instruction, so its tuple is that instruction.\<close>

record execution_plan =
  xp_request_id :: string
  xp_instructions :: "rat instruction list"
  xp_metadata :: metadata

definition make_execution_plan :: "execution_plan \<Rightarrow> execution_plan res" where
  "make_execution_plan p =
     rbind (text_field ExecutionPlannerValidationError ''request_id'' (xp_request_id p)) (\<lambda>_.
     rbind (check (length (xp_instructions p) = 1)
       (Raise ExecutionPlannerValidationError ''plan must contain exactly one instruction'')) (\<lambda>_.
     rbind (freeze_json_mapping ''metadata'' (xp_metadata p)) (\<lambda>_. Inr p)))"

datatype plan_decision = PLANNED | PLAN_DISABLED | PLAN_REJECTED | INVALID_RISK_RESULT

record plan_request =
  xq_request_id :: string
  xq_risk_context :: "rat risk_context"
  xq_risk_result :: risk_result
  xq_metadata :: metadata

definition make_plan_request :: "plan_request \<Rightarrow> plan_request res" where
  "make_plan_request q =
     rbind (text_field ExecutionPlannerValidationError ''request_id'' (xq_request_id q)) (\<lambda>_.
     rbind (freeze_json_mapping ''metadata'' (xq_metadata q)) (\<lambda>_. Inr q))"

record plan_criterion =
  xc_name :: string
  xc_passed :: bool
  xc_detail :: string

definition make_plan_criterion :: "plan_criterion \<Rightarrow> plan_criterion res" where
  "make_plan_criterion c =
     rbind (text_field ExecutionPlannerValidationError ''criteria name'' (xc_name c)) (\<lambda>_.
     rbind (text_field ExecutionPlannerValidationError ''criteria detail'' (xc_detail c)) (\<lambda>_. Inr c))"

record plan_result =
  xr_request_id :: string
  xr_decision :: plan_decision
  xr_plan :: "execution_plan option"
  xr_criteria :: "plan_criterion list"
  xr_policy_version :: string
  xr_metadata :: metadata

definition make_plan_result :: "plan_result \<Rightarrow> plan_result res" where
  "make_plan_result r =
     (let cls = ExecutionPlannerValidationError; invalid = (\<lambda>ok msg. check ok (Raise cls msg)) in
      rbind (text_field cls ''request_id'' (xr_request_id r)) (\<lambda>_.
      rbind (text_field cls ''policy_version'' (xr_policy_version r)) (\<lambda>_.
      rbind (invalid (xr_decision r = PLANNED \<longrightarrow> xr_plan r \<noteq> None) ''planned result requires plan'') (\<lambda>_.
      rbind (invalid (xr_decision r \<noteq> PLANNED \<longrightarrow> xr_plan r = None)
        ''non-planned result cannot expose plan'') (\<lambda>_.
      rbind (invalid (xr_criteria r \<noteq> []) ''criteria_results must be non-empty immutable tuple'') (\<lambda>_.
      rbind (freeze_json_mapping ''metadata'' (xr_metadata r)) (\<lambda>_. Inr r)))))))"

record planner_policy =
  xy_version :: string
  xy_enabled :: bool
  xy_strict_validation :: bool
  xy_metadata :: metadata

definition make_planner_policy :: "planner_policy \<Rightarrow> planner_policy res" where
  "make_planner_policy p =
     rbind (text_field ExecutionPlannerValidationError ''version'' (xy_version p)) (\<lambda>_.
     rbind (freeze_json_mapping ''metadata'' (xy_metadata p)) (\<lambda>_. Inr p))"

subsection \<open>The deterministic evaluator\<close>

text \<open>\<open>OrderType(value)\<close> and \<open>TimeInForce(value)\<close> of a configuration entry, by value.\<close>

definition enum_of :: "('a \<Rightarrow> string) \<Rightarrow> 'a list \<Rightarrow> json \<Rightarrow> 'a res" where
  "enum_of value members v = (case v of
     JText s \<Rightarrow> (case find (\<lambda>x. value x = s) members of
        Some x \<Rightarrow> Inr x | None \<Rightarrow> Inl (Raise ValueError ''not a valid member''))
   | _ \<Rightarrow> Inl (Raise ValueError ''not a valid member''))"

definition config_get :: "metadata \<Rightarrow> string \<Rightarrow> json \<Rightarrow> json" where
  "config_get m key fallback = (case map_of m key of Some v \<Rightarrow> v | None \<Rightarrow> fallback)"

text \<open>\<open>_decimal(value, name, True)\<close> of a configuration entry: texts and integers are converted.\<close>

definition json_decimal :: "string \<Rightarrow> json option \<Rightarrow> dec option res" where
  "json_decimal name v = (case v of
     None \<Rightarrow> Inr None
   | Some JNull \<Rightarrow> Inr None
   | Some (JInt n) \<Rightarrow> Inr (Some (Fin (of_int n)))
   | Some (JDecimalText x) \<Rightarrow> Inr (Some (Fin x))
   | Some (JText s) \<Rightarrow> (case parse_decimal s of Some d \<Rightarrow> Inr (Some d)
       | None \<Rightarrow> Inl (Raise ExecutionPlannerValidationError (name @ '' must be finite'')))
   | Some _ \<Rightarrow> Inl (Raise ExecutionPlannerValidationError (name @ '' must be Decimal-compatible'')))"

definition deterministic_plan :: "plan_request \<Rightarrow> planner_policy \<Rightarrow> execution_plan res" where
  "deterministic_plan q policy =
     (let c = xq_risk_context q; d = rx_strategy_decision c; configuration = sx_configuration (rx_strategy_context c) in
      rbind (enum_of placement_type_value [TYPE_MARKET, TYPE_LIMIT, TYPE_STOP, TYPE_STOP_LIMIT]
        (config_get configuration ''order_type'' (JText ''LIMIT''))) (\<lambda>order_type.
      rbind (enum_of placement_tif_value [TIF_DAY, TIF_GTC]
        (config_get configuration ''time_in_force'' (JText ''DAY''))) (\<lambda>time_in_force.
      let side = (if sd_signal d = SIGNAL_BUY then SIDE_BUY else SIDE_SELL);
          limit_price = (if order_type \<in> {TYPE_LIMIT, TYPE_STOP_LIMIT} then Some (Fin (rx_reference_price c)) else None) in
      rbind (if order_type \<in> {TYPE_STOP, TYPE_STOP_LIMIT}
        then json_decimal ''stop_price'' (map_of configuration ''stop_price'') else Inr None) (\<lambda>stop_price.
      rbind (make_instruction \<lparr>in_account_id = pn_account_id (sx_portfolio (rx_strategy_context c)),
        in_symbol = sd_symbol d, in_side = side, in_quantity = Fin (rr_approved_quantity (xq_risk_result q)),
        in_order_type = order_type, in_time_in_force = time_in_force, in_limit_price = limit_price,
        in_stop_price = stop_price, in_metadata = [(''deterministic'', JBool True)]\<rparr>) (\<lambda>instruction.
      make_execution_plan \<lparr>xp_request_id = xq_request_id q, xp_instructions = [instruction],
        xp_metadata = [(''deterministic'', JBool True)]\<rparr>)))))"

subsection \<open>The planner runtime\<close>

definition planner_result ::
  "planner_policy \<Rightarrow> plan_request \<Rightarrow> plan_decision \<Rightarrow> execution_plan option \<Rightarrow> bool \<Rightarrow> bool \<Rightarrow> bool \<Rightarrow>
   plan_result res" where
  "planner_result policy q decision plan enabled eligible valid =
     rbind (traverse make_plan_criterion
       [\<lparr>xc_name = ''policy_enabled'', xc_passed = enabled, xc_detail = ''execution planner policy enabled''\<rparr>,
        \<lparr>xc_name = ''risk_eligible'', xc_passed = eligible, xc_detail = ''risk outcome eligible for planning''\<rparr>,
        \<lparr>xc_name = ''instruction_valid'', xc_passed = valid,
          xc_detail = ''one broker-neutral instruction validated''\<rparr>]) (\<lambda>criteria.
     make_plan_result \<lparr>xr_request_id = xq_request_id q, xr_decision = decision, xr_plan = plan,
       xr_criteria = criteria, xr_policy_version = xy_version policy,
       xr_metadata = [(''deterministic'', JBool True)]\<rparr>)"

text \<open>Whether the risk result belongs to the context and stays within its quantity.\<close>

definition risk_result_fits :: "rat risk_context \<Rightarrow> risk_result \<Rightarrow> bool" where
  "risk_result_fits c r \<longleftrightarrow>
     rr_context_id r = rx_context_id c \<and> rr_strategy_decision r = rx_strategy_decision c \<and>
     sd_symbol (rr_strategy_decision r) = sd_symbol (rx_strategy_decision c) \<and>
     pn_account_id (sx_portfolio (rx_strategy_context c)) \<noteq> [] \<and>
     list_all (\<lambda>p. hp_symbol p \<noteq> sd_symbol (rx_strategy_decision c) \<or>
       hp_symbol p = sd_symbol (rr_strategy_decision r)) (pn_positions (sx_portfolio (rx_strategy_context c))) \<and>
     rr_approved_quantity r \<le> rx_requested_quantity c"

definition planner_runtime ::
  "planner_policy \<Rightarrow> (plan_request \<Rightarrow> planner_policy \<Rightarrow> execution_plan answer) \<Rightarrow> plan_request \<Rightarrow>
   plan_result res" where
  "planner_runtime policy evaluator q =
     (let c = xq_risk_context q; r = xq_risk_result q;
          bad_plan = Raise ExecutionPlannerDependencyError ''planner evaluator returned invalid plan'' in
      if \<not> xy_enabled policy then planner_result policy q PLAN_DISABLED None False False False
      else if \<not> risk_result_fits c r
      then planner_result policy q INVALID_RISK_RESULT None True False False
      else if rr_outcome r = RISK_REJECTED \<or> sd_signal (rx_strategy_decision c) = SIGNAL_HOLD
      then planner_result policy q PLAN_REJECTED None True True False
      else if rr_outcome r \<notin> {RISK_APPROVED, RISK_MODIFIED} \<or> rr_approved_quantity r \<le> 0
      then planner_result policy q INVALID_RISK_RESULT None True False False
      else
        rbind (called (Raise ExecutionPlannerEvaluationError ''execution planner evaluator failed'')
          bad_plan (evaluator q policy)) (\<lambda>plan.
        rbind (check (xp_request_id plan = xq_request_id q) bad_plan) (\<lambda>_.
        let i = hd (xp_instructions plan) in
        rbind (check (in_account_id i = pn_account_id (sx_portfolio (rx_strategy_context c)) \<and>
            in_symbol i = sd_symbol (rx_strategy_decision c) \<and> in_quantity i = rr_approved_quantity r)
          (Raise ExecutionPlannerDependencyError ''planned instruction identity or quantity mismatch'')) (\<lambda>_.
        planner_result policy q PLANNED (Some plan) True True True))))"

subsection \<open>What a plan is\<close>

definition instruction_ok :: "rat instruction \<Rightarrow> bool" where
  "instruction_ok i \<longleftrightarrow> nonempty_stripped (in_account_id i) \<and> nonempty_stripped (in_symbol i) \<and>
     upper (in_symbol i) = in_symbol i \<and> 0 < in_quantity i"

lemma optional_positive_Inr [simp]:
  "optional_positive cls name d = Inr x \<longleftrightarrow> (case d of None \<Rightarrow> x = None
     | Some d' \<Rightarrow> \<exists>y. d' = Fin y \<and> 0 < y \<and> x = Some y)"
  by (cases d) (auto simp: optional_positive_def res_simps)

lemma make_instruction_ok: "make_instruction i = Inr i' \<Longrightarrow> instruction_ok i'"
  unfolding make_instruction_def Let_def
  by (auto simp: instruction_ok_def res_simps)

text \<open>The instruction of the deterministic evaluator.\<close>

definition planned_for :: "plan_request \<Rightarrow> rat instruction \<Rightarrow> bool" where
  "planned_for q i \<longleftrightarrow> (let c = xq_risk_context q; d = rx_strategy_decision c in
     instruction_ok i \<and> in_symbol i = upper (sd_symbol d) \<and>
     in_account_id i = pn_account_id (sx_portfolio (rx_strategy_context c)) \<and>
     in_side i = (if sd_signal d = SIGNAL_BUY then SIDE_BUY else SIDE_SELL) \<and>
     in_quantity i = rr_approved_quantity (xq_risk_result q) \<and>
     (in_limit_price i \<noteq> None \<longrightarrow> in_limit_price i = Some (rx_reference_price c)) \<and>
     (in_order_type i \<in> {TYPE_LIMIT, TYPE_STOP_LIMIT} \<longrightarrow> in_limit_price i \<noteq> None))"

lemma make_instruction_Inr:
  "make_instruction i = Inr i' \<Longrightarrow> instruction_ok i' \<and> in_account_id i' = in_account_id i \<and>
     in_symbol i' = upper (in_symbol i) \<and> in_side i' = in_side i \<and> in_quantity i = Fin (in_quantity i') \<and>
     in_order_type i' = in_order_type i \<and> in_limit_price i = map_option Fin (in_limit_price i') \<and>
     (in_order_type i \<in> {TYPE_LIMIT, TYPE_STOP_LIMIT} \<longrightarrow> in_limit_price i' \<noteq> None)"
  using make_instruction_ok [of i i'] unfolding make_instruction_def Let_def
  by (auto simp: res_simps split: option.splits)

lemma deterministic_plan_Inr:
  assumes "deterministic_plan q policy = Inr plan"
  shows "\<exists>i. xp_request_id plan = xq_request_id q \<and> xp_instructions plan = [i] \<and> planned_for q i"
proof -
  let ?c = "xq_risk_context q"
  from assms obtain t tif stop i where
    i: "make_instruction \<lparr>in_account_id = pn_account_id (sx_portfolio (rx_strategy_context ?c)),
        in_symbol = sd_symbol (rx_strategy_decision ?c),
        in_side = (if sd_signal (rx_strategy_decision ?c) = SIGNAL_BUY then SIDE_BUY else SIDE_SELL),
        in_quantity = Fin (rr_approved_quantity (xq_risk_result q)),
        in_order_type = t, in_time_in_force = tif,
        in_limit_price = (if t \<in> {TYPE_LIMIT, TYPE_STOP_LIMIT} then Some (Fin (rx_reference_price ?c)) else None),
        in_stop_price = stop, in_metadata = [(''deterministic'', JBool True)]\<rparr> = Inr i"
    and plan: "make_execution_plan \<lparr>xp_request_id = xq_request_id q, xp_instructions = [i],
        xp_metadata = [(''deterministic'', JBool True)]\<rparr> = Inr plan"
    unfolding deterministic_plan_def Let_def rbind_Inr_iff by blast
  have "planned_for q i"
    using make_instruction_Inr [OF i] unfolding instruction.select_convs planned_for_def Let_def
    by (cases "in_limit_price i") (auto split: if_splits)
  moreover have "xp_request_id plan = xq_request_id q \<and> xp_instructions plan = [i]"
    using plan by (auto simp: make_execution_plan_def res_simps simp del: frozen.simps)
  ultimately show ?thesis by blast
qed

text \<open>When the runtime answers with a plan, it is the evaluator's and fits the risk result.\<close>

lemma planner_runtime_planned:
  assumes "planner_runtime policy evaluator q = Inr r" and "xr_decision r = PLANNED"
  shows "\<exists>plan. xr_plan r = Some plan \<and> evaluator q policy = Answer plan \<and> xy_enabled policy \<and>
    rr_outcome (xq_risk_result q) \<in> {RISK_APPROVED, RISK_MODIFIED} \<and>
    0 < rr_approved_quantity (xq_risk_result q)"
proof -
  have p: "xr_decision r = decision \<and> xr_plan r = plan"
    if "planner_result policy q decision plan x y z = Inr r" for decision plan x y z
    using that by (auto simp: planner_result_def make_plan_result_def Let_def res_simps)
  show ?thesis
    using assms by (auto simp: planner_runtime_def Let_def res_simps dest!: p split: if_splits)
qed

end
