(* ===== verification/Paper_Runtime.thy ===== *)
theory Paper_Runtime
  imports Execution_Planner "HOL-Library.List_Lexorder" "HOL-Library.Char_ord"
begin

text \<open>
  The deterministic paper trading runtime (app/paper\_trading: milestone\_models.py,
  policies.py, runtime.py): it applies one planned instruction to a cash account and returns
  the account, the order, the fill and a snapshot.  A fill evaluator is injected.
\<close>

subsection \<open>Models\<close>

datatype rt_order_status = RT_PENDING | RT_FILLED | RT_PARTIALLY_FILLED | RT_REJECTED | RT_CANCELLED
datatype rt_outcome = RT_EXECUTED | RT_PARTIALLY_EXECUTED | RT_OUTCOME_REJECTED | RT_DISABLED | RT_NO_ACTION

definition invalid_paper :: "bool \<Rightarrow> string \<Rightarrow> unit res" where
  "invalid_paper ok msg = check ok (Raise PaperTradingValidationError msg)"

lemma invalid_paper_Inr [simp]: "invalid_paper ok msg = Inr u \<longleftrightarrow> ok"
  by (simp add: invalid_paper_def check_Inr)

abbreviation "paper_text \<equiv> text_field PaperTradingValidationError"
abbreviation "paper_finite \<equiv> finite_field PaperTradingValidationError"
abbreviation "paper_positive \<equiv> positive_field PaperTradingValidationError"
abbreviation "paper_nonnegative \<equiv> nonnegative_field PaperTradingValidationError"

record 'n rt_position =
  tp_account_id :: string
  tp_symbol :: string
  tp_quantity :: 'n
  tp_average_cost :: 'n
  tp_market_price :: 'n
  tp_market_value :: 'n
  tp_unrealized :: 'n
  tp_realized :: 'n
  tp_metadata :: metadata

definition make_rt_position :: "dec rt_position \<Rightarrow> rat rt_position res" where
  "make_rt_position p =
     rbind (paper_text ''account_id'' (tp_account_id p)) (\<lambda>_.
     rbind (paper_text ''symbol'' (tp_symbol p)) (\<lambda>_.
     rbind (paper_positive ''quantity'' (tp_quantity p)) (\<lambda>quantity.
     rbind (paper_positive ''average_cost'' (tp_average_cost p)) (\<lambda>average_cost.
     rbind (paper_positive ''market_price'' (tp_market_price p)) (\<lambda>market_price.
     rbind (paper_positive ''market_value'' (tp_market_value p)) (\<lambda>market_value.
     rbind (paper_finite ''unrealized_profit_loss'' (tp_unrealized p)) (\<lambda>unrealized.
     rbind (paper_finite ''realized_profit_loss'' (tp_realized p)) (\<lambda>realized.
     rbind (invalid_paper (market_value = dmul quantity market_price)
       ''position market_value must equal quantity times market_price'') (\<lambda>_.
     rbind (invalid_paper (unrealized = dmul (dsub market_price average_cost) quantity)
       ''position unrealized profit and loss is inconsistent'') (\<lambda>_.
     rbind (freeze_json_mapping ''metadata'' (tp_metadata p)) (\<lambda>m.
     Inr \<lparr>tp_account_id = tp_account_id p, tp_symbol = upper (tp_symbol p), tp_quantity = quantity,
       tp_average_cost = average_cost, tp_market_price = market_price, tp_market_value = market_value,
       tp_unrealized = unrealized, tp_realized = realized, tp_metadata = m\<rparr>)))))))))))"

record 'n rt_order =
  to_order_id :: string
  to_request_id :: string
  to_account_id :: string
  to_symbol :: string
  to_side :: placement_side
  to_order_type :: placement_type
  to_requested_quantity :: 'n
  to_filled_quantity :: 'n
  to_status :: rt_order_status
  to_execution_price :: "'n option"
  to_fees :: 'n
  to_created_at :: datetime
  to_rejection_reason :: "string option"
  to_metadata :: metadata

definition make_rt_order :: "dec rt_order \<Rightarrow> rat rt_order res" where
  "make_rt_order o' =
     rbind (paper_text ''order_id'' (to_order_id o')) (\<lambda>_.
     rbind (paper_text ''request_id'' (to_request_id o')) (\<lambda>_.
     rbind (paper_text ''account_id'' (to_account_id o')) (\<lambda>_.
     rbind (paper_text ''symbol'' (to_symbol o')) (\<lambda>_.
     rbind (paper_positive ''requested_quantity'' (to_requested_quantity o')) (\<lambda>requested.
     rbind (paper_nonnegative ''filled_quantity'' (to_filled_quantity o')) (\<lambda>filled.
     rbind (paper_nonnegative ''fees'' (to_fees o')) (\<lambda>fees.
     rbind (invalid_paper (filled \<le> requested) ''filled quantity exceeds requested quantity'') (\<lambda>_.
     rbind (optional_positive PaperTradingValidationError ''execution_price'' (to_execution_price o')) (\<lambda>price.
     rbind (invalid_paper (tz_aware (to_created_at o')) ''created_at must be timezone-aware'') (\<lambda>_.
     rbind (case to_rejection_reason o' of None \<Rightarrow> Inr () | Some r \<Rightarrow> paper_text ''rejection_reason'' r) (\<lambda>_.
     rbind (freeze_json_mapping ''metadata'' (to_metadata o')) (\<lambda>m.
     Inr \<lparr>to_order_id = to_order_id o', to_request_id = to_request_id o', to_account_id = to_account_id o',
       to_symbol = upper (to_symbol o'), to_side = to_side o', to_order_type = to_order_type o',
       to_requested_quantity = requested, to_filled_quantity = filled, to_status = to_status o',
       to_execution_price = price, to_fees = fees, to_created_at = to_created_at o',
       to_rejection_reason = to_rejection_reason o', to_metadata = m\<rparr>))))))))))))"

record 'n rt_fill =
  tf_fill_id :: string
  tf_order_id :: string
  tf_request_id :: string
  tf_account_id :: string
  tf_symbol :: string
  tf_side :: placement_side
  tf_quantity :: 'n
  tf_price :: 'n
  tf_gross_amount :: 'n
  tf_fees :: 'n
  tf_executed_at :: datetime
  tf_metadata :: metadata

definition make_rt_fill :: "dec rt_fill \<Rightarrow> rat rt_fill res" where
  "make_rt_fill f =
     rbind (paper_text ''fill_id'' (tf_fill_id f)) (\<lambda>_.
     rbind (paper_text ''order_id'' (tf_order_id f)) (\<lambda>_.
     rbind (paper_text ''request_id'' (tf_request_id f)) (\<lambda>_.
     rbind (paper_text ''account_id'' (tf_account_id f)) (\<lambda>_.
     rbind (paper_text ''symbol'' (tf_symbol f)) (\<lambda>_.
     rbind (paper_positive ''quantity'' (tf_quantity f)) (\<lambda>quantity.
     rbind (paper_positive ''price'' (tf_price f)) (\<lambda>price.
     rbind (paper_positive ''gross_amount'' (tf_gross_amount f)) (\<lambda>gross.
     rbind (paper_nonnegative ''fees'' (tf_fees f)) (\<lambda>fees.
     rbind (invalid_paper (gross = dmul quantity price) ''gross_amount must equal quantity times price'') (\<lambda>_.
     rbind (invalid_paper (tz_aware (tf_executed_at f)) ''executed_at must be timezone-aware'') (\<lambda>_.
     rbind (freeze_json_mapping ''metadata'' (tf_metadata f)) (\<lambda>m.
     Inr \<lparr>tf_fill_id = tf_fill_id f, tf_order_id = tf_order_id f, tf_request_id = tf_request_id f,
       tf_account_id = tf_account_id f, tf_symbol = upper (tf_symbol f), tf_side = tf_side f,
       tf_quantity = quantity, tf_price = price, tf_gross_amount = gross, tf_fees = fees,
       tf_executed_at = tf_executed_at f, tf_metadata = m\<rparr>))))))))))))"

record 'n rt_account =
  ta_account_id :: string
  ta_cash :: 'n
  ta_buying_power :: 'n
  ta_positions :: "rat rt_position list"
  ta_orders :: "rat rt_order list"
  ta_fills :: "rat rt_fill list"
  ta_realized :: 'n
  ta_unrealized :: 'n
  ta_total_market_value :: 'n
  ta_total_equity :: 'n
  ta_metadata :: metadata

definition make_rt_account :: "dec rt_account \<Rightarrow> rat rt_account res" where
  "make_rt_account a =
     rbind (paper_text ''account_id'' (ta_account_id a)) (\<lambda>_.
     rbind (paper_nonnegative ''cash'' (ta_cash a)) (\<lambda>cash.
     rbind (paper_nonnegative ''buying_power'' (ta_buying_power a)) (\<lambda>buying_power.
     rbind (paper_nonnegative ''total_market_value'' (ta_total_market_value a)) (\<lambda>market_value.
     rbind (paper_nonnegative ''total_equity'' (ta_total_equity a)) (\<lambda>equity.
     rbind (paper_finite ''realized_profit_loss'' (ta_realized a)) (\<lambda>realized.
     rbind (paper_finite ''unrealized_profit_loss'' (ta_unrealized a)) (\<lambda>unrealized.
     rbind (invalid_paper (\<forall>i\<in>set (map tp_account_id (ta_positions a) @ map to_account_id (ta_orders a) @
         map tf_account_id (ta_fills a)). i = ta_account_id a) ''account member identity mismatch'') (\<lambda>_.
     rbind (invalid_paper (distinct (map tp_symbol (ta_positions a))) ''positions must have unique symbols'') (\<lambda>_.
     rbind (invalid_paper (buying_power = cash) ''cash account buying_power must equal cash'') (\<lambda>_.
     rbind (invalid_paper (market_value = dsum (map tp_market_value (ta_positions a)))
       ''total_market_value is inconsistent'') (\<lambda>_.
     rbind (invalid_paper (unrealized = dsum (map tp_unrealized (ta_positions a)))
       ''unrealized profit and loss is inconsistent'') (\<lambda>_.
     rbind (invalid_paper (equity = dadd cash market_value)
       ''total_equity must equal cash plus market value'') (\<lambda>_.
     rbind (freeze_json_mapping ''metadata'' (ta_metadata a)) (\<lambda>m.
     Inr \<lparr>ta_account_id = ta_account_id a, ta_cash = cash, ta_buying_power = buying_power,
       ta_positions = ta_positions a, ta_orders = ta_orders a, ta_fills = ta_fills a,
       ta_realized = realized, ta_unrealized = unrealized, ta_total_market_value = market_value,
       ta_total_equity = equity, ta_metadata = m\<rparr>))))))))))))))"

text \<open>The fields of a checked account as unchecked ones, for a constructor that checks them again.\<close>

definition unchecked_account :: "rat rt_account \<Rightarrow> dec rt_account" where
  "unchecked_account a = \<lparr>ta_account_id = ta_account_id a, ta_cash = Fin (ta_cash a),
     ta_buying_power = Fin (ta_buying_power a), ta_positions = ta_positions a, ta_orders = ta_orders a,
     ta_fills = ta_fills a, ta_realized = Fin (ta_realized a), ta_unrealized = Fin (ta_unrealized a),
     ta_total_market_value = Fin (ta_total_market_value a), ta_total_equity = Fin (ta_total_equity a),
     ta_metadata = ta_metadata a\<rparr>"

record rt_snapshot =
  tn_account_id :: string
  tn_cash :: rat
  tn_buying_power :: rat
  tn_positions :: "rat rt_position list"
  tn_realized :: rat
  tn_unrealized :: rat
  tn_total_market_value :: rat
  tn_total_equity :: rat
  tn_as_of :: datetime

text \<open>A snapshot is checked by building an account without orders and fills from its fields.\<close>

definition make_rt_snapshot :: "rt_snapshot \<Rightarrow> rt_snapshot res" where
  "make_rt_snapshot s =
     rbind (make_rt_account \<lparr>ta_account_id = tn_account_id s, ta_cash = Fin (tn_cash s),
       ta_buying_power = Fin (tn_buying_power s), ta_positions = tn_positions s, ta_orders = [], ta_fills = [],
       ta_realized = Fin (tn_realized s), ta_unrealized = Fin (tn_unrealized s),
       ta_total_market_value = Fin (tn_total_market_value s), ta_total_equity = Fin (tn_total_equity s),
       ta_metadata = []\<rparr>) (\<lambda>_.
     rbind (invalid_paper (tz_aware (tn_as_of s)) ''as_of must be timezone-aware'') (\<lambda>_. Inr s))"

record 'n rt_request =
  tq_request_id :: string
  tq_account_id :: string
  tq_plan_result :: plan_result
  tq_account :: "rat rt_account"
  tq_market_price :: 'n
  tq_execution_timestamp :: datetime
  tq_metadata :: metadata

definition make_rt_request :: "dec rt_request \<Rightarrow> rat rt_request res" where
  "make_rt_request q =
     rbind (paper_text ''request_id'' (tq_request_id q)) (\<lambda>_.
     rbind (paper_text ''account_id'' (tq_account_id q)) (\<lambda>_.
     rbind (paper_positive ''market_price'' (tq_market_price q)) (\<lambda>price.
     rbind (invalid_paper (tz_aware (tq_execution_timestamp q))
       ''execution_timestamp must be timezone-aware'') (\<lambda>_.
     rbind (freeze_json_mapping ''metadata'' (tq_metadata q)) (\<lambda>m.
     Inr \<lparr>tq_request_id = tq_request_id q, tq_account_id = tq_account_id q,
       tq_plan_result = tq_plan_result q, tq_account = tq_account q, tq_market_price = price,
       tq_execution_timestamp = tq_execution_timestamp q, tq_metadata = m\<rparr>)))))"

record rt_criterion =
  tc_name :: string
  tc_passed :: bool
  tc_detail :: string

definition make_rt_criterion :: "rt_criterion \<Rightarrow> rt_criterion res" where
  "make_rt_criterion c =
     rbind (paper_text ''criteria name'' (tc_name c)) (\<lambda>_.
     rbind (paper_text ''criteria detail'' (tc_detail c)) (\<lambda>_. Inr c))"

record rt_result =
  tr_request_id :: string
  tr_account_id :: string
  tr_outcome :: rt_outcome
  tr_account :: "rat rt_account"
  tr_order :: "rat rt_order option"
  tr_fill :: "rat rt_fill option"
  tr_portfolio :: rt_snapshot
  tr_criteria :: "rt_criterion list"
  tr_policy_version :: string
  tr_metadata :: metadata

definition make_rt_result :: "rt_result \<Rightarrow> rt_result res" where
  "make_rt_result r =
     rbind (paper_text ''request_id'' (tr_request_id r)) (\<lambda>_.
     rbind (paper_text ''account_id'' (tr_account_id r)) (\<lambda>_.
     rbind (paper_text ''policy_version'' (tr_policy_version r)) (\<lambda>_.
     rbind (invalid_paper (tr_account_id r = ta_account_id (tr_account r) \<and>
         tr_account_id r = tn_account_id (tr_portfolio r)) ''result account identity mismatch'') (\<lambda>_.
     rbind (freeze_json_mapping ''metadata'' (tr_metadata r)) (\<lambda>_. Inr r)))))"

record 'n rt_policy =
  ty_version :: string
  ty_enabled :: bool
  ty_allow_partial_fills :: bool
  ty_commission_per_order :: 'n
  ty_commission_per_share :: 'n
  ty_slippage_basis_points :: 'n
  ty_reject_insufficient_cash :: bool
  ty_reject_oversell :: bool
  ty_strict_validation :: bool
  ty_metadata :: metadata

definition make_rt_policy :: "dec rt_policy \<Rightarrow> rat rt_policy res" where
  "make_rt_policy p =
     rbind (paper_text ''version'' (ty_version p)) (\<lambda>_.
     rbind (paper_nonnegative ''commission_per_order'' (ty_commission_per_order p)) (\<lambda>per_order.
     rbind (paper_nonnegative ''commission_per_share'' (ty_commission_per_share p)) (\<lambda>per_share.
     rbind (paper_nonnegative ''slippage_basis_points'' (ty_slippage_basis_points p)) (\<lambda>slippage.
     rbind (freeze_json_mapping ''metadata'' (ty_metadata p)) (\<lambda>m.
     Inr \<lparr>ty_version = ty_version p, ty_enabled = ty_enabled p,
       ty_allow_partial_fills = ty_allow_partial_fills p, ty_commission_per_order = per_order,
       ty_commission_per_share = per_share, ty_slippage_basis_points = slippage,
       ty_reject_insufficient_cash = ty_reject_insufficient_cash p,
       ty_reject_oversell = ty_reject_oversell p, ty_strict_validation = ty_strict_validation p,
       ty_metadata = m\<rparr>)))))"

subsection \<open>The runtime\<close>

text \<open>
  The quantity an evaluator proposes.  A text it answers is \<open>None\<close> if it is no number.
\<close>

type_synonym fill_evaluator =
  "rat rt_request \<Rightarrow> rat instruction \<Rightarrow> rat rt_account \<Rightarrow> rat \<Rightarrow> rat rt_policy \<Rightarrow> dec option answer"

definition complete_fill_evaluator :: fill_evaluator where
  "complete_fill_evaluator q i a price policy = Answer (Some (Fin (in_quantity i)))"

definition proposed_quantity :: "dec option answer \<Rightarrow> rat res" where
  "proposed_quantity a =
     rbind (called (Raise PaperTradingEvaluationError ''paper fill evaluator failed'')
       (Raise PaperTradingDependencyError ''fill evaluator must return a Decimal-compatible quantity'') a) (\<lambda>v.
     case v of
       None \<Rightarrow> Inl (Raise PaperTradingDependencyError ''fill evaluator returned invalid quantity'')
     | Some (Fin x) \<Rightarrow> Inr x
     | Some _ \<Rightarrow> Inl (Raise PaperTradingDependencyError ''fill evaluator returned non-finite quantity''))"

definition rt_execution_price :: "rat rt_policy \<Rightarrow> placement_side \<Rightarrow> rat \<Rightarrow> rat" where
  "rt_execution_price policy side market_price =
     (let adjustment = ddiv (ty_slippage_basis_points policy) 10000 in
      dmul market_price (if side = SIDE_BUY then dadd 1 adjustment else dsub 1 adjustment))"

definition price_executable :: "rat instruction \<Rightarrow> rat \<Rightarrow> bool" where
  "price_executable i market_price =
     (let buy = (in_side i = SIDE_BUY);
          limit_ok = (case in_limit_price i of None \<Rightarrow> True
            | Some l \<Rightarrow> if buy then market_price \<le> l else l \<le> market_price);
          stop_ok = (case in_stop_price i of None \<Rightarrow> True
            | Some s \<Rightarrow> if buy then s \<le> market_price else market_price \<le> s) in
      case in_order_type i of
        TYPE_MARKET \<Rightarrow> True | TYPE_LIMIT \<Rightarrow> limit_ok | TYPE_STOP \<Rightarrow> stop_ok
      | TYPE_STOP_LIMIT \<Rightarrow> limit_ok \<and> stop_ok)"

definition rt_position_of :: "string \<Rightarrow> rat rt_position list \<Rightarrow> rat rt_position option" where
  "rt_position_of symbol ps = find (\<lambda>p. tp_symbol p = symbol) ps"

text \<open>\<open>_transition\<close>: the position after the fill (if one is left), the cash and the realized profit.\<close>

definition bought_position ::
  "rat rt_account \<Rightarrow> rat instruction \<Rightarrow> rat rt_position option \<Rightarrow> rat rt_fill \<Rightarrow> rat rt_position res" where
  "bought_position a i old f =
     (let old_quantity = (case old of None \<Rightarrow> 0 | Some p \<Rightarrow> tp_quantity p);
          old_cost = (case old of None \<Rightarrow> 0 | Some p \<Rightarrow> dmul (tp_average_cost p) (tp_quantity p));
          quantity = dadd old_quantity (tf_quantity f);
          average_cost = ddiv (dadd (dadd old_cost (tf_gross_amount f)) (tf_fees f)) quantity in
      make_rt_position \<lparr>tp_account_id = ta_account_id a, tp_symbol = in_symbol i, tp_quantity = Fin quantity,
        tp_average_cost = Fin average_cost, tp_market_price = Fin (tf_price f),
        tp_market_value = Fin (dmul quantity (tf_price f)),
        tp_unrealized = Fin (dmul (dsub (tf_price f) average_cost) quantity),
        tp_realized = Fin (case old of None \<Rightarrow> 0 | Some p \<Rightarrow> tp_realized p),
        tp_metadata = (case old of None \<Rightarrow> [] | Some p \<Rightarrow> tp_metadata p)\<rparr>)"

definition realized_delta :: "rat rt_position \<Rightarrow> rat rt_fill \<Rightarrow> rat" where
  "realized_delta old f =
     dsub (dmul (dsub (tf_price f) (tp_average_cost old)) (tf_quantity f)) (tf_fees f)"

definition sold_position ::
  "rat rt_account \<Rightarrow> rat instruction \<Rightarrow> rat rt_position \<Rightarrow> rat rt_fill \<Rightarrow> rat rt_position list res" where
  "sold_position a i old f =
     (let quantity = dsub (tp_quantity old) (tf_quantity f) in
      if quantity \<le> 0 then Inr []
      else rbind (make_rt_position \<lparr>tp_account_id = ta_account_id a, tp_symbol = in_symbol i,
        tp_quantity = Fin quantity, tp_average_cost = Fin (tp_average_cost old),
        tp_market_price = Fin (tf_price f), tp_market_value = Fin (dmul quantity (tf_price f)),
        tp_unrealized = Fin (dmul (dsub (tf_price f) (tp_average_cost old)) quantity),
        tp_realized = Fin (dadd (tp_realized old) (realized_delta old f)),
        tp_metadata = tp_metadata old\<rparr>) (\<lambda>p. Inr [p]))"

definition transition_cash :: "rat rt_account \<Rightarrow> rat instruction \<Rightarrow> rat rt_fill \<Rightarrow> rat" where
  "transition_cash a i f = (if in_side i = SIDE_BUY
     then dsub (dsub (ta_cash a) (tf_gross_amount f)) (tf_fees f)
     else dsub (dadd (ta_cash a) (tf_gross_amount f)) (tf_fees f))"

definition rt_transition ::
  "rat rt_account \<Rightarrow> rat instruction \<Rightarrow> rat rt_position option \<Rightarrow> rat rt_fill \<Rightarrow> rat rt_order \<Rightarrow>
   rat rt_account res" where
  "rt_transition a i old f ord =
     (let others = filter (\<lambda>p. tp_symbol p \<noteq> in_symbol i) (ta_positions a);
          cash = transition_cash a i f;
          realized = (if in_side i = SIDE_BUY then ta_realized a
            else dadd (ta_realized a) (realized_delta (the old) f)) in
      rbind (if in_side i = SIDE_BUY then rbind (bought_position a i old f) (\<lambda>p. Inr [p])
        else sold_position a i (the old) f) (\<lambda>new.
      let positions = sort_key tp_symbol (others @ new);
          market_value = dsum (map tp_market_value positions) in
      make_rt_account \<lparr>ta_account_id = ta_account_id a, ta_cash = Fin cash, ta_buying_power = Fin cash,
        ta_positions = positions, ta_orders = ta_orders a @ [ord], ta_fills = ta_fills a @ [f],
        ta_realized = Fin realized, ta_unrealized = Fin (dsum (map tp_unrealized positions)),
        ta_total_market_value = Fin market_value, ta_total_equity = Fin (dadd cash market_value),
        ta_metadata = ta_metadata a\<rparr>))"

definition rt_result_of ::
  "rat rt_policy \<Rightarrow> rat rt_request \<Rightarrow> rt_outcome \<Rightarrow> rat rt_account \<Rightarrow> rat rt_order option \<Rightarrow>
   rat rt_fill option \<Rightarrow> bool list \<Rightarrow> string \<Rightarrow> rt_result res" where
  "rt_result_of policy q outcome a ord f passed detail =
     rbind (make_rt_snapshot \<lparr>tn_account_id = ta_account_id a, tn_cash = ta_cash a,
       tn_buying_power = ta_buying_power a, tn_positions = ta_positions a, tn_realized = ta_realized a,
       tn_unrealized = ta_unrealized a, tn_total_market_value = ta_total_market_value a,
       tn_total_equity = ta_total_equity a, tn_as_of = tq_execution_timestamp q\<rparr>) (\<lambda>snapshot.
     rbind (traverse (\<lambda>(name, ok). make_rt_criterion \<lparr>tc_name = name, tc_passed = ok, tc_detail = detail\<rparr>)
       (zip [''policy_enabled'', ''plan_eligible'', ''execution_applied''] passed)) (\<lambda>criteria.
     make_rt_result \<lparr>tr_request_id = tq_request_id q, tr_account_id = tq_account_id q, tr_outcome = outcome,
       tr_account = a, tr_order = ord, tr_fill = f, tr_portfolio = snapshot, tr_criteria = criteria,
       tr_policy_version = ty_version policy, tr_metadata = [(''deterministic'', JBool True)]\<rparr>))"

definition rt_rejected :: "rat rt_policy \<Rightarrow> rat rt_request \<Rightarrow> rat instruction \<Rightarrow> string \<Rightarrow> rt_result res" where
  "rt_rejected policy q i reason =
     rbind (make_rt_order \<lparr>to_order_id = tq_request_id q @ '':order'', to_request_id = tq_request_id q,
       to_account_id = tq_account_id q, to_symbol = in_symbol i, to_side = in_side i,
       to_order_type = in_order_type i, to_requested_quantity = Fin (in_quantity i),
       to_filled_quantity = Fin 0, to_status = RT_REJECTED, to_execution_price = None, to_fees = Fin 0,
       to_created_at = tq_execution_timestamp q, to_rejection_reason = Some reason,
       to_metadata = tq_metadata q\<rparr>) (\<lambda>ord.
     rt_result_of policy q RT_OUTCOME_REJECTED (tq_account q) (Some ord) None [True, True, False] reason)"

text \<open>The last part of \<open>execute\<close>: a fill of the given quantity, price and fees.\<close>

definition rt_apply ::
  "rat rt_policy \<Rightarrow> rat rt_request \<Rightarrow> rat instruction \<Rightarrow> rat rt_position option \<Rightarrow> rat \<Rightarrow> rat \<Rightarrow> rat \<Rightarrow>
   rt_result res" where
  "rt_apply policy q i position quantity price fees =
     (let status = (if quantity = in_quantity i then RT_FILLED else RT_PARTIALLY_FILLED) in
      rbind (make_rt_order \<lparr>to_order_id = tq_request_id q @ '':order'', to_request_id = tq_request_id q,
        to_account_id = tq_account_id q, to_symbol = in_symbol i, to_side = in_side i,
        to_order_type = in_order_type i, to_requested_quantity = Fin (in_quantity i),
        to_filled_quantity = Fin quantity, to_status = status, to_execution_price = Some (Fin price),
        to_fees = Fin fees, to_created_at = tq_execution_timestamp q, to_rejection_reason = None,
        to_metadata = tq_metadata q\<rparr>) (\<lambda>ord.
      rbind (make_rt_fill \<lparr>tf_fill_id = tq_request_id q @ '':fill'', tf_order_id = tq_request_id q @ '':order'',
        tf_request_id = tq_request_id q, tf_account_id = tq_account_id q, tf_symbol = in_symbol i,
        tf_side = in_side i, tf_quantity = Fin quantity, tf_price = Fin price,
        tf_gross_amount = Fin (dmul price quantity), tf_fees = Fin fees,
        tf_executed_at = tq_execution_timestamp q, tf_metadata = tq_metadata q\<rparr>) (\<lambda>f.
      rbind (rt_transition (tq_account q) i position f ord) (\<lambda>a.
      rt_result_of policy q (if status = RT_FILLED then RT_EXECUTED else RT_PARTIALLY_EXECUTED) a
        (Some ord) (Some f) [True, True, True] ''paper fill applied''))))"

text \<open>The part of \<open>execute\<close> that looks at the proposed quantity, the price and the fees.\<close>

definition rt_fill_instruction ::
  "rat rt_policy \<Rightarrow> rat rt_request \<Rightarrow> rat instruction \<Rightarrow> rat rt_position option \<Rightarrow> rat \<Rightarrow> rt_result res" where
  "rt_fill_instruction policy q i position quantity =
     (if quantity \<le> 0 then rt_rejected policy q i ''evaluator proposed zero fill''
      else if in_quantity i < quantity
      then Inl (Raise PaperTradingDependencyError ''fill evaluator proposed quantity above requested quantity'')
      else if quantity < in_quantity i \<and> \<not> ty_allow_partial_fills policy
      then rt_rejected policy q i ''partial fills are disabled''
      else let price = rt_execution_price policy (in_side i) (tq_market_price q);
               fees = dadd (ty_commission_per_order policy) (dmul (ty_commission_per_share policy) quantity) in
        if price \<le> 0 \<or> fees < 0 then rt_rejected policy q i ''adjusted price or fees are invalid''
        else if in_side i = SIDE_BUY \<and> ta_cash (tq_account q) < dadd (dmul price quantity) fees
        then rt_rejected policy q i ''insufficient cash''
        else if in_side i = SIDE_SELL \<and> (case position of None \<Rightarrow> True | Some p \<Rightarrow> tp_quantity p < quantity)
        then rt_rejected policy q i ''sell quantity exceeds held quantity''
        else rt_apply policy q i position quantity price fees)"

text \<open>The metadata flag \<open>no_action\<close> or the signal \<open>HOLD\<close> of a plan that was not made.\<close>

definition no_action :: "metadata \<Rightarrow> bool" where
  "no_action m \<longleftrightarrow> map_of m ''no_action'' = Some (JBool True) \<or> map_of m ''signal'' = Some (JText ''HOLD'')"

definition paper_execute :: "rat rt_policy \<Rightarrow> fill_evaluator \<Rightarrow> rat rt_request \<Rightarrow> rt_result res" where
  "paper_execute policy evaluator q =
     (let a = tq_account q; plan_result = tq_plan_result q in
      if \<not> ty_enabled policy
      then rt_result_of policy q RT_DISABLED a None None [False, False, False] ''paper trading disabled''
      else if xr_decision plan_result \<noteq> PLANNED
      then rt_result_of policy q (if no_action (xr_metadata plan_result) then RT_NO_ACTION else RT_OUTCOME_REJECTED)
        a None None [True, False, False] ''execution plan is not actionable''
      else if (case xr_plan plan_result of None \<Rightarrow> True | Some plan \<Rightarrow> length (xp_instructions plan) \<noteq> 1)
      then rt_result_of policy q RT_OUTCOME_REJECTED a None None [True, False, False]
        ''plan must contain exactly one instruction''
      else let i = hd (xp_instructions (the (xr_plan plan_result)));
               position = rt_position_of (in_symbol i) (ta_positions a) in
        if tq_account_id q \<noteq> ta_account_id a \<or> in_account_id i \<noteq> tq_account_id q
        then rt_rejected policy q i ''account identity mismatch''
        else if (case position of None \<Rightarrow> False | Some p \<Rightarrow> tp_account_id p \<noteq> tq_account_id q)
        then rt_rejected policy q i ''position account identity mismatch''
        else if \<not> price_executable i (tq_market_price q)
        then rt_rejected policy q i ''order price conditions not met''
        else rbind (proposed_quantity (evaluator q i a (tq_market_price q) policy)) (\<lambda>quantity.
          rt_fill_instruction policy q i position quantity))"

subsection \<open>Sound values\<close>

definition rt_position_ok :: "rat rt_position \<Rightarrow> bool" where
  "rt_position_ok p \<longleftrightarrow> nonempty_stripped (tp_account_id p) \<and> nonempty_stripped (tp_symbol p) \<and>
     upper (tp_symbol p) = tp_symbol p \<and> 0 < tp_quantity p \<and> 0 < tp_average_cost p \<and>
     0 < tp_market_price p \<and> tp_market_value p = dmul (tp_quantity p) (tp_market_price p) \<and>
     tp_unrealized p = dmul (dsub (tp_market_price p) (tp_average_cost p)) (tp_quantity p) \<and>
     frozen_mapping (tp_metadata p)"

definition rt_account_ok :: "rat rt_account \<Rightarrow> bool" where
  "rt_account_ok a \<longleftrightarrow> nonempty_stripped (ta_account_id a) \<and> 0 \<le> ta_cash a \<and>
     ta_buying_power a = ta_cash a \<and>
     (\<forall>p\<in>set (ta_positions a). rt_position_ok p \<and> tp_account_id p = ta_account_id a) \<and>
     (\<forall>x\<in>set (ta_orders a). to_account_id x = ta_account_id a) \<and>
     (\<forall>f\<in>set (ta_fills a). tf_account_id f = ta_account_id a) \<and>
     distinct (map tp_symbol (ta_positions a)) \<and>
     ta_total_market_value a = dsum (map tp_market_value (ta_positions a)) \<and>
     ta_unrealized a = dsum (map tp_unrealized (ta_positions a)) \<and>
     ta_total_equity a = dadd (ta_cash a) (ta_total_market_value a) \<and> frozen_mapping (ta_metadata a)"

definition rt_request_ok :: "rat rt_request \<Rightarrow> bool" where
  "rt_request_ok q \<longleftrightarrow> nonempty_stripped (tq_request_id q) \<and> nonempty_stripped (tq_account_id q) \<and>
     0 < tq_market_price q \<and> tz_aware (tq_execution_timestamp q) \<and> frozen_mapping (tq_metadata q)"

definition rt_policy_ok :: "rat rt_policy \<Rightarrow> bool" where
  "rt_policy_ok p \<longleftrightarrow> nonempty_stripped (ty_version p) \<and> 0 \<le> ty_commission_per_order p \<and>
     0 \<le> ty_commission_per_share p \<and> 0 \<le> ty_slippage_basis_points p"

text \<open>The constructors establish them.\<close>

lemma make_rt_request_ok: "make_rt_request q = Inr q' \<Longrightarrow> rt_request_ok q'"
  by (auto simp: make_rt_request_def rt_request_ok_def res_simps)

lemma make_rt_policy_ok: "make_rt_policy p = Inr p' \<Longrightarrow> rt_policy_ok p'"
  by (auto simp: make_rt_policy_def rt_policy_ok_def res_simps)

lemma dmul_pos: "0 < x \<Longrightarrow> 0 < y \<Longrightarrow> 0 < dmul x y"
  by (simp add: dmul_def dec28.r_mult_pos)

lemma ddiv_pos: "0 < x \<Longrightarrow> 0 < y \<Longrightarrow> 0 < ddiv x y"
  by (simp add: ddiv_def dec28.r_div_pos)

lemma dadd_pos: "0 \<le> x \<Longrightarrow> 0 < y \<Longrightarrow> 0 < dadd x y"
  by (simp add: dadd_def dec28.r_pos_iff)

lemma dadd_pos_nonneg: "0 < x \<Longrightarrow> 0 \<le> y \<Longrightarrow> 0 < dadd x y"
  by (simp add: dadd_def dec28.r_pos_iff)

lemma dadd_nonneg: "0 \<le> x \<Longrightarrow> 0 \<le> y \<Longrightarrow> 0 \<le> dadd x y"
  by (simp add: dadd_def dec28.r_nonneg_iff)

lemma dmul_nonneg: "0 \<le> x \<Longrightarrow> 0 \<le> y \<Longrightarrow> 0 \<le> dmul x y"
  by (simp add: dmul_def dec28.r_nonneg_iff)

lemma make_rt_position_Fin:
  "make_rt_position \<lparr>tp_account_id = a, tp_symbol = s, tp_quantity = Fin x, tp_average_cost = Fin c,
     tp_market_price = Fin p, tp_market_value = Fin (dmul x p), tp_unrealized = Fin (dmul (dsub p c) x),
     tp_realized = Fin z, tp_metadata = m\<rparr> = Inr r \<longleftrightarrow>
   nonempty_stripped a \<and> nonempty_stripped s \<and> 0 < x \<and> 0 < c \<and> 0 < p \<and> frozen_mapping m \<and>
   r = \<lparr>tp_account_id = a, tp_symbol = upper s, tp_quantity = x, tp_average_cost = c,
     tp_market_price = p, tp_market_value = dmul x p, tp_unrealized = dmul (dsub p c) x,
     tp_realized = z, tp_metadata = m\<rparr>"
  by (auto simp: make_rt_position_def res_simps dmul_pos)

lemma make_rt_account_Fin:
  "make_rt_account \<lparr>ta_account_id = i, ta_cash = Fin c, ta_buying_power = Fin b, ta_positions = ps,
     ta_orders = os, ta_fills = fs, ta_realized = Fin z, ta_unrealized = Fin u,
     ta_total_market_value = Fin v, ta_total_equity = Fin e, ta_metadata = m\<rparr> = Inr r \<longleftrightarrow>
   nonempty_stripped i \<and> 0 \<le> c \<and> b = c \<and> 0 \<le> v \<and> 0 \<le> e \<and>
   (\<forall>x\<in>set (map tp_account_id ps @ map to_account_id os @ map tf_account_id fs). x = i) \<and>
   distinct (map tp_symbol ps) \<and> v = dsum (map tp_market_value ps) \<and> u = dsum (map tp_unrealized ps) \<and>
   e = dadd c v \<and> frozen_mapping m \<and>
   r = \<lparr>ta_account_id = i, ta_cash = c, ta_buying_power = b, ta_positions = ps, ta_orders = os,
     ta_fills = fs, ta_realized = z, ta_unrealized = u, ta_total_market_value = v,
     ta_total_equity = e, ta_metadata = m\<rparr>"
  unfolding make_rt_account_def by (auto simp: res_simps)

lemma market_value_nonneg:
  assumes "\<forall>p\<in>set ps. rt_position_ok p"
  shows "0 \<le> dsum (map tp_market_value ps)"
proof -
  have "0 \<le> tp_market_value p" if "p \<in> set ps" for p
    using assms that dmul_pos [of "tp_quantity p" "tp_market_price p"]
    by (auto simp: rt_position_ok_def)
  then show ?thesis by (intro dsum_nonneg) auto
qed

text \<open>An account that is sound is one the constructor returns unchanged.\<close>

lemma make_rt_account_again:
  assumes "rt_account_ok a"
  shows "make_rt_account (unchecked_account a) = Inr a"
proof -
  have "0 \<le> ta_total_market_value a"
    using assms market_value_nonneg by (auto simp: rt_account_ok_def)
  moreover from this have "0 \<le> ta_total_equity a" using assms by (simp add: rt_account_ok_def dadd_nonneg)
  ultimately show ?thesis
    using assms unfolding unchecked_account_def make_rt_account_Fin rt_account_ok_def by auto
qed

subsection \<open>Results\<close>

lemma rt_result_of_Inr:
  assumes "rt_result_of policy q outcome a ord f passed detail = Inr r"
  shows "tr_account r = a \<and> tr_order r = ord \<and> tr_fill r = f \<and> tr_outcome r = outcome \<and>
    tr_request_id r = tq_request_id q \<and> tr_account_id r = tq_account_id q \<and> tq_account_id q = ta_account_id a"
  using assms unfolding rt_result_of_def make_rt_result_def by (auto simp: res_simps)

lemma rt_result_of_ok:
  assumes "rt_account_ok a" and "rt_request_ok q" and "nonempty_stripped (ty_version policy)"
    and "tq_account_id q = ta_account_id a" and "nonempty_stripped detail"
  shows "\<exists>r. rt_result_of policy q outcome a ord f passed detail = Inr r"
proof -
  note a = make_rt_account_again [OF assms(1), unfolded unchecked_account_def make_rt_account_Fin]
  have names: "nonempty_stripped ''policy_enabled''" "nonempty_stripped ''plan_eligible''"
    "nonempty_stripped ''execution_applied''"
    by (simp_all add: nonempty_stripped_iff is_space_def)
  have criterion: "make_rt_criterion \<lparr>tc_name = n, tc_passed = x, tc_detail = detail\<rparr> =
      Inr \<lparr>tc_name = n, tc_passed = x, tc_detail = detail\<rparr>" if "nonempty_stripped n" for n x
    using that assms(5) by (simp add: make_rt_criterion_def)
  have "\<exists>cs. traverse (\<lambda>(name, x). make_rt_criterion \<lparr>tc_name = name, tc_passed = x, tc_detail = detail\<rparr>)
      (zip [''policy_enabled'', ''plan_eligible'', ''execution_applied''] passed) = Inr cs"
    using names by (auto simp: traverse_ex criterion dest!: set_zip_leftD)
  then obtain cs where cs: "traverse (\<lambda>(name, x). make_rt_criterion \<lparr>tc_name = name, tc_passed = x, tc_detail = detail\<rparr>)
      (zip [''policy_enabled'', ''plan_eligible'', ''execution_applied''] passed) = Inr cs" ..
  let ?s = "\<lparr>tn_account_id = ta_account_id a, tn_cash = ta_cash a,
       tn_buying_power = ta_buying_power a, tn_positions = ta_positions a, tn_realized = ta_realized a,
       tn_unrealized = ta_unrealized a, tn_total_market_value = ta_total_market_value a,
       tn_total_equity = ta_total_equity a, tn_as_of = tq_execution_timestamp q\<rparr>"
  have s: "make_rt_snapshot ?s = Inr ?s"
    unfolding make_rt_snapshot_def rbind_Inr_iff
    using a assms(2) by (auto simp: make_rt_account_Fin rt_request_ok_def)
  show ?thesis
    unfolding rt_result_of_def using s cs assms
    by (auto simp: make_rt_result_def rt_request_ok_def)
qed

text \<open>A rejection returns the account as it was.\<close>

lemma rt_rejected_Inr:
  "rt_rejected policy q i reason = Inr r \<Longrightarrow>
     tr_account r = tq_account q \<and> tr_fill r = None \<and> tr_outcome r = RT_OUTCOME_REJECTED \<and>
     tq_account_id q = ta_account_id (tq_account q)"
  by (auto simp: rt_rejected_def res_simps dest!: rt_result_of_Inr)

lemma order_ids_ok:
  "nonempty_stripped v \<Longrightarrow> nonempty_stripped (v @ '':order'')"
  "nonempty_stripped v \<Longrightarrow> nonempty_stripped (v @ '':fill'')"
  by (auto intro!: nonempty_stripped_append simp: is_space_def)

lemma rt_rejected_ok:
  assumes "rt_account_ok (tq_account q)" and "rt_request_ok q" and "nonempty_stripped (ty_version policy)"
    and "tq_account_id q = ta_account_id (tq_account q)" and "instruction_ok i" and "nonempty_stripped reason"
  shows "\<exists>r. rt_rejected policy q i reason = Inr r"
proof -
  have "\<exists>x. make_rt_order \<lparr>to_order_id = tq_request_id q @ '':order'', to_request_id = tq_request_id q,
       to_account_id = tq_account_id q, to_symbol = in_symbol i, to_side = in_side i,
       to_order_type = in_order_type i, to_requested_quantity = Fin (in_quantity i),
       to_filled_quantity = Fin 0, to_status = RT_REJECTED, to_execution_price = None, to_fees = Fin 0,
       to_created_at = tq_execution_timestamp q, to_rejection_reason = Some reason,
       to_metadata = tq_metadata q\<rparr> = Inr x"
    using assms order_ids_ok(1)
    by (simp add: make_rt_order_def rt_request_ok_def instruction_ok_def res_simps del: frozen.simps)
  then show ?thesis
    using rt_result_of_ok [OF assms(1-4,6)] by (auto simp: rt_rejected_def)
qed

subsection \<open>Transitions\<close>

lemma tp_distinct_filter:
  "distinct (map tp_symbol ps) \<Longrightarrow> \<forall>p\<in>set new. tp_symbol p = s \<Longrightarrow> length new \<le> 1 \<Longrightarrow>
     distinct (map tp_symbol (sort_key tp_symbol (filter (\<lambda>p. tp_symbol p \<noteq> s) ps @ new)))"
proof -
  assume d: "distinct (map tp_symbol ps)" "\<forall>p\<in>set new. tp_symbol p = s" "length new \<le> 1"
  have "distinct (map tp_symbol (filter (\<lambda>p. tp_symbol p \<noteq> s) ps))"
    using d(1) by (rule distinct_map_filter)
  moreover have "new = [] \<or> (\<exists>p. new = [p])" using d(3) by (cases new) auto
  ultimately have "distinct (map tp_symbol (filter (\<lambda>p. tp_symbol p \<noteq> s) ps @ new))"
    using d(2) by auto
  then show ?thesis unfolding distinct_map_sort_key .
qed

text \<open>The fill that is applied, as the constructor returns it.\<close>

definition fill_ok :: "rat instruction \<Rightarrow> rat rt_fill \<Rightarrow> bool" where
  "fill_ok i f \<longleftrightarrow> tf_side f = in_side i \<and> tf_symbol f = in_symbol i \<and> 0 < tf_quantity f \<and>
     tf_quantity f \<le> in_quantity i \<and> 0 < tf_price f \<and> tf_gross_amount f = dmul (tf_quantity f) (tf_price f) \<and>
     0 \<le> tf_fees f"

lemma rt_position_of_Some:
  "rt_position_of s ps = Some p \<Longrightarrow> p \<in> set ps \<and> tp_symbol p = s"
  by (auto simp: rt_position_of_def find_Some_iff)

lemma bought_position_Inr:
  assumes "rt_account_ok a" and "instruction_ok i" and "fill_ok i f"
    and "old = rt_position_of (in_symbol i) (ta_positions a)"
  shows "\<exists>p. bought_position a i old f = Inr p \<and> rt_position_ok p \<and> tp_account_id p = ta_account_id a \<and>
    tp_symbol p = in_symbol i \<and> tp_market_price p = tf_price f \<and>
    tp_quantity p = dadd (case old of None \<Rightarrow> 0 | Some p \<Rightarrow> tp_quantity p) (tf_quantity f) \<and>
    tp_realized p = (case old of None \<Rightarrow> 0 | Some p \<Rightarrow> tp_realized p)"
proof -
  have old: "rt_position_ok p" if "old = Some p" for p
    using assms(1,4) that rt_position_of_Some [of "in_symbol i" "ta_positions a" p]
    by (auto simp: rt_account_ok_def)
  let ?q = "case old of None \<Rightarrow> 0 | Some p \<Rightarrow> tp_quantity p"
  let ?c = "case old of None \<Rightarrow> 0 | Some p \<Rightarrow> dmul (tp_average_cost p) (tp_quantity p)"
  have nn: "0 \<le> ?q" "0 \<le> ?c"
    using old by (auto split: option.splits simp: rt_position_ok_def intro!: dmul_nonneg)
  have pos: "0 < dadd ?q (tf_quantity f)" "0 < dadd (dadd ?c (tf_gross_amount f)) (tf_fees f)"
    using assms(3) dadd_pos [OF nn(1), of "tf_quantity f"]
      dadd_pos_nonneg [OF dadd_pos [OF nn(2), of "tf_gross_amount f"], of "tf_fees f"]
      dmul_pos [of "tf_quantity f" "tf_price f"]
    by (simp_all add: fill_ok_def)
  then have avg: "0 < ddiv (dadd (dadd ?c (tf_gross_amount f)) (tf_fees f)) (dadd ?q (tf_quantity f))"
    by (rule ddiv_pos [rotated])
  have "frozen_mapping (case old of None \<Rightarrow> [] | Some p \<Rightarrow> tp_metadata p)"
    using old by (auto split: option.splits simp: rt_position_ok_def simp del: frozen.simps)
      simp
  then show ?thesis
    using assms(1,2,3) pos(1) avg
    unfolding bought_position_def Let_def
    by (auto simp: make_rt_position_Fin rt_position_ok_def fill_ok_def instruction_ok_def rt_account_ok_def
        simp del: frozen.simps)
qed

lemma sold_position_Inr:
  assumes "rt_account_ok a" and "instruction_ok i" and "fill_ok i f"
    and "rt_position_of (in_symbol i) (ta_positions a) = Some old" and "tf_quantity f \<le> tp_quantity old"
  shows "\<exists>new. sold_position a i old f = Inr new \<and>
    (if tp_quantity old = tf_quantity f then new = []
     else \<exists>p. new = [p] \<and> rt_position_ok p \<and> tp_account_id p = ta_account_id a \<and>
       tp_symbol p = in_symbol i \<and> tp_quantity p = dsub (tp_quantity old) (tf_quantity f) \<and>
       tp_average_cost p = tp_average_cost old \<and> tp_market_price p = tf_price f \<and>
       tp_realized p = dadd (tp_realized old) (realized_delta old f))"
proof (cases "tp_quantity old = tf_quantity f")
  case True
  then show ?thesis by (simp add: sold_position_def dsub_def)
next
  case False
  with assms(5) have "0 < dsub (tp_quantity old) (tf_quantity f)" by (simp add: dsub_def dec28.r_sub_pos)
  moreover have "rt_position_ok old"
    using assms(1) rt_position_of_Some [OF assms(4)] by (auto simp: rt_account_ok_def)
  ultimately show ?thesis
    using assms(1,2,3) False unfolding sold_position_def Let_def
    by (auto simp: make_rt_position_Fin rt_position_ok_def fill_ok_def instruction_ok_def rt_account_ok_def
        res_simps simp del: frozen.simps)
qed

lemma make_rt_account_overdrawn:
  "nonempty_stripped i \<Longrightarrow> c < 0 \<Longrightarrow> make_rt_account \<lparr>ta_account_id = i, ta_cash = Fin c,
     ta_buying_power = b, ta_positions = ps, ta_orders = os, ta_fills = fs, ta_realized = z,
     ta_unrealized = u, ta_total_market_value = v, ta_total_equity = e, ta_metadata = m\<rparr> =
   Inl (Raise PaperTradingValidationError ''cash must be non-negative and finite'')"
  by (simp add: make_rt_account_def nonnegative_field_def text_field_def)

text \<open>
  A transition fails exactly if it would leave negative cash; otherwise the new account is sound,
  keeps the other positions and appends order and fill.
\<close>

definition covered :: "rat instruction \<Rightarrow> rat rt_position option \<Rightarrow> rat \<Rightarrow> bool" where
  "covered i old quantity \<longleftrightarrow> (in_side i = SIDE_SELL \<longrightarrow> (\<exists>p. old = Some p \<and> quantity \<le> tp_quantity p))"

definition transition_effect ::
  "rat rt_account \<Rightarrow> rat instruction \<Rightarrow> rat rt_fill \<Rightarrow> rat rt_order \<Rightarrow> rat rt_account \<Rightarrow> bool" where
  "transition_effect a i f ord a' \<longleftrightarrow> (let old = rt_position_of (in_symbol i) (ta_positions a) in
     ta_account_id a' = ta_account_id a \<and> ta_cash a' = transition_cash a i f \<and>
     ta_orders a' = ta_orders a @ [ord] \<and> ta_fills a' = ta_fills a @ [f] \<and>
     ta_realized a' = (if in_side i = SIDE_BUY then ta_realized a
       else dadd (ta_realized a) (realized_delta (the old) f)) \<and>
     (\<forall>p. tp_symbol p \<noteq> in_symbol i \<longrightarrow> (p \<in> set (ta_positions a') \<longleftrightarrow> p \<in> set (ta_positions a))) \<and>
     map_option tp_quantity (rt_position_of (in_symbol i) (ta_positions a')) =
       (if in_side i = SIDE_BUY
        then Some (dadd (case old of None \<Rightarrow> 0 | Some p \<Rightarrow> tp_quantity p) (tf_quantity f))
        else if tp_quantity (the old) = tf_quantity f then None
        else Some (dsub (tp_quantity (the old)) (tf_quantity f))))"

lemma find_sort_key_filter:
  "\<forall>p\<in>set new. tp_symbol p = s \<Longrightarrow> length new \<le> 1 \<Longrightarrow>
     rt_position_of s (sort_key tp_symbol (filter (\<lambda>p. tp_symbol p \<noteq> s) ps @ new)) =
     (if new = [] then None else Some (hd new))"
proof -
  assume n: "\<forall>p\<in>set new. tp_symbol p = s" "length new \<le> 1"
  let ?xs = "sort_key tp_symbol (filter (\<lambda>p. tp_symbol p \<noteq> s) ps @ new)"
  have set_xs: "set ?xs = {p \<in> set ps. tp_symbol p \<noteq> s} \<union> set new" by simp
  show ?thesis
  proof (cases new)
    case Nil
    with set_xs have "find (\<lambda>p. tp_symbol p = s) ?xs = None" by (auto simp: find_None_iff)
    with Nil show ?thesis by (simp add: rt_position_of_def)
  next
    case (Cons p rest)
    with n have new: "new = [p]" "tp_symbol p = s" by auto
    then have "find (\<lambda>p. tp_symbol p = s) ?xs \<noteq> None" using set_xs by (auto simp: find_None_iff)
    then obtain p' where p': "find (\<lambda>p. tp_symbol p = s) ?xs = Some p'" by auto
    then have "p' \<in> set ?xs \<and> tp_symbol p' = s" using rt_position_of_Some [of s ?xs p'] unfolding rt_position_of_def by blast
    with set_xs have "p' \<in> set new" by blast
    with new(1) have "p' = p" by simp
    with p' new show ?thesis by (simp add: rt_position_of_def)
  qed
qed

lemma new_positions:
  assumes a: "rt_account_ok a" and i: "instruction_ok i" and f: "fill_ok i f"
    and old: "old = rt_position_of (in_symbol i) (ta_positions a)" and cov: "covered i old (tf_quantity f)"
  shows "\<exists>new. (if in_side i = SIDE_BUY then rbind (bought_position a i old f) (\<lambda>p. Inr [p])
        else sold_position a i (the old) f) = Inr new \<and> length new \<le> 1 \<and>
    (\<forall>p\<in>set new. rt_position_ok p \<and> tp_account_id p = ta_account_id a \<and> tp_symbol p = in_symbol i) \<and>
    map tp_quantity new = (if in_side i = SIDE_BUY
        then [dadd (case old of None \<Rightarrow> 0 | Some p \<Rightarrow> tp_quantity p) (tf_quantity f)]
        else if tp_quantity (the old) = tf_quantity f then []
        else [dsub (tp_quantity (the old)) (tf_quantity f)])"
proof (cases "in_side i")
  case SIDE_BUY
  from bought_position_Inr [OF a i f old] obtain p where p: "bought_position a i old f = Inr p"
    "rt_position_ok p" "tp_account_id p = ta_account_id a" "tp_symbol p = in_symbol i"
    "tp_quantity p = dadd (case old of None \<Rightarrow> 0 | Some p \<Rightarrow> tp_quantity p) (tf_quantity f)" by blast
  show ?thesis by (rule exI [of _ "[p]"]) (simp add: SIDE_BUY p)
next
  case SIDE_SELL
  with cov obtain p where p: "old = Some p" "tf_quantity f \<le> tp_quantity p" by (auto simp: covered_def)
  from sold_position_Inr [OF a i f old [symmetric, unfolded p(1)] p(2)] obtain ps where
    ps: "sold_position a i p f = Inr ps" "if tp_quantity p = tf_quantity f then ps = []
      else \<exists>x. ps = [x] \<and> rt_position_ok x \<and> tp_account_id x = ta_account_id a \<and>
        tp_symbol x = in_symbol i \<and> tp_quantity x = dsub (tp_quantity p) (tf_quantity f)"
    by (metis (no_types, lifting))
  show ?thesis
    by (rule exI [of _ ps], use ps in \<open>cases "tp_quantity p = tf_quantity f"\<close>) (auto simp: SIDE_SELL p(1))
qed

lemma rt_transition_cases:
  assumes a: "rt_account_ok a" and i: "instruction_ok i" and f: "fill_ok i f" "tf_account_id f = ta_account_id a"
    and ord: "to_account_id ord = ta_account_id a"
    and old: "old = rt_position_of (in_symbol i) (ta_positions a)" and cov: "covered i old (tf_quantity f)"
  shows "if transition_cash a i f < 0 then rt_transition a i old f ord =
      Inl (Raise PaperTradingValidationError ''cash must be non-negative and finite'')
    else \<exists>a'. rt_transition a i old f ord = Inr a' \<and> rt_account_ok a' \<and> transition_effect a i f ord a'"
proof -
  let ?m = "if in_side i = SIDE_BUY then rbind (bought_position a i old f) (\<lambda>p. Inr [p])
        else sold_position a i (the old) f"
  obtain new where new: "?m = Inr new" "length new \<le> 1"
      "\<forall>p\<in>set new. rt_position_ok p \<and> tp_account_id p = ta_account_id a \<and> tp_symbol p = in_symbol i"
      "map tp_quantity new = (if in_side i = SIDE_BUY
        then [dadd (case old of None \<Rightarrow> 0 | Some p \<Rightarrow> tp_quantity p) (tf_quantity f)]
        else if tp_quantity (the old) = tf_quantity f then []
        else [dsub (tp_quantity (the old)) (tf_quantity f)])"
    using new_positions [OF a i f(1) old cov] by blast
  define ps where "ps = sort_key tp_symbol (filter (\<lambda>p. tp_symbol p \<noteq> in_symbol i) (ta_positions a) @ new)"
  have set_ps: "set ps = {p \<in> set (ta_positions a). tp_symbol p \<noteq> in_symbol i} \<union> set new"
    by (simp add: ps_def)
  have ps_ok: "\<forall>p\<in>set ps. rt_position_ok p \<and> tp_account_id p = ta_account_id a"
    using a new(3) by (auto simp: rt_account_ok_def set_ps)
  have dist: "distinct (map tp_symbol ps)"
    using tp_distinct_filter [of "ta_positions a" new "in_symbol i"] a new(2,3) by (simp add: rt_account_ok_def ps_def)
  have mv: "0 \<le> dsum (map tp_market_value ps)" using ps_ok market_value_nonneg [of ps] by blast
  let ?c = "transition_cash a i f"
  let ?r = "if in_side i = SIDE_BUY then ta_realized a else dadd (ta_realized a) (realized_delta (the old) f)"
  have t: "rt_transition a i old f ord = make_rt_account \<lparr>ta_account_id = ta_account_id a, ta_cash = Fin ?c,
      ta_buying_power = Fin ?c, ta_positions = ps, ta_orders = ta_orders a @ [ord],
      ta_fills = ta_fills a @ [f], ta_realized = Fin ?r, ta_unrealized = Fin (dsum (map tp_unrealized ps)),
      ta_total_market_value = Fin (dsum (map tp_market_value ps)),
      ta_total_equity = Fin (dadd ?c (dsum (map tp_market_value ps))), ta_metadata = ta_metadata a\<rparr>"
    unfolding rt_transition_def Let_def new(1) rbind.simps ps_def ..
  have id: "nonempty_stripped (ta_account_id a)" "frozen_mapping (ta_metadata a)"
      "\<forall>x\<in>set (ta_orders a). to_account_id x = ta_account_id a"
      "\<forall>f\<in>set (ta_fills a). tf_account_id f = ta_account_id a"
    using a by (simp_all add: rt_account_ok_def del: frozen.simps)
  show ?thesis
  proof (cases "?c < 0")
    case True
    then show ?thesis unfolding t make_rt_account_overdrawn [OF id(1) True] by simp
  next
    case False
    let ?a = "\<lparr>ta_account_id = ta_account_id a, ta_cash = ?c,
      ta_buying_power = ?c, ta_positions = ps, ta_orders = ta_orders a @ [ord],
      ta_fills = ta_fills a @ [f], ta_realized = ?r, ta_unrealized = dsum (map tp_unrealized ps),
      ta_total_market_value = dsum (map tp_market_value ps),
      ta_total_equity = dadd ?c (dsum (map tp_market_value ps)), ta_metadata = ta_metadata a\<rparr>"
    have ids: "\<forall>x\<in>set (map tp_account_id ps @ map to_account_id (ta_orders a @ [ord]) @
        map tf_account_id (ta_fills a @ [f])). x = ta_account_id a"
      using ps_ok id(3,4) f(2) ord by auto
    from False have c: "0 \<le> ?c" by simp
    have "rt_transition a i old f ord = Inr ?a"
      unfolding t make_rt_account_Fin
      by (intro conjI id(1,2) c refl mv dadd_nonneg [OF c mv] ids dist)
    moreover have "rt_account_ok ?a"
      using ps_ok id c dist f(2) ord unfolding rt_account_ok_def by (auto simp del: frozen.simps)
    moreover have "transition_effect a i f ord ?a"
    proof -
      have "map_option tp_quantity (rt_position_of (in_symbol i) ps) =
          (if map tp_quantity new = [] then None else Some (hd (map tp_quantity new)))"
        using find_sort_key_filter [of new "in_symbol i" "ta_positions a"] new(2,3) unfolding ps_def
        by (simp add: hd_map)
      then have quantity: "map_option tp_quantity (rt_position_of (in_symbol i) ps) = (if in_side i = SIDE_BUY
          then Some (dadd (case old of None \<Rightarrow> 0 | Some p \<Rightarrow> tp_quantity p) (tf_quantity f))
          else if tp_quantity (the old) = tf_quantity f then None
          else Some (dsub (tp_quantity (the old)) (tf_quantity f)))"
        unfolding new(4) by (simp split: if_split)
      have others: "\<forall>p. tp_symbol p \<noteq> in_symbol i \<longrightarrow> (p \<in> set ps \<longleftrightarrow> p \<in> set (ta_positions a))"
        using new(3) unfolding set_ps by blast
      show ?thesis
        unfolding transition_effect_def Let_def old [symmetric] rt_account.select_convs quantity
        by (intro conjI refl others)
    qed
    ultimately show ?thesis using False by auto
  qed
qed

subsection \<open>Executing one instruction\<close>

lemma dmul_commute: "dmul x y = dmul y x"
  by (simp add: dmul_def mult.commute)

definition fill_price :: "rat rt_policy \<Rightarrow> rat rt_request \<Rightarrow> rat instruction \<Rightarrow> rat" where
  "fill_price policy q i = rt_execution_price policy (in_side i) (tq_market_price q)"

definition fill_fees :: "rat rt_policy \<Rightarrow> rat \<Rightarrow> rat" where
  "fill_fees policy quantity = dadd (ty_commission_per_order policy) (dmul (ty_commission_per_share policy) quantity)"

text \<open>What a proposed quantity must pass, and the cash the fill would leave.\<close>

definition fill_permitted :: "rat rt_policy \<Rightarrow> rat rt_request \<Rightarrow> rat instruction \<Rightarrow> rat \<Rightarrow> bool" where
  "fill_permitted policy q i quantity \<longleftrightarrow>
     0 < quantity \<and> quantity \<le> in_quantity i \<and> (quantity = in_quantity i \<or> ty_allow_partial_fills policy) \<and>
     0 < fill_price policy q i \<and>
     (in_side i = SIDE_BUY \<longrightarrow>
       dadd (dmul (fill_price policy q i) quantity) (fill_fees policy quantity) \<le> ta_cash (tq_account q)) \<and>
     covered i (rt_position_of (in_symbol i) (ta_positions (tq_account q))) quantity"

definition cash_after :: "rat rt_policy \<Rightarrow> rat rt_request \<Rightarrow> rat instruction \<Rightarrow> rat \<Rightarrow> rat" where
  "cash_after policy q i quantity =
     (let gross = dmul (fill_price policy q i) quantity; cash = ta_cash (tq_account q) in
      dsub (if in_side i = SIDE_BUY then dsub cash gross else dadd cash gross) (fill_fees policy quantity))"

text \<open>The fill and its effect as a result shows them.\<close>

definition fill_applied ::
  "rat rt_policy \<Rightarrow> rat rt_request \<Rightarrow> rat instruction \<Rightarrow> rat \<Rightarrow> rt_result \<Rightarrow> bool" where
  "fill_applied policy q i quantity r \<longleftrightarrow> (\<exists>f ord. tr_fill r = Some f \<and> tr_order r = Some ord \<and>
     fill_ok i f \<and> tf_quantity f = quantity \<and> tf_price f = fill_price policy q i \<and>
     tf_fees f = fill_fees policy quantity \<and>
     tr_request_id r = tq_request_id q \<and> tr_account_id r = tq_account_id q \<and>
     tr_outcome r = (if quantity = in_quantity i then RT_EXECUTED else RT_PARTIALLY_EXECUTED) \<and>
     to_symbol ord = in_symbol i \<and> to_requested_quantity ord = in_quantity i \<and>
     to_filled_quantity ord = quantity \<and>
     ta_cash (tr_account r) = cash_after policy q i quantity \<and>
     transition_effect (tq_account q) i f ord (tr_account r) \<and> rt_account_ok (tr_account r))"

lemma rt_apply_cases:
  assumes a: "rt_account_ok (tq_account q)" and q: "rt_request_ok q" and p: "rt_policy_ok policy"
    and id: "tq_account_id q = ta_account_id (tq_account q)" and i: "instruction_ok i"
    and perm: "fill_permitted policy q i quantity"
  shows "if cash_after policy q i quantity < 0
    then rt_apply policy q i (rt_position_of (in_symbol i) (ta_positions (tq_account q))) quantity
        (fill_price policy q i) (fill_fees policy quantity) =
      Inl (Raise PaperTradingValidationError ''cash must be non-negative and finite'')
    else \<exists>r. rt_apply policy q i (rt_position_of (in_symbol i) (ta_positions (tq_account q))) quantity
        (fill_price policy q i) (fill_fees policy quantity) = Inr r \<and> fill_applied policy q i quantity r"
proof -
  let ?old = "rt_position_of (in_symbol i) (ta_positions (tq_account q))"
  let ?p = "fill_price policy q i" and ?fees = "fill_fees policy quantity"
  let ?status = "if quantity = in_quantity i then RT_FILLED else RT_PARTIALLY_FILLED"
  have pos: "0 < quantity" "quantity \<le> in_quantity i" "0 < ?p" using perm by (simp_all add: fill_permitted_def)
  have fees: "0 \<le> ?fees"
    using p pos by (simp add: fill_fees_def rt_policy_ok_def dadd_nonneg dmul_nonneg)
  have texts: "nonempty_stripped (tq_request_id q)" "nonempty_stripped (tq_account_id q)"
    "tz_aware (tq_execution_timestamp q)" "frozen_mapping (tq_metadata q)"
    "nonempty_stripped (in_symbol i)" "upper (in_symbol i) = in_symbol i"
    using q i by (simp_all add: rt_request_ok_def instruction_ok_def del: frozen.simps)
  obtain ord where ord: "make_rt_order \<lparr>to_order_id = tq_request_id q @ '':order'', to_request_id = tq_request_id q,
        to_account_id = tq_account_id q, to_symbol = in_symbol i, to_side = in_side i,
        to_order_type = in_order_type i, to_requested_quantity = Fin (in_quantity i),
        to_filled_quantity = Fin quantity, to_status = ?status, to_execution_price = Some (Fin ?p),
        to_fees = Fin ?fees, to_created_at = tq_execution_timestamp q, to_rejection_reason = None,
        to_metadata = tq_metadata q\<rparr> = Inr ord" "to_account_id ord = tq_account_id q"
      "to_symbol ord = in_symbol i" "to_requested_quantity ord = in_quantity i" "to_filled_quantity ord = quantity"
    using pos fees texts order_ids_ok(1) [OF texts(1)]
    by (simp add: make_rt_order_def res_simps del: frozen.simps)
  let ?f = "\<lparr>tf_fill_id = tq_request_id q @ '':fill'', tf_order_id = tq_request_id q @ '':order'',
        tf_request_id = tq_request_id q, tf_account_id = tq_account_id q, tf_symbol = in_symbol i,
        tf_side = in_side i, tf_quantity = quantity, tf_price = ?p,
        tf_gross_amount = dmul ?p quantity, tf_fees = ?fees,
        tf_executed_at = tq_execution_timestamp q, tf_metadata = tq_metadata q\<rparr>"
  have f: "make_rt_fill \<lparr>tf_fill_id = tq_request_id q @ '':fill'', tf_order_id = tq_request_id q @ '':order'',
        tf_request_id = tq_request_id q, tf_account_id = tq_account_id q, tf_symbol = in_symbol i,
        tf_side = in_side i, tf_quantity = Fin quantity, tf_price = Fin ?p,
        tf_gross_amount = Fin (dmul ?p quantity), tf_fees = Fin ?fees,
        tf_executed_at = tq_execution_timestamp q, tf_metadata = tq_metadata q\<rparr> = Inr ?f"
    using pos fees texts order_ids_ok [OF texts(1)]
    by (simp add: make_rt_fill_def res_simps dmul_pos dmul_commute [of quantity] del: frozen.simps)
  have ok: "fill_ok i ?f" using pos fees by (simp add: fill_ok_def dmul_commute)
  have cash: "transition_cash (tq_account q) i ?f = cash_after policy q i quantity"
    by (simp add: transition_cash_def cash_after_def Let_def)
  have cov: "covered i ?old (tf_quantity ?f)" using perm by (simp add: fill_permitted_def)
  have acc: "tf_account_id ?f = ta_account_id (tq_account q)" "to_account_id ord = ta_account_id (tq_account q)"
    using id ord(2) by simp_all
  note t = rt_transition_cases [OF a i ok acc refl cov, unfolded cash]
  show ?thesis
  proof (cases "cash_after policy q i quantity < 0")
    case True
    note t = t [unfolded if_P [OF True]]
    show ?thesis
      unfolding if_P [OF True] rt_apply_def Let_def ord(1) f rbind.simps t ..
  next
    case False
    with t obtain a' where a': "rt_transition (tq_account q) i ?old ?f ord = Inr a'"
        "rt_account_ok a'" "transition_effect (tq_account q) i ?f ord a'" by auto
    then have id': "tq_account_id q = ta_account_id a'" using id by (simp add: transition_effect_def Let_def)
    have v: "nonempty_stripped (ty_version policy)" using p by (simp add: rt_policy_ok_def)
    have d: "nonempty_stripped ''paper fill applied''" by (simp add: nonempty_stripped_iff is_space_def)
    obtain r where r: "rt_result_of policy q (if ?status = RT_FILLED then RT_EXECUTED else RT_PARTIALLY_EXECUTED) a'
        (Some ord) (Some ?f) [True, True, True] ''paper fill applied'' = Inr r"
      using rt_result_of_ok [OF a'(2) q v id' d] by blast
    have "rt_apply policy q i ?old quantity ?p ?fees = Inr r"
      unfolding rt_apply_def Let_def ord(1) f rbind.simps a'(1) using r by simp
    moreover have "fill_applied policy q i quantity r"
      using rt_result_of_Inr [OF r] a' ok cash ord(3-5)
      by (auto simp: fill_applied_def transition_effect_def Let_def)
    ultimately show ?thesis using False by auto
  qed
qed

definition rejected_unchanged :: "rat rt_request \<Rightarrow> rt_result \<Rightarrow> bool" where
  "rejected_unchanged q r \<longleftrightarrow> tr_outcome r = RT_OUTCOME_REJECTED \<and> tr_account r = tq_account q \<and> tr_fill r = None"

lemma rejection_texts:
  "nonempty_stripped ''account identity mismatch''" "nonempty_stripped ''position account identity mismatch''"
  "nonempty_stripped ''order price conditions not met''" "nonempty_stripped ''evaluator proposed zero fill''"
  "nonempty_stripped ''partial fills are disabled''" "nonempty_stripped ''adjusted price or fees are invalid''"
  "nonempty_stripped ''insufficient cash''" "nonempty_stripped ''sell quantity exceeds held quantity''"
  by (simp_all add: nonempty_stripped_iff is_space_def)

lemma rt_rejects:
  assumes "rt_account_ok (tq_account q)" and "rt_request_ok q" and "rt_policy_ok policy"
    and "tq_account_id q = ta_account_id (tq_account q)" and "instruction_ok i" and "nonempty_stripped reason"
  shows "\<exists>r. rt_rejected policy q i reason = Inr r \<and> rejected_unchanged q r"
proof -
  have "nonempty_stripped (ty_version policy)" using assms(3) by (simp add: rt_policy_ok_def)
  from rt_rejected_ok [OF assms(1,2) this assms(4-6)] show ?thesis
    by (auto simp: rejected_unchanged_def dest: rt_rejected_Inr)
qed

lemma covered_iff: "covered i old x \<longleftrightarrow>
  \<not> (in_side i = SIDE_SELL \<and> (case old of None \<Rightarrow> True | Some p \<Rightarrow> tp_quantity p < x))"
  by (auto simp: covered_def split: option.splits)

lemma fill_instruction_cases:
  assumes ok: "rt_account_ok (tq_account q)" "rt_request_ok q" "rt_policy_ok policy"
    "tq_account_id q = ta_account_id (tq_account q)" "instruction_ok i"
  shows "let m = rt_fill_instruction policy q i (rt_position_of (in_symbol i) (ta_positions (tq_account q))) x in
    if in_quantity i < x
    then m = Inl (Raise PaperTradingDependencyError ''fill evaluator proposed quantity above requested quantity'')
    else if \<not> fill_permitted policy q i x then \<exists>r. m = Inr r \<and> rejected_unchanged q r
    else if cash_after policy q i x < 0
    then m = Inl (Raise PaperTradingValidationError ''cash must be non-negative and finite'')
    else \<exists>r. m = Inr r \<and> fill_applied policy q i x r"
proof -
  let ?old = "rt_position_of (in_symbol i) (ta_positions (tq_account q))"
  have q: "0 < in_quantity i" using ok(5) by (simp add: instruction_ok_def)
  have fees: "0 < x \<Longrightarrow> 0 \<le> fill_fees policy x"
    using ok(3) by (simp add: fill_fees_def rt_policy_ok_def dadd_nonneg dmul_nonneg)
  note rej = rt_rejects [OF ok]
  show ?thesis
  proof (cases "fill_permitted policy q i x")
    case True
    then have "rt_fill_instruction policy q i ?old x =
        rt_apply policy q i ?old x (fill_price policy q i) (fill_fees policy x)"
      using fees unfolding rt_fill_instruction_def Let_def fill_permitted_def covered_iff
      by (auto simp: fill_price_def fill_fees_def)
    moreover have "\<not> in_quantity i < x" using True by (simp add: fill_permitted_def)
    ultimately show ?thesis
      using rt_apply_cases [OF ok True] True by (simp add: Let_def)
  next
    case False
    let ?m = "rt_fill_instruction policy q i ?old x"
    let ?short = "ta_cash (tq_account q) < dadd (dmul (fill_price policy q i) x) (fill_fees policy x)"
    note eqs = rt_fill_instruction_def Let_def fill_price_def fill_fees_def
    have "in_quantity i < x \<or> (\<exists>reason. nonempty_stripped reason \<and> ?m = rt_rejected policy q i reason)"
    proof (cases "x \<le> 0 \<or> in_quantity i < x")
      case True
      then show ?thesis using rejection_texts(4) by (auto simp: eqs)
    next
      case x: False
      show ?thesis
      proof (cases "x < in_quantity i \<and> \<not> ty_allow_partial_fills policy")
        case True
        with x have "?m = rt_rejected policy q i ''partial fills are disabled''" by (simp add: eqs)
        then show ?thesis using rejection_texts(5) by blast
      next
        case whole: False
        show ?thesis
        proof (cases "fill_price policy q i \<le> 0")
          case True
          with x whole have "?m = rt_rejected policy q i ''adjusted price or fees are invalid''" by (auto simp: eqs)
          then show ?thesis using rejection_texts(6) by blast
        next
          case price: False
          show ?thesis
          proof (cases "in_side i = SIDE_BUY \<and> ?short")
            case True
            with x whole price fees have "?m = rt_rejected policy q i ''insufficient cash''" by (auto simp: eqs)
            then show ?thesis using rejection_texts(7) by blast
          next
            case cash: False
            have "\<not> covered i ?old x"
              using False x whole price cash by (auto simp: fill_permitted_def not_le not_less)
            with x whole price cash fees
            have "?m = rt_rejected policy q i ''sell quantity exceeds held quantity''"
              unfolding covered_iff by (auto simp: eqs)
            then show ?thesis using rejection_texts(8) by blast
          qed
        qed
      qed
    qed
    moreover have "?m = Inl (Raise PaperTradingDependencyError
        ''fill evaluator proposed quantity above requested quantity'')" if "in_quantity i < x"
      using that q by (simp add: eqs)
    ultimately show ?thesis using False rej by (auto simp: Let_def)
  qed
qed

lemma paper_execute_cases:
  assumes "rt_account_ok (tq_account q)" and "rt_request_ok q" and "rt_policy_ok policy"
    and "tq_account_id q = ta_account_id (tq_account q)" and "ty_enabled policy"
    and "xr_decision (tq_plan_result q) = PLANNED" and "xr_plan (tq_plan_result q) = Some plan"
    and "xp_instructions plan = [i]" and "instruction_ok i" and "in_account_id i = tq_account_id q"
  shows "let m = paper_execute policy evaluator q in
    if \<not> price_executable i (tq_market_price q) then \<exists>r. m = Inr r \<and> rejected_unchanged q r
    else case proposed_quantity (evaluator q i (tq_account q) (tq_market_price q) policy) of
      Inl e \<Rightarrow> m = Inl e
    | Inr x \<Rightarrow>
        if in_quantity i < x
        then m = Inl (Raise PaperTradingDependencyError ''fill evaluator proposed quantity above requested quantity'')
        else if \<not> fill_permitted policy q i x then \<exists>r. m = Inr r \<and> rejected_unchanged q r
        else if cash_after policy q i x < 0
        then m = Inl (Raise PaperTradingValidationError ''cash must be non-negative and finite'')
        else \<exists>r. m = Inr r \<and> fill_applied policy q i x r"
proof -
  let ?old = "rt_position_of (in_symbol i) (ta_positions (tq_account q))"
  have own: "\<not> (case ?old of None \<Rightarrow> False | Some p \<Rightarrow> tp_account_id p \<noteq> tq_account_id q)"
    using assms(1,4) rt_position_of_Some by (fastforce simp: rt_account_ok_def split: option.splits)
  have m: "paper_execute policy evaluator q =
      (if \<not> price_executable i (tq_market_price q) then rt_rejected policy q i ''order price conditions not met''
       else rbind (proposed_quantity (evaluator q i (tq_account q) (tq_market_price q) policy))
         (rt_fill_instruction policy q i ?old))"
    using assms(4-8,10) own by (simp add: paper_execute_def Let_def)
  show ?thesis
  proof (cases "price_executable i (tq_market_price q)")
    case False
    then show ?thesis
      using rt_rejects [OF assms(1-4,9) rejection_texts(3)] by (simp add: m)
  next
    case True
    show ?thesis
    proof (cases "proposed_quantity (evaluator q i (tq_account q) (tq_market_price q) policy)")
      case (Inl e)
      with True show ?thesis by (simp add: m)
    next
      case (Inr x)
      with True fill_instruction_cases [OF assms(1-4,9), of x] show ?thesis by (simp add: m Let_def)
    qed
  qed
qed


text \<open>A sale of the only share for 1 with fees of 5 and no cash: nothing refuses it, and it raises.\<close>

definition ex_share :: "rat rt_position" where
  "ex_share = \<lparr>tp_account_id = ''acct'', tp_symbol = ''ABC'', tp_quantity = 1, tp_average_cost = 1,
     tp_market_price = 1, tp_market_value = 1, tp_unrealized = 0, tp_realized = 0, tp_metadata = []\<rparr>"

definition ex_paper_account :: "rat rt_account" where
  "ex_paper_account = \<lparr>ta_account_id = ''acct'', ta_cash = 0, ta_buying_power = 0, ta_positions = [ex_share],
     ta_orders = [], ta_fills = [], ta_realized = 0, ta_unrealized = 0, ta_total_market_value = 1,
     ta_total_equity = 1, ta_metadata = []\<rparr>"

definition ex_sale :: "rat instruction" where
  "ex_sale = \<lparr>in_account_id = ''acct'', in_symbol = ''ABC'', in_side = SIDE_SELL, in_quantity = 1,
     in_order_type = TYPE_MARKET, in_time_in_force = TIF_DAY, in_limit_price = None, in_stop_price = None,
     in_metadata = []\<rparr>"

definition ex_sale_plan :: execution_plan where
  "ex_sale_plan = \<lparr>xp_request_id = ''R'', xp_instructions = [ex_sale], xp_metadata = []\<rparr>"

definition ex_paper_request :: "rat rt_request" where
  "ex_paper_request = \<lparr>tq_request_id = ''R'', tq_account_id = ''acct'',
     tq_plan_result = \<lparr>xr_request_id = ''R'', xr_decision = PLANNED, xr_plan = Some ex_sale_plan,
       xr_criteria = [], xr_policy_version = ''1'', xr_metadata = []\<rparr>,
     tq_account = ex_paper_account, tq_market_price = 1, tq_execution_timestamp = Aware 0 0, tq_metadata = []\<rparr>"

definition ex_paper_policy :: "rat \<Rightarrow> rat rt_policy" where
  "ex_paper_policy fee = \<lparr>ty_version = ''1'', ty_enabled = True, ty_allow_partial_fills = False,
     ty_commission_per_order = fee, ty_commission_per_share = 0, ty_slippage_basis_points = 0,
     ty_reject_insufficient_cash = True, ty_reject_oversell = True, ty_strict_validation = True,
     ty_metadata = []\<rparr>"

lemma ex_paper_sound:
  "rt_account_ok (tq_account ex_paper_request)" "rt_request_ok ex_paper_request"
  "instruction_ok ex_sale" "0 \<le> fee \<Longrightarrow> rt_policy_ok (ex_paper_policy fee)"
  by (simp_all add: rt_account_ok_def rt_position_ok_def rt_request_ok_def instruction_ok_def rt_policy_ok_def
      ex_paper_request_def ex_paper_account_def ex_share_def ex_sale_def ex_paper_policy_def ex_texts
      dec_defs)


end
