(* ===== verification/Orchestrator.thy ===== *)
theory Orchestrator
  imports Paper_Runtime
begin

text \<open>
  The execution orchestrator (app/execution\_orchestrator: models.py, policies.py, runtime.py):
  one trading cycle through the strategy, risk, planning and paper runtimes.  The runtimes are
  injected, so they are functions whose answers may be an exception or a foreign object; the
  orchestrator checks what they return.
\<close>

subsection \<open>Models\<close>

datatype cycle_outcome =
    CYCLE_EXECUTED | CYCLE_PARTIALLY_EXECUTED | CYCLE_NO_ACTION | CYCLE_STRATEGY_REJECTED
  | CYCLE_RISK_REJECTED | CYCLE_PLANNING_REJECTED | CYCLE_EXECUTION_REJECTED | CYCLE_DISABLED | CYCLE_FAILED

definition invalid_cycle :: "bool \<Rightarrow> string \<Rightarrow> unit res" where
  "invalid_cycle ok msg = check ok (Raise ExecutionOrchestratorValidationError msg)"

definition dependency :: "bool \<Rightarrow> string \<Rightarrow> unit res" where
  "dependency ok msg = check ok (Raise ExecutionOrchestratorDependencyError msg)"

lemma cycle_checks [simp]:
  "invalid_cycle ok msg = Inr u \<longleftrightarrow> ok" "dependency ok msg = Inr u \<longleftrightarrow> ok"
  by (simp_all add: invalid_cycle_def dependency_def check_Inr)

record 'n cycle_request =
  cq_request_id :: string
  cq_account_id :: string
  cq_portfolio :: "rat portfolio_snapshot"
  cq_paper_account :: "rat rt_account"
  cq_market_price :: 'n
  cq_execution_timestamp :: datetime
  cq_requested_quantity :: 'n
  cq_metadata :: metadata

definition make_cycle_request :: "dec cycle_request \<Rightarrow> rat cycle_request res" where
  "make_cycle_request q =
     (let cls = ExecutionOrchestratorValidationError in
      rbind (text_field cls ''request_id'' (cq_request_id q)) (\<lambda>_.
      rbind (text_field cls ''account_id'' (cq_account_id q)) (\<lambda>_.
      rbind (invalid_cycle (pn_account_id (cq_portfolio q) = cq_account_id q \<and>
          ta_account_id (cq_paper_account q) = cq_account_id q) ''request account identity mismatch'') (\<lambda>_.
      rbind (positive_field cls ''market_price'' (cq_market_price q)) (\<lambda>price.
      rbind (positive_field cls ''requested_quantity'' (cq_requested_quantity q)) (\<lambda>quantity.
      rbind (invalid_cycle (tz_aware (cq_execution_timestamp q))
        ''execution_timestamp must be timezone-aware'') (\<lambda>_.
      rbind (freeze_json_mapping ''metadata'' (cq_metadata q)) (\<lambda>m.
      Inr \<lparr>cq_request_id = cq_request_id q, cq_account_id = cq_account_id q, cq_portfolio = cq_portfolio q,
        cq_paper_account = cq_paper_account q, cq_market_price = price,
        cq_execution_timestamp = cq_execution_timestamp q, cq_requested_quantity = quantity,
        cq_metadata = m\<rparr>))))))))"

record cycle_criterion =
  ck_stage :: string
  ck_passed :: bool
  ck_detail :: string

definition make_cycle_criterion :: "string \<times> bool \<times> string \<Rightarrow> cycle_criterion res" where
  "make_cycle_criterion item = (case item of (stage, passed, detail) \<Rightarrow>
     rbind (text_field ExecutionOrchestratorValidationError ''stage'' stage) (\<lambda>_.
     rbind (text_field ExecutionOrchestratorValidationError ''detail'' detail) (\<lambda>_.
     Inr \<lparr>ck_stage = stage, ck_passed = passed, ck_detail = detail\<rparr>)))"

record cycle_result =
  cr_request_id :: string
  cr_account_id :: string
  cr_outcome :: cycle_outcome
  cr_strategy :: "strategy_result option"
  cr_risk :: "risk_result option"
  cr_plan :: "plan_result option"
  cr_paper :: "rt_result option"
  cr_account :: "rat rt_account"
  cr_criteria :: "cycle_criterion list"
  cr_policy_version :: string
  cr_metadata :: metadata

definition make_cycle_result :: "cycle_result \<Rightarrow> cycle_result res" where
  "make_cycle_result r =
     (let cls = ExecutionOrchestratorValidationError in
      rbind (text_field cls ''request_id'' (cr_request_id r)) (\<lambda>_.
      rbind (text_field cls ''account_id'' (cr_account_id r)) (\<lambda>_.
      rbind (text_field cls ''policy_version'' (cr_policy_version r)) (\<lambda>_.
      rbind (invalid_cycle (ta_account_id (cr_account r) = cr_account_id r)
        ''resulting account identity mismatch'') (\<lambda>_.
      rbind (invalid_cycle (case cr_paper r of None \<Rightarrow> True | Some p \<Rightarrow> cr_account r = tr_account p)
        ''resulting account must match paper execution'') (\<lambda>_.
      rbind (freeze_json_mapping ''metadata'' (cr_metadata r)) (\<lambda>_. Inr r)))))))"

record orchestrator_policy =
  og_version :: string
  og_enabled :: bool
  og_strict_validation :: bool
  og_metadata :: metadata

definition make_orchestrator_policy :: "orchestrator_policy \<Rightarrow> orchestrator_policy res" where
  "make_orchestrator_policy p =
     rbind (invalid_cycle (nonempty_stripped (og_version p)) ''version must be a non-empty stripped string'') (\<lambda>_.
     rbind (freeze_json_mapping ''metadata'' (og_metadata p)) (\<lambda>_. Inr p))"

text \<open>The injected runtimes.\<close>

record runtimes =
  rs_strategy :: "strategy_context \<Rightarrow> strategy_result answer"
  rs_risk :: "rat risk_context \<Rightarrow> risk_result answer"
  rs_planner :: "plan_request \<Rightarrow> plan_result answer"
  rs_paper :: "rat rt_request \<Rightarrow> rt_result answer"

subsection \<open>The cycle\<close>

definition cycle_result_of ::
  "orchestrator_policy \<Rightarrow> rat cycle_request \<Rightarrow> cycle_outcome \<Rightarrow> strategy_result option \<Rightarrow> risk_result option \<Rightarrow>
   plan_result option \<Rightarrow> rt_result option \<Rightarrow> rat rt_account \<Rightarrow> (string \<times> bool \<times> string) list \<Rightarrow>
   cycle_result res" where
  "cycle_result_of policy q outcome s r p x a criteria =
     rbind (traverse make_cycle_criterion criteria) (\<lambda>cs.
     make_cycle_result \<lparr>cr_request_id = cq_request_id q, cr_account_id = cq_account_id q, cr_outcome = outcome,
       cr_strategy = s, cr_risk = r, cr_plan = p, cr_paper = x, cr_account = a, cr_criteria = cs,
       cr_policy_version = og_version policy, cr_metadata = [(''deterministic'', JBool True)]\<rparr>)"

text \<open>\<open>_call\<close> followed by the test of the answer's type.\<close>

definition call_stage :: "string \<Rightarrow> string \<Rightarrow> 'a answer \<Rightarrow> 'a res" where
  "call_stage stage foreign a = called (Raise ExecutionOrchestratorStageError (stage @ '' stage failed''))
     (Raise ExecutionOrchestratorDependencyError foreign) a"

lemma call_stage_Inr [simp]: "call_stage stage foreign a = Inr x \<longleftrightarrow> a = Answer x"
  by (simp add: call_stage_def)

definition validate_risk :: "rat cycle_request \<Rightarrow> rat risk_context \<Rightarrow> risk_result \<Rightarrow> unit res" where
  "validate_risk q c r =
     rbind (dependency (rr_context_id r = cq_request_id q \<and> rr_context_id r = rx_context_id c)
       ''risk context identity mismatch'') (\<lambda>_.
     rbind (dependency (rr_strategy_decision r = rx_strategy_decision c) ''risk strategy decision mismatch'') (\<lambda>_.
     dependency (rr_requested_quantity r = cq_requested_quantity q \<and>
       rr_approved_quantity r \<le> cq_requested_quantity q) ''risk quantity mismatch''))"

definition validate_paper :: "rat cycle_request \<Rightarrow> rat instruction \<Rightarrow> rt_result \<Rightarrow> unit res" where
  "validate_paper q i r =
     rbind (dependency (tr_request_id r = cq_request_id q \<and> tr_account_id r = cq_account_id q \<and>
         ta_account_id (tr_account r) = cq_account_id q) ''paper execution identity mismatch'') (\<lambda>_.
     rbind (dependency (case tr_order r of None \<Rightarrow> True
         | Some x \<Rightarrow> to_symbol x = in_symbol i \<and> to_requested_quantity x = in_quantity i)
       ''paper order symbol or quantity mismatch'') (\<lambda>_.
     dependency (case tr_fill r of None \<Rightarrow> True
         | Some f \<Rightarrow> tf_symbol f = in_symbol i \<and> tf_quantity f \<le> in_quantity i)
       ''paper fill symbol or quantity mismatch''))"

fun cycle_outcome_of :: "rt_outcome \<Rightarrow> cycle_outcome" where
  "cycle_outcome_of RT_EXECUTED = CYCLE_EXECUTED"
| "cycle_outcome_of RT_PARTIALLY_EXECUTED = CYCLE_PARTIALLY_EXECUTED"
| "cycle_outcome_of RT_NO_ACTION = CYCLE_NO_ACTION"
| "cycle_outcome_of _ = CYCLE_EXECUTION_REJECTED"

text \<open>The end of \<open>execute\<close>: the planned instruction goes to the paper runtime.\<close>

definition execution_stage ::
  "orchestrator_policy \<Rightarrow> runtimes \<Rightarrow> rat cycle_request \<Rightarrow> strategy_result \<Rightarrow> risk_result \<Rightarrow> plan_result \<Rightarrow>
   rat instruction \<Rightarrow> cycle_result res" where
  "execution_stage policy rt q s r pr i =
     rbind (make_rt_request \<lparr>tq_request_id = cq_request_id q, tq_account_id = cq_account_id q,
       tq_plan_result = pr, tq_account = cq_paper_account q, tq_market_price = Fin (cq_market_price q),
       tq_execution_timestamp = cq_execution_timestamp q, tq_metadata = cq_metadata q\<rparr>) (\<lambda>request.
     rbind (call_stage ''paper_execution'' ''paper runtime returned invalid result'' (rs_paper rt request)) (\<lambda>x.
     rbind (validate_paper q i x) (\<lambda>_.
     let outcome = cycle_outcome_of (tr_outcome x) in
     cycle_result_of policy q outcome (Some s) (Some r) (Some pr) (Some x) (tr_account x)
       [(''strategy'', True, ''actionable strategy''), (''risk'', True, ''risk approved''),
        (''planning'', True, ''instruction planned''),
        (''paper_execution'', outcome \<in> {CYCLE_EXECUTED, CYCLE_PARTIALLY_EXECUTED},
          ''paper execution completed'')])))"

text \<open>From the planner's result on: exactly one planned instruction that fits decision and approval.\<close>

definition instruction_stage ::
  "orchestrator_policy \<Rightarrow> runtimes \<Rightarrow> rat cycle_request \<Rightarrow> strategy_result \<Rightarrow> rat signal_decision \<Rightarrow>
   risk_result \<Rightarrow> plan_result \<Rightarrow> cycle_result res" where
  "instruction_stage policy rt q s d r pr =
     (if xr_decision pr \<noteq> PLANNED \<or>
       (case xr_plan pr of None \<Rightarrow> True | Some plan \<Rightarrow> length (xp_instructions plan) \<noteq> 1)
     then cycle_result_of policy q CYCLE_PLANNING_REJECTED (Some s) (Some r) (Some pr) None (cq_paper_account q)
       [(''strategy'', True, ''actionable strategy''), (''risk'', True, ''risk approved''),
        (''planning'', False, ''planning rejected'')]
     else let plan = the (xr_plan pr); i = hd (xp_instructions plan) in
       rbind (dependency (xp_request_id plan = cq_request_id q \<and> in_account_id i = cq_account_id q)
         ''planned request or account identity mismatch'') (\<lambda>_.
       rbind (dependency (in_symbol i = sd_symbol d) ''planned symbol mismatch'') (\<lambda>_.
       rbind (dependency (in_quantity i = rr_approved_quantity r) ''planned quantity mismatch'') (\<lambda>_.
       execution_stage policy rt q s r pr i))))"

definition planning_stage ::
  "orchestrator_policy \<Rightarrow> runtimes \<Rightarrow> rat cycle_request \<Rightarrow> strategy_result \<Rightarrow> rat signal_decision \<Rightarrow>
   rat risk_context \<Rightarrow> risk_result \<Rightarrow> cycle_result res" where
  "planning_stage policy rt q s d c r =
     rbind (make_plan_request \<lparr>xq_request_id = cq_request_id q, xq_risk_context = c, xq_risk_result = r,
       xq_metadata = cq_metadata q\<rparr>) (\<lambda>request.
     rbind (call_stage ''planning'' ''execution plan result identity mismatch'' (rs_planner rt request)) (\<lambda>pr.
     rbind (dependency (xr_request_id pr = cq_request_id q) ''execution plan result identity mismatch'') (\<lambda>_.
     instruction_stage policy rt q s d r pr)))"

definition risk_stage ::
  "orchestrator_policy \<Rightarrow> runtimes \<Rightarrow> rat cycle_request \<Rightarrow> strategy_context \<Rightarrow> strategy_result \<Rightarrow>
   rat signal_decision \<Rightarrow> cycle_result res" where
  "risk_stage policy rt q context s d =
     rbind (make_risk_context \<lparr>rx_context_id = cq_request_id q, rx_strategy_context = context,
       rx_strategy_decision = d, rx_requested_quantity = Fin (cq_requested_quantity q),
       rx_reference_price = Fin (cq_market_price q), rx_metadata = cq_metadata q\<rparr>) (\<lambda>c.
     rbind (call_stage ''risk'' ''risk runtime returned invalid result'' (rs_risk rt c)) (\<lambda>r.
     rbind (validate_risk q c r) (\<lambda>_.
     if rr_outcome r = RISK_REJECTED
     then cycle_result_of policy q CYCLE_RISK_REJECTED (Some s) (Some r) None None (cq_paper_account q)
       [(''strategy'', True, ''actionable strategy''), (''risk'', False, ''risk rejected'')]
     else planning_stage policy rt q s d c r)))"

text \<open>\<open>metadata.get("strategy_configuration", {})\<close>, which must be a mapping.\<close>

definition strategy_configuration :: "metadata \<Rightarrow> metadata res" where
  "strategy_configuration m = (case map_of m ''strategy_configuration'' of
     None \<Rightarrow> Inr []
   | Some (JMap configuration) \<Rightarrow> Inr configuration
   | Some _ \<Rightarrow> Inl (Raise ExecutionOrchestratorDependencyError ''strategy_configuration metadata must be a mapping''))"

text \<open>From the strategy's result on: exactly one evaluated decision is acted on.\<close>

definition decision_stage ::
  "orchestrator_policy \<Rightarrow> runtimes \<Rightarrow> rat cycle_request \<Rightarrow> strategy_context \<Rightarrow> strategy_result \<Rightarrow>
   cycle_result res" where
  "decision_stage policy rt q context s =
     (let a = cq_paper_account q in
      if \<not> sr_evaluated s \<or> length (sr_decisions s) \<noteq> 1
      then cycle_result_of policy q CYCLE_STRATEGY_REJECTED (Some s) None None None a
        [(''strategy'', False, ''strategy did not produce exactly one evaluated decision'')]
      else let d = hd (sr_decisions s) in
        if sd_signal d = SIGNAL_HOLD
        then cycle_result_of policy q CYCLE_NO_ACTION (Some s) None None None a
          [(''strategy'', True, ''strategy produced HOLD'')]
        else if sd_signal d = SIGNAL_EXIT \<and> position_of (sd_symbol d) (pn_positions (cq_portfolio q)) = None
        then cycle_result_of policy q CYCLE_NO_ACTION (Some s) None None None a
          [(''strategy'', True, ''EXIT has no held position'')]
        else risk_stage policy rt q context s d)"

definition orchestrate :: "orchestrator_policy \<Rightarrow> runtimes \<Rightarrow> rat cycle_request \<Rightarrow> cycle_result res" where
  "orchestrate policy rt q =
     (if \<not> og_enabled policy
      then cycle_result_of policy q CYCLE_DISABLED None None None None (cq_paper_account q)
        [(''orchestrator'', False, ''orchestrator disabled'')]
      else rbind (strategy_configuration (cq_metadata q)) (\<lambda>configuration.
        rbind (make_strategy_context \<lparr>sx_context_id = cq_request_id q, sx_portfolio = cq_portfolio q,
          sx_configuration = configuration, sx_metadata = cq_metadata q\<rparr>) (\<lambda>context.
        rbind (call_stage ''strategy'' ''strategy result identity mismatch'' (rs_strategy rt context)) (\<lambda>s.
        rbind (dependency (sr_context_id s = cq_request_id q) ''strategy result identity mismatch'') (\<lambda>_.
        decision_stage policy rt q context s)))))"

subsection \<open>What a cycle's result says of its stages\<close>

lemma cycle_result_of_Inr:
  assumes "cycle_result_of policy q outcome s r p x a criteria = Inr c"
  shows "cr_request_id c = cq_request_id q \<and> cr_account_id c = cq_account_id q \<and> cr_outcome c = outcome \<and>
    cr_strategy c = s \<and> cr_risk c = r \<and> cr_plan c = p \<and> cr_paper c = x \<and> cr_account c = a \<and>
    ta_account_id a = cq_account_id q"
  using assms unfolding cycle_result_of_def make_cycle_result_def Let_def rbind_Inr_iff
  by (auto simp del: frozen.simps)

text \<open>The checked chain from the strategy's decision to the paper runtime's result.\<close>

definition chain ::
  "rat cycle_request \<Rightarrow> rat signal_decision \<Rightarrow> risk_result \<Rightarrow> plan_result \<Rightarrow> rat instruction \<Rightarrow> rt_result \<Rightarrow> bool" where
  "chain q d r pr i x \<longleftrightarrow>
     sd_signal d \<noteq> SIGNAL_HOLD \<and> rr_strategy_decision r = d \<and> rr_outcome r \<noteq> RISK_REJECTED \<and>
     rr_requested_quantity r = cq_requested_quantity q \<and> rr_approved_quantity r \<le> cq_requested_quantity q \<and>
     xr_decision pr = PLANNED \<and> (\<exists>plan. xr_plan pr = Some plan \<and> xp_instructions plan = [i]) \<and>
     in_account_id i = cq_account_id q \<and> in_symbol i = sd_symbol d \<and>
     in_quantity i = rr_approved_quantity r \<and>
     tr_request_id x = cq_request_id q \<and> tr_account_id x = cq_account_id q \<and>
     (\<forall>f. tr_fill x = Some f \<longrightarrow> tf_symbol f = sd_symbol d \<and> tf_quantity f \<le> rr_approved_quantity r)"

lemma execution_stage_Inr:
  assumes "execution_stage policy rt q s r pr i = Inr c"
  shows "\<exists>x request. rs_paper rt request = Answer x \<and>
    make_rt_request \<lparr>tq_request_id = cq_request_id q, tq_account_id = cq_account_id q,
       tq_plan_result = pr, tq_account = cq_paper_account q, tq_market_price = Fin (cq_market_price q),
       tq_execution_timestamp = cq_execution_timestamp q, tq_metadata = cq_metadata q\<rparr> = Inr request \<and>
    validate_paper q i x = Inr () \<and>
    cr_strategy c = Some s \<and> cr_risk c = Some r \<and> cr_plan c = Some pr \<and> cr_paper c = Some x \<and>
    cr_account c = tr_account x \<and> cr_outcome c = cycle_outcome_of (tr_outcome x)"
  using assms unfolding execution_stage_def Let_def rbind_Inr_iff
  by (auto dest!: cycle_result_of_Inr simp del: frozen.simps)

lemma make_plan_request_Inr: "make_plan_request q = Inr q' \<Longrightarrow> q' = q"
  by (auto simp: make_plan_request_def res_simps simp del: frozen.simps)

lemma make_strategy_context_Inr: "make_strategy_context c = Inr c' \<Longrightarrow> c' = c"
  by (auto simp: make_strategy_context_def res_simps simp del: frozen.simps)

lemma planning_stage_Inr:
  assumes "planning_stage policy rt q s d c r = Inr cr"
  shows "(\<exists>pr. cr_outcome cr = CYCLE_PLANNING_REJECTED \<and> cr_strategy cr = Some s \<and> cr_risk cr = Some r \<and>
      cr_plan cr = Some pr \<and> cr_paper cr = None \<and> cr_account cr = cq_paper_account q) \<or>
    (\<exists>pr plan i request. rs_planner rt request = Answer pr \<and> xq_risk_context request = c \<and>
      xq_risk_result request = r \<and> xr_decision pr = PLANNED \<and> xr_plan pr = Some plan \<and>
      xp_instructions plan = [i] \<and> in_account_id i = cq_account_id q \<and> in_symbol i = sd_symbol d \<and>
      in_quantity i = rr_approved_quantity r \<and> execution_stage policy rt q s r pr i = Inr cr)"
proof -
  from assms obtain request pr where
    request: "make_plan_request \<lparr>xq_request_id = cq_request_id q, xq_risk_context = c, xq_risk_result = r,
       xq_metadata = cq_metadata q\<rparr> = Inr request" and pr: "rs_planner rt request = Answer pr"
    and rest: "instruction_stage policy rt q s d r pr = Inr cr"
    unfolding planning_stage_def rbind_Inr_iff by auto
  show ?thesis
  proof (cases "xr_decision pr \<noteq> PLANNED \<or> (case xr_plan pr of None \<Rightarrow> True | Some plan \<Rightarrow> length (xp_instructions plan) \<noteq> 1)")
    case True
    from cycle_result_of_Inr [OF rest [unfolded instruction_stage_def if_P [OF True]]] show ?thesis by blast
  next
    case False
    then obtain plan i where plan: "xr_plan pr = Some plan" "xp_instructions plan = [i]" "xr_decision pr = PLANNED"
      by (auto simp: length_Suc_conv split: option.splits)
    then have "in_account_id i = cq_account_id q" "in_symbol i = sd_symbol d"
        "in_quantity i = rr_approved_quantity r" "execution_stage policy rt q s r pr i = Inr cr"
      using rest [unfolded instruction_stage_def if_not_P [OF False]] by (auto simp: Let_def rbind_Inr_iff)
    moreover have "xq_risk_context request = c" "xq_risk_result request = r"
      using make_plan_request_Inr [OF request] by simp_all
    ultimately show ?thesis using pr plan by blast
  qed
qed

lemma risk_stage_Inr:
  assumes "risk_stage policy rt q context s d = Inr cr"
  shows "\<exists>c r. make_risk_context \<lparr>rx_context_id = cq_request_id q, rx_strategy_context = context,
       rx_strategy_decision = d, rx_requested_quantity = Fin (cq_requested_quantity q),
       rx_reference_price = Fin (cq_market_price q), rx_metadata = cq_metadata q\<rparr> = Inr c \<and>
    rs_risk rt c = Answer r \<and> validate_risk q c r = Inr () \<and>
    (if rr_outcome r = RISK_REJECTED
     then cr_outcome cr = CYCLE_RISK_REJECTED \<and> cr_strategy cr = Some s \<and> cr_risk cr = Some r \<and>
       cr_plan cr = None \<and> cr_paper cr = None \<and> cr_account cr = cq_paper_account q
     else planning_stage policy rt q s d c r = Inr cr)"
  using assms unfolding risk_stage_def rbind_Inr_iff
  by (auto dest!: cycle_result_of_Inr split: if_splits simp del: frozen.simps)

lemma orchestrate_Inr:
  assumes "orchestrate policy rt q = Inr cr"
  shows "cr_outcome cr \<in> {CYCLE_DISABLED, CYCLE_STRATEGY_REJECTED, CYCLE_NO_ACTION} \<and>
      cr_risk cr = None \<and> cr_plan cr = None \<and> cr_paper cr = None \<and> cr_account cr = cq_paper_account q \<or>
    (\<exists>context s d. og_enabled policy \<and> rs_strategy rt context = Answer s \<and> sx_portfolio context = cq_portfolio q \<and>
      sr_decisions s = [d] \<and> sr_evaluated s \<and> sd_signal d \<noteq> SIGNAL_HOLD \<and>
      risk_stage policy rt q context s d = Inr cr)"
proof (cases "og_enabled policy")
  case False
  with assms show ?thesis by (auto simp: orchestrate_def dest!: cycle_result_of_Inr)
next
  case True
  with assms obtain m cx s where
    "make_strategy_context \<lparr>sx_context_id = cq_request_id q, sx_portfolio = cq_portfolio q,
          sx_configuration = m, sx_metadata = cq_metadata q\<rparr> = Inr cx" "rs_strategy rt cx = Answer s"
    and rest: "decision_stage policy rt q cx s = Inr cr"
    by (auto simp: orchestrate_def rbind_Inr_iff simp del: frozen.simps)
  then have cx: "sx_portfolio cx = cq_portfolio q" "rs_strategy rt cx = Answer s"
    by (auto dest: make_strategy_context_Inr)
  show ?thesis
  proof (cases "\<not> sr_evaluated s \<or> length (sr_decisions s) \<noteq> 1")
    case True
    from cycle_result_of_Inr [OF rest [unfolded decision_stage_def Let_def if_P [OF True]]]
    show ?thesis by simp
  next
    case False
    then obtain d where "sr_decisions s = [d]" "sr_evaluated s" by (auto simp: length_Suc_conv)
    with rest [unfolded decision_stage_def Let_def if_not_P [OF False]] cx \<open>og_enabled policy\<close>
    show ?thesis by (auto dest!: cycle_result_of_Inr split: if_splits)
  qed
qed

subsection \<open>Whatever the runtimes answer\<close>

text \<open>A result that reached the paper runtime shows the whole chain; any other left the account alone.\<close>

lemma orchestrate_chain:
  assumes "orchestrate policy rt q = Inr cr"
  shows "(cr_paper cr = None \<and> cr_account cr = cq_paper_account q \<and>
      cr_outcome cr \<in> {CYCLE_DISABLED, CYCLE_NO_ACTION, CYCLE_STRATEGY_REJECTED, CYCLE_RISK_REJECTED,
        CYCLE_PLANNING_REJECTED}) \<or>
    (\<exists>s d r pr i x. cr_strategy cr = Some s \<and> sr_evaluated s \<and> sr_decisions s = [d] \<and>
      cr_risk cr = Some r \<and> cr_plan cr = Some pr \<and> cr_paper cr = Some x \<and> cr_account cr = tr_account x \<and>
      cr_outcome cr = cycle_outcome_of (tr_outcome x) \<and> chain q d r pr i x)"
proof -
  from orchestrate_Inr [OF assms] show ?thesis
  proof (elim disjE exE conjE)
    fix cx s d
    assume s: "sr_decisions s = [d]" "sr_evaluated s" "sd_signal d \<noteq> SIGNAL_HOLD"
      and "risk_stage policy rt q cx s d = Inr cr"
    from risk_stage_Inr [OF this(4)] obtain c r where
      c: "make_risk_context \<lparr>rx_context_id = cq_request_id q, rx_strategy_context = cx,
        rx_strategy_decision = d, rx_requested_quantity = Fin (cq_requested_quantity q),
        rx_reference_price = Fin (cq_market_price q), rx_metadata = cq_metadata q\<rparr> = Inr c"
      and r: "validate_risk q c r = Inr ()"
      and rest: "if rr_outcome r = RISK_REJECTED
       then cr_outcome cr = CYCLE_RISK_REJECTED \<and> cr_strategy cr = Some s \<and> cr_risk cr = Some r \<and>
         cr_plan cr = None \<and> cr_paper cr = None \<and> cr_account cr = cq_paper_account q
       else planning_stage policy rt q s d c r = Inr cr" by blast
    have r': "rr_strategy_decision r = d" "rr_requested_quantity r = cq_requested_quantity q"
      "rr_approved_quantity r \<le> cq_requested_quantity q"
      using r make_risk_context_Inr [OF c] by (auto simp: validate_risk_def rbind_Inr_iff)
    show ?thesis
    proof (cases "rr_outcome r = RISK_REJECTED")
      case True
      with rest show ?thesis by simp
    next
      case False
      from planning_stage_Inr [OF rest [unfolded if_not_P [OF False]]] show ?thesis
      proof (elim disjE exE conjE)
        fix pr plan i request
        assume p: "xr_decision pr = PLANNED" "xr_plan pr = Some plan" "xp_instructions plan = [i]"
          "in_account_id i = cq_account_id q" "in_symbol i = sd_symbol d"
          "in_quantity i = rr_approved_quantity r" and e: "execution_stage policy rt q s r pr i = Inr cr"
        from execution_stage_Inr [OF e] obtain x where x: "validate_paper q i x = Inr ()"
          "cr_strategy cr = Some s" "cr_risk cr = Some r" "cr_plan cr = Some pr" "cr_paper cr = Some x"
          "cr_account cr = tr_account x" "cr_outcome cr = cycle_outcome_of (tr_outcome x)" by blast
        then have "chain q d r pr i x"
          using s r' False p by (auto simp: chain_def validate_paper_def rbind_Inr_iff)
        with x s show ?thesis by blast
      qed simp
    qed
  qed auto
qed

definition for_request :: "rat cycle_request \<Rightarrow> cycle_result \<Rightarrow> bool" where
  "for_request q cr \<longleftrightarrow> cr_request_id cr = cq_request_id q \<and> cr_account_id cr = cq_account_id q \<and>
    ta_account_id (cr_account cr) = cq_account_id q"

lemma cycle_result_of_identity: "cycle_result_of policy q o' s r pr x a cs = Inr cr \<Longrightarrow> for_request q cr"
  by (auto simp: for_request_def dest!: cycle_result_of_Inr)

lemma execution_stage_identity: "execution_stage policy rt q s r pr i = Inr cr \<Longrightarrow> for_request q cr"
  unfolding execution_stage_def Let_def rbind_Inr_iff by (blast intro: cycle_result_of_identity)

lemma instruction_stage_identity: "instruction_stage policy rt q s d r pr = Inr cr \<Longrightarrow> for_request q cr"
  unfolding instruction_stage_def Let_def
  by (auto simp: rbind_Inr_iff intro: cycle_result_of_identity execution_stage_identity split: if_splits)

lemma risk_stage_identity: "risk_stage policy rt q cx s d = Inr cr \<Longrightarrow> for_request q cr"
  unfolding risk_stage_def planning_stage_def rbind_Inr_iff
  by (auto simp: rbind_Inr_iff intro: cycle_result_of_identity instruction_stage_identity split: if_splits)

lemma decision_stage_identity: "decision_stage policy rt q cx s = Inr cr \<Longrightarrow> for_request q cr"
  unfolding decision_stage_def Let_def
  by (auto intro: cycle_result_of_identity risk_stage_identity split: if_splits)

lemma orchestrate_identity: "orchestrate policy rt q = Inr cr \<Longrightarrow> for_request q cr"
  unfolding orchestrate_def
  by (auto simp: rbind_Inr_iff intro: cycle_result_of_identity decision_stage_identity split: if_splits)

end
