(* ===== verification/Paper_Cycle.thy ===== *)
theory Paper_Cycle
  imports Orchestrator
begin

text \<open>
  The trading cycle with the program's own runtimes: the strategy runtime around any evaluator,
  the risk runtime with the deterministic evaluator, the planner with its deterministic evaluator
  and the paper runtime with any fill evaluator.
\<close>

definition program_runtimes ::
  "strategy_policy \<Rightarrow> (strategy_context \<Rightarrow> rat signal_decision list answer) \<Rightarrow> rat risk_policy \<Rightarrow>
   planner_policy \<Rightarrow> rat rt_policy \<Rightarrow> fill_evaluator \<Rightarrow> runtimes" where
  "program_runtimes sp strategy rp pp tp fills =
     \<lparr>rs_strategy = (\<lambda>c. answer_of (strategy_evaluate sp strategy c)),
      rs_risk = (\<lambda>c. answer_of (risk_runtime rp (\<lambda>c p. answer_of (deterministic_risk c p)) c)),
      rs_planner = (\<lambda>q. answer_of (planner_runtime pp (\<lambda>q p. answer_of (deterministic_plan q p)) q)),
      rs_paper = (\<lambda>q. answer_of (paper_execute tp fills q))\<rparr>"

lemma program_runtimes_select [simp]:
  "rs_strategy (program_runtimes sp strategy rp pp tp fills) c = answer_of (strategy_evaluate sp strategy c)"
  "rs_risk (program_runtimes sp strategy rp pp tp fills) rc =
     answer_of (risk_runtime rp (\<lambda>c p. answer_of (deterministic_risk c p)) rc)"
  "rs_planner (program_runtimes sp strategy rp pp tp fills) pq =
     answer_of (planner_runtime pp (\<lambda>q p. answer_of (deterministic_plan q p)) pq)"
  "rs_paper (program_runtimes sp strategy rp pp tp fills) xq = answer_of (paper_execute tp fills xq)"
  by (simp_all add: program_runtimes_def)

text \<open>The chain with what the deterministic risk evaluator and planner add to it.\<close>

lemma program_chain:
  assumes "orchestrate policy (program_runtimes sp strategy rp pp tp fills) q = Inr cr"
    and "cr_paper cr = Some x"
  shows "\<exists>s d c r plan i request. cr_strategy cr = Some s \<and> sr_decisions s = [d] \<and>
    cr_risk cr = Some r \<and> rr_approved_quantity r \<le> cq_requested_quantity q \<and> 0 < rr_approved_quantity r \<and>
    sx_portfolio (rx_strategy_context c) = cq_portfolio q \<and> rx_strategy_decision c = d \<and>
    rx_requested_quantity c = cq_requested_quantity q \<and> rx_reference_price c = cq_market_price q \<and>
    risk_context_ok c \<and> (rr_approved_quantity r, rr_outcome r) = risk_quantity rp c \<and>
    instruction_ok i \<and> in_account_id i = cq_account_id q \<and> in_symbol i = sd_symbol d \<and>
    in_side i = (if sd_signal d = SIGNAL_BUY then SIDE_BUY else SIDE_SELL) \<and>
    in_quantity i = rr_approved_quantity r \<and>
    rt_request_ok request \<and> tq_account_id request = cq_account_id q \<and>
    tq_market_price request = cq_market_price q \<and>
    tq_account request = cq_paper_account q \<and> xr_decision (tq_plan_result request) = PLANNED \<and>
    xr_plan (tq_plan_result request) = Some plan \<and> xp_instructions plan = [i] \<and>
    paper_execute tp fills request = Inr x \<and> cr_account cr = tr_account x"
proof -
  let ?rt = "program_runtimes sp strategy rp pp tp fills"
  from orchestrate_Inr [OF assms(1)] assms(2) obtain cx s d where
    cx: "sx_portfolio cx = cq_portfolio q" "sr_decisions s = [d]" and d: "sd_signal d \<noteq> SIGNAL_HOLD"
    and risk: "risk_stage policy ?rt q cx s d = Inr cr" by auto
  from risk_stage_Inr [OF risk] obtain c r where
    c: "make_risk_context \<lparr>rx_context_id = cq_request_id q, rx_strategy_context = cx,
        rx_strategy_decision = d, rx_requested_quantity = Fin (cq_requested_quantity q),
        rx_reference_price = Fin (cq_market_price q), rx_metadata = cq_metadata q\<rparr> = Inr c"
    and r: "risk_runtime rp (\<lambda>c p. answer_of (deterministic_risk c p)) c = Inr r" "validate_risk q c r = Inr ()"
    and rest: "if rr_outcome r = RISK_REJECTED
       then cr_outcome cr = CYCLE_RISK_REJECTED \<and> cr_strategy cr = Some s \<and> cr_risk cr = Some r \<and>
         cr_plan cr = None \<and> cr_paper cr = None \<and> cr_account cr = cq_paper_account q
       else planning_stage policy ?rt q s d c r = Inr cr" by auto
  have c': "risk_context_ok c" "rx_strategy_context c = cx" "rx_strategy_decision c = d"
      "rx_requested_quantity c = cq_requested_quantity q" "rx_reference_price c = cq_market_price q"
    using make_risk_context_Inr [OF c] by simp_all
  have ap: "rr_outcome r \<noteq> RISK_REJECTED" using rest assms(2) by auto
  then have det: "deterministic_risk c rp = Inr r" using risk_runtime_Inr [OF r(1)] by simp
  have quantity: "(rr_approved_quantity r, rr_outcome r) = risk_quantity rp c"
    using det by (auto simp: deterministic_risk_def make_risk_result_def Let_def res_simps split: prod.splits
        simp del: frozen.simps)
  from planning_stage_Inr [OF rest [unfolded if_not_P [OF ap]]] assms(2) obtain pr plan i pq where
    pr: "planner_runtime pp (\<lambda>q p. answer_of (deterministic_plan q p)) pq = Inr pr"
      "xq_risk_context pq = c" "xq_risk_result pq = r" "xr_decision pr = PLANNED"
    and plan: "xr_plan pr = Some plan" "xp_instructions plan = [i]" "in_account_id i = cq_account_id q"
      "in_symbol i = sd_symbol d" "in_quantity i = rr_approved_quantity r"
    and ex: "execution_stage policy ?rt q s r pr i = Inr cr" by auto
  from planner_runtime_planned [OF pr(1,4)] plan(1) pr(3)
  have pos: "0 < rr_approved_quantity r" and dp: "deterministic_plan pq pp = Inr plan" by auto
  from deterministic_plan_Inr [OF dp] plan(2) have pf: "planned_for pq i" by simp
  from execution_stage_Inr [OF ex] assms(2) obtain request where
    e: "paper_execute tp fills request = Inr x" "cr_strategy cr = Some s" "cr_risk cr = Some r"
      "cr_account cr = tr_account x"
    and request: "make_rt_request \<lparr>tq_request_id = cq_request_id q, tq_account_id = cq_account_id q,
       tq_plan_result = pr, tq_account = cq_paper_account q, tq_market_price = Fin (cq_market_price q),
       tq_execution_timestamp = cq_execution_timestamp q, tq_metadata = cq_metadata q\<rparr> = Inr request" by auto
  have request': "tq_account_id request = cq_account_id q" "tq_market_price request = cq_market_price q"
      "tq_account request = cq_paper_account q" "tq_plan_result request = pr"
    using request unfolding make_rt_request_def rbind_Inr_iff by (auto simp del: frozen.simps)
  have "rr_approved_quantity r \<le> cq_requested_quantity q"
    using r(2) by (auto simp: validate_risk_def rbind_Inr_iff)
  with e cx c' quantity pos pr plan pf make_rt_request_ok [OF request] request' show ?thesis
    unfolding planned_for_def Let_def by metis
qed

subsection \<open>A cycle that must execute\<close>

definition cycle_request_ok :: "rat cycle_request \<Rightarrow> bool" where
  "cycle_request_ok q \<longleftrightarrow> nonempty_stripped (cq_request_id q) \<and> nonempty_stripped (cq_account_id q) \<and>
     pn_account_id (cq_portfolio q) = cq_account_id q \<and> ta_account_id (cq_paper_account q) = cq_account_id q \<and>
     0 < cq_market_price q \<and> 0 < cq_requested_quantity q \<and> tz_aware (cq_execution_timestamp q) \<and>
     frozen_mapping (cq_metadata q)"

lemma make_cycle_request_ok: "make_cycle_request raw = Inr q \<Longrightarrow> cycle_request_ok q"
  unfolding make_cycle_request_def Let_def rbind_Inr_iff
  by (auto simp: cycle_request_ok_def simp del: frozen.simps)

lemma cycle_texts:
  "nonempty_stripped ''strategy''" "nonempty_stripped ''risk''" "nonempty_stripped ''planning''"
  "nonempty_stripped ''paper_execution''" "nonempty_stripped ''actionable strategy''"
  "nonempty_stripped ''risk approved''" "nonempty_stripped ''instruction planned''"
  "nonempty_stripped ''paper execution completed''"
  by (simp_all add: nonempty_stripped_iff is_space_def)

lemma plan_texts:
  "nonempty_stripped ''policy_enabled''" "nonempty_stripped ''risk_eligible''"
  "nonempty_stripped ''instruction_valid''" "nonempty_stripped ''execution planner policy enabled''"
  "nonempty_stripped ''risk outcome eligible for planning''"
  "nonempty_stripped ''one broker-neutral instruction validated''"
  by (simp_all add: nonempty_stripped_iff is_space_def)

lemma text_field_ok: "nonempty_stripped v \<Longrightarrow> text_field cls name v = Inr ()"
  by (simp add: text_field_def)

lemma planner_result_ok:
  assumes "nonempty_stripped (xq_request_id q)" and "nonempty_stripped (xy_version policy)"
    and "decision = PLANNED \<longleftrightarrow> plan \<noteq> None"
  shows "\<exists>r. planner_result policy q decision plan x y z = Inr r \<and> xr_request_id r = xq_request_id q \<and>
    xr_decision r = decision \<and> xr_plan r = plan"
  using assms unfolding planner_result_def make_plan_result_def Let_def
  by (auto simp: make_plan_criterion_def plan_texts text_field_ok)

text \<open>Without a configuration the planner makes a day limit order at the reference price.\<close>

definition default_instruction :: "rat risk_context \<Rightarrow> rat \<Rightarrow> rat instruction" where
  "default_instruction c quantity = (let d = rx_strategy_decision c in
     \<lparr>in_account_id = pn_account_id (sx_portfolio (rx_strategy_context c)), in_symbol = sd_symbol d,
      in_side = (if sd_signal d = SIGNAL_BUY then SIDE_BUY else SIDE_SELL), in_quantity = quantity,
      in_order_type = TYPE_LIMIT, in_time_in_force = TIF_DAY, in_limit_price = Some (rx_reference_price c),
      in_stop_price = None, in_metadata = [(''deterministic'', JBool True)]\<rparr>)"

lemma deterministic_plan_default:
  assumes "sx_configuration (rx_strategy_context (xq_risk_context q)) = []"
    and "nonempty_stripped (pn_account_id (sx_portfolio (rx_strategy_context (xq_risk_context q))))"
    and "nonempty_stripped (sd_symbol (rx_strategy_decision (xq_risk_context q)))"
    and "upper (sd_symbol (rx_strategy_decision (xq_risk_context q))) = sd_symbol (rx_strategy_decision (xq_risk_context q))"
    and "0 < rr_approved_quantity (xq_risk_result q)" and "0 < rx_reference_price (xq_risk_context q)"
    and "nonempty_stripped (xq_request_id q)"
  shows "deterministic_plan q policy = Inr \<lparr>xp_request_id = xq_request_id q,
    xp_instructions = [default_instruction (xq_risk_context q) (rr_approved_quantity (xq_risk_result q))],
    xp_metadata = [(''deterministic'', JBool True)]\<rparr>"
proof -
  have kind: "enum_of placement_type_value [TYPE_MARKET, TYPE_LIMIT, TYPE_STOP, TYPE_STOP_LIMIT]
      (config_get [] ''order_type'' (JText ''LIMIT'')) = Inr TYPE_LIMIT"
    "enum_of placement_tif_value [TIF_DAY, TIF_GTC] (config_get [] ''time_in_force'' (JText ''DAY'')) = Inr TIF_DAY"
    by (simp_all add: enum_of_def config_get_def)
  show ?thesis
    using assms unfolding deterministic_plan_def Let_def assms(1) kind rbind.simps
    by (simp add: rbind_Inr_iff make_instruction_def make_execution_plan_def default_instruction_def Let_def
        check_Inr)
qed

lemma planner_runtime_plans:
  assumes "xy_enabled policy" and "nonempty_stripped (xy_version policy)" and "nonempty_stripped (xq_request_id q)"
    and "risk_result_fits (xq_risk_context q) (xq_risk_result q)"
    and "sd_signal (rx_strategy_decision (xq_risk_context q)) \<noteq> SIGNAL_HOLD"
    and "rr_outcome (xq_risk_result q) \<in> {RISK_APPROVED, RISK_MODIFIED}"
    and "0 < rr_approved_quantity (xq_risk_result q)" and "evaluator q policy = Answer plan"
    and "xp_request_id plan = xq_request_id q"
    and "xp_instructions plan = [default_instruction (xq_risk_context q) (rr_approved_quantity (xq_risk_result q))]"
  shows "\<exists>r. planner_runtime policy evaluator q = Inr r \<and> xr_request_id r = xq_request_id q \<and>
    xr_decision r = PLANNED \<and> xr_plan r = Some plan"
proof -
  have "planner_runtime policy evaluator q = planner_result policy q PLANNED (Some plan) True True True"
    using assms by (auto simp: planner_runtime_def Let_def called_def default_instruction_def check_def)
  then show ?thesis using planner_result_ok [OF assms(3,2)] by simp
qed

definition cycle_context :: "rat cycle_request \<Rightarrow> strategy_context" where
  "cycle_context q = \<lparr>sx_context_id = cq_request_id q, sx_portfolio = cq_portfolio q, sx_configuration = [],
     sx_metadata = cq_metadata q\<rparr>"

definition cycle_risk_context :: "rat cycle_request \<Rightarrow> rat signal_decision \<Rightarrow> rat risk_context" where
  "cycle_risk_context q d = \<lparr>rx_context_id = cq_request_id q, rx_strategy_context = cycle_context q,
     rx_strategy_decision = d, rx_requested_quantity = cq_requested_quantity q,
     rx_reference_price = cq_market_price q, rx_metadata = cq_metadata q\<rparr>"

text \<open>What the paper account must allow for a fill of the whole quantity.\<close>

definition account_allows :: "rat rt_policy \<Rightarrow> rat cycle_request \<Rightarrow> rat signal_decision \<Rightarrow> rat \<Rightarrow> bool" where
  "account_allows tp q d quantity \<longleftrightarrow>
     (let buy = (sd_signal d = SIGNAL_BUY); a = cq_paper_account q; fees = fill_fees tp quantity;
          price = rt_execution_price tp (if buy then SIDE_BUY else SIDE_SELL) (cq_market_price q);
          gross = dmul price quantity in
      0 < price \<and>
      (if buy then dadd gross fees \<le> ta_cash a \<and> 0 \<le> dsub (dsub (ta_cash a) gross) fees
       else (\<exists>p. rt_position_of (sd_symbol d) (ta_positions a) = Some p \<and> quantity \<le> tp_quantity p) \<and>
         0 \<le> dsub (dadd (ta_cash a) gross) fees))"

lemma execution_stage_fills:
  assumes q: "cycle_request_ok q" and a: "rt_account_ok (cq_paper_account q)" and tp: "rt_policy_ok tp" "ty_enabled tp"
    and og: "nonempty_stripped (og_version policy)" and rt: "rs_paper rt = (\<lambda>q. answer_of (paper_execute tp complete_fill_evaluator q))"
    and d: "nonempty_stripped (sd_symbol d)" "upper (sd_symbol d) = sd_symbol d" and quantity: "0 < quantity"
    and allows: "account_allows tp q d quantity"
    and pr: "xr_decision pr = PLANNED" "xr_plan pr = Some plan" "xp_instructions plan = [i]"
    and i: "i = default_instruction (cycle_risk_context q d) quantity"
  shows "\<exists>cr x f. execution_stage policy rt q s r pr i = Inr cr \<and> cr_outcome cr = CYCLE_EXECUTED \<and>
    cr_paper cr = Some x \<and> tr_fill x = Some f \<and> tf_quantity f = quantity"
proof -
  let ?x = "\<lparr>tq_request_id = cq_request_id q, tq_account_id = cq_account_id q,
       tq_plan_result = pr, tq_account = cq_paper_account q, tq_market_price = cq_market_price q,
       tq_execution_timestamp = cq_execution_timestamp q, tq_metadata = cq_metadata q\<rparr>"
  have request: "make_rt_request \<lparr>tq_request_id = cq_request_id q, tq_account_id = cq_account_id q,
       tq_plan_result = pr, tq_account = cq_paper_account q, tq_market_price = Fin (cq_market_price q),
       tq_execution_timestamp = cq_execution_timestamp q, tq_metadata = cq_metadata q\<rparr> = Inr ?x"
    using q unfolding make_rt_request_def rbind_Inr_iff by (simp add: cycle_request_ok_def del: frozen.simps)
  have i': "instruction_ok i" "in_account_id i = cq_account_id q" "in_symbol i = sd_symbol d" "in_quantity i = quantity"
      "in_side i = (if sd_signal d = SIGNAL_BUY then SIDE_BUY else SIDE_SELL)"
    using q d quantity
    by (simp_all add: i default_instruction_def cycle_risk_context_def cycle_context_def Let_def instruction_ok_def
        cycle_request_ok_def)
  have price: "price_executable i (tq_market_price ?x)"
    by (simp add: i price_executable_def default_instruction_def Let_def cycle_risk_context_def)
  have offered: "proposed_quantity (complete_fill_evaluator ?x i a p tp) = Inr quantity" for a p
    using i'(4) by (simp add: proposed_quantity_def complete_fill_evaluator_def called_def)
  have perm: "fill_permitted tp ?x i quantity" "\<not> cash_after tp ?x i quantity < 0"
    using allows i'(3,4,5) quantity
    by (auto simp: fill_permitted_def cash_after_def fill_price_def account_allows_def covered_def Let_def split: if_splits)
  have ids: "tq_account_id ?x = ta_account_id (tq_account ?x)" "in_account_id i = tq_account_id ?x"
    using q i'(2) by (simp_all add: cycle_request_ok_def)
  obtain x where x: "paper_execute tp complete_fill_evaluator ?x = Inr x" "fill_applied tp ?x i quantity x"
    using paper_execute_cases [of ?x tp plan i complete_fill_evaluator, unfolded Let_def offered]
      a tp ids pr i'(1,4) price perm make_rt_request_ok [OF request]
    by auto
  then obtain f ord where f: "tr_fill x = Some f" "tf_quantity f = quantity" "tf_symbol f = in_symbol i"
      "tr_order x = Some ord" "to_symbol ord = in_symbol i" "to_requested_quantity ord = in_quantity i"
      "tr_request_id x = cq_request_id q" "tr_account_id x = cq_account_id q" "tr_outcome x = RT_EXECUTED"
      "ta_account_id (tr_account x) = ta_account_id (cq_paper_account q)"
    using i'(4) by (auto simp: fill_applied_def transition_effect_def fill_ok_def Let_def)
  have acc: "ta_account_id (tr_account x) = cq_account_id q" using f(10) q by (simp add: cycle_request_ok_def)
  have v: "validate_paper q i x = Inr ()"
    using f acc i'(4) by (simp add: validate_paper_def rbind_Inr_iff)
  have "\<exists>cr. cycle_result_of policy q CYCLE_EXECUTED (Some s) (Some r) (Some pr) (Some x) (tr_account x)
       [(''strategy'', True, ''actionable strategy''), (''risk'', True, ''risk approved''),
        (''planning'', True, ''instruction planned''),
        (''paper_execution'', True, ''paper execution completed'')] = Inr cr"
    using q og acc unfolding cycle_result_of_def make_cycle_result_def Let_def
    by (simp add: make_cycle_criterion_def cycle_texts text_field_ok cycle_request_ok_def invalid_cycle_def)
  then obtain cr where cr: "cycle_result_of policy q CYCLE_EXECUTED (Some s) (Some r) (Some pr) (Some x) (tr_account x)
       [(''strategy'', True, ''actionable strategy''), (''risk'', True, ''risk approved''),
        (''planning'', True, ''instruction planned''),
        (''paper_execution'', True, ''paper execution completed'')] = Inr cr" by blast
  have "execution_stage policy rt q s r pr i = Inr cr"
    unfolding execution_stage_def Let_def request rbind.simps rt using cr
    by (simp add: x(1) answer_of_def call_stage_def called_def v f(9))
  with cycle_result_of_Inr [OF cr] f(1,2) show ?thesis by auto
qed

lemma make_signal_decision_ok:
  "make_signal_decision raw = Inr d \<Longrightarrow> nonempty_stripped (sd_symbol d) \<and> upper (sd_symbol d) = sd_symbol d"
  unfolding make_signal_decision_def rbind_Inr_iff by (auto simp del: frozen.simps)

lemma strategy_evaluate_decides:
  assumes "sp_enabled sp" and "nonempty_stripped (sp_version sp)" and "nonempty_stripped (sx_context_id c)"
    and "strategy c = Answer [d]"
  shows "\<exists>s. strategy_evaluate sp strategy c = Inr s \<and> sr_context_id s = sx_context_id c \<and> sr_evaluated s \<and>
    sr_decisions s = [d]"
  using assms by (simp add: strategy_evaluate_def called_def make_strategy_result_def text_field_ok)

lemma planning_stage_fills:
  assumes q: "cycle_request_ok q" and a: "rt_account_ok (cq_paper_account q)" and tp: "rt_policy_ok tp" "ty_enabled tp"
    and og: "nonempty_stripped (og_version og)" and pp: "xy_enabled pp" "nonempty_stripped (xy_version pp)"
    and d: "nonempty_stripped (sd_symbol d)" "upper (sd_symbol d) = sd_symbol d" "sd_signal d \<noteq> SIGNAL_HOLD"
    and allows: "account_allows tp q d (rr_approved_quantity r)"
    and r: "rr_context_id r = cq_request_id q" "rr_strategy_decision r = d" "0 < rr_approved_quantity r"
      "rr_approved_quantity r \<le> cq_requested_quantity q" "rr_outcome r \<in> {RISK_APPROVED, RISK_MODIFIED}"
  shows "\<exists>cr x f. planning_stage og (program_runtimes sp strategy rp pp tp complete_fill_evaluator) q s d
      (cycle_risk_context q d) r = Inr cr \<and>
    cr_outcome cr = CYCLE_EXECUTED \<and> cr_paper cr = Some x \<and> tr_fill x = Some f \<and>
    tf_quantity f = rr_approved_quantity r"
proof -
  let ?rt = "program_runtimes sp strategy rp pp tp complete_fill_evaluator" and ?c = "cycle_risk_context q d"
  let ?i = "default_instruction ?c (rr_approved_quantity r)"
  have id: "nonempty_stripped (cq_request_id q)" "frozen_mapping (cq_metadata q)"
    using q by (simp_all add: cycle_request_ok_def del: frozen.simps)
  let ?pq = "\<lparr>xq_request_id = cq_request_id q, xq_risk_context = ?c, xq_risk_result = r, xq_metadata = cq_metadata q\<rparr>"
  have pq: "make_plan_request ?pq = Inr ?pq" using id by (simp add: make_plan_request_def rbind_Inr_iff del: frozen.simps)
  let ?plan = "\<lparr>xp_request_id = cq_request_id q, xp_instructions = [?i],
    xp_metadata = [(''deterministic'', JBool True)]\<rparr>"
  have plan: "deterministic_plan ?pq pp = Inr ?plan"
    using deterministic_plan_default [of ?pq pp] d q id(1) r(3)
    by (simp add: cycle_risk_context_def cycle_context_def cycle_request_ok_def)
  have fits: "risk_result_fits ?c r"
    using q r d
    by (auto simp: risk_result_fits_def cycle_risk_context_def cycle_context_def cycle_request_ok_def list_all_iff
        nonempty_stripped_def)
  obtain pr where pr: "planner_runtime pp (\<lambda>q p. answer_of (deterministic_plan q p)) ?pq = Inr pr"
      "xr_request_id pr = cq_request_id q" "xr_decision pr = PLANNED" "xr_plan pr = Some ?plan"
    using planner_runtime_plans [OF pp, of ?pq "\<lambda>q p. answer_of (deterministic_plan q p)" ?plan]
      id(1) fits d(3) r(3,5) plan by (auto simp: cycle_risk_context_def)
  have rt: "rs_paper ?rt = (\<lambda>q. answer_of (paper_execute tp complete_fill_evaluator q))" by (simp add: program_runtimes_def)
  obtain cr x f where cr: "execution_stage og ?rt q s r pr ?i = Inr cr"
      "cr_outcome cr = CYCLE_EXECUTED" "cr_paper cr = Some x" "tr_fill x = Some f" "tf_quantity f = rr_approved_quantity r"
    using execution_stage_fills [where s = s and r = r, OF q a tp og rt d(1,2) r(3) allows pr(3,4) _ refl] by auto
  have "in_account_id ?i = cq_account_id q" "in_symbol ?i = sd_symbol d" "in_quantity ?i = rr_approved_quantity r"
    using q by (simp_all add: default_instruction_def cycle_risk_context_def cycle_context_def cycle_request_ok_def Let_def)
  then have "instruction_stage og ?rt q s d r pr = Inr cr"
    using cr(1) pr(3,4) by (simp add: instruction_stage_def dependency_def)
  then have "planning_stage og ?rt q s d ?c r = Inr cr"
    unfolding planning_stage_def pq rbind.simps using pr
    by (simp add: call_stage_def called_def answer_of_def dependency_def)
  with cr show ?thesis by blast
qed

lemma risk_stage_fills:
  assumes q: "cycle_request_ok q" and a: "rt_account_ok (cq_paper_account q)" and tp: "rt_policy_ok tp" "ty_enabled tp"
    and og: "nonempty_stripped (og_version og)" and pp: "xy_enabled pp" "nonempty_stripped (xy_version pp)"
    and rp: "risk_policy_ok rp" "rp_enabled rp"
    and d: "nonempty_stripped (sd_symbol d)" "upper (sd_symbol d) = sd_symbol d" "sd_signal d \<noteq> SIGNAL_HOLD"
    and approved: "risk_quantity rp (cycle_risk_context q d) = (quantity, outcome)" "0 < quantity"
    and allows: "account_allows tp q d quantity"
  shows "\<exists>cr x f. risk_stage og (program_runtimes sp strategy rp pp tp complete_fill_evaluator) q (cycle_context q) s d = Inr cr \<and>
    cr_outcome cr = CYCLE_EXECUTED \<and> cr_paper cr = Some x \<and> tr_fill x = Some f \<and> tf_quantity f = quantity"
proof -
  let ?rt = "program_runtimes sp strategy rp pp tp complete_fill_evaluator" and ?c = "cycle_risk_context q d"
  have c: "make_risk_context \<lparr>rx_context_id = cq_request_id q, rx_strategy_context = cycle_context q,
        rx_strategy_decision = d, rx_requested_quantity = Fin (cq_requested_quantity q),
        rx_reference_price = Fin (cq_market_price q), rx_metadata = cq_metadata q\<rparr> = Inr ?c"
    using q d(3) unfolding make_risk_context_def Let_def rbind_Inr_iff cycle_risk_context_def
    by (simp add: cycle_request_ok_def check_Inr del: frozen.simps)
  have c_ok: "risk_context_ok ?c" using make_risk_context_Inr [OF c] by simp
  obtain r where r: "deterministic_risk ?c rp = Inr r" "rr_context_id r = cq_request_id q"
      "rr_strategy_decision r = d" "rr_requested_quantity r = cq_requested_quantity q"
      "rr_approved_quantity r = quantity" "rr_outcome r = outcome"
    using deterministic_risk_total [OF c_ok rp(1)] approved(1) by (auto simp: cycle_risk_context_def)
  have bounds: "quantity \<le> cq_requested_quantity q" "outcome \<noteq> RISK_REJECTED"
    using risk_quantity_bounds [OF c_ok rp(1) approved(1)] approved(2) by (auto simp: cycle_risk_context_def)
  then have outcome: "rr_outcome r \<in> {RISK_APPROVED, RISK_MODIFIED}" using r(6) by (cases outcome) auto
  have run_r: "risk_runtime rp (\<lambda>c p. answer_of (deterministic_risk c p)) ?c = Inr r"
    using rp(2) r by (simp add: risk_runtime_def answer_of_def called_def Let_def cycle_risk_context_def)
  have vr: "validate_risk q ?c r = Inr ()"
    using r bounds by (simp add: validate_risk_def rbind_Inr_iff cycle_risk_context_def)
  have "risk_stage og ?rt q (cycle_context q) s d = planning_stage og ?rt q s d ?c r"
    unfolding risk_stage_def c rbind.simps using run_r vr outcome
    by (auto simp: call_stage_def called_def answer_of_def)
  then show ?thesis
    using planning_stage_fills [where s = s and r = r and sp = sp and strategy = strategy and rp = rp,
        OF q a tp og pp d] allows r bounds outcome approved(2) by simp
qed

lemma exit_needs_position:
  assumes "risk_quantity rp (cycle_risk_context q d) = (quantity, outcome)" and "0 < quantity"
    and "sd_signal d = SIGNAL_EXIT" and "cycle_request_ok q"
  shows "position_of (sd_symbol d) (pn_positions (cq_portfolio q)) \<noteq> None"
proof
  assume none: "position_of (sd_symbol d) (pn_positions (cq_portfolio q)) = None"
  have "foldl min (cq_requested_quantity q) (capacities rp (cycle_risk_context q d)) \<le> 0"
    using none assms(3) by (intro foldl_min_le) (simp add: capacities_def cycle_risk_context_def cycle_context_def Let_def)
  with assms(1-3) show False
    by (auto simp: risk_quantity_def cycle_risk_context_def Let_def split: if_splits)
qed

lemma permitted_cycle:
  assumes policies: "make_risk_policy raw_rp = Inr rp" "make_rt_policy raw_tp = Inr tp"
      "make_strategy_policy raw_sp = Inr sp" "make_planner_policy raw_pp = Inr pp"
      "make_orchestrator_policy raw_og = Inr og"
    and enabled: "rp_enabled rp" "ty_enabled tp" "sp_enabled sp" "xy_enabled pp" "og_enabled og"
    and made: "make_cycle_request raw = Inr q" "make_signal_decision raw_d = Inr d"
    and account: "rt_account_ok (cq_paper_account q)"
    and config: "map_of (cq_metadata q) ''strategy_configuration'' = None"
    and decides: "strategy (cycle_context q) = Answer [d]" "sd_signal d \<noteq> SIGNAL_HOLD"
    and approved: "risk_quantity rp (cycle_risk_context q d) = (quantity, outcome)" "0 < quantity"
    and allows: "account_allows tp q d quantity"
  shows "\<exists>cr x f. orchestrate og (program_runtimes sp strategy rp pp tp complete_fill_evaluator) q = Inr cr \<and>
    cr_outcome cr = CYCLE_EXECUTED \<and> cr_paper cr = Some x \<and> tr_fill x = Some f \<and> tf_quantity f = quantity"
proof -
  let ?rt = "program_runtimes sp strategy rp pp tp complete_fill_evaluator"
  have rp: "risk_policy_ok rp" and tp: "rt_policy_ok tp" and q: "cycle_request_ok q"
    and d: "nonempty_stripped (sd_symbol d)" "upper (sd_symbol d) = sd_symbol d"
    using policies made by (auto dest: make_risk_policy_ok make_rt_policy_ok make_cycle_request_ok make_signal_decision_ok)
  have versions: "nonempty_stripped (sp_version sp)" "nonempty_stripped (xy_version pp)" "nonempty_stripped (og_version og)"
    using policies(3-5) unfolding make_strategy_policy_def make_planner_policy_def make_orchestrator_policy_def rbind_Inr_iff
    by (auto simp del: frozen.simps)
  have id: "nonempty_stripped (cq_request_id q)" "frozen_mapping (cq_metadata q)"
    using q by (simp_all add: cycle_request_ok_def del: frozen.simps)
  obtain s where s: "strategy_evaluate sp strategy (cycle_context q) = Inr s" "sr_context_id s = cq_request_id q"
      "sr_evaluated s" "sr_decisions s = [d]"
    using strategy_evaluate_decides [of sp "cycle_context q" strategy d] enabled(3) versions(1) decides(1) id(1)
    by (auto simp: cycle_context_def)
  obtain cr x f where cr: "risk_stage og ?rt q (cycle_context q) s d = Inr cr" "cr_outcome cr = CYCLE_EXECUTED"
      "cr_paper cr = Some x" "tr_fill x = Some f" "tf_quantity f = quantity"
    using risk_stage_fills [where s = s and sp = sp and strategy = strategy, OF q account tp enabled(2) versions(3)
      enabled(4) versions(2) rp enabled(1) d decides(2) approved allows] by blast
  have "decision_stage og ?rt q (cycle_context q) s = Inr cr"
    using cr(1) s(3,4) decides(2) exit_needs_position [OF approved _ q] by (auto simp: decision_stage_def Let_def)
  moreover have "make_strategy_context (cycle_context q) = Inr (cycle_context q)"
    using id by (simp add: make_strategy_context_def cycle_context_def rbind_Inr_iff del: frozen.simps)
  ultimately have "orchestrate og ?rt q = Inr cr"
    using enabled(5) config s(1,2)
    by (simp add: orchestrate_def strategy_configuration_def cycle_context_def call_stage_def called_def answer_of_def
        dependency_def)
  with cr show ?thesis by blast
qed

subsection \<open>A concrete cycle: two shares are to be sold, one is held\<close>

definition ex_cycle_request :: "'n \<Rightarrow> 'n \<Rightarrow> 'n cycle_request" where
  "ex_cycle_request price quantity = \<lparr>cq_request_id = ''R'', cq_account_id = ''acct'', cq_portfolio = ex_snapshot,
     cq_paper_account = ex_paper_account, cq_market_price = price, cq_execution_timestamp = Aware 0 0,
     cq_requested_quantity = quantity, cq_metadata = []\<rparr>"

definition ex_decision :: "'n \<Rightarrow> 'n signal_decision" where
  "ex_decision confidence = \<lparr>sd_symbol = ''ABC'', sd_signal = SIGNAL_SELL, sd_confidence = confidence,
     sd_reasons = [''R''], sd_metadata = []\<rparr>"

definition ex_fees :: "'n \<Rightarrow> 'n \<Rightarrow> 'n rt_policy" where
  "ex_fees fee zero = \<lparr>ty_version = ''1'', ty_enabled = True, ty_allow_partial_fills = False,
     ty_commission_per_order = fee, ty_commission_per_share = zero, ty_slippage_basis_points = zero,
     ty_reject_insufficient_cash = True, ty_reject_oversell = True, ty_strict_validation = True,
     ty_metadata = []\<rparr>"

abbreviation "ex_sp \<equiv> \<lparr>sp_version = ''1'', sp_enabled = True, sp_strict_validation = True, sp_metadata = []\<rparr>"
abbreviation "ex_pp \<equiv> \<lparr>xy_version = ''1'', xy_enabled = True, xy_strict_validation = True, xy_metadata = []\<rparr>"
abbreviation "ex_og \<equiv> \<lparr>og_version = ''1'', og_enabled = True, og_strict_validation = True, og_metadata = []\<rparr>"
abbreviation "ex_strategy \<equiv> (\<lambda>_ :: strategy_context. Answer [ex_decision (1 :: rat)])"

lemma ex_cycle_made:
  "make_rt_policy (ex_fees (Fin 1) (Fin 0)) = Inr (ex_fees 1 0)"
  "make_strategy_policy ex_sp = Inr ex_sp" "make_planner_policy ex_pp = Inr ex_pp"
  "make_orchestrator_policy ex_og = Inr ex_og"
  "make_cycle_request (ex_cycle_request (Fin 1) (Fin 2)) = Inr (ex_cycle_request 1 2)"
  "make_signal_decision (ex_decision (Fin 1)) = Inr (ex_decision 1)"
  "rt_account_ok (cq_paper_account (ex_cycle_request (1 :: rat) 2))"
  using ex_paper_sound(1)
  unfolding make_rt_policy_def make_strategy_policy_def make_planner_policy_def make_orchestrator_policy_def
    make_cycle_request_def make_signal_decision_def Let_def rbind_Inr_iff
  by (simp_all add: ex_fees_def ex_cycle_request_def ex_decision_def ex_texts ex_snapshot_def ex_paper_account_def
      ex_paper_request_def check_Inr)

lemma ex_cycle_gates:
  "risk_quantity (ex_risk_policy 1 9) (cycle_risk_context (ex_cycle_request 1 2) (ex_decision 1)) = (1, RISK_MODIFIED)"
  "account_allows (ex_fees 1 0) (ex_cycle_request 1 2) (ex_decision 1) 1"
proof -
  show "risk_quantity (ex_risk_policy 1 9) (cycle_risk_context (ex_cycle_request 1 2) (ex_decision 1)) = (1, RISK_MODIFIED)"
    by (simp add: risk_quantity_def capacities_def Let_def cycle_risk_context_def cycle_context_def ex_cycle_request_def
        ex_decision_def ex_snapshot_def position_of_def ex_risk_policy_def dec_defs)
  show "account_allows (ex_fees 1 0) (ex_cycle_request 1 2) (ex_decision 1) 1"
    by (simp add: account_allows_def Let_def ex_cycle_request_def ex_decision_def ex_fees_def fill_fees_def
        rt_execution_price_def ex_paper_account_def rt_position_of_def ex_share_def dec_defs)
qed

lemma ex_cycle_flags:
  "rp_enabled (ex_risk_policy (1 :: rat) 9)" "ty_enabled (ex_fees (1 :: rat) 0)"
  "map_of (cq_metadata (ex_cycle_request (1 :: rat) 2)) ''strategy_configuration'' = None"
  "sd_signal (ex_decision (1 :: rat)) \<noteq> SIGNAL_HOLD"
  by (simp_all add: ex_risk_policy_def ex_fees_def ex_cycle_request_def ex_decision_def)

lemmas ex_cycle = permitted_cycle [OF ex_risk_made(2) ex_cycle_made(1-4) ex_cycle_flags(1,2) _ _ _ ex_cycle_made(5-7)
    ex_cycle_flags(3) _ ex_cycle_flags(4) ex_cycle_gates(1) _ ex_cycle_gates(2), of ex_strategy, simplified]

text \<open>
  C2: A cycle that every gate permits executes.  With every runtime enabled, validated
  policies and request, a sound account, a strategy that answers with one decision other than
  HOLD, no strategy configuration and the complete fill evaluator: if the risk limits leave a
  positive quantity and the paper account allows its fill, the cycle returns EXECUTED with a
  fill of exactly that quantity.
\<close>

theorem permitted_cycle_executes:
  assumes policies: "make_risk_policy raw_rp = Inr rp" "make_rt_policy raw_tp = Inr tp"
      "make_strategy_policy raw_sp = Inr sp" "make_planner_policy raw_pp = Inr pp"
      "make_orchestrator_policy raw_og = Inr og"
    and enabled: "rp_enabled rp" "ty_enabled tp" "sp_enabled sp" "xy_enabled pp" "og_enabled og"
    and made: "make_cycle_request raw = Inr q" "make_signal_decision raw_d = Inr d"
    and account: "rt_account_ok (cq_paper_account q)"
    and config: "map_of (cq_metadata q) ''strategy_configuration'' = None"
    and decides: "strategy (cycle_context q) = Answer [d]" "sd_signal d \<noteq> SIGNAL_HOLD"
    and approved: "risk_quantity rp (cycle_risk_context q d) = (quantity, outcome)" "0 < quantity"
    and allows: "account_allows tp q d quantity"
  shows "\<exists>cr x f. orchestrate og (program_runtimes sp strategy rp pp tp complete_fill_evaluator) q = Inr cr \<and>
    cr_outcome cr = CYCLE_EXECUTED \<and> cr_paper cr = Some x \<and> tr_fill x = Some f \<and> tf_quantity f = quantity"
  using assms by (rule permitted_cycle)

theorem permitted_cycle_executes_witness:
  "\<exists>cr x f. orchestrate ex_og (program_runtimes ex_sp ex_strategy (ex_risk_policy 1 9) ex_pp (ex_fees 1 0)
      complete_fill_evaluator) (ex_cycle_request 1 2) = Inr cr \<and>
    cr_outcome cr = CYCLE_EXECUTED \<and> cr_paper cr = Some x \<and> tr_fill x = Some f \<and> tf_quantity f = 1"
  by (rule permitted_cycle_executes [OF ex_risk_made(2) ex_cycle_made(1-4) ex_cycle_flags(1,2) _ _ _ ex_cycle_made(5-7)
    ex_cycle_flags(3) _ ex_cycle_flags(4) ex_cycle_gates(1) _ ex_cycle_gates(2)]) simp_all

text \<open>The fill of a cycle, with the decision and the approval it comes from.\<close>

lemma cycle_fill:
  assumes rp: "risk_policy_ok rp" and tp: "rt_policy_ok tp" and q: "cycle_request_ok q"
    and account: "rt_account_ok (cq_paper_account q)"
    and run: "orchestrate policy (program_runtimes sp strategy rp pp tp fills) q = Inr cr"
    and x: "cr_paper cr = Some x" and fill: "tr_fill x = Some f"
  shows "\<exists>s d c. cr_strategy cr = Some s \<and> sr_decisions s = [d] \<and> sd_signal d \<noteq> SIGNAL_HOLD \<and>
    sx_portfolio (rx_strategy_context c) = cq_portfolio q \<and> rx_strategy_decision c = d \<and>
    rx_reference_price c = cq_market_price q \<and> (\<forall>y\<in>set (capacities rp c). tf_quantity f \<le> y) \<and>
    0 < tf_quantity f \<and> tf_quantity f \<le> cq_requested_quantity q \<and> tf_symbol f = sd_symbol d \<and>
    (tf_side f = SIDE_BUY \<longleftrightarrow> sd_signal d = SIGNAL_BUY) \<and>
    (sd_signal d \<noteq> SIGNAL_BUY \<longrightarrow>
      (\<exists>p. rt_position_of (sd_symbol d) (ta_positions (cq_paper_account q)) = Some p \<and> tf_quantity f \<le> tp_quantity p)) \<and>
    rt_account_ok (cr_account cr) \<and> ta_fills (cr_account cr) = ta_fills (cq_paper_account q) @ [f]"
proof -
  from program_chain [OF run x] obtain s d c r plan i request where
    s: "cr_strategy cr = Some s" "sr_decisions s = [d]"
    and r: "cr_risk cr = Some r" "rr_approved_quantity r \<le> cq_requested_quantity q" "0 < rr_approved_quantity r"
    and c: "sx_portfolio (rx_strategy_context c) = cq_portfolio q" "rx_strategy_decision c = d"
      "rx_reference_price c = cq_market_price q" "risk_context_ok c"
      "(rr_approved_quantity r, rr_outcome r) = risk_quantity rp c"
    and i: "instruction_ok i" "in_account_id i = cq_account_id q" "in_symbol i = sd_symbol d"
      "in_side i = (if sd_signal d = SIGNAL_BUY then SIDE_BUY else SIDE_SELL)"
      "in_quantity i = rr_approved_quantity r"
    and request: "rt_request_ok request" "tq_account_id request = cq_account_id q"
      "tq_account request = cq_paper_account q" "xr_decision (tq_plan_result request) = PLANNED"
      "xr_plan (tq_plan_result request) = Some plan" "xp_instructions plan = [i]"
    and result: "paper_execute tp fills request = Inr x" "cr_account cr = tr_account x"
    by blast
  have en: "ty_enabled tp"
    using result(1) fill by (auto simp: paper_execute_def Let_def dest!: rt_result_of_Inr split: if_splits)
  have "fill_applied tp request i (tf_quantity f) x \<and> fill_permitted tp request i (tf_quantity f)"
    using paper_execute_cases [of request tp plan i fills, unfolded Let_def] account fill q i(1,2) request tp en result(1)
    by (auto simp: rejected_unchanged_def fill_applied_def cycle_request_ok_def split: if_splits sum.splits)
  then have f: "fill_ok i f" "transition_effect (cq_paper_account q) i f (the (tr_order x)) (tr_account x)"
      "rt_account_ok (tr_account x)" "covered i (rt_position_of (in_symbol i) (ta_positions (cq_paper_account q))) (tf_quantity f)"
    using fill request(3) by (auto simp: fill_applied_def fill_permitted_def)
  have caps: "\<forall>y\<in>set (capacities rp c). tf_quantity f \<le> y"
    using risk_quantity_bounds [OF c(4) rp c(5) [symmetric]] r(3) f(1) i(5) unfolding fill_ok_def by fastforce
  have hold: "sd_signal d \<noteq> SIGNAL_HOLD" using c(2,5) r(3) by (auto simp: risk_quantity_def)
  have f': "0 < tf_quantity f" "tf_quantity f \<le> cq_requested_quantity q" "tf_symbol f = sd_symbol d"
      "tf_side f = SIDE_BUY \<longleftrightarrow> sd_signal d = SIGNAL_BUY" "ta_fills (tr_account x) = ta_fills (cq_paper_account q) @ [f]"
    using f(1,2) i r(2) by (auto simp: fill_ok_def transition_effect_def Let_def split: if_splits)
  have "sd_signal d \<noteq> SIGNAL_BUY \<longrightarrow> (\<exists>p. rt_position_of (sd_symbol d) (ta_positions (cq_paper_account q)) = Some p \<and>
      tf_quantity f \<le> tp_quantity p)"
    using f(4) i(3,4) by (simp add: covered_def)
  with s c caps hold f' f(3) result(2) show ?thesis by metis
qed

text \<open>The capacities as the limits of a purchase and of a sale.\<close>

lemma capacities_limit:
  assumes caps: "\<forall>y\<in>set (capacities rp c). z \<le> y" and z: "0 < z"
    and c: "sx_portfolio (rx_strategy_context c) = pn" "rx_strategy_decision c = d" "rx_reference_price c = price"
    and hold: "sd_signal d \<noteq> SIGNAL_HOLD"
  shows "z \<le> rp_max_order_quantity rp \<and>
    (let held = position_of (sd_symbol d) (pn_positions pn) in
     if sd_signal d = SIGNAL_BUY
     then z \<le> ddiv (dsub (rp_max_position_value rp)
            (case held of None \<Rightarrow> 0 | Some h \<Rightarrow> dabs (hp_market_value h))) price \<and>
       z \<le> ddiv (dsub (rp_max_portfolio_exposure rp)
            (dsum (map (\<lambda>h. dabs (hp_market_value h)) (pn_positions pn)))) price \<and>
       z \<le> ddiv (dsub (pn_cash pn) (rp_minimum_cash_reserve rp)) price
     else (\<exists>h. held = Some h \<and> z \<le> dabs (hp_quantity h)))"
proof (cases "sd_signal d = SIGNAL_BUY")
  case True
  have room: "x \<le> max 0 y \<Longrightarrow> 0 < x \<Longrightarrow> x \<le> y" for x y :: rat
    by (simp add: max_def split: if_splits)
  from True caps show ?thesis by (auto simp: capacities_def Let_def c intro: room [OF _ z])
next
  case False
  with hold have "sd_signal d = SIGNAL_SELL \<or> sd_signal d = SIGNAL_EXIT" by (cases "sd_signal d") auto
  with caps False z show ?thesis by (auto simp: capacities_def Let_def c split: option.splits)
qed

text \<open>
  C1: A fill of the trading cycle stays within every limit.  With the program's runtimes around
  any strategy and any fill evaluator, validated policies and a sound paper account: if a cycle
  returns a fill, it is for the symbol and the direction of the strategy's one decision; its
  quantity is positive and at most the requested quantity, the largest order size and, for a
  purchase, the room that the position limit, the exposure limit and the cash reserve leave at
  the market price, for a sale the holding in the portfolio and in the paper account; and the
  account it leaves is sound with just this fill appended.
\<close>

theorem cycle_fill_within_limits:
  assumes "make_risk_policy raw_rp = Inr rp" and "make_rt_policy raw_tp = Inr tp"
    and "make_cycle_request raw = Inr q" and "rt_account_ok (cq_paper_account q)"
    and "orchestrate policy (program_runtimes sp strategy rp pp tp fills) q = Inr cr"
    and "cr_paper cr = Some x" and "tr_fill x = Some f"
  shows "\<exists>s d. cr_strategy cr = Some s \<and> sr_decisions s = [d] \<and> tf_symbol f = sd_symbol d \<and>
    (tf_side f = SIDE_BUY \<longleftrightarrow> sd_signal d = SIGNAL_BUY) \<and>
    0 < tf_quantity f \<and> tf_quantity f \<le> cq_requested_quantity q \<and>
    tf_quantity f \<le> rp_max_order_quantity rp \<and>
    (let pn = cq_portfolio q; price = cq_market_price q; held = position_of (sd_symbol d) (pn_positions pn) in
     if sd_signal d = SIGNAL_BUY
     then tf_quantity f \<le> ddiv (dsub (rp_max_position_value rp)
            (case held of None \<Rightarrow> 0 | Some h \<Rightarrow> dabs (hp_market_value h))) price \<and>
       tf_quantity f \<le> ddiv (dsub (rp_max_portfolio_exposure rp)
            (dsum (map (\<lambda>h. dabs (hp_market_value h)) (pn_positions pn)))) price \<and>
       tf_quantity f \<le> ddiv (dsub (pn_cash pn) (rp_minimum_cash_reserve rp)) price
     else (\<exists>h p. held = Some h \<and> tf_quantity f \<le> dabs (hp_quantity h) \<and>
       rt_position_of (sd_symbol d) (ta_positions (cq_paper_account q)) = Some p \<and>
       tf_quantity f \<le> tp_quantity p)) \<and>
    rt_account_ok (cr_account cr) \<and> ta_fills (cr_account cr) = ta_fills (cq_paper_account q) @ [f]"
proof -
  have "risk_policy_ok rp" "rt_policy_ok tp" "cycle_request_ok q"
    using assms(1-3) by (auto dest: make_risk_policy_ok make_rt_policy_ok make_cycle_request_ok)
  from cycle_fill [OF this assms(4-7)] obtain s d c where s: "cr_strategy cr = Some s" "sr_decisions s = [d]"
    and c: "\<forall>y\<in>set (capacities rp c). tf_quantity f \<le> y" "0 < tf_quantity f"
      "sx_portfolio (rx_strategy_context c) = cq_portfolio q" "rx_strategy_decision c = d"
      "rx_reference_price c = cq_market_price q" "sd_signal d \<noteq> SIGNAL_HOLD"
    and rest: "tf_quantity f \<le> cq_requested_quantity q" "tf_symbol f = sd_symbol d"
      "tf_side f = SIDE_BUY \<longleftrightarrow> sd_signal d = SIGNAL_BUY"
      "sd_signal d \<noteq> SIGNAL_BUY \<longrightarrow>
        (\<exists>p. rt_position_of (sd_symbol d) (ta_positions (cq_paper_account q)) = Some p \<and> tf_quantity f \<le> tp_quantity p)"
      "rt_account_ok (cr_account cr)" "ta_fills (cr_account cr) = ta_fills (cq_paper_account q) @ [f]"
    by blast
  show ?thesis
    using s c(2) rest capacities_limit [OF c] unfolding Let_def
    by (intro exI [of _ s] exI [of _ d]) (simp split: if_split)
qed

theorem cycle_fill_within_limits_witness:
  "\<exists>cr x f. orchestrate ex_og (program_runtimes ex_sp ex_strategy (ex_risk_policy 1 9) ex_pp (ex_fees 1 0)
      complete_fill_evaluator) (ex_cycle_request 1 2) = Inr cr \<and> cr_paper cr = Some x \<and> tr_fill x = Some f \<and>
    tf_quantity f \<le> rp_max_order_quantity (ex_risk_policy 1 9) \<and> rt_account_ok (cr_account cr)"
proof -
  obtain cr x f where "orchestrate ex_og (program_runtimes ex_sp ex_strategy (ex_risk_policy 1 9) ex_pp
      (ex_fees 1 0) complete_fill_evaluator) (ex_cycle_request 1 2) = Inr cr"
      "cr_paper cr = Some x" "tr_fill x = Some f" using ex_cycle by auto
  with cycle_fill_within_limits [OF ex_risk_made(2) ex_cycle_made(1,5,7) this] show ?thesis by blast
qed

text \<open>
  C3: Whatever the injected runtimes answer, a trading cycle that returns has checked them: its
  result is for the request and its account; unless the paper runtime was reached the account
  is the request's; and an execution is reported only after one evaluated decision other than
  HOLD, a risk result for that decision that is not a rejection and approves at most the
  requested quantity, and a plan of one instruction for the account and the decision's symbol
  with exactly the approved quantity, and its fill is of that symbol and within that quantity.
\<close>

theorem trading_cycle_checks_its_stages:
  assumes "orchestrate policy rt q = Inr cr"
  shows "cr_request_id cr = cq_request_id q \<and> cr_account_id cr = cq_account_id q \<and>
    ta_account_id (cr_account cr) = cq_account_id q \<and>
    (cr_paper cr = None \<longrightarrow> cr_account cr = cq_paper_account q) \<and>
    (cr_outcome cr \<in> {CYCLE_EXECUTED, CYCLE_PARTIALLY_EXECUTED} \<longrightarrow>
      (\<exists>s d r pr plan i x. cr_strategy cr = Some s \<and> sr_evaluated s \<and> sr_decisions s = [d] \<and>
        sd_signal d \<noteq> SIGNAL_HOLD \<and>
        cr_risk cr = Some r \<and> rr_strategy_decision r = d \<and> rr_outcome r \<noteq> RISK_REJECTED \<and>
        rr_approved_quantity r \<le> cq_requested_quantity q \<and>
        cr_plan cr = Some pr \<and> xr_plan pr = Some plan \<and> xp_instructions plan = [i] \<and>
        in_account_id i = cq_account_id q \<and> in_symbol i = sd_symbol d \<and>
        in_quantity i = rr_approved_quantity r \<and>
        cr_paper cr = Some x \<and> cr_account cr = tr_account x \<and>
        (\<forall>f. tr_fill x = Some f \<longrightarrow> tf_symbol f = sd_symbol d \<and> tf_quantity f \<le> rr_approved_quantity r)))"
proof -
  note c = orchestrate_chain [OF assms]
  have "cr_paper cr = None \<longrightarrow> cr_account cr = cq_paper_account q" using c by auto
  moreover have "cr_outcome cr \<in> {CYCLE_EXECUTED, CYCLE_PARTIALLY_EXECUTED} \<longrightarrow>
      (\<exists>s d r pr i x. cr_strategy cr = Some s \<and> sr_evaluated s \<and> sr_decisions s = [d] \<and>
      cr_risk cr = Some r \<and> cr_plan cr = Some pr \<and> cr_paper cr = Some x \<and> cr_account cr = tr_account x \<and>
      chain q d r pr i x)"
    using c by auto
  ultimately show ?thesis
    using orchestrate_identity [OF assms] unfolding chain_def for_request_def by blast
qed

theorem trading_cycle_checks_its_stages_witness:
  "\<exists>cr d r i. orchestrate ex_og (program_runtimes ex_sp ex_strategy (ex_risk_policy 1 9) ex_pp (ex_fees 1 0)
      complete_fill_evaluator) (ex_cycle_request 1 2) = Inr cr \<and> cr_risk cr = Some r \<and>
    rr_strategy_decision r = d \<and> in_symbol (i :: rat instruction) = sd_symbol d \<and> in_quantity i = rr_approved_quantity r"
proof -
  obtain cr where cr: "orchestrate ex_og (program_runtimes ex_sp ex_strategy (ex_risk_policy 1 9) ex_pp
      (ex_fees 1 0) complete_fill_evaluator) (ex_cycle_request 1 2) = Inr cr"
      "cr_outcome cr = CYCLE_EXECUTED" using ex_cycle by auto
  with trading_cycle_checks_its_stages [OF cr(1)] show ?thesis by blast
qed

end
