(* ===== verification/Committee_Models.thy ===== *)
theory Committee_Models
  imports Runtime_Values
begin

text \<open>
  The votes and the opinion of the committee (app/committee/models.py).  Their numbers are
  floats; nothing is computed with them here, so a float is the exact value of its shortest
  text (what \<open>Decimal(str(x))\<close> gives), or NaN or an infinity before it is checked.
\<close>

subsection \<open>Checks\<close>

fun to_utc :: "datetime \<Rightarrow> datetime" where
  "to_utc (Naive l) = Naive l"
| "to_utc (Aware l z) = Aware (l - z) 0"

definition aware_utc :: "datetime \<Rightarrow> datetime res" where
  "aware_utc t = rbind (demand (tz_aware t) ''timestamp must be timezone-aware'') (\<lambda>_. Inr (to_utc t))"

definition required_stripped :: "string \<Rightarrow> string \<Rightarrow> string res" where
  "required_stripped name v =
     rbind (demand (strip v \<noteq> []) (name @ '' must be a nonempty string'')) (\<lambda>_. Inr (strip v))"

definition uppercase_symbol :: "string \<Rightarrow> string res" where
  "uppercase_symbol v =
     rbind (demand (strip v \<noteq> []) ''symbol must be a nonempty uppercase string'') (\<lambda>_.
     rbind (demand (strip v = upper (strip v)) ''symbol must be uppercase'') (\<lambda>_. Inr (strip v)))"

definition bounded_number :: "string \<Rightarrow> dec \<Rightarrow> int \<Rightarrow> int \<Rightarrow> rat res" where
  "bounded_number name d low high =
     rbind (demand (is_finite d) (name @ '' must be finite'')) (\<lambda>_.
     rbind (demand (of_int low \<le> fin d \<and> fin d \<le> of_int high)
       (name @ '' must be between '' @ int_text low @ '' and '' @ int_text high)) (\<lambda>_. Inr (fin d)))"

definition string_tuple :: "string \<Rightarrow> string list \<Rightarrow> string list res" where
  "string_tuple name vs =
     rbind (demand (list_all (\<lambda>v. strip v \<noteq> []) vs) (name @ '' must contain nonempty strings'')) (\<lambda>_.
     Inr (map strip vs))"

definition nonempty_strings :: "string \<Rightarrow> string list \<Rightarrow> string list res" where
  "nonempty_strings name vs =
     rbind (string_tuple name vs) (\<lambda>ws. rbind (demand (ws \<noteq> []) (name @ '' must not be empty'')) (\<lambda>_. Inr ws))"

lemma committee_checks [simp]:
  "aware_utc t = Inr t' \<longleftrightarrow> tz_aware t \<and> t' = to_utc t"
  "required_stripped name v = Inr w \<longleftrightarrow> strip v \<noteq> [] \<and> w = strip v"
  "uppercase_symbol v = Inr w \<longleftrightarrow> strip v \<noteq> [] \<and> upper (strip v) = strip v \<and> w = strip v"
  "bounded_number name d a b = Inr x \<longleftrightarrow> d = Fin x \<and> of_int a \<le> x \<and> x \<le> of_int b"
  "string_tuple name vs = Inr ws \<longleftrightarrow> (\<forall>v\<in>set vs. strip v \<noteq> []) \<and> ws = map strip vs"
  "nonempty_strings name vs = Inr ws \<longleftrightarrow> (\<forall>v\<in>set vs. strip v \<noteq> []) \<and> ws = map strip vs \<and> vs \<noteq> []"
  by (cases d; auto simp: aware_utc_def required_stripped_def uppercase_symbol_def bounded_number_def
      string_tuple_def nonempty_strings_def demand_def list_all_iff res_simps split: if_splits)+

lemma tz_aware_to_utc [simp]: "tz_aware (to_utc t) = tz_aware t"
  by (cases t) auto

lemma instant_to_utc [simp]: "instant (to_utc t) = instant t"
  by (cases t) auto

subsection \<open>Votes\<close>

datatype opinion_action = OPINION_BULLISH | OPINION_BEARISH | OPINION_NEUTRAL
datatype committee_action = COMMITTEE_BULLISH | COMMITTEE_BEARISH | COMMITTEE_NEUTRAL

fun committee_action_value :: "committee_action \<Rightarrow> string" where
  "committee_action_value COMMITTEE_BULLISH = ''BULLISH''"
| "committee_action_value COMMITTEE_BEARISH = ''BEARISH''"
| "committee_action_value COMMITTEE_NEUTRAL = ''NEUTRAL''"

record 'n agent_opinion =
  ao_agent_name :: string
  ao_symbol :: string
  ao_timestamp :: datetime
  ao_action :: opinion_action
  ao_confidence :: 'n
  ao_score :: 'n
  ao_reasons :: "string list"
  ao_evidence_ids :: "string list"
  ao_metadata :: metadata

definition make_agent_opinion :: "dec agent_opinion \<Rightarrow> rat agent_opinion res" where
  "make_agent_opinion a =
     rbind (required_stripped ''agent_name'' (ao_agent_name a)) (\<lambda>agent.
     rbind (uppercase_symbol (ao_symbol a)) (\<lambda>symbol.
     rbind (aware_utc (ao_timestamp a)) (\<lambda>timestamp.
     rbind (bounded_number ''confidence'' (ao_confidence a) 0 1) (\<lambda>confidence.
     rbind (bounded_number ''score'' (ao_score a) (-1) 1) (\<lambda>score.
     rbind (demand (ao_action a = OPINION_BULLISH \<longrightarrow> 0 \<le> score)
       ''BULLISH opinions cannot have a negative score'') (\<lambda>_.
     rbind (demand (ao_action a = OPINION_BEARISH \<longrightarrow> score \<le> 0)
       ''BEARISH opinions cannot have a positive score'') (\<lambda>_.
     rbind (nonempty_strings ''reasons'' (ao_reasons a)) (\<lambda>reasons.
     rbind (string_tuple ''evidence_ids'' (ao_evidence_ids a)) (\<lambda>ids.
     rbind (demand (distinct ids) ''evidence_ids must be unique'') (\<lambda>_.
     rbind (freeze_json_mapping ''metadata'' (ao_metadata a)) (\<lambda>m.
     Inr \<lparr>ao_agent_name = agent, ao_symbol = symbol, ao_timestamp = timestamp, ao_action = ao_action a,
       ao_confidence = confidence, ao_score = score, ao_reasons = reasons, ao_evidence_ids = ids,
       ao_metadata = m\<rparr>)))))))))))"

record 'n committee_vote =
  cv_agent_name :: string
  cv_action :: opinion_action
  cv_raw_score :: 'n
  cv_confidence :: 'n
  cv_configured_weight :: 'n
  cv_effective_weight :: 'n
  cv_weighted_score :: 'n
  cv_included :: bool
  cv_exclusion_reason :: "string option"

definition make_committee_vote :: "dec committee_vote \<Rightarrow> rat committee_vote res" where
  "make_committee_vote v =
     rbind (required_stripped ''agent_name'' (cv_agent_name v)) (\<lambda>agent.
     rbind (bounded_number ''raw_score'' (cv_raw_score v) (-1) 1) (\<lambda>raw.
     rbind (bounded_number ''confidence'' (cv_confidence v) 0 1) (\<lambda>confidence.
     rbind (bounded_number ''configured_weight'' (cv_configured_weight v) 0 1) (\<lambda>configured.
     rbind (bounded_number ''effective_weight'' (cv_effective_weight v) 0 1) (\<lambda>effective.
     rbind (bounded_number ''weighted_score'' (cv_weighted_score v) (-1) 1) (\<lambda>weighted.
     rbind (demand (cv_included v \<longrightarrow> cv_exclusion_reason v = None)
       ''included votes cannot have an exclusion reason'') (\<lambda>_.
     rbind (demand (\<not> cv_included v \<longrightarrow> effective = 0 \<and> weighted = 0)
       ''excluded votes must have zero effective weight'') (\<lambda>_.
     rbind (demand (\<not> cv_included v \<longrightarrow> (\<exists>r\<in>set_option (cv_exclusion_reason v). strip r \<noteq> []))
       ''excluded votes require an exclusion reason'') (\<lambda>_.
     Inr \<lparr>cv_agent_name = agent, cv_action = cv_action v, cv_raw_score = raw, cv_confidence = confidence,
       cv_configured_weight = configured, cv_effective_weight = effective, cv_weighted_score = weighted,
       cv_included = cv_included v, cv_exclusion_reason = cv_exclusion_reason v\<rparr>)))))))))"

subsection \<open>The opinion of the committee\<close>

record 'n committee_opinion =
  co_symbol :: string
  co_timestamp :: datetime
  co_action :: committee_action
  co_confidence :: 'n
  co_score :: 'n
  co_consensus :: 'n
  co_participating_agents :: int
  co_bullish_agents :: int
  co_bearish_agents :: int
  co_neutral_agents :: int
  co_agent_names :: "string list"
  co_reasons :: "string list"
  co_votes :: "rat committee_vote list"
  co_weighting_version :: string
  co_chair_version :: string
  co_metadata :: metadata

definition make_committee_opinion :: "dec committee_opinion \<Rightarrow> rat committee_opinion res" where
  "make_committee_opinion c =
     (let included = map cv_agent_name (filter cv_included (co_votes c)) in
      rbind (uppercase_symbol (co_symbol c)) (\<lambda>symbol.
      rbind (aware_utc (co_timestamp c)) (\<lambda>timestamp.
      rbind (bounded_number ''confidence'' (co_confidence c) 0 1) (\<lambda>confidence.
      rbind (bounded_number ''score'' (co_score c) (-1) 1) (\<lambda>score.
      rbind (bounded_number ''consensus'' (co_consensus c) 0 1) (\<lambda>consensus.
      rbind (demand (0 \<le> co_participating_agents c \<and> 0 \<le> co_bullish_agents c \<and> 0 \<le> co_bearish_agents c \<and>
          0 \<le> co_neutral_agents c) ''committee counts must be nonnegative integers'') (\<lambda>_.
      rbind (demand (co_bullish_agents c + co_bearish_agents c + co_neutral_agents c = co_participating_agents c)
        ''direction counts must sum to participating_agents'') (\<lambda>_.
      rbind (demand (co_participating_agents c = int (length included))
        ''participating_agents must equal included votes'') (\<lambda>_.
      rbind (string_tuple ''agent_names'' (co_agent_names c)) (\<lambda>names.
      rbind (demand (names = included) ''agent_names must match included votes in order'') (\<lambda>_.
      rbind (nonempty_strings ''reasons'' (co_reasons c)) (\<lambda>reasons.
      rbind (required_stripped ''weighting_version'' (co_weighting_version c)) (\<lambda>weighting.
      rbind (required_stripped ''chair_version'' (co_chair_version c)) (\<lambda>chair.
      rbind (freeze_json_mapping ''metadata'' (co_metadata c)) (\<lambda>m.
      Inr \<lparr>co_symbol = symbol, co_timestamp = timestamp, co_action = co_action c, co_confidence = confidence,
        co_score = score, co_consensus = consensus, co_participating_agents = co_participating_agents c,
        co_bullish_agents = co_bullish_agents c, co_bearish_agents = co_bearish_agents c,
        co_neutral_agents = co_neutral_agents c, co_agent_names = names, co_reasons = reasons,
        co_votes = co_votes c, co_weighting_version = weighting, co_chair_version = chair,
        co_metadata = m\<rparr>)))))))))))))))"

end
