(* ===== verification/Risk_Committee.thy ===== *)
theory Risk_Committee
  imports Risk_Runtime Committee_Models
begin

text \<open>
  The risk committee (app/risk/committee.py with RiskState, RiskEvaluationRequest,
  RiskLimitCheck and RiskDecision of app/risk/models.py): the authorization boundary between
  the opinion of the committee and a trade proposal.
\<close>

subsection \<open>Models\<close>

datatype decision_outcome = APPROVE_EXPOSURE | MODIFY_EXPOSURE | REJECT_EXPOSURE

fun decision_outcome_value :: "decision_outcome \<Rightarrow> string" where
  "decision_outcome_value APPROVE_EXPOSURE = ''APPROVE''"
| "decision_outcome_value MODIFY_EXPOSURE = ''MODIFY''"
| "decision_outcome_value REJECT_EXPOSURE = ''REJECT''"

datatype reason_code =
    CODE_APPROVED | NEUTRAL_COMMITTEE | ZERO_REQUESTED_NOTIONAL | INSUFFICIENT_BUYING_POWER
  | SYMBOL_EXPOSURE_LIMIT | GROSS_EXPOSURE_LIMIT | DAILY_LOSS_LIMIT | DRAWDOWN_LIMIT
  | OPEN_POSITION_LIMIT | OPEN_ORDER_LIMIT | REQUESTED_RISK_LIMIT | COMMITTEE_CONFIDENCE_TOO_LOW
  | COMMITTEE_CONSENSUS_TOO_LOW | MULTIPLE_LIMITS

fun reason_code_value :: "reason_code \<Rightarrow> string" where
  "reason_code_value CODE_APPROVED = ''APPROVED''"
| "reason_code_value NEUTRAL_COMMITTEE = ''NEUTRAL_COMMITTEE''"
| "reason_code_value ZERO_REQUESTED_NOTIONAL = ''ZERO_REQUESTED_NOTIONAL''"
| "reason_code_value INSUFFICIENT_BUYING_POWER = ''INSUFFICIENT_BUYING_POWER''"
| "reason_code_value SYMBOL_EXPOSURE_LIMIT = ''SYMBOL_EXPOSURE_LIMIT''"
| "reason_code_value GROSS_EXPOSURE_LIMIT = ''GROSS_EXPOSURE_LIMIT''"
| "reason_code_value DAILY_LOSS_LIMIT = ''DAILY_LOSS_LIMIT''"
| "reason_code_value DRAWDOWN_LIMIT = ''DRAWDOWN_LIMIT''"
| "reason_code_value OPEN_POSITION_LIMIT = ''OPEN_POSITION_LIMIT''"
| "reason_code_value OPEN_ORDER_LIMIT = ''OPEN_ORDER_LIMIT''"
| "reason_code_value REQUESTED_RISK_LIMIT = ''REQUESTED_RISK_LIMIT''"
| "reason_code_value COMMITTEE_CONFIDENCE_TOO_LOW = ''COMMITTEE_CONFIDENCE_TOO_LOW''"
| "reason_code_value COMMITTEE_CONSENSUS_TOO_LOW = ''COMMITTEE_CONSENSUS_TOO_LOW''"
| "reason_code_value MULTIPLE_LIMITS = ''MULTIPLE_LIMITS''"

definition upper_symbol :: "string \<Rightarrow> string res" where
  "upper_symbol v =
     rbind (demand (strip v \<noteq> []) ''symbol must be nonempty'') (\<lambda>_.
     rbind (demand (strip v = upper (strip v)) ''symbol must be uppercase'') (\<lambda>_. Inr (strip v)))"

lemma upper_symbol_Inr [simp]:
  "upper_symbol v = Inr w \<longleftrightarrow> strip v \<noteq> [] \<and> upper (strip v) = strip v \<and> w = strip v"
  by (auto simp: upper_symbol_def demand_def res_simps)

record 'n risk_state =
  rs_symbol :: string
  rs_timestamp :: datetime
  rs_account_equity :: 'n
  rs_available_buying_power :: 'n
  rs_current_symbol_exposure :: 'n
  rs_total_gross_exposure :: 'n
  rs_daily_realized_pnl :: 'n
  rs_daily_unrealized_pnl :: 'n
  rs_current_drawdown_fraction :: 'n
  rs_open_positions :: int
  rs_open_orders :: int
  rs_metadata :: metadata

definition make_risk_state :: "dec risk_state \<Rightarrow> rat risk_state res" where
  "make_risk_state s =
     (let number = finite_field ValueError in
      rbind (upper_symbol (rs_symbol s)) (\<lambda>symbol.
      rbind (aware_utc (rs_timestamp s)) (\<lambda>timestamp.
      rbind (number ''account_equity'' (rs_account_equity s)) (\<lambda>equity.
      rbind (number ''available_buying_power'' (rs_available_buying_power s)) (\<lambda>buying_power.
      rbind (number ''current_symbol_exposure'' (rs_current_symbol_exposure s)) (\<lambda>exposure.
      rbind (number ''total_gross_exposure'' (rs_total_gross_exposure s)) (\<lambda>gross.
      rbind (number ''daily_realized_pnl'' (rs_daily_realized_pnl s)) (\<lambda>realized.
      rbind (number ''daily_unrealized_pnl'' (rs_daily_unrealized_pnl s)) (\<lambda>unrealized.
      rbind (number ''current_drawdown_fraction'' (rs_current_drawdown_fraction s)) (\<lambda>drawdown.
      rbind (demand (0 < equity) ''account_equity must be greater than zero'') (\<lambda>_.
      rbind (demand (0 \<le> buying_power) ''available_buying_power must be nonnegative'') (\<lambda>_.
      rbind (demand (0 \<le> exposure) ''current_symbol_exposure must be nonnegative'') (\<lambda>_.
      rbind (demand (0 \<le> gross) ''total_gross_exposure must be nonnegative'') (\<lambda>_.
      rbind (demand (exposure \<le> gross) ''current_symbol_exposure cannot exceed total_gross_exposure'') (\<lambda>_.
      rbind (demand (0 \<le> drawdown \<and> drawdown \<le> 1) ''current_drawdown_fraction must be between 0 and 1'') (\<lambda>_.
      rbind (demand (0 \<le> rs_open_positions s) ''open_positions must be a nonnegative integer'') (\<lambda>_.
      rbind (demand (0 \<le> rs_open_orders s) ''open_orders must be a nonnegative integer'') (\<lambda>_.
      rbind (freeze_json_mapping ''metadata'' (rs_metadata s)) (\<lambda>m.
      Inr \<lparr>rs_symbol = symbol, rs_timestamp = timestamp, rs_account_equity = equity,
        rs_available_buying_power = buying_power, rs_current_symbol_exposure = exposure,
        rs_total_gross_exposure = gross, rs_daily_realized_pnl = realized, rs_daily_unrealized_pnl = unrealized,
        rs_current_drawdown_fraction = drawdown, rs_open_positions = rs_open_positions s,
        rs_open_orders = rs_open_orders s, rs_metadata = m\<rparr>)))))))))))))))))))"

record 'n evaluation_request =
  eq_opinion :: "rat committee_opinion"
  eq_state :: "rat risk_state"
  eq_requested_notional :: 'n
  eq_requested_risk_fraction :: 'n
  eq_timestamp :: datetime
  eq_metadata :: metadata

definition make_evaluation_request :: "dec evaluation_request \<Rightarrow> rat evaluation_request res" where
  "make_evaluation_request q =
     rbind (demand (co_symbol (eq_opinion q) = rs_symbol (eq_state q))
       ''committee and risk-state symbols must match'') (\<lambda>_.
     rbind (aware_utc (eq_timestamp q)) (\<lambda>timestamp.
     rbind (demand (dt_le (co_timestamp (eq_opinion q)) timestamp)
       ''committee timestamp cannot be after request timestamp'') (\<lambda>_.
     rbind (demand (dt_le (rs_timestamp (eq_state q)) timestamp)
       ''risk-state timestamp cannot be after request timestamp'') (\<lambda>_.
     rbind (finite_field ValueError ''requested_notional'' (eq_requested_notional q)) (\<lambda>notional.
     rbind (finite_field ValueError ''requested_risk_fraction'' (eq_requested_risk_fraction q)) (\<lambda>fraction.
     rbind (demand (0 \<le> notional) ''requested_notional must be nonnegative'') (\<lambda>_.
     rbind (demand (0 \<le> fraction \<and> fraction \<le> 1) ''requested_risk_fraction must be between 0 and 1'') (\<lambda>_.
     rbind (demand (co_action (eq_opinion q) = COMMITTEE_NEUTRAL \<longrightarrow> notional = 0 \<and> fraction = 0)
       ''NEUTRAL committee opinions require zero notional and risk'') (\<lambda>_.
     rbind (freeze_json_mapping ''metadata'' (eq_metadata q)) (\<lambda>m.
     Inr \<lparr>eq_opinion = eq_opinion q, eq_state = eq_state q, eq_requested_notional = notional,
       eq_requested_risk_fraction = fraction, eq_timestamp = timestamp, eq_metadata = m\<rparr>))))))))))"

text \<open>What a check shows: a Decimal, an integer or a text.\<close>

datatype observed = Observed_Decimal rat | Observed_Int int | Observed_Text string

record limit_check =
  lk_code :: reason_code
  lk_passed :: bool
  lk_observed :: observed
  lk_limit :: "observed option"
  lk_message :: string
  lk_blocking :: bool

definition make_limit_check :: "limit_check \<Rightarrow> limit_check res" where
  "make_limit_check c = rbind (demand (strip (lk_message c) \<noteq> []) ''message must be nonempty'') (\<lambda>_. Inr c)"

record 'n exposure_decision =
  ed_symbol :: string
  ed_timestamp :: datetime
  ed_action :: decision_outcome
  ed_approved_notional :: 'n
  ed_approved_risk_fraction :: 'n
  ed_committee_action :: committee_action
  ed_committee_confidence :: rat
  ed_committee_consensus :: rat
  ed_primary_reason :: reason_code
  ed_checks :: "limit_check list"
  ed_reasons :: "string list"
  ed_policy_version :: string
  ed_committee_version :: string
  ed_metadata :: metadata

definition make_exposure_decision :: "dec exposure_decision \<Rightarrow> rat exposure_decision res" where
  "make_exposure_decision d =
     rbind (upper_symbol (ed_symbol d)) (\<lambda>symbol.
     rbind (aware_utc (ed_timestamp d)) (\<lambda>timestamp.
     rbind (finite_field ValueError ''approved_notional'' (ed_approved_notional d)) (\<lambda>notional.
     rbind (finite_field ValueError ''approved_risk_fraction'' (ed_approved_risk_fraction d)) (\<lambda>fraction.
     rbind (demand (0 \<le> notional \<and> 0 \<le> fraction \<and> fraction \<le> 1) ''approved values are out of bounds'') (\<lambda>_.
     rbind (demand (0 \<le> ed_committee_confidence d \<and> ed_committee_confidence d \<le> 1)
       ''committee_confidence must be between 0 and 1'') (\<lambda>_.
     rbind (demand (0 \<le> ed_committee_consensus d \<and> ed_committee_consensus d \<le> 1)
       ''committee_consensus must be between 0 and 1'') (\<lambda>_.
     rbind (demand (ed_checks d \<noteq> []) ''checks must be a nonempty tuple of RiskLimitCheck'') (\<lambda>_.
     rbind (demand (ed_reasons d \<noteq> [] \<and> list_all (\<lambda>r. strip r \<noteq> []) (ed_reasons d))
       ''reasons must be a nonempty tuple of strings'') (\<lambda>_.
     rbind (demand (ed_action d = REJECT_EXPOSURE \<longrightarrow> notional = 0 \<and> fraction = 0)
       ''REJECT decisions must approve zero'') (\<lambda>_.
     rbind (demand (strip (ed_policy_version d) \<noteq> []) ''policy_version must be nonempty'') (\<lambda>_.
     rbind (demand (strip (ed_committee_version d) \<noteq> []) ''committee_version must be nonempty'') (\<lambda>_.
     rbind (freeze_json_mapping ''metadata'' (ed_metadata d)) (\<lambda>m.
     Inr \<lparr>ed_symbol = symbol, ed_timestamp = timestamp, ed_action = ed_action d,
       ed_approved_notional = notional, ed_approved_risk_fraction = fraction,
       ed_committee_action = ed_committee_action d, ed_committee_confidence = ed_committee_confidence d,
       ed_committee_consensus = ed_committee_consensus d, ed_primary_reason = ed_primary_reason d,
       ed_checks = ed_checks d, ed_reasons = ed_reasons d, ed_policy_version = strip (ed_policy_version d),
       ed_committee_version = strip (ed_committee_version d), ed_metadata = m\<rparr>)))))))))))))"

subsection \<open>The checks\<close>

definition daily_loss_fraction :: "rat risk_state \<Rightarrow> rat" where
  "daily_loss_fraction s =
     max 0 (ddiv (dneg (dadd (rs_daily_realized_pnl s) (rs_daily_unrealized_pnl s))) (rs_account_equity s))"

definition symbol_capacity :: "rat risk_policy \<Rightarrow> rat risk_state \<Rightarrow> rat" where
  "symbol_capacity p s =
     max 0 (dsub (dmul (rs_account_equity s) (rp_maximum_symbol_exposure_fraction p)) (rs_current_symbol_exposure s))"

definition gross_capacity :: "rat risk_policy \<Rightarrow> rat risk_state \<Rightarrow> rat" where
  "gross_capacity p s =
     max 0 (dsub (dmul (rs_account_equity s) (rp_maximum_gross_exposure_fraction p)) (rs_total_gross_exposure s))"

definition capacity_check :: "reason_code \<Rightarrow> rat \<Rightarrow> rat \<Rightarrow> string \<Rightarrow> limit_check" where
  "capacity_check code requested capacity msg =
     (let passed = (requested \<le> capacity) in
      \<lparr>lk_code = code, lk_passed = passed, lk_observed = Observed_Decimal requested,
       lk_limit = Some (Observed_Decimal capacity), lk_message = msg, lk_blocking = (\<not> passed \<and> capacity \<le> 0)\<rparr>)"

definition committee_limit_checks :: "rat risk_policy \<Rightarrow> rat evaluation_request \<Rightarrow> limit_check list" where
  "committee_limit_checks p q =
     (let c = eq_opinion q; s = eq_state q; notional = eq_requested_notional q; fraction = eq_requested_risk_fraction q;
          entry = (\<lambda>code passed observed limit msg blocking.
            \<lparr>lk_code = code, lk_passed = passed, lk_observed = observed, lk_limit = Some limit,
             lk_message = msg, lk_blocking = blocking\<rparr>) in
      [entry NEUTRAL_COMMITTEE (co_action c \<noteq> COMMITTEE_NEUTRAL)
         (Observed_Text (committee_action_value (co_action c))) (Observed_Text ''directional'')
         ''Committee action must be directional.'' True,
       entry ZERO_REQUESTED_NOTIONAL (co_action c = COMMITTEE_NEUTRAL \<or> 0 < notional)
         (Observed_Decimal notional) (Observed_Decimal 0)
         ''Requested notional must be greater than zero for directional exposure.'' True,
       entry COMMITTEE_CONFIDENCE_TOO_LOW (rp_minimum_committee_confidence p \<le> co_confidence c)
         (Observed_Decimal (co_confidence c)) (Observed_Decimal (rp_minimum_committee_confidence p))
         ''Committee confidence must meet the configured minimum.'' True,
       entry COMMITTEE_CONSENSUS_TOO_LOW (rp_minimum_committee_consensus p \<le> co_consensus c)
         (Observed_Decimal (co_consensus c)) (Observed_Decimal (rp_minimum_committee_consensus p))
         ''Committee consensus must meet the configured minimum.'' True,
       entry REQUESTED_RISK_LIMIT (fraction \<le> rp_maximum_requested_risk_fraction p)
         (Observed_Decimal fraction) (Observed_Decimal (rp_maximum_requested_risk_fraction p))
         ''Requested risk fraction must not exceed the configured maximum.'' False,
       entry DAILY_LOSS_LIMIT (daily_loss_fraction s < rp_maximum_daily_loss_fraction p)
         (Observed_Decimal (daily_loss_fraction s)) (Observed_Decimal (rp_maximum_daily_loss_fraction p))
         ''Daily loss fraction must remain below the configured limit.'' True,
       entry DRAWDOWN_LIMIT (rs_current_drawdown_fraction s < rp_maximum_drawdown_fraction p)
         (Observed_Decimal (rs_current_drawdown_fraction s)) (Observed_Decimal (rp_maximum_drawdown_fraction p))
         ''Drawdown must remain below the configured limit.'' True,
       entry OPEN_POSITION_LIMIT (rs_open_positions s < rp_maximum_open_positions p)
         (Observed_Int (rs_open_positions s)) (Observed_Int (rp_maximum_open_positions p))
         ''Open positions must remain below the configured limit.'' True,
       entry OPEN_ORDER_LIMIT (rs_open_orders s < rp_maximum_open_orders p)
         (Observed_Int (rs_open_orders s)) (Observed_Int (rp_maximum_open_orders p))
         ''Open orders must remain below the configured limit.'' True,
       capacity_check INSUFFICIENT_BUYING_POWER notional (rs_available_buying_power s)
         ''Requested notional exceeded available buying power.'',
       capacity_check SYMBOL_EXPOSURE_LIMIT notional (symbol_capacity p s)
         ''Requested notional exceeded remaining symbol exposure capacity.'',
       capacity_check GROSS_EXPOSURE_LIMIT notional (gross_capacity p s)
         ''Requested notional exceeded remaining gross exposure capacity.''])"

subsection \<open>The decision\<close>

definition approved_risk :: "rat risk_policy \<Rightarrow> rat evaluation_request \<Rightarrow> rat" where
  "approved_risk p q = min (eq_requested_risk_fraction q) (rp_maximum_requested_risk_fraction p)"

definition candidate_notional :: "rat risk_policy \<Rightarrow> rat evaluation_request \<Rightarrow> rat" where
  "candidate_notional p q =
     (let s = eq_state q; notional = eq_requested_notional q; fraction = eq_requested_risk_fraction q;
          risk_notional = (if rp_maximum_requested_risk_fraction p < fraction
            then dmul notional (ddiv (approved_risk p q) fraction) else notional) in
      foldl min notional [rs_available_buying_power s, symbol_capacity p s, gross_capacity p s, risk_notional])"

text \<open>Texts of Decimals inside a message are not printed.\<close>

definition failure_reason :: "bool \<Rightarrow> limit_check \<Rightarrow> string" where
  "failure_reason allow_modification c =
     (if lk_code c = NEUTRAL_COMMITTEE then ''Committee action was NEUTRAL; no directional exposure was authorized.''
      else if lk_code c = ZERO_REQUESTED_NOTIONAL then ''Directional committee opinion requested zero notional.''
      else if lk_code c = DAILY_LOSS_LIMIT then ''Daily loss fraction  met or exceeded the configured limit .''
      else lk_message c @ (if \<not> lk_blocking c \<and> \<not> allow_modification then '' Modification is disabled.'' else []))"

definition reduction_reason :: "limit_check \<Rightarrow> string" where
  "reduction_reason c = (if lk_code c = REQUESTED_RISK_LIMIT
     then ''Requested risk fraction was reduced from  to .'' else lk_message c)"

definition unique_texts :: "string list \<Rightarrow> string list" where
  "unique_texts xs = rev (remdups (rev xs))"

definition committee_version :: string where
  "committee_version = ''risk_committee_v1''"

text \<open>Action, notional, risk fraction, primary reason and reasons.\<close>

definition exposure_verdict ::
  "rat risk_policy \<Rightarrow> rat evaluation_request \<Rightarrow> limit_check list \<Rightarrow>
   (decision_outcome \<times> rat \<times> rat \<times> reason_code \<times> string list) res" where
  "exposure_verdict p q checks =
     (let blockers = filter (\<lambda>c. \<not> lk_passed c \<and> lk_blocking c) checks;
          reductions = filter (\<lambda>c. \<not> lk_passed c \<and> \<not> lk_blocking c) checks;
          candidate = candidate_notional p q in
      if blockers \<noteq> [] \<or> (reductions \<noteq> [] \<and> \<not> rp_allow_modification p) \<or> candidate \<le> 0
      then let failed = (if blockers \<noteq> [] then blockers else reductions) in
        case failed of
          [] \<Rightarrow> Inl (Raise IndexError ''tuple index out of range'')
        | c # cs \<Rightarrow> Inr (REJECT_EXPOSURE, 0, 0, if cs \<noteq> [] then MULTIPLE_LIMITS else lk_code c,
            map (failure_reason (rp_allow_modification p)) failed)
      else if reductions \<noteq> []
      then Inr (MODIFY_EXPOSURE, candidate, approved_risk p q, lk_code (hd reductions),
        unique_texts (map reduction_reason reductions @ [''Approved notional was reduced from  to .'']))
      else Inr (APPROVE_EXPOSURE, eq_requested_notional q, eq_requested_risk_fraction q, CODE_APPROVED,
        [''Risk Committee approved the full requested notional.'']))"

definition evaluate_exposure :: "rat risk_policy \<Rightarrow> rat evaluation_request \<Rightarrow> rat exposure_decision res" where
  "evaluate_exposure p q =
     rbind (traverse make_limit_check (committee_limit_checks p q)) (\<lambda>checks.
     rbind (exposure_verdict p q checks) (\<lambda>(action, notional, fraction, primary, reasons).
     let c = eq_opinion q in
     make_exposure_decision \<lparr>ed_symbol = rs_symbol (eq_state q), ed_timestamp = eq_timestamp q,
       ed_action = action, ed_approved_notional = Fin notional, ed_approved_risk_fraction = Fin fraction,
       ed_committee_action = co_action c, ed_committee_confidence = co_confidence c,
       ed_committee_consensus = co_consensus c, ed_primary_reason = primary, ed_checks = checks,
       ed_reasons = reasons, ed_policy_version = rp_version p, ed_committee_version = committee_version,
       ed_metadata =
         [(''deterministic'', JBool True), (''submitted_notional'', JDecimalText (eq_requested_notional q)),
          (''submitted_risk_fraction'', JDecimalText (eq_requested_risk_fraction q)),
          (''approved_notional'', JDecimalText notional), (''approved_risk_fraction'', JDecimalText fraction),
          (''blocking_check_count'', JInt (int (length (filter (\<lambda>c. \<not> lk_passed c \<and> lk_blocking c) checks)))),
          (''limiting_check_count'', JInt (int (length (filter (\<lambda>c. \<not> lk_passed c \<and> \<not> lk_blocking c) checks)))),
          (''policy_version'', JText (rp_version p)), (''risk_committee_version'', JText committee_version),
          (''committee_chair_version'', JText (co_chair_version c)),
          (''total_checks'', JInt (int (length checks)))]\<rparr>))"

subsection \<open>Sound values\<close>

definition risk_state_ok :: "rat risk_state \<Rightarrow> bool" where
  "risk_state_ok s \<longleftrightarrow> strip (rs_symbol s) = rs_symbol s \<and> rs_symbol s \<noteq> [] \<and> upper (rs_symbol s) = rs_symbol s \<and>
     0 < rs_account_equity s \<and> 0 \<le> rs_available_buying_power s"

definition evaluation_request_ok :: "rat evaluation_request \<Rightarrow> bool" where
  "evaluation_request_ok q \<longleftrightarrow> tz_aware (eq_timestamp q) \<and> 0 \<le> eq_requested_notional q \<and>
     0 \<le> eq_requested_risk_fraction q \<and> eq_requested_risk_fraction q \<le> 1 \<and>
     (co_action (eq_opinion q) = COMMITTEE_NEUTRAL \<longrightarrow> eq_requested_notional q = 0)"

definition opinion_ok :: "rat committee_opinion \<Rightarrow> bool" where
  "opinion_ok c \<longleftrightarrow> 0 \<le> co_confidence c \<and> co_confidence c \<le> 1 \<and> 0 \<le> co_consensus c \<and> co_consensus c \<le> 1"

definition exposure_policy_ok :: "rat risk_policy \<Rightarrow> bool" where
  "exposure_policy_ok p \<longleftrightarrow> strip (rp_version p) \<noteq> [] \<and> 0 \<le> rp_maximum_requested_risk_fraction p \<and>
     rp_maximum_requested_risk_fraction p \<le> 1"

lemma make_risk_state_ok: "make_risk_state raw = Inr s \<Longrightarrow> risk_state_ok s"
  unfolding make_risk_state_def Let_def
  by (auto simp: risk_state_ok_def res_simps simp del: frozen.simps)

lemma make_evaluation_request_ok: "make_evaluation_request raw = Inr q \<Longrightarrow>
    evaluation_request_ok q \<and> eq_opinion q = eq_opinion raw \<and> eq_state q = eq_state raw"
  unfolding make_evaluation_request_def
  by (auto simp: evaluation_request_ok_def res_simps simp del: frozen.simps)

lemma make_committee_opinion_ok: "make_committee_opinion raw = Inr c \<Longrightarrow> opinion_ok c"
  unfolding make_committee_opinion_def Let_def
  by (auto simp: opinion_ok_def res_simps simp del: frozen.simps)

lemma make_exposure_policy_ok: "make_risk_policy raw = Inr p \<Longrightarrow> exposure_policy_ok p"
  unfolding make_risk_policy_def
  by (auto simp: exposure_policy_ok_def demand_def res_simps simp del: frozen.simps)

subsection \<open>What the checks mean\<close>

text \<open>The conditions under which the committee lets any exposure through.\<close>

definition exposure_open :: "rat risk_policy \<Rightarrow> rat evaluation_request \<Rightarrow> bool" where
  "exposure_open p q \<longleftrightarrow> (let c = eq_opinion q; s = eq_state q in
     co_action c \<noteq> COMMITTEE_NEUTRAL \<and> 0 < eq_requested_notional q \<and>
     rp_minimum_committee_confidence p \<le> co_confidence c \<and> rp_minimum_committee_consensus p \<le> co_consensus c \<and>
     daily_loss_fraction s < rp_maximum_daily_loss_fraction p \<and>
     rs_current_drawdown_fraction s < rp_maximum_drawdown_fraction p \<and>
     rs_open_positions s < rp_maximum_open_positions p \<and> rs_open_orders s < rp_maximum_open_orders p \<and>
     0 < rs_available_buying_power s \<and> 0 < symbol_capacity p s \<and> 0 < gross_capacity p s)"

text \<open>Whether the whole request fits.\<close>

definition request_fits :: "rat risk_policy \<Rightarrow> rat evaluation_request \<Rightarrow> bool" where
  "request_fits p q \<longleftrightarrow> (let s = eq_state q; notional = eq_requested_notional q in
     eq_requested_risk_fraction q \<le> rp_maximum_requested_risk_fraction p \<and>
     notional \<le> rs_available_buying_power s \<and> notional \<le> symbol_capacity p s \<and> notional \<le> gross_capacity p s)"

abbreviation "blocking_failures \<equiv> filter (\<lambda>c. \<not> lk_passed c \<and> lk_blocking c)"
abbreviation "limiting_failures \<equiv> filter (\<lambda>c. \<not> lk_passed c \<and> \<not> lk_blocking c)"

lemma blocking_failures_Nil:
  assumes "evaluation_request_ok q" and "risk_state_ok (eq_state q)"
  shows "blocking_failures (committee_limit_checks p q) = [] \<longleftrightarrow> exposure_open p q"
  using assms
  by (auto simp: committee_limit_checks_def capacity_check_def exposure_open_def evaluation_request_ok_def
      risk_state_ok_def Let_def filter_empty_conv not_le not_less)

lemma limiting_failures_Nil:
  assumes "exposure_open p q"
  shows "limiting_failures (committee_limit_checks p q) = [] \<longleftrightarrow> request_fits p q"
  using assms
  by (auto simp: committee_limit_checks_def capacity_check_def exposure_open_def request_fits_def Let_def
      filter_empty_conv not_le not_less)

lemma candidate_bounds:
  assumes "evaluation_request_ok q" and "exposure_policy_ok p"
  shows "candidate_notional p q \<le> eq_requested_notional q"
    and "candidate_notional p q \<le> rs_available_buying_power (eq_state q)"
    and "candidate_notional p q \<le> symbol_capacity p (eq_state q)"
    and "candidate_notional p q \<le> gross_capacity p (eq_state q)"
  by (auto simp: candidate_notional_def Let_def intro!: foldl_min_le)

lemma candidate_positive:
  assumes "evaluation_request_ok q" and "exposure_policy_ok p" and "exposure_open p q"
  shows "0 < candidate_notional p q \<longleftrightarrow>
    0 < rp_maximum_requested_risk_fraction p \<or> eq_requested_risk_fraction q = 0"
proof -
  let ?f = "eq_requested_risk_fraction q" and ?m = "rp_maximum_requested_risk_fraction p"
  have m: "0 \<le> ?m" "0 \<le> ?f" using assms(1,2) by (simp_all add: exposure_policy_ok_def evaluation_request_ok_def)
  have n: "0 < eq_requested_notional q" using assms(3) by (simp add: exposure_open_def Let_def)
  have "0 < dmul (eq_requested_notional q) (ddiv (min ?f ?m) ?f) \<longleftrightarrow> 0 < ?m" if "?m < ?f"
    using n m that by (auto simp: dmul_def ddiv_def zero_less_mult_iff zero_less_divide_iff)
  then show ?thesis
    using assms(3) n m
    by (auto simp: candidate_notional_def Let_def foldl_min exposure_open_def approved_risk_def not_less)
qed

lemma candidate_whole: "request_fits p q \<Longrightarrow> candidate_notional p q = eq_requested_notional q"
  by (auto simp: candidate_notional_def request_fits_def Let_def foldl_min min_def)

subsection \<open>Decisions\<close>

lemma limit_messages: "c \<in> set (committee_limit_checks p q) \<Longrightarrow> strip (lk_message c @ v) \<noteq> []"
  by (auto simp: committee_limit_checks_def capacity_check_def Let_def strip_Cons_nonblank is_space_def)

lemma failure_reason_nonblank: "c \<in> set (committee_limit_checks p q) \<Longrightarrow> strip (failure_reason b c) \<noteq> []"
  using limit_messages [of c p q "[]"] limit_messages [of c p q "'' Modification is disabled.''"]
  by (auto simp: failure_reason_def strip_Cons_nonblank is_space_def)

lemma reduction_reason_nonblank: "c \<in> set (committee_limit_checks p q) \<Longrightarrow> strip (reduction_reason c) \<noteq> []"
  using limit_messages [of c p q "[]"] by (auto simp: reduction_reason_def strip_Cons_nonblank is_space_def)

lemma traverse_limit_checks:
  "traverse make_limit_check (committee_limit_checks p q) = Inr (committee_limit_checks p q)"
  using limit_messages [of _ p q "[]"] traverse_total [of "committee_limit_checks p q" make_limit_check id]
  by (simp add: make_limit_check_def)

text \<open>The verdict, in terms of what the checks mean.\<close>

definition exposure_rejected :: "rat risk_policy \<Rightarrow> rat evaluation_request \<Rightarrow> bool" where
  "exposure_rejected p q \<longleftrightarrow> \<not> exposure_open p q \<or> (\<not> request_fits p q \<and> \<not> rp_allow_modification p) \<or>
     (rp_maximum_requested_risk_fraction p = 0 \<and> 0 < eq_requested_risk_fraction q)"

lemma exposure_verdict_cases:
  assumes ok: "evaluation_request_ok q" "risk_state_ok (eq_state q)" "exposure_policy_ok p"
  shows "\<exists>action notional fraction primary reasons.
    exposure_verdict p q (committee_limit_checks p q) = Inr (action, notional, fraction, primary, reasons) \<and>
    reasons \<noteq> [] \<and> (\<forall>r\<in>set reasons. strip r \<noteq> []) \<and>
    action = (if exposure_rejected p q then REJECT_EXPOSURE
      else if request_fits p q then APPROVE_EXPOSURE else MODIFY_EXPOSURE) \<and>
    notional = (if exposure_rejected p q then 0 else candidate_notional p q) \<and>
    fraction = (if exposure_rejected p q then 0 else approved_risk p q)"
proof -
  let ?cs = "committee_limit_checks p q"
  note b = blocking_failures_Nil [OF ok(1,2), of p]
  have rejected: "exposure_rejected p q \<longleftrightarrow> blocking_failures ?cs \<noteq> [] \<or>
      (limiting_failures ?cs \<noteq> [] \<and> \<not> rp_allow_modification p) \<or> candidate_notional p q \<le> 0"
  proof (cases "exposure_open p q")
    case True
    have "candidate_notional p q \<le> 0 \<longleftrightarrow> rp_maximum_requested_risk_fraction p = 0 \<and> 0 < eq_requested_risk_fraction q"
      using candidate_positive [OF ok(1,3) True] ok(1,3)
      by (auto simp: exposure_policy_ok_def evaluation_request_ok_def not_less)
    with True b limiting_failures_Nil [OF True] show ?thesis by (simp add: exposure_rejected_def)
  qed (simp add: exposure_rejected_def b)
  show ?thesis
  proof (cases "exposure_rejected p q")
    case True
    let ?failed = "if blocking_failures ?cs \<noteq> [] then blocking_failures ?cs else limiting_failures ?cs"
    have "?failed \<noteq> []"
    proof
      assume none: "?failed = []"
      then have open': "exposure_open p q" using b by (auto split: if_splits)
      with none have "request_fits p q" using limiting_failures_Nil by (auto split: if_splits)
      with candidate_whole [OF this] open' rejected True none show False
        by (auto simp: exposure_open_def Let_def split: if_splits)
    qed
    then obtain c cs where f: "?failed = c # cs" by (cases ?failed) auto
    have "set ?failed \<subseteq> set ?cs" by auto
    then have "\<forall>x\<in>set (c # cs). strip (failure_reason (rp_allow_modification p) x) \<noteq> []"
      using failure_reason_nonblank unfolding f by blast
    moreover have "exposure_verdict p q ?cs = Inr (REJECT_EXPOSURE, 0, 0, if cs \<noteq> [] then MULTIPLE_LIMITS else lk_code c,
        map (failure_reason (rp_allow_modification p)) (c # cs))"
      unfolding exposure_verdict_def Let_def f using True rejected by simp
    ultimately show ?thesis using True by auto
  next
    case False
    then have open': "exposure_open p q" by (simp add: exposure_rejected_def)
    have "\<forall>r\<in>set (map reduction_reason (limiting_failures ?cs)). strip r \<noteq> []"
      using reduction_reason_nonblank by auto
    then have "\<forall>r\<in>set (unique_texts (map reduction_reason (limiting_failures ?cs) @
        [''Approved notional was reduced from  to .''])). strip r \<noteq> []"
      by (auto simp: unique_texts_def strip_Cons_nonblank is_space_def)
    note nonblank_reductions = this
    have v: "exposure_verdict p q ?cs = (if limiting_failures ?cs \<noteq> []
        then Inr (MODIFY_EXPOSURE, candidate_notional p q, approved_risk p q, lk_code (hd (limiting_failures ?cs)),
          unique_texts (map reduction_reason (limiting_failures ?cs) @ [''Approved notional was reduced from  to .'']))
        else Inr (APPROVE_EXPOSURE, eq_requested_notional q, eq_requested_risk_fraction q, CODE_APPROVED,
          [''Risk Committee approved the full requested notional.'']))"
      using False rejected unfolding exposure_verdict_def Let_def by auto
    show ?thesis
    proof (cases "request_fits p q")
      case True
      then have "approved_risk p q = eq_requested_risk_fraction q"
        by (simp add: approved_risk_def request_fits_def Let_def)
      with True False limiting_failures_Nil [OF open'] candidate_whole [OF True] show ?thesis
        by (simp add: v strip_Cons_nonblank is_space_def)
    next
      case limited: False
      have "limiting_failures ?cs \<noteq> []" using limiting_failures_Nil [OF open', of] limited by blast
      moreover have "unique_texts (xs @ [y]) \<noteq> []" for xs y
        by (metis unique_texts_def rev_is_Nil_conv remdups_eq_nil_iff snoc_eq_iff_butlast)
      ultimately show ?thesis using limited False nonblank_reductions unfolding v by auto
    qed
  qed
qed

lemma make_exposure_decision_Fin:
  assumes "strip s \<noteq> []" and "upper (strip s) = strip s" and "tz_aware t" and "0 \<le> n" and "0 \<le> f" and "f \<le> 1"
    and "0 \<le> c" and "c \<le> 1" and "0 \<le> e" and "e \<le> 1" and "cs \<noteq> []" and "rs \<noteq> []" and "\<forall>r\<in>set rs. strip r \<noteq> []"
    and "a = REJECT_EXPOSURE \<longrightarrow> n = 0 \<and> f = 0" and "strip pv \<noteq> []" and "strip cv \<noteq> []" and "frozen_mapping m"
  shows "make_exposure_decision \<lparr>ed_symbol = s, ed_timestamp = t, ed_action = a, ed_approved_notional = Fin n,
      ed_approved_risk_fraction = Fin f, ed_committee_action = ca, ed_committee_confidence = c,
      ed_committee_consensus = e, ed_primary_reason = pr, ed_checks = cs, ed_reasons = rs,
      ed_policy_version = pv, ed_committee_version = cv, ed_metadata = m\<rparr> =
    Inr \<lparr>ed_symbol = strip s, ed_timestamp = to_utc t, ed_action = a, ed_approved_notional = n,
      ed_approved_risk_fraction = f, ed_committee_action = ca, ed_committee_confidence = c,
      ed_committee_consensus = e, ed_primary_reason = pr, ed_checks = cs, ed_reasons = rs,
      ed_policy_version = strip pv, ed_committee_version = strip cv, ed_metadata = m\<rparr>"
  using assms unfolding make_exposure_decision_def rbind_Inr_iff
  by (simp add: list_all_iff del: frozen.simps)

lemma committee_version_nonblank: "strip committee_version \<noteq> []"
  by (simp add: committee_version_def strip_Cons_nonblank is_space_def)

lemma evaluate_exposure_cases:
  assumes ok: "evaluation_request_ok q" "risk_state_ok (eq_state q)" "exposure_policy_ok p" "opinion_ok (eq_opinion q)"
  shows "\<exists>d. evaluate_exposure p q = Inr d \<and> ed_symbol d = rs_symbol (eq_state q) \<and>
    ed_timestamp d = to_utc (eq_timestamp q) \<and> ed_committee_action d = co_action (eq_opinion q) \<and>
    ed_checks d = committee_limit_checks p q \<and>
    ed_action d = (if exposure_rejected p q then REJECT_EXPOSURE
      else if request_fits p q then APPROVE_EXPOSURE else MODIFY_EXPOSURE) \<and>
    ed_approved_notional d = (if exposure_rejected p q then 0 else candidate_notional p q) \<and>
    ed_approved_risk_fraction d = (if exposure_rejected p q then 0 else approved_risk p q)"
proof -
  from exposure_verdict_cases [OF ok(1-3)] obtain action notional fraction primary reasons where
    v: "exposure_verdict p q (committee_limit_checks p q) = Inr (action, notional, fraction, primary, reasons)"
      "reasons \<noteq> []" "\<forall>r\<in>set reasons. strip r \<noteq> []"
    and action: "action = (if exposure_rejected p q then REJECT_EXPOSURE
      else if request_fits p q then APPROVE_EXPOSURE else MODIFY_EXPOSURE)"
    and notional: "notional = (if exposure_rejected p q then 0 else candidate_notional p q)"
    and fraction: "fraction = (if exposure_rejected p q then 0 else approved_risk p q)" by blast
  have sym: "strip (rs_symbol (eq_state q)) = rs_symbol (eq_state q)" "rs_symbol (eq_state q) \<noteq> []"
      "upper (rs_symbol (eq_state q)) = rs_symbol (eq_state q)" "tz_aware (eq_timestamp q)"
    using ok(1,2) by (simp_all add: risk_state_ok_def evaluation_request_ok_def)
  have n: "0 \<le> notional"
    using candidate_positive [OF ok(1,3)] ok(1,3) unfolding notional
    by (auto simp: exposure_rejected_def exposure_policy_ok_def evaluation_request_ok_def less_le)
  have f: "0 \<le> fraction" "fraction \<le> 1"
    using ok(1,3) by (auto simp: fraction approved_risk_def exposure_policy_ok_def evaluation_request_ok_def)
  have o': "0 \<le> co_confidence (eq_opinion q)" "co_confidence (eq_opinion q) \<le> 1"
      "0 \<le> co_consensus (eq_opinion q)" "co_consensus (eq_opinion q) \<le> 1"
    using ok(4) by (simp_all add: opinion_ok_def)
  have cs: "committee_limit_checks p q \<noteq> []" by (simp add: committee_limit_checks_def Let_def)
  have p: "strip (rp_version p) \<noteq> []" using ok(3) by (simp add: exposure_policy_ok_def)
  have r: "action = REJECT_EXPOSURE \<longrightarrow> notional = 0 \<and> fraction = 0"
    by (simp add: action notional fraction)
  show ?thesis
    unfolding evaluate_exposure_def traverse_limit_checks rbind.simps v(1) prod.case Let_def
    by (subst make_exposure_decision_Fin)
      (use sym n f o' cs v(2,3) p r committee_version_nonblank in
        \<open>auto simp: strip_Cons_nonblank is_space_def action notional fraction\<close>)
qed

text \<open>
  C7: The risk committee decides every validated request under every validated policy.  It
  rejects exactly if a hard condition fails (a neutral or zero request, too little confidence
  or consensus, a reached loss, drawdown, position or order limit, no buying power or exposure
  left), if only part of the request fits and the policy forbids modification, or if the policy
  allows no risk at all; it approves the request unchanged if all of it fits, and otherwise
  reduces it.  What it authorizes is never more than the request, the buying power and the
  exposure left for the symbol and in total, and a rejection authorizes nothing.
\<close>

theorem risk_committee_decides:
  assumes "make_risk_policy raw_policy = Inr p" and "make_risk_state raw_state = Inr (eq_state q)"
    and "make_committee_opinion raw_opinion = Inr (eq_opinion q)" and "make_evaluation_request raw = Inr q"
  shows "\<exists>d. evaluate_exposure p q = Inr d \<and>
    (ed_action d = REJECT_EXPOSURE \<longleftrightarrow> \<not> exposure_open p q \<or> (\<not> request_fits p q \<and> \<not> rp_allow_modification p) \<or>
      (rp_maximum_requested_risk_fraction p = 0 \<and> 0 < eq_requested_risk_fraction q)) \<and>
    (ed_action d = APPROVE_EXPOSURE \<longrightarrow> request_fits p q \<and> ed_approved_notional d = eq_requested_notional q \<and>
      ed_approved_risk_fraction d = eq_requested_risk_fraction q) \<and>
    (ed_action d = MODIFY_EXPOSURE \<longrightarrow> \<not> request_fits p q \<and> 0 < ed_approved_notional d) \<and>
    (ed_action d = REJECT_EXPOSURE \<longrightarrow> ed_approved_notional d = 0 \<and> ed_approved_risk_fraction d = 0) \<and>
    0 \<le> ed_approved_notional d \<and> ed_approved_notional d \<le> eq_requested_notional q \<and>
    ed_approved_notional d \<le> rs_available_buying_power (eq_state q) \<and>
    ed_approved_notional d \<le> symbol_capacity p (eq_state q) \<and>
    ed_approved_notional d \<le> gross_capacity p (eq_state q) \<and>
    ed_approved_risk_fraction d \<le> rp_maximum_requested_risk_fraction p"
proof -
  have ok: "evaluation_request_ok q" "risk_state_ok (eq_state q)" "exposure_policy_ok p" "opinion_ok (eq_opinion q)"
    using assms make_evaluation_request_ok make_risk_state_ok make_exposure_policy_ok make_committee_opinion_ok by blast+
  from evaluate_exposure_cases [OF ok] obtain d where d: "evaluate_exposure p q = Inr d"
    "ed_action d = (if exposure_rejected p q then REJECT_EXPOSURE
      else if request_fits p q then APPROVE_EXPOSURE else MODIFY_EXPOSURE)"
    "ed_approved_notional d = (if exposure_rejected p q then 0 else candidate_notional p q)"
    "ed_approved_risk_fraction d = (if exposure_rejected p q then 0 else approved_risk p q)" by blast
  have pos: "0 < candidate_notional p q" if "\<not> exposure_rejected p q"
    using candidate_positive [OF ok(1,3)] that ok(1,3)
    by (auto simp: exposure_rejected_def exposure_policy_ok_def evaluation_request_ok_def less_le)
  have caps: "0 \<le> symbol_capacity p (eq_state q)" "0 \<le> gross_capacity p (eq_state q)"
      "0 \<le> rs_available_buying_power (eq_state q)" "0 \<le> eq_requested_notional q"
      "0 \<le> rp_maximum_requested_risk_fraction p"
    using ok by (simp_all add: symbol_capacity_def gross_capacity_def risk_state_ok_def evaluation_request_ok_def
        exposure_policy_ok_def)
  have whole: "candidate_notional p q = eq_requested_notional q" "approved_risk p q = eq_requested_risk_fraction q"
    if "request_fits p q"
    using that candidate_whole by (simp_all add: approved_risk_def request_fits_def Let_def)
  have ar: "approved_risk p q \<le> rp_maximum_requested_risk_fraction p" by (simp add: approved_risk_def)
  note bounds = candidate_bounds [OF ok(1,3)]
  show ?thesis
    using d pos caps whole ar bounds unfolding exposure_rejected_def [symmetric]
    by (intro exI [of _ d]) (simp add: less_imp_le)
qed

text \<open>A request of 9 with 8 of buying power left is reduced to 8.\<close>

definition ex_committee_opinion :: "'n \<Rightarrow> 'n committee_opinion" where
  "ex_committee_opinion one = \<lparr>co_symbol = ''ABC'', co_timestamp = Aware 0 0, co_action = COMMITTEE_BULLISH,
     co_confidence = one, co_score = one, co_consensus = one, co_participating_agents = 0,
     co_bullish_agents = 0, co_bearish_agents = 0, co_neutral_agents = 0, co_agent_names = [],
     co_reasons = [''R''], co_votes = [], co_weighting_version = ''1'', co_chair_version = ''1'',
     co_metadata = []\<rparr>"

definition ex_risk_state :: "'n \<Rightarrow> 'n \<Rightarrow> 'n \<Rightarrow> 'n risk_state" where
  "ex_risk_state equity funds zero = \<lparr>rs_symbol = ''ABC'', rs_timestamp = Aware 0 0, rs_account_equity = equity,
     rs_available_buying_power = funds, rs_current_symbol_exposure = zero, rs_total_gross_exposure = zero,
     rs_daily_realized_pnl = zero, rs_daily_unrealized_pnl = zero, rs_current_drawdown_fraction = zero,
     rs_open_positions = 0, rs_open_orders = 0, rs_metadata = []\<rparr>"

definition ex_evaluation_request :: "'n \<Rightarrow> 'n \<Rightarrow> 'n evaluation_request" where
  "ex_evaluation_request notional fraction = \<lparr>eq_opinion = ex_committee_opinion 1, eq_state = ex_risk_state 10 8 0,
     eq_requested_notional = notional, eq_requested_risk_fraction = fraction, eq_timestamp = Aware 0 0,
     eq_metadata = []\<rparr>"

lemma ex_strip: "strip ''ABC'' = ''ABC''" "strip ''R'' = ''R''" "strip ''1'' = ''1''"
  by (simp_all add: strip_def lstrip_def is_space_def)

lemma ex_committee_made:
  "make_risk_state (ex_risk_state (Fin 10) (Fin 8) (Fin 0)) = Inr (eq_state (ex_evaluation_request (9 :: rat) 1))"
  "make_committee_opinion (ex_committee_opinion (Fin 1)) = Inr (eq_opinion (ex_evaluation_request (9 :: rat) 1))"
  "make_evaluation_request (ex_evaluation_request (Fin 9) (Fin 1)) = Inr (ex_evaluation_request 9 1)"
  unfolding make_risk_state_def make_committee_opinion_def make_evaluation_request_def Let_def rbind_Inr_iff
  by (auto simp: ex_risk_state_def ex_committee_opinion_def ex_evaluation_request_def ex_texts ex_strip demand_def)

theorem risk_committee_decides_witness:
  "\<exists>d. evaluate_exposure (ex_risk_policy 1 9) (ex_evaluation_request 9 1) = Inr d \<and>
     ed_action d = MODIFY_EXPOSURE \<and> 0 < ed_approved_notional d \<and> ed_approved_notional d \<le> 8"
proof -
  let ?p = "ex_risk_policy (1 :: rat) 9" and ?q = "ex_evaluation_request (9 :: rat) 1"
  have facts: "exposure_open ?p ?q" "\<not> request_fits ?p ?q" "rp_allow_modification ?p"
      "rp_maximum_requested_risk_fraction ?p \<noteq> 0" "rs_available_buying_power (eq_state ?q) = 8"
    by (simp_all add: exposure_open_def request_fits_def ex_evaluation_request_def ex_committee_opinion_def
        ex_risk_state_def ex_risk_policy_def daily_loss_fraction_def symbol_capacity_def gross_capacity_def dec_defs)
  obtain d where d: "evaluate_exposure ?p ?q = Inr d"
      "ed_action d = REJECT_EXPOSURE \<longrightarrow> \<not> exposure_open ?p ?q \<or> (\<not> request_fits ?p ?q \<and> \<not> rp_allow_modification ?p) \<or>
        rp_maximum_requested_risk_fraction ?p = 0"
      "ed_action d = APPROVE_EXPOSURE \<longrightarrow> request_fits ?p ?q"
      "ed_action d = MODIFY_EXPOSURE \<longrightarrow> 0 < ed_approved_notional d"
      "ed_approved_notional d \<le> rs_available_buying_power (eq_state ?q)"
    using risk_committee_decides [OF ex_risk_made(2) ex_committee_made] by auto
  have "ed_action d = MODIFY_EXPOSURE" using d(2,3) facts by (cases "ed_action d") auto
  then show ?thesis using d(1,4,5) facts(5) by auto
qed

end
