(* ===== verification/Trade_Proposals.thy ===== *)
theory Trade_Proposals
  imports Risk_Committee
begin

text \<open>
  Trade proposals (app/trade_proposals/policies.py, models.py and engine.py): the engine turns
  the decision of the risk committee and a reference price into a plan of entry, stop, target
  and quantity, checks it and returns a READY or a REJECTED proposal.
\<close>

subsection \<open>Policy\<close>

datatype proposal_order = PROPOSE_MARKET | PROPOSE_LIMIT

record 'n proposal_policy =
  tp_version :: string
  tp_order_type :: proposal_order
  tp_limit_price_offset_fraction :: 'n
  tp_stop_loss_fraction :: 'n
  tp_take_profit_fraction :: 'n
  tp_minimum_risk_reward_ratio :: 'n
  tp_minimum_notional :: 'n
  tp_minimum_quantity :: 'n
  tp_quantity_increment :: 'n
  tp_price_increment :: 'n
  tp_allow_fractional_quantity :: bool
  tp_maximum_quantity :: "'n option"
  tp_metadata :: metadata

definition decimal_value :: "string \<Rightarrow> dec \<Rightarrow> rat res" where
  "decimal_value name d = finite_field ValueError name d"

fun maximum_quantity_value :: "dec option \<Rightarrow> rat option res" where
  "maximum_quantity_value None = Inr None"
| "maximum_quantity_value (Some d) =
     rbind (decimal_value ''maximum_quantity'' d) (\<lambda>maximum.
     rbind (demand (0 < maximum) ''maximum_quantity must be greater than zero'') (\<lambda>_. Inr (Some maximum)))"

definition make_proposal_policy :: "dec proposal_policy \<Rightarrow> rat proposal_policy res" where
  "make_proposal_policy p =
     rbind (demand (strip (tp_version p) \<noteq> []) ''version must be a nonempty string'') (\<lambda>_.
     rbind (decimal_value ''limit_price_offset_fraction'' (tp_limit_price_offset_fraction p)) (\<lambda>offset.
     rbind (decimal_value ''stop_loss_fraction'' (tp_stop_loss_fraction p)) (\<lambda>stop_loss.
     rbind (decimal_value ''take_profit_fraction'' (tp_take_profit_fraction p)) (\<lambda>take_profit.
     rbind (decimal_value ''minimum_risk_reward_ratio'' (tp_minimum_risk_reward_ratio p)) (\<lambda>ratio.
     rbind (decimal_value ''minimum_notional'' (tp_minimum_notional p)) (\<lambda>notional.
     rbind (decimal_value ''minimum_quantity'' (tp_minimum_quantity p)) (\<lambda>quantity.
     rbind (decimal_value ''quantity_increment'' (tp_quantity_increment p)) (\<lambda>quantity_increment.
     rbind (decimal_value ''price_increment'' (tp_price_increment p)) (\<lambda>price_increment.
     rbind (demand (0 \<le> offset) ''limit_price_offset_fraction must be nonnegative'') (\<lambda>_.
     rbind (demand (0 < stop_loss \<and> stop_loss < 1)
       ''stop_loss_fraction must be greater than zero and less than one'') (\<lambda>_.
     rbind (demand (0 < take_profit) ''take_profit_fraction must be greater than zero'') (\<lambda>_.
     rbind (demand (0 < ratio) ''minimum_risk_reward_ratio must be greater than zero'') (\<lambda>_.
     rbind (demand (0 \<le> notional) ''minimum_notional must be nonnegative'') (\<lambda>_.
     rbind (demand (0 < quantity) ''minimum_quantity must be greater than zero'') (\<lambda>_.
     rbind (demand (0 < quantity_increment) ''quantity_increment must be greater than zero'') (\<lambda>_.
     rbind (demand (0 < price_increment) ''price_increment must be greater than zero'') (\<lambda>_.
     rbind (maximum_quantity_value (tp_maximum_quantity p)) (\<lambda>maximum.
     rbind (freeze_json_mapping ''metadata'' (tp_metadata p)) (\<lambda>m.
     Inr \<lparr>tp_version = strip (tp_version p), tp_order_type = tp_order_type p,
       tp_limit_price_offset_fraction = offset, tp_stop_loss_fraction = stop_loss,
       tp_take_profit_fraction = take_profit, tp_minimum_risk_reward_ratio = ratio,
       tp_minimum_notional = notional, tp_minimum_quantity = quantity,
       tp_quantity_increment = quantity_increment, tp_price_increment = price_increment,
       tp_allow_fractional_quantity = tp_allow_fractional_quantity p, tp_maximum_quantity = maximum,
       tp_metadata = m\<rparr>)))))))))))))))))))"

subsection \<open>Requests, checks and proposals\<close>

datatype trade_direction = DIRECTION_LONG | DIRECTION_SHORT

datatype proposal_status = PROPOSAL_READY | PROPOSAL_REJECTED

datatype proposal_reason =
    REASON_READY | RISK_NOT_APPROVED | NON_DIRECTIONAL_COMMITTEE | ZERO_APPROVED_NOTIONAL
  | INVALID_REFERENCE_PRICE | QUANTITY_BELOW_MINIMUM | NOTIONAL_BELOW_MINIMUM
  | STOP_DISTANCE_TOO_SMALL | STOP_DISTANCE_TOO_LARGE | TARGET_DISTANCE_INVALID
  | RISK_REWARD_TOO_LOW | PRICE_INCREMENT_INVALID | QUANTITY_INCREMENT_INVALID
  | MULTIPLE_CONSTRAINTS

record 'n proposal_request =
  tq_risk_decision :: "rat exposure_decision"
  tq_reference_price :: 'n
  tq_timestamp :: datetime
  tq_policy :: "rat proposal_policy"
  tq_metadata :: metadata

definition make_proposal_request :: "dec proposal_request \<Rightarrow> rat proposal_request res" where
  "make_proposal_request q =
     rbind (decimal_value ''reference_price'' (tq_reference_price q)) (\<lambda>price.
     rbind (demand (0 < price) ''reference_price must be greater than zero'') (\<lambda>_.
     rbind (aware_utc (tq_timestamp q)) (\<lambda>timestamp.
     rbind (demand (dt_le (ed_timestamp (tq_risk_decision q)) timestamp)
       ''request timestamp cannot precede RiskDecision timestamp'') (\<lambda>_.
     rbind (freeze_json_mapping ''metadata'' (tq_metadata q)) (\<lambda>m.
     Inr \<lparr>tq_risk_decision = tq_risk_decision q, tq_reference_price = price, tq_timestamp = timestamp,
       tq_policy = tq_policy q, tq_metadata = m\<rparr>)))))"

record proposal_check =
  pk_code :: proposal_reason
  pk_passed :: bool
  pk_observed :: observed
  pk_limit :: "observed option"
  pk_message :: string
  pk_blocking :: bool

definition make_proposal_check :: "proposal_check \<Rightarrow> proposal_check res" where
  "make_proposal_check c = rbind (demand (strip (pk_message c) \<noteq> []) ''message must be nonempty'') (\<lambda>_. Inr c)"

record 'n trade_proposal =
  pr_proposal_id :: string
  pr_symbol :: string
  pr_timestamp :: datetime
  pr_status :: proposal_status
  pr_direction :: "trade_direction option"
  pr_order_type :: "proposal_order option"
  pr_approved_notional :: 'n
  pr_quantity :: 'n
  pr_reference_price :: 'n
  pr_entry_price :: 'n
  pr_stop_price :: 'n
  pr_target_price :: 'n
  pr_per_unit_risk :: 'n
  pr_total_planned_risk :: 'n
  pr_expected_reward :: 'n
  pr_risk_reward_ratio :: 'n
  pr_primary_reason :: proposal_reason
  pr_checks :: "proposal_check list"
  pr_reasons :: "string list"
  pr_policy_version :: string
  pr_engine_version :: string
  pr_risk_policy_version :: string
  pr_risk_committee_version :: string
  pr_metadata :: metadata

definition proposal_number :: "string \<Rightarrow> dec \<Rightarrow> rat res" where
  "proposal_number name d =
     rbind (decimal_value name d) (\<lambda>x.
     rbind (demand (0 \<le> x) (name @ '' must be nonnegative'')) (\<lambda>_. Inr x))"

definition make_trade_proposal :: "dec trade_proposal \<Rightarrow> rat trade_proposal res" where
  "make_trade_proposal t =
     rbind (demand (strip (pr_proposal_id t) \<noteq> []) ''proposal_id must be nonempty'') (\<lambda>_.
     rbind (demand (strip (pr_symbol t) \<noteq> [] \<and> strip (pr_symbol t) = upper (strip (pr_symbol t)))
       ''symbol must be nonempty and uppercase'') (\<lambda>_.
     rbind (aware_utc (pr_timestamp t)) (\<lambda>timestamp.
     rbind (proposal_number ''approved_notional'' (pr_approved_notional t)) (\<lambda>notional.
     rbind (proposal_number ''quantity'' (pr_quantity t)) (\<lambda>quantity.
     rbind (proposal_number ''reference_price'' (pr_reference_price t)) (\<lambda>reference.
     rbind (proposal_number ''proposed_entry_price'' (pr_entry_price t)) (\<lambda>entry.
     rbind (proposal_number ''stop_loss_price'' (pr_stop_price t)) (\<lambda>stop.
     rbind (proposal_number ''take_profit_price'' (pr_target_price t)) (\<lambda>target.
     rbind (proposal_number ''per_unit_risk'' (pr_per_unit_risk t)) (\<lambda>unit_risk.
     rbind (proposal_number ''total_planned_risk'' (pr_total_planned_risk t)) (\<lambda>total_risk.
     rbind (proposal_number ''expected_reward'' (pr_expected_reward t)) (\<lambda>reward.
     rbind (proposal_number ''risk_reward_ratio'' (pr_risk_reward_ratio t)) (\<lambda>ratio.
     rbind (demand (pr_status t = PROPOSAL_REJECTED \<longrightarrow> notional = 0 \<and> quantity = 0 \<and> total_risk = 0)
       ''REJECTED proposals must authorize zero notional, quantity, and planned risk'') (\<lambda>_.
     rbind (demand (pr_status t = PROPOSAL_READY \<longrightarrow> pr_direction t \<noteq> None \<and> pr_order_type t \<noteq> None \<and>
         0 < quantity \<and> 0 < min (min entry stop) target)
       ''READY proposals require direction, order type, quantity, and positive prices'') (\<lambda>_.
     rbind (demand (pr_checks t \<noteq> []) ''checks must be a nonempty tuple of TradeProposalCheck'') (\<lambda>_.
     rbind (demand (pr_reasons t \<noteq> [] \<and> list_all (\<lambda>r. strip r \<noteq> []) (pr_reasons t))
       ''reasons must be a nonempty tuple of strings'') (\<lambda>_.
     rbind (demand (strip (pr_policy_version t) \<noteq> []) ''policy_version must be nonempty'') (\<lambda>_.
     rbind (demand (strip (pr_engine_version t) \<noteq> []) ''proposal_engine_version must be nonempty'') (\<lambda>_.
     rbind (demand (strip (pr_risk_policy_version t) \<noteq> []) ''risk_policy_version must be nonempty'') (\<lambda>_.
     rbind (demand (strip (pr_risk_committee_version t) \<noteq> []) ''risk_committee_version must be nonempty'') (\<lambda>_.
     rbind (freeze_json_mapping ''metadata'' (pr_metadata t)) (\<lambda>m.
     Inr \<lparr>pr_proposal_id = pr_proposal_id t, pr_symbol = strip (pr_symbol t), pr_timestamp = timestamp,
       pr_status = pr_status t, pr_direction = pr_direction t, pr_order_type = pr_order_type t,
       pr_approved_notional = notional, pr_quantity = quantity, pr_reference_price = reference,
       pr_entry_price = entry, pr_stop_price = stop, pr_target_price = target, pr_per_unit_risk = unit_risk,
       pr_total_planned_risk = total_risk, pr_expected_reward = reward, pr_risk_reward_ratio = ratio,
       pr_primary_reason = pr_primary_reason t, pr_checks = pr_checks t, pr_reasons = pr_reasons t,
       pr_policy_version = strip (pr_policy_version t), pr_engine_version = strip (pr_engine_version t),
       pr_risk_policy_version = strip (pr_risk_policy_version t),
       pr_risk_committee_version = strip (pr_risk_committee_version t), pr_metadata = m\<rparr>))))))))))))))))))))))"

subsection \<open>Prices and quantities\<close>

definition toward_direction :: "committee_action \<Rightarrow> trade_direction option" where
  "toward_direction a =
     (if a = COMMITTEE_BULLISH then Some DIRECTION_LONG
      else if a = COMMITTEE_BEARISH then Some DIRECTION_SHORT else None)"

definition round_increment_down :: "rat \<Rightarrow> rat \<Rightarrow> rat" where
  "round_increment_down v increment = dmul (of_int \<lfloor>ddiv v increment\<rfloor>) increment"

definition round_increment_up :: "rat \<Rightarrow> rat \<Rightarrow> rat" where
  "round_increment_up v increment = dmul (of_int \<lceil>ddiv v increment\<rceil>) increment"

definition entry_price :: "rat \<Rightarrow> trade_direction \<Rightarrow> rat proposal_policy \<Rightarrow> rat" where
  "entry_price reference direction p =
     (if tp_order_type p = PROPOSE_MARKET then reference
      else if direction = DIRECTION_LONG
      then round_increment_down (dmul reference (dsub 1 (tp_limit_price_offset_fraction p))) (tp_price_increment p)
      else round_increment_up (dmul reference (dadd 1 (tp_limit_price_offset_fraction p))) (tp_price_increment p))"

definition stop_price :: "rat \<Rightarrow> trade_direction \<Rightarrow> rat proposal_policy \<Rightarrow> rat" where
  "stop_price entry direction p =
     max 0 (if direction = DIRECTION_LONG
       then round_increment_down (dmul entry (dsub 1 (tp_stop_loss_fraction p))) (tp_price_increment p)
       else round_increment_up (dmul entry (dadd 1 (tp_stop_loss_fraction p))) (tp_price_increment p))"

definition target_price :: "rat \<Rightarrow> trade_direction \<Rightarrow> rat proposal_policy \<Rightarrow> rat" where
  "target_price entry direction p =
     max 0 (if direction = DIRECTION_LONG
       then round_increment_up (dmul entry (dadd 1 (tp_take_profit_fraction p))) (tp_price_increment p)
       else round_increment_down (dmul entry (dsub 1 (tp_take_profit_fraction p))) (tp_price_increment p))"

definition effective_quantity_increment :: "rat proposal_policy \<Rightarrow> rat" where
  "effective_quantity_increment p =
     (if tp_allow_fractional_quantity p then tp_quantity_increment p else max 1 (tp_quantity_increment p))"

definition proposal_quantity :: "rat \<Rightarrow> rat \<Rightarrow> rat proposal_policy \<Rightarrow> rat" where
  "proposal_quantity notional entry p =
     (let increment = effective_quantity_increment p;
          quantity = round_increment_down (ddiv notional entry) increment in
      case tp_maximum_quantity p of
        None \<Rightarrow> quantity
      | Some maximum \<Rightarrow> min quantity (round_increment_down maximum increment))"

text \<open>\<open>value % increment\<close> raises \<open>InvalidOperation\<close> if the integer quotient has more than 28 digits.\<close>

definition is_increment :: "rat \<Rightarrow> rat \<Rightarrow> bool res" where
  "is_increment v increment =
     (if v < 0 then Inr False
      else rbind (check (\<lfloor>v / increment\<rfloor> < 10 ^ 28) (Raise InvalidOperation [])) (\<lambda>_.
        Inr (of_int \<lfloor>v / increment\<rfloor> = v / increment)))"

fun all_increments :: "rat \<Rightarrow> rat list \<Rightarrow> bool res" where
  "all_increments increment [] = Inr True"
| "all_increments increment (v # vs) =
     rbind (is_increment v increment) (\<lambda>fits. if fits then all_increments increment vs else Inr False)"

text \<open>What \<open>create\<close> computes before its checks.\<close>

record trade_plan =
  pl_entry :: rat
  pl_stop :: rat
  pl_target :: rat
  pl_quantity :: rat
  pl_planned :: rat
  pl_unit_risk :: rat
  pl_unit_reward :: rat
  pl_ratio :: rat
  pl_total_risk :: rat
  pl_expected_reward :: rat

definition empty_plan :: "rat \<Rightarrow> trade_plan" where
  "empty_plan entry = \<lparr>pl_entry = entry, pl_stop = 0, pl_target = 0, pl_quantity = 0, pl_planned = 0,
     pl_unit_risk = 0, pl_unit_reward = 0, pl_ratio = 0, pl_total_risk = 0, pl_expected_reward = 0\<rparr>"

definition directed_plan :: "rat \<Rightarrow> rat \<Rightarrow> trade_direction \<Rightarrow> rat proposal_policy \<Rightarrow> trade_plan" where
  "directed_plan notional entry direction p =
     (let stop = stop_price entry direction p; target = target_price entry direction p;
          quantity = proposal_quantity notional entry p;
          risk = max 0 (if direction = DIRECTION_LONG then dsub entry stop else dsub stop entry);
          reward = max 0 (if direction = DIRECTION_LONG then dsub target entry else dsub entry target) in
      \<lparr>pl_entry = entry, pl_stop = stop, pl_target = target, pl_quantity = quantity,
       pl_planned = dmul quantity entry, pl_unit_risk = risk, pl_unit_reward = reward,
       pl_ratio = (if 0 < risk then ddiv reward risk else 0), pl_total_risk = dmul risk quantity,
       pl_expected_reward = dmul reward quantity\<rparr>)"

definition trade_plan_of :: "rat proposal_policy \<Rightarrow> rat proposal_request \<Rightarrow> trade_plan" where
  "trade_plan_of p q =
     (let risk = tq_risk_decision q in
      case toward_direction (ed_committee_action risk) of
        None \<Rightarrow> empty_plan 0
      | Some direction \<Rightarrow>
          if \<not> 0 < ed_approved_notional risk then empty_plan 0
          else let entry = entry_price (tq_reference_price q) direction p in
            if 0 < entry then directed_plan (ed_approved_notional risk) entry direction p else empty_plan entry)"

definition plan_applicable :: "rat proposal_policy \<Rightarrow> rat proposal_request \<Rightarrow> bool" where
  "plan_applicable p q \<longleftrightarrow> 0 < ed_approved_notional (tq_risk_decision q) \<and>
     toward_direction (ed_committee_action (tq_risk_decision q)) \<noteq> None \<and> 0 < pl_entry (trade_plan_of p q)"

subsection \<open>Checks of the engine\<close>

definition engine_check :: "proposal_reason \<Rightarrow> bool \<Rightarrow> observed \<Rightarrow> observed \<Rightarrow> string \<Rightarrow> proposal_check res" where
  "engine_check code passed observed limit msg = make_proposal_check
     \<lparr>pk_code = code, pk_passed = passed, pk_observed = observed, pk_limit = Some limit,
      pk_message = msg, pk_blocking = True\<rparr>"

definition applicable_check ::
  "proposal_reason \<Rightarrow> bool \<Rightarrow> bool \<Rightarrow> rat \<Rightarrow> rat \<Rightarrow> string \<Rightarrow> proposal_check res" where
  "applicable_check code passed applicable observed limit msg =
     (if \<not> applicable then make_proposal_check
        \<lparr>pk_code = code, pk_passed = True, pk_observed = Observed_Decimal 0, pk_limit = Some (Observed_Decimal limit),
         pk_message = ''Check was not applicable to the rejected authorization.'', pk_blocking = True\<rparr>
      else engine_check code passed (Observed_Decimal observed) (Observed_Decimal limit) msg)"

definition maximum_check :: "rat \<Rightarrow> rat option \<Rightarrow> bool \<Rightarrow> proposal_check res" where
  "maximum_check quantity maximum applicable =
     (case maximum of
        None \<Rightarrow> make_proposal_check \<lparr>pk_code = QUANTITY_INCREMENT_INVALID, pk_passed = True,
          pk_observed = Observed_Text ''not configured'', pk_limit = None,
          pk_message = ''Maximum quantity was not configured.'', pk_blocking = True\<rparr>
      | Some m \<Rightarrow> applicable_check QUANTITY_INCREMENT_INVALID (quantity \<le> m) applicable quantity m
          ''Calculated quantity exceeded the configured maximum.'')"

definition increment_verdicts :: "rat proposal_policy \<Rightarrow> rat proposal_request \<Rightarrow> (bool \<times> bool) res" where
  "increment_verdicts p q =
     (let plan = trade_plan_of p q in
      rbind (if plan_applicable p q
        then all_increments (tp_price_increment p) [pl_entry plan, pl_stop plan, pl_target plan]
        else Inr False) (\<lambda>prices.
      rbind (is_increment (pl_quantity plan) (effective_quantity_increment p)) (\<lambda>quantity.
      Inr (prices, quantity))))"

definition proposal_checks ::
  "rat proposal_policy \<Rightarrow> rat proposal_request \<Rightarrow> bool \<Rightarrow> bool \<Rightarrow> proposal_check res list" where
  "proposal_checks p q prices_fit quantity_fits =
     (let risk = tq_risk_decision q; plan = trade_plan_of p q; applicable = plan_applicable p q;
          authorized = (ed_action risk = APPROVE_EXPOSURE \<or> ed_action risk = MODIFY_EXPOSURE);
          entry = pl_entry plan; stop = pl_stop plan; target = pl_target plan; quantity = pl_quantity plan;
          stop_valid = (0 < entry \<and> 0 < stop \<and> 0 < pl_unit_risk plan);
          target_valid = (0 < entry \<and> 0 < target \<and> 0 < pl_unit_reward plan);
          stop_code = (if 0 < entry \<and> stop \<le> 0 then STOP_DISTANCE_TOO_LARGE else STOP_DISTANCE_TOO_SMALL) in
      [engine_check RISK_NOT_APPROVED authorized (Observed_Text (decision_outcome_value (ed_action risk)))
         (Observed_Text ''APPROVE|MODIFY'') ''Risk Committee did not authorize directional exposure.'',
       engine_check ZERO_APPROVED_NOTIONAL (0 < ed_approved_notional risk \<or> \<not> authorized)
         (Observed_Decimal (ed_approved_notional risk)) (Observed_Decimal 0)
         ''Risk Committee authorized zero notional.'',
       engine_check NON_DIRECTIONAL_COMMITTEE
         (toward_direction (ed_committee_action risk) \<noteq> None \<or> \<not> authorized)
         (Observed_Text (committee_action_value (ed_committee_action risk))) (Observed_Text ''BULLISH|BEARISH'')
         ''Committee action was NEUTRAL; no trade direction was available.'',
       engine_check INVALID_REFERENCE_PRICE (0 < tq_reference_price q) (Observed_Decimal (tq_reference_price q))
         (Observed_Decimal 0) ''Reference price must be greater than zero.'',
       applicable_check INVALID_REFERENCE_PRICE (0 < entry) applicable entry 0
         ''Calculated entry price must be greater than zero.'',
       applicable_check stop_code stop_valid applicable (pl_unit_risk plan) 0
         ''Calculated stop distance was invalid.'',
       applicable_check TARGET_DISTANCE_INVALID target_valid applicable (pl_unit_reward plan) 0
         ''Calculated target distance was invalid.'',
       applicable_check QUANTITY_BELOW_MINIMUM (tp_minimum_quantity p \<le> quantity) applicable quantity
         (tp_minimum_quantity p) ''Calculated quantity was below the configured minimum.'',
       applicable_check QUANTITY_INCREMENT_INVALID quantity_fits applicable quantity
         (effective_quantity_increment p) ''Calculated quantity did not match the required increment.'',
       applicable_check PRICE_INCREMENT_INVALID prices_fit applicable entry (tp_price_increment p)
         ''Calculated prices did not match the required increment.'',
       applicable_check NOTIONAL_BELOW_MINIMUM (tp_minimum_notional p \<le> pl_planned plan) applicable
         (pl_planned plan) (tp_minimum_notional p)
         ''Calculated planned notional was below the configured minimum.'',
       applicable_check RISK_REWARD_TOO_LOW (tp_minimum_risk_reward_ratio p \<le> pl_ratio plan) applicable
         (pl_ratio plan) (tp_minimum_risk_reward_ratio p)
         ''Risk/reward ratio was below the configured minimum.'',
       maximum_check quantity (tp_maximum_quantity p) applicable])"

subsection \<open>The engine\<close>

definition engine_version :: string where
  "engine_version = ''trade_proposal_engine_v1''"

text \<open>Status, notional, quantity, risk, reward, primary reason and reasons.\<close>

definition proposal_verdict ::
  "rat \<Rightarrow> trade_plan \<Rightarrow> proposal_check list \<Rightarrow>
   (proposal_status \<times> rat \<times> rat \<times> rat \<times> rat \<times> proposal_reason \<times> string list) res" where
  "proposal_verdict approved plan checks =
     (let failed = filter (\<lambda>c. \<not> pk_passed c \<and> pk_blocking c) checks in
      if failed = [] \<and> pl_planned plan \<le> approved
      then Inr (PROPOSAL_READY, approved, pl_quantity plan, pl_total_risk plan, pl_expected_reward plan,
        REASON_READY, [''Trade proposal is ready for later compliance evaluation.''])
      else case failed of
        [] \<Rightarrow> Inl (Raise IndexError ''tuple index out of range'')
      | c # cs \<Rightarrow> Inr (PROPOSAL_REJECTED, 0, 0, 0, 0, if cs \<noteq> [] then MULTIPLE_CONSTRAINTS else pk_code c,
          map pk_message failed))"

definition engine_policy :: "rat proposal_policy option \<Rightarrow> rat proposal_request \<Rightarrow> rat proposal_policy" where
  "engine_policy configured q = (case configured of Some p \<Rightarrow> p | None \<Rightarrow> tq_policy q)"

definition proposal_metadata :: "rat proposal_policy \<Rightarrow> rat proposal_request \<Rightarrow> proposal_check list \<Rightarrow> metadata" where
  "proposal_metadata p q checks =
     (let risk = tq_risk_decision q; plan = trade_plan_of p q in
          [(''deterministic'', JBool True), (''authorized_notional'', JDecimalText (ed_approved_notional risk)),
           (''planned_notional'', JDecimalText (pl_planned plan)),
           (''unused_authorized_notional'', JDecimalText (max 0 (dsub (ed_approved_notional risk) (pl_planned plan)))),
           (''reference_price'', JDecimalText (tq_reference_price q)), (''entry_price'', JDecimalText (pl_entry plan)),
           (''quantity_increment'', JDecimalText (effective_quantity_increment p)),
           (''price_increment'', JDecimalText (tp_price_increment p)),
           (''fractional_quantity_enabled'', JBool (tp_allow_fractional_quantity p)),
           (''risk_decision_action'', JText (decision_outcome_value (ed_action risk))),
           (''risk_primary_reason'', JText (reason_code_value (ed_primary_reason risk))),
           (''risk_policy_version'', JText (ed_policy_version risk)),
           (''risk_committee_version'', JText (ed_committee_version risk)),
           (''proposal_policy_version'', JText (tp_version p)),
           (''proposal_engine_version'', JText engine_version),
           (''total_checks'', JInt (int (length checks))),
           (''failed_check_count'',
             JInt (int (length (filter (\<lambda>c. \<not> pk_passed c \<and> pk_blocking c) checks))))])"

text \<open>The identity of a proposal is a SHA-256 digest of the request; it is an argument.\<close>

definition create_proposal ::
  "string \<Rightarrow> rat proposal_policy option \<Rightarrow> rat proposal_request \<Rightarrow> rat trade_proposal res" where
  "create_proposal proposal_id configured q =
     (let p = engine_policy configured q; risk = tq_risk_decision q; plan = trade_plan_of p q in
      rbind (increment_verdicts p q) (\<lambda>(prices_fit, quantity_fits).
      rbind (traverse (\<lambda>c. c) (proposal_checks p q prices_fit quantity_fits)) (\<lambda>checks.
      rbind (proposal_verdict (ed_approved_notional risk) plan checks)
        (\<lambda>(status, notional, quantity, total_risk, reward, primary, reasons).
      make_trade_proposal \<lparr>pr_proposal_id = proposal_id, pr_symbol = ed_symbol risk, pr_timestamp = tq_timestamp q,
        pr_status = status, pr_direction = toward_direction (ed_committee_action risk),
        pr_order_type = Some (tp_order_type p), pr_approved_notional = Fin notional, pr_quantity = Fin quantity,
        pr_reference_price = Fin (tq_reference_price q), pr_entry_price = Fin (pl_entry plan),
        pr_stop_price = Fin (pl_stop plan), pr_target_price = Fin (pl_target plan),
        pr_per_unit_risk = Fin (pl_unit_risk plan), pr_total_planned_risk = Fin total_risk,
        pr_expected_reward = Fin reward, pr_risk_reward_ratio = Fin (pl_ratio plan), pr_primary_reason = primary,
        pr_checks = checks, pr_reasons = reasons, pr_policy_version = tp_version p,
        pr_engine_version = engine_version, pr_risk_policy_version = ed_policy_version risk,
        pr_risk_committee_version = ed_committee_version risk,
        pr_metadata = proposal_metadata p q checks\<rparr>))))"

subsection \<open>Sound values\<close>

definition exposure_decision_ok :: "rat exposure_decision \<Rightarrow> bool" where
  "exposure_decision_ok d \<longleftrightarrow> strip (ed_symbol d) = ed_symbol d \<and> ed_symbol d \<noteq> [] \<and>
     upper (ed_symbol d) = ed_symbol d \<and> strip (ed_policy_version d) \<noteq> [] \<and> strip (ed_committee_version d) \<noteq> [] \<and>
     0 \<le> ed_approved_notional d \<and> (ed_action d = REJECT_EXPOSURE \<longrightarrow> ed_approved_notional d = 0)"

definition proposal_policy_ok :: "rat proposal_policy \<Rightarrow> bool" where
  "proposal_policy_ok p \<longleftrightarrow> strip (tp_version p) \<noteq> [] \<and> 0 < tp_minimum_quantity p \<and> 0 < tp_quantity_increment p \<and>
     0 < tp_price_increment p \<and> 0 < tp_minimum_risk_reward_ratio p"

definition proposal_request_ok :: "rat proposal_request \<Rightarrow> bool" where
  "proposal_request_ok q \<longleftrightarrow> 0 < tq_reference_price q \<and> tz_aware (tq_timestamp q)"

lemma decimal_value_Inr [simp]: "decimal_value name d = Inr x \<longleftrightarrow> d = Fin x"
  by (simp add: decimal_value_def)

lemma proposal_number_Inr [simp]: "proposal_number name d = Inr x \<longleftrightarrow> d = Fin x \<and> 0 \<le> x"
  by (auto simp: proposal_number_def res_simps)

lemma make_exposure_decision_ok: "make_exposure_decision raw = Inr d \<Longrightarrow> exposure_decision_ok d"
  unfolding make_exposure_decision_def
  by (auto simp: exposure_decision_ok_def res_simps simp del: frozen.simps)

lemma make_proposal_policy_ok: "make_proposal_policy raw = Inr p \<Longrightarrow> proposal_policy_ok p"
  unfolding make_proposal_policy_def
  by (auto simp: proposal_policy_ok_def res_simps simp del: frozen.simps)

lemma make_proposal_request_ok: "make_proposal_request raw = Inr q \<Longrightarrow> proposal_request_ok q \<and>
    tq_risk_decision q = tq_risk_decision raw \<and> tq_policy q = tq_policy raw"
  unfolding make_proposal_request_def
  by (auto simp: proposal_request_ok_def res_simps simp del: frozen.simps)

subsection \<open>What the checks mean\<close>

abbreviation "failures \<equiv> filter (\<lambda>c. \<not> pk_passed c \<and> pk_blocking c)"

definition exposure_authorized :: "rat proposal_request \<Rightarrow> bool" where
  "exposure_authorized q \<longleftrightarrow> ed_action (tq_risk_decision q) \<noteq> REJECT_EXPOSURE \<and>
     0 < ed_approved_notional (tq_risk_decision q) \<and>
     toward_direction (ed_committee_action (tq_risk_decision q)) \<noteq> None"

definition plan_sound :: "rat proposal_policy \<Rightarrow> trade_plan \<Rightarrow> bool \<Rightarrow> bool \<Rightarrow> bool" where
  "plan_sound p plan prices_fit quantity_fits \<longleftrightarrow>
     0 < pl_stop plan \<and> 0 < pl_unit_risk plan \<and> 0 < pl_target plan \<and> 0 < pl_unit_reward plan \<and>
     tp_minimum_quantity p \<le> pl_quantity plan \<and> quantity_fits \<and> prices_fit \<and>
     tp_minimum_notional p \<le> pl_planned plan \<and> tp_minimum_risk_reward_ratio p \<le> pl_ratio plan \<and>
     (\<forall>m\<in>set_option (tp_maximum_quantity p). pl_quantity plan \<le> m)"

lemma engine_check_Inr: "\<not> is_space a \<Longrightarrow> engine_check code passed obs limit (a # msg) =
    Inr \<lparr>pk_code = code, pk_passed = passed, pk_observed = obs, pk_limit = Some limit,
      pk_message = a # msg, pk_blocking = True\<rparr>"
  by (simp add: engine_check_def make_proposal_check_def strip_Cons_nonblank)

lemma applicable_check_Inr: "\<not> is_space a \<Longrightarrow> applicable_check code passed applicable obs limit (a # msg) =
    Inr \<lparr>pk_code = code, pk_passed = (applicable \<longrightarrow> passed),
      pk_observed = Observed_Decimal (if applicable then obs else 0), pk_limit = Some (Observed_Decimal limit),
      pk_message = (if applicable then a # msg else ''Check was not applicable to the rejected authorization.''),
      pk_blocking = True\<rparr>"
  by (simp add: applicable_check_def engine_check_Inr make_proposal_check_def strip_Cons_nonblank is_space_def)

lemma maximum_check_Inr: "\<exists>c. maximum_check quantity maximum applicable = Inr c \<and>
    pk_passed c = (applicable \<longrightarrow> (\<forall>m\<in>set_option maximum. quantity \<le> m)) \<and> pk_blocking c \<and> strip (pk_message c) \<noteq> []"
  by (cases maximum)
    (auto simp: maximum_check_def applicable_check_Inr make_proposal_check_def strip_Cons_nonblank is_space_def)

lemma proposal_checks_meaning:
  assumes "exposure_decision_ok (tq_risk_decision q)" and "proposal_request_ok q"
  shows "\<exists>cs. traverse (\<lambda>c. c) (proposal_checks p q prices_fit quantity_fits) = Inr cs \<and> cs \<noteq> [] \<and>
    (\<forall>c\<in>set cs. strip (pk_message c) \<noteq> []) \<and>
    (failures cs = [] \<longleftrightarrow> exposure_authorized q \<and>
      (plan_applicable p q \<longrightarrow> plan_sound p (trade_plan_of p q) prices_fit quantity_fits))"
proof -
  obtain c where c: "maximum_check (pl_quantity (trade_plan_of p q)) (tp_maximum_quantity p) (plan_applicable p q) = Inr c"
    "pk_passed c = (plan_applicable p q \<longrightarrow>
      (\<forall>m\<in>set_option (tp_maximum_quantity p). pl_quantity (trade_plan_of p q) \<le> m))"
    "pk_blocking c" "strip (pk_message c) \<noteq> []"
    using maximum_check_Inr by blast
  have e: "plan_applicable p q \<Longrightarrow> 0 < pl_entry (trade_plan_of p q)" by (simp add: plan_applicable_def)
  have a: "ed_action d = APPROVE_EXPOSURE \<or> ed_action d = MODIFY_EXPOSURE \<longleftrightarrow> ed_action d \<noteq> REJECT_EXPOSURE"
    for d :: "rat exposure_decision" by (cases "ed_action d") auto
  have r: "0 < tq_reference_price q" using assms(2) by (simp add: proposal_request_ok_def)
  show ?thesis
    unfolding proposal_checks_def Let_def a
    by (simp add: engine_check_Inr applicable_check_Inr is_space_def c r strip_Cons_nonblank)
      (auto simp: exposure_authorized_def plan_sound_def dest: e)
qed

subsection \<open>The outcome of a request\<close>

text \<open>The fields of a plan are never negative, its entry apart.\<close>

lemma directed_plan_nonneg:
  assumes "plan = directed_plan notional entry direction p"
  shows "0 \<le> pl_stop plan" "0 \<le> pl_target plan" "0 \<le> pl_unit_risk plan" "0 \<le> pl_unit_reward plan" "0 \<le> pl_ratio plan"
    and "pl_entry plan = entry" "pl_planned plan = dmul (pl_quantity plan) entry"
    and "pl_total_risk plan = dmul (pl_unit_risk plan) (pl_quantity plan)"
    and "pl_expected_reward plan = dmul (pl_unit_reward plan) (pl_quantity plan)"
  by (auto simp: assms directed_plan_def Let_def stop_price_def target_price_def ddiv_def)

lemma increment_verdicts_cases:
  "increment_verdicts p q = Inl (Raise InvalidOperation []) \<or> (\<exists>v. increment_verdicts p q = Inr v)"
proof -
  have one: "is_increment v i = Inl (Raise InvalidOperation []) \<or> (\<exists>b. is_increment v i = Inr b)" for v i
    by (auto simp: is_increment_def check_def)
  have "all_increments i vs = Inl (Raise InvalidOperation []) \<or> (\<exists>b. all_increments i vs = Inr b)" for i vs
  proof (induction vs)
    case (Cons v vs)
    from one [of v i] show ?case
    proof (elim disjE exE)
      fix b assume "is_increment v i = Inr b"
      with Cons show ?thesis by (cases b) auto
    qed simp
  qed auto
  then show ?thesis
    using one [of "pl_quantity (trade_plan_of p q)" "effective_quantity_increment p"]
    unfolding increment_verdicts_def Let_def by (smt (verit) rbind.simps)
qed

lemma proposal_metadata_frozen [simp]: "frozen_mapping (proposal_metadata p q checks)"
  by (simp add: proposal_metadata_def Let_def strip_Cons_nonblank is_space_def)

lemma create_proposal_made:
  assumes ok: "exposure_decision_ok (tq_risk_decision q)" "proposal_request_ok q"
      "strip (tp_version (engine_policy configured q)) \<noteq> []" and pid: "strip pid \<noteq> []"
    and plan: "plan = trade_plan_of (engine_policy configured q) q"
    and fits: "increment_verdicts (engine_policy configured q) q = Inr (prices_fit, quantity_fits)"
    and cs: "traverse (\<lambda>c. c) (proposal_checks (engine_policy configured q) q prices_fit quantity_fits) = Inr cs"
      "cs \<noteq> []"
    and v: "proposal_verdict (ed_approved_notional (tq_risk_decision q)) plan cs =
      Inr (status, notional, quantity, total_risk, reward, primary, reasons)"
    and n: "0 \<le> pl_entry plan" "0 \<le> pl_stop plan" "0 \<le> pl_target plan" "0 \<le> pl_unit_risk plan" "0 \<le> pl_ratio plan"
      "0 \<le> notional" "0 \<le> quantity" "0 \<le> total_risk" "0 \<le> reward"
    and r: "reasons \<noteq> []" "\<forall>r\<in>set reasons. strip r \<noteq> []"
    and rejected: "status = PROPOSAL_REJECTED \<longrightarrow> notional = 0 \<and> quantity = 0 \<and> total_risk = 0"
    and ready: "status = PROPOSAL_READY \<longrightarrow> toward_direction (ed_committee_action (tq_risk_decision q)) \<noteq> None \<and>
      0 < quantity \<and> 0 < pl_entry plan \<and> 0 < pl_stop plan \<and> 0 < pl_target plan"
  shows "\<exists>t. create_proposal pid configured q = Inr t \<and> pr_status t = status \<and> pr_quantity t = quantity \<and>
    pr_approved_notional t = notional \<and> pr_entry_price t = pl_entry plan \<and> pr_stop_price t = pl_stop plan \<and>
    pr_target_price t = pl_target plan \<and> pr_total_planned_risk t = total_risk"
proof -
  have sym: "strip (ed_symbol (tq_risk_decision q)) = ed_symbol (tq_risk_decision q)"
      "ed_symbol (tq_risk_decision q) \<noteq> []" "upper (ed_symbol (tq_risk_decision q)) = ed_symbol (tq_risk_decision q)"
      "strip (ed_policy_version (tq_risk_decision q)) \<noteq> []" "strip (ed_committee_version (tq_risk_decision q)) \<noteq> []"
    using ok(1) by (simp_all add: exposure_decision_ok_def)
  have t: "tz_aware (tq_timestamp q)" "0 \<le> tq_reference_price q" using ok(2) by (simp_all add: proposal_request_ok_def)
  have ev: "strip engine_version \<noteq> []" by (simp add: engine_version_def strip_Cons_nonblank is_space_def)
  show ?thesis
    unfolding create_proposal_def Let_def fits rbind.simps prod.case cs(1) plan [symmetric] v
      make_trade_proposal_def rbind_Inr_iff
    using sym t ev ok(3) pid n r rejected ready cs(2)
    by (simp add: demand_def list_all_iff del: frozen.simps)
qed

lemma unauthorized_plan:
  "exposure_decision_ok (tq_risk_decision q) \<Longrightarrow> \<not> exposure_authorized q \<Longrightarrow> trade_plan_of p q = empty_plan 0"
  by (auto simp: exposure_authorized_def exposure_decision_ok_def trade_plan_of_def Let_def split: option.split)

lemma empty_plan_of:
  "pl_entry (trade_plan_of p q) \<le> 0 \<Longrightarrow> trade_plan_of p q = empty_plan (pl_entry (trade_plan_of p q))"
  by (auto simp: trade_plan_of_def Let_def empty_plan_def directed_plan_def split: option.splits if_splits)

lemma applicable_plan:
  assumes "exposure_authorized q" and "0 < pl_entry (trade_plan_of p q)"
  obtains direction where "toward_direction (ed_committee_action (tq_risk_decision q)) = Some direction"
    and "trade_plan_of p q = directed_plan (ed_approved_notional (tq_risk_decision q))
      (pl_entry (trade_plan_of p q)) direction p" and "plan_applicable p q"
proof -
  obtain direction where d: "toward_direction (ed_committee_action (tq_risk_decision q)) = Some direction"
    using assms(1) by (auto simp: exposure_authorized_def)
  let ?e = "entry_price (tq_reference_price q) direction p"
  have "0 < ?e" using assms d
    by (simp add: exposure_authorized_def trade_plan_of_def Let_def empty_plan_def split: if_splits)
  then have p: "trade_plan_of p q = directed_plan (ed_approved_notional (tq_risk_decision q)) ?e direction p"
    using assms d by (simp add: exposure_authorized_def trade_plan_of_def Let_def)
  moreover have "pl_entry (trade_plan_of p q) = ?e" unfolding p by (simp add: directed_plan_nonneg(6) [OF refl])
  ultimately show ?thesis
    using assms d by (intro that) (simp_all add: plan_applicable_def exposure_authorized_def)
qed

lemma increment_verdicts_empty:
  assumes "pl_entry (trade_plan_of p q) \<le> 0"
  shows "increment_verdicts p q = Inr (False, True)"
proof -
  have "pl_quantity (trade_plan_of p q) = 0"
    using arg_cong [OF empty_plan_of [OF assms], of pl_quantity] by (simp add: empty_plan_def)
  moreover have "\<not> plan_applicable p q" using assms by (simp add: plan_applicable_def)
  ultimately show ?thesis by (simp add: increment_verdicts_def Let_def is_increment_def check_def)
qed

lemma rejected_verdict:
  assumes "failures cs \<noteq> []" and "\<forall>c\<in>set cs. strip (pk_message c) \<noteq> []"
  obtains primary reasons where "proposal_verdict approved plan cs = Inr (PROPOSAL_REJECTED, 0, 0, 0, 0, primary, reasons)"
    and "reasons \<noteq> []" and "\<forall>r\<in>set reasons. strip r \<noteq> []"
proof -
  obtain c rest where f: "failures cs = c # rest" using assms(1) by (cases "failures cs") auto
  have "set (c # rest) \<subseteq> set cs" unfolding f [symmetric] by auto
  then have "\<forall>r\<in>set (map pk_message (c # rest)). strip r \<noteq> []" using assms(2) by auto
  then show ?thesis using f by (intro that) (auto simp: proposal_verdict_def)
qed

text \<open>An authorized request whose entry price is not positive passes every check, with quantity 0.\<close>

lemma nonpositive_entry_raises:
  assumes ok: "exposure_decision_ok (tq_risk_decision q)" "proposal_request_ok q" and pid: "strip pid \<noteq> []"
    and auth: "exposure_authorized q" and entry: "pl_entry (trade_plan_of (engine_policy configured q) q) \<le> 0"
  shows "\<exists>msg. create_proposal pid configured q = Inl (Raise ValueError msg)"
proof -
  let ?p = "engine_policy configured q"
  have na: "\<not> plan_applicable ?p q" using entry by (simp add: plan_applicable_def)
  obtain cs where cs: "traverse (\<lambda>c. c) (proposal_checks ?p q False True) = Inr cs" "failures cs = []"
    using proposal_checks_meaning [OF ok, of ?p False True] auth na by auto
  obtain e where e: "trade_plan_of ?p q = empty_plan e" "e \<le> 0" using empty_plan_of [OF entry] entry by metis
  have approved: "0 < ed_approved_notional (tq_risk_decision q)" using auth by (simp add: exposure_authorized_def)
  have v: "proposal_verdict (ed_approved_notional (tq_risk_decision q)) (empty_plan e) cs =
      Inr (PROPOSAL_READY, ed_approved_notional (tq_risk_decision q), 0, 0, 0, REASON_READY,
        [''Trade proposal is ready for later compliance evaluation.''])"
    using approved by (simp add: proposal_verdict_def Let_def cs(2) empty_plan_def)
  have number: "proposal_number name (Fin x) = (if 0 \<le> x then Inr x
      else Inl (Raise ValueError (name @ '' must be nonnegative'')))" for name x
    by (simp add: proposal_number_def decimal_value_def finite_field_def demand_def check_def)
  have sym: "strip (ed_symbol (tq_risk_decision q)) \<noteq> []"
      "upper (strip (ed_symbol (tq_risk_decision q))) = strip (ed_symbol (tq_risk_decision q))"
    using ok(1) by (simp_all add: exposure_decision_ok_def)
  have time: "aware_utc (tq_timestamp q) = Inr (to_utc (tq_timestamp q))" "0 < tq_reference_price q"
    using ok(2) by (simp_all add: proposal_request_ok_def)
  show ?thesis
    unfolding create_proposal_def Let_def increment_verdicts_empty [OF entry] e(1) rbind.simps prod.case cs(1) v
      make_trade_proposal_def trade_proposal.simps time(1)
    using sym time(2) pid approved e(2)
    by (cases "e = 0") (simp_all add: number demand_def check_def empty_plan_def)
qed

lemma unauthorized_outcome:
  assumes ok: "exposure_decision_ok (tq_risk_decision q)" "proposal_request_ok q" "proposal_policy_ok (engine_policy configured q)"
    and pid: "strip pid \<noteq> []" and auth: "\<not> exposure_authorized q"
  shows "\<exists>t. create_proposal pid configured q = Inr t \<and> pr_status t = PROPOSAL_REJECTED \<and> pr_quantity t = 0 \<and>
    pr_approved_notional t = 0 \<and> pr_total_planned_risk t = 0"
proof -
  let ?p = "engine_policy configured q"
  have plan: "trade_plan_of ?p q = empty_plan 0" by (rule unauthorized_plan [OF ok(1) auth])
  have fits: "increment_verdicts ?p q = Inr (False, True)"
    by (rule increment_verdicts_empty) (simp add: plan empty_plan_def)
  obtain cs where cs: "traverse (\<lambda>c. c) (proposal_checks ?p q False True) = Inr cs" "cs \<noteq> []"
      "\<forall>c\<in>set cs. strip (pk_message c) \<noteq> []" "failures cs \<noteq> []"
    using proposal_checks_meaning [OF ok(1,2), of ?p False True] auth by auto
  obtain primary reasons where v: "proposal_verdict (ed_approved_notional (tq_risk_decision q)) (empty_plan 0) cs =
      Inr (PROPOSAL_REJECTED, 0, 0, 0, 0, primary, reasons)" "reasons \<noteq> []" "\<forall>r\<in>set reasons. strip r \<noteq> []"
    using rejected_verdict [OF cs(4,3)] by blast
  have version: "strip (tp_version ?p) \<noteq> []" using ok(3) by (simp add: proposal_policy_ok_def)
  show ?thesis
    using create_proposal_made [OF ok(1,2) version pid plan [symmetric] fits cs(1,2) v(1) _ _ _ _ _ _ _ _ _ v(2,3)]
    by (auto simp: empty_plan_def)
qed

lemma applicable_outcome:
  assumes ok: "exposure_decision_ok (tq_risk_decision q)" "proposal_request_ok q" "proposal_policy_ok (engine_policy configured q)"
    and pid: "strip pid \<noteq> []" and auth: "exposure_authorized q"
    and entry: "0 < pl_entry (trade_plan_of (engine_policy configured q) q)"
    and fits: "increment_verdicts (engine_policy configured q) q = Inr (prices_fit, quantity_fits)"
    and sound: "sound = plan_sound (engine_policy configured q) (trade_plan_of (engine_policy configured q) q) prices_fit quantity_fits"
    and covered: "covered = (pl_planned (trade_plan_of (engine_policy configured q) q) \<le> ed_approved_notional (tq_risk_decision q))"
  shows "sound \<Longrightarrow> \<not> covered \<Longrightarrow>
      create_proposal pid configured q = Inl (Raise IndexError ''tuple index out of range'')"
    and "sound \<longrightarrow> covered \<Longrightarrow> \<exists>t. create_proposal pid configured q = Inr t \<and>
      pr_status t = (if sound then PROPOSAL_READY else PROPOSAL_REJECTED) \<and>
      pr_quantity t = (if sound then pl_quantity (trade_plan_of (engine_policy configured q) q) else 0) \<and>
      pr_approved_notional t = (if sound then ed_approved_notional (tq_risk_decision q) else 0) \<and>
      pr_entry_price t = pl_entry (trade_plan_of (engine_policy configured q) q) \<and>
      pr_stop_price t = pl_stop (trade_plan_of (engine_policy configured q) q) \<and>
      pr_target_price t = pl_target (trade_plan_of (engine_policy configured q) q) \<and>
      pr_total_planned_risk t =
        (if sound then pl_total_risk (trade_plan_of (engine_policy configured q) q) else 0)"
proof -
  let ?p = "engine_policy configured q" and ?risk = "tq_risk_decision q"
  define plan where "plan = trade_plan_of ?p q"
  obtain direction where d: "toward_direction (ed_committee_action ?risk) = Some direction"
      "plan = directed_plan (ed_approved_notional ?risk) (pl_entry plan) direction ?p" "plan_applicable ?p q"
    using applicable_plan [OF auth entry] unfolding plan_def by blast
  note n = directed_plan_nonneg [OF d(2)]
  obtain cs where cs: "traverse (\<lambda>c. c) (proposal_checks ?p q prices_fit quantity_fits) = Inr cs" "cs \<noteq> []"
      "\<forall>c\<in>set cs. strip (pk_message c) \<noteq> []" "failures cs = [] \<longleftrightarrow> sound"
    using proposal_checks_meaning [OF ok(1,2), of ?p prices_fit quantity_fits] auth d(3) unfolding sound by auto
  have version: "strip (tp_version ?p) \<noteq> []" using ok(3) by (simp add: proposal_policy_ok_def)
  note made = create_proposal_made [OF ok(1,2) version pid plan_def fits cs(1,2)]
  show "create_proposal pid configured q = Inl (Raise IndexError ''tuple index out of range'')" if "sound" "\<not> covered"
  proof -
    have v: "proposal_verdict (ed_approved_notional ?risk) plan cs = Inl (Raise IndexError ''tuple index out of range'')"
      using that cs(4) by (simp add: proposal_verdict_def covered plan_def)
    show ?thesis
      unfolding create_proposal_def Let_def fits rbind.simps prod.case cs(1) plan_def [symmetric] v ..
  qed
  show "\<exists>t. create_proposal pid configured q = Inr t \<and> pr_status t = (if sound then PROPOSAL_READY else PROPOSAL_REJECTED) \<and>
      pr_quantity t = (if sound then pl_quantity (trade_plan_of ?p q) else 0) \<and>
      pr_approved_notional t = (if sound then ed_approved_notional ?risk else 0) \<and>
      pr_entry_price t = pl_entry (trade_plan_of ?p q) \<and> pr_stop_price t = pl_stop (trade_plan_of ?p q) \<and>
      pr_target_price t = pl_target (trade_plan_of ?p q) \<and>
      pr_total_planned_risk t = (if sound then pl_total_risk (trade_plan_of ?p q) else 0)"
    if ready: "sound \<longrightarrow> covered"
  proof (cases sound)
    case True
    have s: "0 < pl_stop plan" "0 < pl_target plan" "0 < pl_quantity plan" "0 < pl_entry plan"
        "0 \<le> pl_total_risk plan" "0 \<le> pl_expected_reward plan" "0 \<le> ed_approved_notional ?risk"
      using True ok n entry unfolding sound plan_def [symmetric]
      by (auto simp: plan_sound_def proposal_policy_ok_def exposure_decision_ok_def dmul_def)
    have v: "proposal_verdict (ed_approved_notional ?risk) plan cs = Inr (PROPOSAL_READY, ed_approved_notional ?risk,
        pl_quantity plan, pl_total_risk plan, pl_expected_reward plan, REASON_READY,
        [''Trade proposal is ready for later compliance evaluation.''])"
      using True ready cs(4) by (simp add: proposal_verdict_def covered plan_def)
    show ?thesis
      using made [OF v] s n d(1) True unfolding plan_def [symmetric]
      by (simp add: strip_Cons_nonblank is_space_def)
  next
    case False
    then have f: "failures cs \<noteq> []" using cs(4) by simp
    obtain primary reasons where v: "proposal_verdict (ed_approved_notional ?risk) plan cs =
        Inr (PROPOSAL_REJECTED, 0, 0, 0, 0, primary, reasons)" "reasons \<noteq> []" "\<forall>r\<in>set reasons. strip r \<noteq> []"
      using rejected_verdict [OF f cs(3)] by blast
    show ?thesis
      using made [OF v(1)] v(2,3) n entry False unfolding plan_def [symmetric] by simp
  qed
qed

subsection \<open>What the engine promises\<close>

lemma is_increment_True: "is_increment v increment = Inr True \<Longrightarrow> v / increment \<in> \<int> \<and> 0 \<le> v"
  by (auto simp: is_increment_def check_def res_simps split: if_splits)

lemma all_increments_True: "all_increments increment vs = Inr True \<Longrightarrow> v \<in> set vs \<Longrightarrow> v / increment \<in> \<int>"
proof (induction vs)
  case (Cons w vs)
  obtain b where b: "is_increment w increment = Inr b" "b" "all_increments increment vs = Inr True"
    using Cons.prems(1) by (auto simp: res_simps split: if_splits)
  then show ?case using Cons is_increment_True by auto
qed simp

lemma increment_verdicts_True:
  assumes "increment_verdicts p q = Inr (True, True)"
  shows "pl_entry (trade_plan_of p q) / tp_price_increment p \<in> \<int>" "pl_stop (trade_plan_of p q) / tp_price_increment p \<in> \<int>"
    "pl_target (trade_plan_of p q) / tp_price_increment p \<in> \<int>"
    "pl_quantity (trade_plan_of p q) / effective_quantity_increment p \<in> \<int>"
proof -
  let ?plan = "trade_plan_of p q"
  have prices: "all_increments (tp_price_increment p) [pl_entry ?plan, pl_stop ?plan, pl_target ?plan] = Inr True"
    and quantity: "is_increment (pl_quantity ?plan) (effective_quantity_increment p) = Inr True"
    using assms by (auto simp: increment_verdicts_def Let_def res_simps simp del: all_increments.simps split: if_splits)
  show "pl_entry ?plan / tp_price_increment p \<in> \<int>" "pl_stop ?plan / tp_price_increment p \<in> \<int>"
      "pl_target ?plan / tp_price_increment p \<in> \<int>"
    using all_increments_True [OF prices] by simp_all
  show "pl_quantity ?plan / effective_quantity_increment p \<in> \<int>" using is_increment_True [OF quantity] by simp
qed

text \<open>Where the stop and the target of a sound plan lie.\<close>

definition prices_ordered :: "trade_direction option \<Rightarrow> rat \<Rightarrow> rat \<Rightarrow> rat \<Rightarrow> bool" where
  "prices_ordered direction entry stop target \<longleftrightarrow>
     (case direction of None \<Rightarrow> False
      | Some DIRECTION_LONG \<Rightarrow> 0 < stop \<and> stop < entry \<and> entry < target
      | Some DIRECTION_SHORT \<Rightarrow> 0 < target \<and> target < entry \<and> entry < stop)"

lemma sound_plan_ordered:
  assumes "plan = directed_plan notional entry direction p" and "plan_sound p plan prices_fit quantity_fits"
  shows "prices_ordered (Some direction) entry (pl_stop plan) (pl_target plan)"
  using assms(2) unfolding assms(1)
  by (cases direction) (auto simp: plan_sound_def directed_plan_def prices_ordered_def Let_def dsub_def less_max_iff_disj dec28.r_sub_pos)


text \<open>
  C8: The engine decides every validated request, with three ways to fail.  Without authorized
  directional exposure it rejects.  If the entry price it calculates is not positive, every check
  counts as inapplicable and passes, and the constructor of the proposal raises \<open>ValueError\<close>.
  Otherwise, if a remainder has too large a quotient, \<open>InvalidOperation\<close> is raised; a plan that
  fails a check is rejected; a plan that passes is READY if its cost is within the authorized
  notional; and if it is not, which happens when the quotient of notional and price was rounded
  up to a whole number of increments, the empty tuple of failed checks is indexed.
\<close>

theorem proposal_engine_decides:
  assumes "make_exposure_decision raw_decision = Inr (tq_risk_decision q)"
    and "make_proposal_policy raw_policy = Inr (engine_policy configured q)" and "make_proposal_request raw = Inr q"
    and "strip pid \<noteq> []"
  shows "let p = engine_policy configured q; plan = trade_plan_of p q; result = create_proposal pid configured q;
      rejected = (\<exists>t. result = Inr t \<and> pr_status t = PROPOSAL_REJECTED \<and> pr_quantity t = 0 \<and>
        pr_approved_notional t = 0 \<and> pr_total_planned_risk t = 0) in
    if \<not> exposure_authorized q then rejected
    else if pl_entry plan \<le> 0 then \<exists>msg. result = Inl (Raise ValueError msg)
    else case increment_verdicts p q of
      Inl e \<Rightarrow> result = Inl (Raise InvalidOperation [])
    | Inr (prices_fit, quantity_fits) \<Rightarrow>
        if \<not> plan_sound p plan prices_fit quantity_fits then rejected
        else if pl_planned plan \<le> ed_approved_notional (tq_risk_decision q)
        then \<exists>t. result = Inr t \<and> pr_status t = PROPOSAL_READY \<and> pr_quantity t = pl_quantity plan
        else result = Inl (Raise IndexError ''tuple index out of range'')"
proof -
  let ?p = "engine_policy configured q"
  have ok: "exposure_decision_ok (tq_risk_decision q)" "proposal_request_ok q" "proposal_policy_ok ?p"
    using assms(1-3) make_exposure_decision_ok make_proposal_policy_ok make_proposal_request_ok by blast+
  show ?thesis
  proof (cases "exposure_authorized q \<and> 0 < pl_entry (trade_plan_of ?p q)")
    case True
    then have auth: "exposure_authorized q" and entry: "0 < pl_entry (trade_plan_of ?p q)" by simp_all
    note outcome = applicable_outcome [OF ok assms(4) auth entry _ refl refl]
    have overflow: "create_proposal pid configured q = Inl (Raise InvalidOperation [])" if "increment_verdicts ?p q = Inl e" for e
      using increment_verdicts_cases [of ?p q] that by (auto simp: create_proposal_def Let_def)
    show ?thesis
      using outcome overflow auth entry unfolding Let_def
      by (auto split: sum.split prod.split)
  next
    case False
    then show ?thesis
      using unauthorized_outcome [OF ok assms(4)] nonpositive_entry_raises [OF ok(1,2) assms(4)]
      unfolding Let_def by (auto simp: not_less)
  qed
qed

text \<open>Exposure at a price of 30: of 90 it is three units, of a little less than 90 it is still three.\<close>

definition ex_exposure :: "'n \<Rightarrow> 'n \<Rightarrow> 'n exposure_decision" where
  "ex_exposure notional fraction = \<lparr>ed_symbol = ''ABC'', ed_timestamp = Aware 0 0, ed_action = APPROVE_EXPOSURE,
     ed_approved_notional = notional, ed_approved_risk_fraction = fraction, ed_committee_action = COMMITTEE_BULLISH,
     ed_committee_confidence = 1, ed_committee_consensus = 1, ed_primary_reason = CODE_APPROVED,
     ed_checks = [\<lparr>lk_code = CODE_APPROVED, lk_passed = True, lk_observed = Observed_Int 0, lk_limit = None,
       lk_message = ''R'', lk_blocking = False\<rparr>],
     ed_reasons = [''R''], ed_policy_version = ''1'', ed_committee_version = ''1'', ed_metadata = []\<rparr>"

definition ex_proposal_policy :: "'n \<Rightarrow> 'n \<Rightarrow> 'n \<Rightarrow> 'n proposal_policy" where
  "ex_proposal_policy zero half one = \<lparr>tp_version = ''1'', tp_order_type = PROPOSE_MARKET,
     tp_limit_price_offset_fraction = zero, tp_stop_loss_fraction = half, tp_take_profit_fraction = one,
     tp_minimum_risk_reward_ratio = one, tp_minimum_notional = zero, tp_minimum_quantity = one,
     tp_quantity_increment = one, tp_price_increment = one, tp_allow_fractional_quantity = False,
     tp_maximum_quantity = None, tp_metadata = []\<rparr>"

definition ex_proposal_request :: "rat \<Rightarrow> 'n \<Rightarrow> 'n proposal_request" where
  "ex_proposal_request notional price = \<lparr>tq_risk_decision = ex_exposure notional 1, tq_reference_price = price,
     tq_timestamp = Aware 0 0, tq_policy = ex_proposal_policy 0 (1 / 2) 1, tq_metadata = []\<rparr>"

definition almost_90 :: rat where
  "almost_90 = 8999999999999999999999999999 / 10 ^ 26"

lemma ex_proposal_policy_made:
  "0 < half \<Longrightarrow> half < 1 \<Longrightarrow> make_proposal_policy (ex_proposal_policy (Fin 0) (Fin half) (Fin 1)) =
     Inr (ex_proposal_policy 0 half 1)"
  unfolding make_proposal_policy_def rbind_Inr_iff
  by (auto simp: ex_proposal_policy_def ex_strip demand_def)

lemma ex_proposal_made:
  "0 \<le> n \<Longrightarrow> make_exposure_decision (ex_exposure (Fin n) (Fin 1)) = Inr (tq_risk_decision (ex_proposal_request n (30 :: rat)))"
  "make_proposal_policy (ex_proposal_policy (Fin 0) (Fin (1 / 2)) (Fin 1)) =
     Inr (engine_policy None (ex_proposal_request n 30))"
  "make_proposal_request (ex_proposal_request n (Fin 30)) = Inr (ex_proposal_request n 30)"
  "strip ''id'' \<noteq> []"
  using ex_proposal_policy_made [of "1 / 2"]
  unfolding make_exposure_decision_def make_proposal_request_def rbind_Inr_iff
  by (auto simp: ex_exposure_def ex_proposal_request_def ex_strip ex_texts demand_def
      engine_policy_def strip_Cons_nonblank is_space_def)

lemma ex_halves: "rnd (1 / 2) = 1 / 2"
  by (rule rnd_exact, rule repI [of _ 5 "-1"]) (simp_all add: prec_def)

lemma almost_90_third: "rnd (almost_90 / 30) = 3"
  by (rule rnd_evalI [where k = 27 and y = "almost_90 / 30 * 10 ^ 27" and c = "3 * 10 ^ 27"])
    (simp_all add: almost_90_def)

lemma ex_plan:
  assumes "rnd (n / 30) = 3" and "0 < n"
  shows "trade_plan_of (ex_proposal_policy 0 (1 / 2) 1) (ex_proposal_request n 30) =
    \<lparr>pl_entry = 30, pl_stop = 15, pl_target = 60, pl_quantity = 3, pl_planned = 90, pl_unit_risk = 15,
     pl_unit_reward = 30, pl_ratio = 2, pl_total_risk = 45, pl_expected_reward = 90\<rparr>"
  using assms
  by (simp add: trade_plan_of_def ex_proposal_request_def ex_exposure_def toward_direction_def entry_price_def
      ex_proposal_policy_def directed_plan_def stop_price_def target_price_def proposal_quantity_def
      round_increment_down_def round_increment_up_def effective_quantity_increment_def dec_defs ex_halves Let_def)

lemma ex_verdicts:
  assumes "rnd (n / 30) = 3" and "0 < n"
  shows "increment_verdicts (ex_proposal_policy 0 (1 / 2) 1) (ex_proposal_request n 30) = Inr (True, True)"
    and "exposure_authorized (ex_proposal_request n (30 :: rat))"
  using assms
  by (simp_all add: increment_verdicts_def ex_plan [OF assms] plan_applicable_def Let_def is_increment_def check_def)
    (simp_all add: ex_proposal_request_def ex_exposure_def toward_direction_def exposure_authorized_def
      ex_proposal_policy_def effective_quantity_increment_def)

theorem proposal_engine_decides_witness:
  "create_proposal ''id'' None (ex_proposal_request almost_90 30) = Inl (Raise IndexError ''tuple index out of range'')"
proof -
  have n: "0 < almost_90" "almost_90 < 90" by (simp_all add: almost_90_def)
  have p: "engine_policy None (ex_proposal_request almost_90 (30 :: rat)) = ex_proposal_policy 0 (1 / 2) 1"
    by (simp add: engine_policy_def ex_proposal_request_def)
  have s: "plan_sound (ex_proposal_policy 0 (1 / 2) 1)
      \<lparr>pl_entry = 30, pl_stop = 15, pl_target = 60, pl_quantity = 3, pl_planned = 90, pl_unit_risk = 15,
       pl_unit_reward = 30, pl_ratio = 2, pl_total_risk = 45, pl_expected_reward = 90\<rparr> True True"
    by (simp add: plan_sound_def ex_proposal_policy_def)
  have a: "ed_approved_notional (tq_risk_decision (ex_proposal_request almost_90 (30 :: rat))) = almost_90"
    by (simp add: ex_proposal_request_def ex_exposure_def)
  show ?thesis
    using proposal_engine_decides [OF ex_proposal_made(1) ex_proposal_made(2-4), of almost_90] n
    by (simp add: p Let_def ex_plan [OF almost_90_third n(1)] ex_verdicts [OF almost_90_third n(1)] s a)
qed


end
