(* ===== verification/Spec2Isabelle.thy ===== *)
theory Spec2Isabelle
  imports Execution_Engine Paper_Simulator Monte_Carlo Trailing_Exit Operations_State
    Live_Safety Paper_Session Paper_Cycle Trade_Proposals
begin

text \<open>
  A verification development for the trading core of WebullAITrader (Python, under src/app).

  The program: orders are proposed, checked by compliance gates, matched against quotes by
  a paper execution engine and accounted for in portfolios; open positions are managed by
  trailing exits; results are resampled by a Monte Carlo module.  The live path issues
  authorizations for approved intents, consumes one for every order sent to a broker and
  keeps a durable journal from which it recovers after a crash.  A paper session turns the
  decisions of a strategy engine into orders through risk validation, compliance and the
  simulator; a second, deterministic path runs a trading cycle of strategy, risk, planning and
  paper runtimes under an orchestrator; and a risk committee turns opinions into exposure that a
  proposal engine plans.  Components publish events on a bus, a state store reduces them and read models project the state for the interface.

  Conventions.  A Decimal that has passed a finiteness check is a rational number, one that
  has not is a value of the type \<open>dec\<close> with NaN and the infinities; arithmetic rounds to 28
  significant digits, half to even, as the default context does (theory Decimals).  A
  raised exception is the left value of a sum with its class and its text; a method of a
  mutable object takes the object's state and returns its result with the new state, so
  that a failing call that has already changed something is visible.  Clocks and
  identifier factories are the values they return.  A constructor with \<open>__post_init__\<close> is a
  function from the raw fields to the checked record or the exception.

  Theories and sources:
  \<^item> Prelude: exceptions, sequencing (\<open>rbind\<close>), loops over fallible steps (\<open>run\<close>, the locales
    \<open>stepping\<close> and \<open>monotone_stepping\<close>), dictionaries in insertion order, ASCII string
    normalisation, time stamps.
  \<^item> Decimals, Decimal_Text: decimal rounding, addition, multiplication, division, quantize,
    and the text of a decimal.
  \<^item> Order_Models, Orders: paper_trading/order_models.py, fill_models.py and orders.py.
  \<^item> Matching, Order_Book, Execution_Engine: matching_engine.py, order_book.py and
    execution_engine.py of paper_trading.
  \<^item> Settlement: compliance/gfv_validator.py, settlement_calendar.py, settlement_ledger.py.
  \<^item> Compliance: order_compliance/validator.py, market_hours.py, price_rules.py,
    kill_switch.py and their models.
  \<^item> Paper_Simulator: paper_trading/simulator.py with portfolio.py, execution.py, journal.py,
    metrics.py and models.py.
  \<^item> Monte_Carlo: monte_carlo/bootstrap.py and simulation.py.
  \<^item> Text_Checks, Operations_Events: the records and events of operations_core/events.py.
  \<^item> Operations_Bus: operations_core/bus.py, with the contract of a bus as a locale.
  \<^item> Read_Models: the records and projectors under read_models.
  \<^item> Operations_State: operations_core/state.py, the reducers and the store.
  \<^item> Broker_Protocol: broker_protocol/models.py and validation.py.
  \<^item> Authorization: authorization/models.py, validation.py, registry.py and issuer.py.
  \<^item> Iso_Time: \<open>datetime.isoformat\<close>, by whose text the journal orders its rows.
  \<^item> Live_Orders: live_execution/models.py, events.py, portfolio_state.py,
    order_translation.py and the fills of order_manager.py.
  \<^item> Execution_Journal, Order_Manager: live_execution/recovery.py and order_manager.py; the
    broker is a record of functions on a state of its own, and every access to a database or
    to the broker takes one of a number of steps after which the process stops.  The number
    is universally quantified in the properties, so it bounds nothing: it is a crash point.
  \<^item> Live_Safety: what these guarantee together, over runs with crashes and restarts.
  \<^item> Trailing_Exit: trade_management/trailing_exit.py and simulation.py.
  \<^item> Risk_Evaluation: risk/validator.py with limits.py and sizing.py; the validator approves
    exactly what an abstract permission predicate allows.
  \<^item> Strategy_Engine: strategy_engine/engine.py, models.py, intents.py; the scorer is a parameter.
  \<^item> Coordinator: execution_coordinator, with the stages it is composed of in
    composition/execution_pipeline.py.
  \<^item> Paper_Session: paper_session/session.py, models.py, statistics.py.
  \<^item> Runtime_Values: the metadata check \<open>freeze_json_mapping\<close>, a mutual recursion whose
    termination is proved by the size of the value, field checks, the answers of an injected
    object, \<open>Decimal(text)\<close>.
  \<^item> Strategy_Runtime, Risk_Runtime, Execution_Planner, Paper_Runtime: the four deterministic
    runtimes (strategy, risk, execution_planner, paper_trading/runtime.py) with the values they
    exchange.
  \<^item> Orchestrator: execution_orchestrator; the runtimes are a record of functions whose answers
    may be exceptions or foreign objects.
  \<^item> Paper_Cycle: what a trading cycle guarantees for any runtimes, and with the program's own:
    every fill is within all limits, and a cycle that every gate permits executes.

  \<^item> Committee_Models, Risk_Committee: the opinions of committee/models.py and the risk committee
    of risk/committee.py: when it approves, reduces and rejects, and that it never authorizes
    more than the request and the capacities left.
  \<^item> Trade_Proposals: trade_proposals: a READY proposal is sound, and the three ways in which the
    engine raises instead of rejecting.

  Not modelled: the desktop interface, broker transports, files and databases, wiring of
  components and threads; the difference report of live_execution/synchronization.py, which
  compares texts of Decimals with their exponents; JSON and SHA-256, which are values and a
  parameter; dictionaries for serialization (\<open>to_dict\<close>, \<open>from_dict\<close>); the order of keys in a
  metadata mapping, which is significant in the model; non-ASCII text; the exponent limits of Decimal, negative zero and
  overflow of time stamps.
\<close>

end
